(* ===== verification/Py_Base.thy ===== *)
theory Py_Base
  imports Main "HOL-Library.AList"
begin

text \<open>
  Prelude of the development: the exceptions the program raises or catches, the
  state-and-exception reading of Python statements (sequencing, \<^verbatim>\<open>try\<close> with its
  \<^verbatim>\<open>except\<close>, \<^verbatim>\<open>else\<close> and \<^verbatim>\<open>finally\<close> clauses, \<^verbatim>\<open>for\<close> loops), insertion-ordered
  dictionaries as association lists, and the generic lemmas the component theories
  share. Nothing here models a particular file of the repository except the exception
  classes of \<^verbatim>\<open>shell_tests/errors.py\<close> and the handler modules.
\<close>

section \<open>Exceptions\<close>

text \<open>
  One constructor per exception class the code names, and \<open>OtherError\<close> for every other
  subclass of \<^verbatim>\<open>Exception\<close>, with its \<^verbatim>\<open>args\<close> and its text. Classes of third-party
  packages carry what the code reads from them: for \<^verbatim>\<open>CloudShellAPIError\<close> the code as a
  string, the message and the text \<^verbatim>\<open>str(e)\<close>; for \<^verbatim>\<open>OperationFailure\<close> the message and
  the text. \<open>NoReturn\<close> is no exception of the program: it marks a call that does not
  return within the fuel of the model, or that blocks forever. No handler of the source
  catches it.
\<close>

datatype exn =
    BaseAutomationException string
  | ResourceIsNotAliveError string
  | CSIsNotAliveError
  | DeploymentResourceNotFoundError string
  | CreationReservationError string
  | DependenciesBrokenError
  | FtpFileNotFoundError string
  | ScpFileNotFoundError string
  | TftpFileNotFoundError string
  | CloudShellAPIError string string string
  | ShellNotFoundException string
  | MaxRetryError string
  | OperationFailure string string
  | NotReadyError string
  | SMBTimeout string
  | NotConnectedError string
  | FtplibError string
  | OSError string
  | FileNotFoundError string
  | PermissionError string
  | SSLError string
  | CalledProcessError string
  | AttributeError string
  | KeyError string
  | IndexError string
  | ValueError string
  | TypeError string
  | AssertionError string
  | NotImplementedError string
  | StopIteration
  | RecursionError
  | OtherError "string list" string
  | KeyboardInterrupt
  | NoReturn

text \<open>\<^verbatim>\<open>isinstance(e, Exception)\<close>, \<^verbatim>\<open>isinstance(e, BaseException)\<close> and the two
  class hierarchies that the handlers of the source test.\<close>

fun is_Exception :: "exn \<Rightarrow> bool" where
  "is_Exception KeyboardInterrupt = False"
| "is_Exception NoReturn = False"
| "is_Exception _ = True"

definition is_BaseException :: "exn \<Rightarrow> bool" where
  "is_BaseException e \<longleftrightarrow> e \<noteq> NoReturn"

fun is_OSError :: "exn \<Rightarrow> bool" where
  "is_OSError (OSError _) = True"
| "is_OSError (FileNotFoundError _) = True"
| "is_OSError (PermissionError _) = True"
| "is_OSError (SSLError _) = True"
| "is_OSError _ = False"

fun is_CloudShellAPIError :: "exn \<Rightarrow> bool" where
  "is_CloudShellAPIError (CloudShellAPIError _ _ _) = True"
| "is_CloudShellAPIError _ = False"

section \<open>Statements: state and exceptions\<close>

type_synonym ('s, 'a) pym = "'s \<Rightarrow> (exn + 'a) \<times> 's"

definition ret :: "'a \<Rightarrow> ('s, 'a) pym" where
  "ret x s = (Inr x, s)"

definition raise_exn :: "exn \<Rightarrow> ('s, 'a) pym" where
  "raise_exn e s = (Inl e, s)"

definition bnd :: "('s, 'a) pym \<Rightarrow> ('a \<Rightarrow> ('s, 'b) pym) \<Rightarrow> ('s, 'b) pym" where
  "bnd m k s = (case m s of (Inl e, s') \<Rightarrow> (Inl e, s') | (Inr x, s') \<Rightarrow> k x s')"

definition andthen :: "('s, 'a) pym \<Rightarrow> ('s, 'b) pym \<Rightarrow> ('s, 'b) pym" where
  "andthen m n = bnd m (\<lambda>_. n)"

definition of_result :: "exn + 'a \<Rightarrow> ('s, 'a) pym" where
  "of_result r s = (r, s)"

definition get_state :: "('s \<Rightarrow> 'a) \<Rightarrow> ('s, 'a) pym" where
  "get_state f s = (Inr (f s), s)"

definition modify :: "('s \<Rightarrow> 's) \<Rightarrow> ('s, unit) pym" where
  "modify f s = (Inr (), f s)"

text \<open>\<^verbatim>\<open>try: m  except ...: h e\<close>. The handler is the chain of \<^verbatim>\<open>except\<close> clauses and raises
  the exception again where no clause matches. \<open>try_except_else\<close> adds the \<^verbatim>\<open>else\<close>
  clause, whose exceptions the handler does not see. The marker \<open>NoReturn\<close> passes
  through every clause.\<close>

definition try_except_else ::
  "('s, 'a) pym \<Rightarrow> (exn \<Rightarrow> ('s, 'b) pym) \<Rightarrow> ('a \<Rightarrow> ('s, 'b) pym) \<Rightarrow> ('s, 'b) pym" where
  "try_except_else m h k s =
     (case m s of
        (Inl e, s') \<Rightarrow> if e = NoReturn then (Inl e, s') else h e s'
      | (Inr x, s') \<Rightarrow> k x s')"

definition try_except :: "('s, 'a) pym \<Rightarrow> (exn \<Rightarrow> ('s, 'a) pym) \<Rightarrow> ('s, 'a) pym" where
  "try_except m h = try_except_else m h ret"

text \<open>\<^verbatim>\<open>try: m  finally: f\<close>: the clause runs in both cases, and an exception of its own
  replaces the one in flight.\<close>

definition try_finally :: "('s, 'a) pym \<Rightarrow> ('s, unit) pym \<Rightarrow> ('s, 'a) pym" where
  "try_finally m f s =
     (case m s of
        (r, s') \<Rightarrow> if r = Inl NoReturn then (Inl NoReturn, s')
                   else (case f s' of (Inl e, s'') \<Rightarrow> (Inl e, s'') | (Inr _, s'') \<Rightarrow> (r, s'')))"

primrec for_each :: "'a list \<Rightarrow> ('a \<Rightarrow> ('s, unit) pym) \<Rightarrow> ('s, unit) pym" where
  "for_each [] body = ret ()"
| "for_each (x # xs) body = andthen (body x) (for_each xs body)"

primrec map_m :: "('a \<Rightarrow> ('s, 'b) pym) \<Rightarrow> 'a list \<Rightarrow> ('s, 'b list) pym" where
  "map_m f [] = ret []"
| "map_m f (x # xs) = bnd (f x) (\<lambda>y. bnd (map_m f xs) (\<lambda>ys. ret (y # ys)))"

text \<open>Tasks of a thread pool, run one after the other in the given order; every outcome,
  a value or an exception, is kept, as a future keeps it.\<close>

primrec run_all :: "('s, 'a) pym list \<Rightarrow> 's \<Rightarrow> (exn + 'a) list \<times> 's" where
  "run_all [] s = ([], s)"
| "run_all (m # ms) s =
     (let (r, s') = m s; (rs, s'') = run_all ms s' in (r # rs, s''))"

section \<open>Dictionaries\<close>

text \<open>A \<^verbatim>\<open>dict\<close> keeps the insertion order of its keys: an association list with distinct
  keys. Storing a key that is present keeps its position.\<close>

type_synonym ('k, 'v) dict = "('k \<times> 'v) list"

definition dict_get :: "('k, 'v) dict \<Rightarrow> 'k \<Rightarrow> 'v option" where
  "dict_get d k = map_of d k"

definition dict_set :: "'k \<Rightarrow> 'v \<Rightarrow> ('k, 'v) dict \<Rightarrow> ('k, 'v) dict" where
  "dict_set k v d = AList.update k v d"

definition dict_update :: "('k, 'v) dict \<Rightarrow> ('k, 'v) dict \<Rightarrow> ('k, 'v) dict" where
  "dict_update d d' = fold (\<lambda>(k, v). dict_set k v) d' d"

definition dict_of :: "('k \<times> 'v) list \<Rightarrow> ('k, 'v) dict" where
  "dict_of ps = dict_update [] ps"

definition dict_ok :: "('k, 'v) dict \<Rightarrow> bool" where
  "dict_ok d \<longleftrightarrow> distinct (map fst d)"

section \<open>Collections of facts\<close>

named_theorems run_simps \<open>rewriting a statement applied to a state\<close>
named_theorems raising \<open>rules for the exceptions a statement may raise\<close>
named_theorems footprint \<open>introduction rules for the events a statement may issue\<close>

section \<open>Laws of the statements\<close>

lemma ret_run [run_simps]: "ret x s = (Inr x, s)"
  by (simp add: ret_def)

lemma raise_run [run_simps]: "raise_exn e s = (Inl e, s)"
  by (simp add: raise_exn_def)

lemma of_result_run [run_simps]: "of_result r s = (r, s)"
  by (simp add: of_result_def)

lemma get_state_run [run_simps]: "get_state f s = (Inr (f s), s)"
  by (simp add: get_state_def)

lemma modify_run [run_simps]: "modify f s = (Inr (), f s)"
  by (simp add: modify_def)

lemma bnd_run [run_simps]:
  "bnd m k s = (case m s of (Inl e, s') \<Rightarrow> (Inl e, s') | (Inr x, s') \<Rightarrow> k x s')"
  by (simp add: bnd_def)

lemma andthen_run [run_simps]:
  "andthen m n s = (case m s of (Inl e, s') \<Rightarrow> (Inl e, s') | (Inr x, s') \<Rightarrow> n s')"
  by (simp add: andthen_def bnd_def)

lemma try_except_else_run [run_simps]:
  "try_except_else m h k s =
     (case m s of
        (Inl e, s') \<Rightarrow> if e = NoReturn then (Inl e, s') else h e s'
      | (Inr x, s') \<Rightarrow> k x s')"
  by (simp add: try_except_else_def)

lemma try_except_run [run_simps]:
  "try_except m h s =
     (case m s of
        (Inl e, s') \<Rightarrow> if e = NoReturn then (Inl e, s') else h e s'
      | (Inr x, s') \<Rightarrow> (Inr x, s'))"
  by (simp add: try_except_def try_except_else_def ret_run split: prod.splits sum.splits)

lemma try_finally_run [run_simps]:
  "try_finally m f s =
     (case m s of
        (r, s') \<Rightarrow> if r = Inl NoReturn then (Inl NoReturn, s')
                   else (case f s' of (Inl e, s'') \<Rightarrow> (Inl e, s'') | (Inr _, s'') \<Rightarrow> (r, s'')))"
  by (simp add: try_finally_def)

lemma andthen_ret [simp]: "andthen (ret x) m = m"
  by (simp add: andthen_def bnd_def ret_def fun_eq_iff)

lemma bnd_ret [simp]: "bnd (ret x) k = k x"
  by (rule ext) (simp add: run_simps)

lemma bnd_raise [simp]: "bnd (raise_exn e) k = raise_exn e"
  by (rule ext) (simp add: run_simps)

lemma bnd_ret_right [simp]: "bnd m ret = m"
  by (rule ext) (simp add: run_simps split: prod.splits sum.splits)

lemma bnd_assoc: "bnd (bnd m f) g = bnd m (\<lambda>x. bnd (f x) g)"
  by (rule ext) (simp add: run_simps split: prod.splits sum.splits)

lemma andthen_assoc: "andthen (andthen a b) c = andthen a (andthen b c)"
  by (simp add: andthen_def bnd_assoc)

lemma bnd_eq_Inr:
  "bnd m k s = (Inr y, s'') \<longleftrightarrow> (\<exists>x s'. m s = (Inr x, s') \<and> k x s' = (Inr y, s''))"
  by (auto simp: run_simps split: prod.splits sum.splits)

lemma bnd_eq_Inl:
  "bnd m k s = (Inl e, s'') \<longleftrightarrow>
     m s = (Inl e, s'') \<or> (\<exists>x s'. m s = (Inr x, s') \<and> k x s' = (Inl e, s''))"
  by (auto simp: run_simps split: prod.splits sum.splits)

lemma for_each_append:
  "for_each (xs @ ys) body = andthen (for_each xs body) (for_each ys body)"
  by (induction xs) (simp_all add: andthen_assoc)

lemma run_all_length: "length (fst (run_all ms s)) = length ms"
  by (induction ms arbitrary: s) (auto simp: Let_def split: prod.splits, metis fst_conv)

section \<open>Relations that every statement keeps\<close>

text \<open>A preorder on states, and the statements that move along it whatever they return. The
  combinators move along it when their parts do.\<close>

definition keeps :: "('s \<Rightarrow> 's \<Rightarrow> bool) \<Rightarrow> ('s, 'a) pym \<Rightarrow> bool" where
  "keeps R m \<longleftrightarrow> (\<forall>s. R s (snd (m s)))"

lemma keepsI: "(\<And>s. R s (snd (m s))) \<Longrightarrow> keeps R m"
  by (simp add: keeps_def)

lemma keepsD: "keeps R m \<Longrightarrow> m s = (r, s') \<Longrightarrow> R s s'"
  by (metis keeps_def snd_conv)

locale state_preorder =
  fixes R :: "'s \<Rightarrow> 's \<Rightarrow> bool"
  assumes R_refl: "R s s"
    and R_trans: "R s t \<Longrightarrow> R t u \<Longrightarrow> R s u"
begin

lemma keeps_ret: "keeps R (ret x)"
  by (simp add: keeps_def run_simps R_refl)

lemma keeps_raise: "keeps R (raise_exn e)"
  by (simp add: keeps_def run_simps R_refl)

lemma keeps_of_result: "keeps R (of_result r)"
  by (simp add: keeps_def run_simps R_refl)

lemma keeps_get_state: "keeps R (get_state f)"
  by (simp add: keeps_def run_simps R_refl)

lemma keeps_try_except_else:
  assumes m: "keeps R m" and h: "\<And>e. keeps R (h e)" and k: "\<And>x. keeps R (k x)"
  shows "keeps R (try_except_else m h k)"
proof (rule keepsI)
  fix s
  obtain r s' where ms: "m s = (r, s')" by (cases "m s")
  with m have "R s s'" by (auto dest: keepsD)
  moreover have "R s' (snd (h e s'))" and "R s' (snd (k x s'))" for e x
    using h k by (simp_all add: keeps_def)
  ultimately show "R s (snd (try_except_else m h k s))"
    using ms by (auto simp: run_simps split: sum.splits intro: R_trans)
qed

lemma keeps_try_except:
  assumes "keeps R m" and "\<And>e. keeps R (h e)"
  shows "keeps R (try_except m h)"
  unfolding try_except_def using assms by (intro keeps_try_except_else keeps_ret)

lemma keeps_bnd:
  assumes m: "keeps R m" and k: "\<And>x. keeps R (k x)"
  shows "keeps R (bnd m k)"
proof (rule keepsI)
  fix s
  obtain r s' where ms: "m s = (r, s')" by (cases "m s")
  with m have "R s s'" by (auto dest: keepsD)
  moreover have "R s' (snd (k x s'))" for x
    using k by (simp add: keeps_def)
  ultimately show "R s (snd (bnd m k s))"
    using ms by (auto simp: run_simps split: sum.splits intro: R_trans)
qed

lemma keeps_andthen:
  assumes "keeps R m" and "keeps R n"
  shows "keeps R (andthen m n)"
  unfolding andthen_def using assms by (intro keeps_bnd)

lemma keeps_try_finally:
  assumes m: "keeps R m" and f: "keeps R f"
  shows "keeps R (try_finally m f)"
proof (rule keepsI)
  fix s
  obtain r s' where ms: "m s = (r, s')" by (cases "m s")
  obtain q s'' where fs: "f s' = (q, s'')" by (cases "f s'")
  from m ms have 1: "R s s'" by (rule keepsD)
  from f fs have "R s' s''" by (rule keepsD)
  with 1 have "R s s''" by (rule R_trans)
  with 1 ms fs show "R s (snd (try_finally m f s))"
    by (auto simp: run_simps split: sum.splits)
qed

lemma keeps_for_each:
  assumes "\<And>x. x \<in> set xs \<Longrightarrow> keeps R (body x)"
  shows "keeps R (for_each xs body)"
  using assms by (induction xs) (auto intro: keeps_ret keeps_andthen)

lemma keeps_map_m:
  assumes "\<And>x. x \<in> set xs \<Longrightarrow> keeps R (f x)"
  shows "keeps R (map_m f xs)"
  using assms by (induction xs) (auto intro!: keeps_ret keeps_bnd)

lemma keeps_if:
  assumes "b \<Longrightarrow> keeps R m" and "\<not> b \<Longrightarrow> keeps R n"
  shows "keeps R (if b then m else n)"
  using assms by simp

lemma run_all_keeps:
  assumes "\<And>m. m \<in> set ms \<Longrightarrow> keeps R m"
  shows "R s (snd (run_all ms s))"
  using assms
proof (induction ms arbitrary: s)
  case Nil
  show ?case by (simp add: R_refl)
next
  case (Cons m ms)
  obtain r s' where ms: "m s = (r, s')" by (cases "m s")
  have "keeps R m" using Cons.prems by simp
  then have "R s s'" using ms by (rule keepsD)
  moreover have "R s' (snd (run_all ms s'))" using Cons by simp
  ultimately show ?case using ms by (auto simp: Let_def split: prod.splits intro: R_trans)
qed

end

section \<open>Exceptions that a statement may raise\<close>

text \<open>Every exception of the statement, from any state, satisfies the predicate.\<close>

definition raises :: "(exn \<Rightarrow> bool) \<Rightarrow> ('s, 'a) pym \<Rightarrow> bool" where
  "raises P m \<longleftrightarrow> (\<forall>s e s'. m s = (Inl e, s') \<longrightarrow> P e)"

lemma raisesI: "(\<And>s e s'. m s = (Inl e, s') \<Longrightarrow> P e) \<Longrightarrow> raises P m"
  by (auto simp: raises_def)

lemma raisesD: "raises P m \<Longrightarrow> m s = (Inl e, s') \<Longrightarrow> P e"
  by (auto simp: raises_def)

lemma raises_mono: "raises P m \<Longrightarrow> (\<And>e. P e \<Longrightarrow> Q e) \<Longrightarrow> raises Q m"
  by (auto simp: raises_def)

lemma raises_ret [raising]: "raises P (ret x)"
  by (simp add: raises_def run_simps)

lemma raises_raise [raising]: "P e \<Longrightarrow> raises P (raise_exn e)"
  by (simp add: raises_def run_simps)

lemma raises_of_result [raising]: "(\<And>e. r = Inl e \<Longrightarrow> P e) \<Longrightarrow> raises P (of_result r)"
  by (simp add: raises_def run_simps)

lemma raises_get_state [raising]: "raises P (get_state f)"
  by (simp add: raises_def run_simps)

lemma raises_modify [raising]: "raises P (modify f)"
  by (simp add: raises_def run_simps)

lemma raises_bnd [raising]: "raises P m \<Longrightarrow> (\<And>x. raises P (k x)) \<Longrightarrow> raises P (bnd m k)"
  by (auto simp: raises_def run_simps split: prod.splits sum.splits)

lemma raises_andthen [raising]: "raises P m \<Longrightarrow> raises P n \<Longrightarrow> raises P (andthen m n)"
  unfolding andthen_def by (rule raises_bnd)

lemma raises_if [raising]: "(b \<Longrightarrow> raises P m) \<Longrightarrow> (\<not> b \<Longrightarrow> raises P n) \<Longrightarrow> raises P (if b then m else n)"
  by simp

lemma raises_for_each [raising]:
  "(\<And>x. x \<in> set xs \<Longrightarrow> raises P (body x)) \<Longrightarrow> raises P (for_each xs body)"
  by (induction xs) (auto intro: raising)

lemma raises_map_m [raising]:
  "(\<And>x. x \<in> set xs \<Longrightarrow> raises P (f x)) \<Longrightarrow> raises P (map_m f xs)"
  by (induction xs) (auto intro!: raising)

lemma raises_try_except_else:
  assumes "raises Q m" and "\<And>e. Q e \<Longrightarrow> e \<noteq> NoReturn \<Longrightarrow> raises P (h e)"
    and "Q NoReturn \<Longrightarrow> P NoReturn" and "\<And>x. raises P (k x)"
  shows "raises P (try_except_else m h k)"
  using assms by (fastforce simp: raises_def run_simps split: prod.splits sum.splits if_splits)

lemma raises_try_except:
  assumes "raises Q m" and "\<And>e. Q e \<Longrightarrow> e \<noteq> NoReturn \<Longrightarrow> raises P (h e)"
    and "Q NoReturn \<Longrightarrow> P NoReturn"
  shows "raises P (try_except m h)"
  unfolding try_except_def using assms raises_ret by (rule raises_try_except_else)

lemma raises_any: "raises (\<lambda>_. True) m"
  by (simp add: raises_def)

section \<open>Laws of the dictionaries\<close>

lemma dict_get_set [simp]:
  "dict_get (dict_set k v d) k' = (if k' = k then Some v else dict_get d k')"
  by (simp add: dict_get_def dict_set_def update_conv')

lemma dict_get_update:
  assumes "dict_ok d'"
  shows "dict_get (dict_update d d') k =
    (case dict_get d' k of Some v \<Rightarrow> Some v | None \<Rightarrow> dict_get d k)"
  using assms
proof (induction d' arbitrary: d)
  case Nil
  show ?case by (simp add: dict_update_def dict_get_def)
next
  case (Cons p d')
  obtain a b where p: "p = (a, b)" by (cases p)
  have ok: "dict_ok d'" and new: "a \<notin> fst ` set d'"
    using Cons.prems by (auto simp: dict_ok_def p)
  from new have "map_of d' a = None" by (simp add: map_of_eq_None_iff)
  with Cons.IH [OF ok, of "dict_set a b d"] show ?case
    by (auto simp: dict_update_def p dict_get_def dict_set_def update_conv' split: option.splits)
qed

lemma dict_get_empty [simp]: "dict_get [] k = None"
  by (simp add: dict_get_def)

lemma dict_ok_set: "dict_ok d \<Longrightarrow> dict_ok (dict_set k v d)"
  by (simp add: dict_ok_def dict_set_def distinct_update)

lemma dict_ok_update: "dict_ok d \<Longrightarrow> dict_ok (dict_update d d')"
  by (induction d' arbitrary: d) (auto simp: dict_update_def dict_ok_set)

lemma dict_ok_empty [simp]: "dict_ok []"
  by (simp add: dict_ok_def)

lemma dict_ok_of: "dict_ok (dict_of ps)"
  by (simp add: dict_of_def dict_ok_update)

lemma dict_update_Nil [simp]: "dict_update d [] = d"
  by (simp add: dict_update_def)

end
