(* ===== verification/Py_Strings.thy ===== *)
theory Py_Strings
  imports Py_Base "HOL-Library.Sublist"
begin

text \<open>
  The string operations of Python that the source uses, on strings of code points below
  256 (a \<open>char\<close> is one code point): \<^verbatim>\<open>in\<close>, \<^verbatim>\<open>split\<close> and \<^verbatim>\<open>rsplit\<close> on one character,
  \<^verbatim>\<open>replace\<close>, \<^verbatim>\<open>lower\<close>, \<^verbatim>\<open>join\<close>, \<^verbatim>\<open>str\<close> and \<^verbatim>\<open>int\<close> of integers, \<^verbatim>\<open>repr\<close> of strings,
  and the algebra the components use: splitting and joining are inverse, decimal text
  and numbers are inverse, \<^verbatim>\<open>in\<close> is the substring relation.
\<close>

section \<open>Operations\<close>

abbreviation newline :: char where
  "newline \<equiv> CHR 0x0A"

abbreviation quote :: char where
  "quote \<equiv> CHR 0x27"

abbreviation dquote :: char where
  "dquote \<equiv> CHR 0x22"

abbreviation backslash :: char where
  "backslash \<equiv> CHR 0x5C"

text \<open>\<^verbatim>\<open>sub in s\<close>\<close>

fun contains :: "string \<Rightarrow> string \<Rightarrow> bool" where
  "contains sub [] = (sub = [])"
| "contains sub (c # s) = (prefix sub (c # s) \<or> contains sub s)"

text \<open>\<^verbatim>\<open>s.split(c)\<close>\<close>

fun split_on :: "char \<Rightarrow> string \<Rightarrow> string list" where
  "split_on c [] = [[]]"
| "split_on c (x # s) =
     (if x = c then [] # split_on c s
      else (case split_on c s of [] \<Rightarrow> [[x]] | w # ws \<Rightarrow> (x # w) # ws))"

text \<open>\<^verbatim>\<open>s.split(c, 1)\<close> and \<^verbatim>\<open>s.rsplit(c, 1)\<close>\<close>

definition split_first :: "char \<Rightarrow> string \<Rightarrow> string list" where
  "split_first c s =
     (case dropWhile (\<lambda>x. x \<noteq> c) s of
        [] \<Rightarrow> [s]
      | _ # rest \<Rightarrow> [takeWhile (\<lambda>x. x \<noteq> c) s, rest])"

definition split_last :: "char \<Rightarrow> string \<Rightarrow> string list" where
  "split_last c s = rev (map rev (split_first c (rev s)))"

text \<open>\<^verbatim>\<open>s.replace(old, new)\<close> for a non-empty \<^verbatim>\<open>old\<close>\<close>

function replace_all :: "string \<Rightarrow> string \<Rightarrow> string \<Rightarrow> string" where
  "replace_all old new s =
     (case s of
        [] \<Rightarrow> []
      | c # s' \<Rightarrow>
          (if old \<noteq> [] \<and> prefix old s then new @ replace_all old new (drop (length old) s)
           else c # replace_all old new s'))"
  by pat_completeness auto
termination
  by (relation "measure (\<lambda>(old, new, s). length s)") auto

text \<open>\<^verbatim>\<open>s.lower()\<close>: ASCII letters and the letters of the Latin-1 block\<close>

definition lower_char :: "char \<Rightarrow> char" where
  "lower_char c =
     (let n = of_char c :: nat
      in if 65 \<le> n \<and> n \<le> 90 \<or> 192 \<le> n \<and> n \<le> 222 \<and> n \<noteq> 215 then char_of (n + 32) else c)"

definition lower :: "string \<Rightarrow> string" where
  "lower s = map lower_char s"

text \<open>\<^verbatim>\<open>sep.join(xs)\<close>\<close>

fun join_with :: "string \<Rightarrow> string list \<Rightarrow> string" where
  "join_with sep [] = []"
| "join_with sep [x] = x"
| "join_with sep (x # y # xs) = x @ sep @ join_with sep (y # xs)"

text \<open>\<^verbatim>\<open>str(n)\<close> and the value of a string of decimal digits\<close>

definition digit_char :: "nat \<Rightarrow> char" where
  "digit_char d = char_of (48 + d)"

fun str_of_nat :: "nat \<Rightarrow> string" where
  "str_of_nat n =
     (if n < 10 then [digit_char n] else str_of_nat (n div 10) @ [digit_char (n mod 10)])"

declare str_of_nat.simps [simp del]

definition str_of_int :: "int \<Rightarrow> string" where
  "str_of_int i = (if i < 0 then CHR ''-'' # str_of_nat (nat (- i)) else str_of_nat (nat i))"

definition is_digit :: "char \<Rightarrow> bool" where
  "is_digit c \<longleftrightarrow> 48 \<le> (of_char c :: nat) \<and> (of_char c :: nat) \<le> 57"

definition digits_val :: "string \<Rightarrow> nat" where
  "digits_val s = foldl (\<lambda>a c. 10 * a + (of_char c - 48)) 0 s"

text \<open>\<^verbatim>\<open>repr(s)\<close>\<close>

definition hex_digit :: "nat \<Rightarrow> char" where
  "hex_digit d = (if d < 10 then char_of (48 + d) else char_of (87 + d))"

definition repr_char :: "char \<Rightarrow> char \<Rightarrow> string" where
  "repr_char q c =
     (let n = of_char c :: nat
      in if c = q \<or> c = backslash then [backslash, c]
         else if n = 10 then [backslash, CHR ''n'']
         else if n = 13 then [backslash, CHR ''r'']
         else if n = 9 then [backslash, CHR ''t'']
         else if n < 32 \<or> 127 \<le> n \<and> n \<le> 160 \<or> n = 173
              then [backslash, CHR ''x'', hex_digit (n div 16), hex_digit (n mod 16)]
         else [c])"

definition repr_str :: "string \<Rightarrow> string" where
  "repr_str s =
     (let q = (if quote \<in> set s \<and> dquote \<notin> set s then dquote else quote)
      in [q] @ concat (map (repr_char q) s) @ [q])"

definition repr_list :: "string list \<Rightarrow> string" where
  "repr_list reprs = ''['' @ join_with '', '' reprs @ '']''"

definition repr_pair :: "string \<times> string \<Rightarrow> string" where
  "repr_pair p = ''('' @ repr_str (fst p) @ '', '' @ repr_str (snd p) @ '')''"

text \<open>\<^verbatim>\<open>int(s)\<close>: surrounding white space, a sign, digits with single underscores between
  them; anything else raises \<^verbatim>\<open>ValueError\<close>.\<close>

definition is_space :: "char \<Rightarrow> bool" where
  "is_space c \<longleftrightarrow>
     (let n = of_char c :: nat
      in 9 \<le> n \<and> n \<le> 13 \<or> 28 \<le> n \<and> n \<le> 32 \<or> n = 133 \<or> n = 160)"

definition strip :: "string \<Rightarrow> string" where
  "strip s = rev (dropWhile is_space (rev (dropWhile is_space s)))"

definition digit_groups_ok :: "string \<Rightarrow> bool" where
  "digit_groups_ok s \<longleftrightarrow> (\<forall>g \<in> set (split_on (CHR ''_'') s). g \<noteq> [] \<and> list_all is_digit g)"

definition unsigned_val :: "string \<Rightarrow> int option" where
  "unsigned_val s =
     (if digit_groups_ok s then Some (int (digits_val (concat (split_on (CHR ''_'') s))))
      else None)"

definition signed_val :: "string \<Rightarrow> int option" where
  "signed_val s =
     (case s of
        [] \<Rightarrow> None
      | c # s' \<Rightarrow>
          if c = CHR ''-'' then map_option uminus (unsigned_val s')
          else if c = CHR ''+'' then unsigned_val s'
          else unsigned_val s)"

definition py_int :: "string \<Rightarrow> exn + int" where
  "py_int s =
     (case signed_val (strip s) of
        Some i \<Rightarrow> Inr i
      | None \<Rightarrow> Inl (ValueError (''invalid literal for int() with base 10: '' @ repr_str s)))"

text \<open>The text of an exception, \<^verbatim>\<open>str(e)\<close>, and its first argument where it has one,
  \<^verbatim>\<open>e.args[0] if e.args else ""\<close>.\<close>

fun exn_str :: "exn \<Rightarrow> string" where
  "exn_str (BaseAutomationException m) = m"
| "exn_str (ResourceIsNotAliveError m) = m"
| "exn_str CSIsNotAliveError = []"
| "exn_str (DeploymentResourceNotFoundError m) = m"
| "exn_str (CreationReservationError m) = m"
| "exn_str DependenciesBrokenError = []"
| "exn_str (FtpFileNotFoundError f) = ''File not found - '' @ f"
| "exn_str (ScpFileNotFoundError f) = ''File not found - '' @ f"
| "exn_str (TftpFileNotFoundError f) = ''File not found - '' @ f"
| "exn_str (CloudShellAPIError c m t) = t"
| "exn_str (ShellNotFoundException m) = m"
| "exn_str (MaxRetryError m) = m"
| "exn_str (OperationFailure m t) = t"
| "exn_str (NotReadyError m) = m"
| "exn_str (SMBTimeout m) = m"
| "exn_str (NotConnectedError m) = m"
| "exn_str (FtplibError m) = m"
| "exn_str (OSError m) = m"
| "exn_str (FileNotFoundError m) = m"
| "exn_str (PermissionError m) = m"
| "exn_str (SSLError m) = m"
| "exn_str (CalledProcessError m) = m"
| "exn_str (AttributeError m) = m"
| "exn_str (KeyError k) = repr_str k"
| "exn_str (IndexError m) = m"
| "exn_str (ValueError m) = m"
| "exn_str (TypeError m) = m"
| "exn_str (AssertionError m) = m"
| "exn_str (NotImplementedError m) = m"
| "exn_str StopIteration = []"
| "exn_str RecursionError = ''maximum recursion depth exceeded''"
| "exn_str (OtherError as t) = t"
| "exn_str KeyboardInterrupt = []"
| "exn_str NoReturn = []"

fun exn_arg0 :: "exn \<Rightarrow> string" where
  "exn_arg0 (OtherError [] t) = []"
| "exn_arg0 (OtherError (a # as) t) = a"
| "exn_arg0 (KeyError k) = k"
| "exn_arg0 (FtpFileNotFoundError f) = f"
| "exn_arg0 (ScpFileNotFoundError f) = f"
| "exn_arg0 (TftpFileNotFoundError f) = f"
| "exn_arg0 e = exn_str e"

section \<open>Substrings\<close>

lemma contains_iff: "contains sub s \<longleftrightarrow> (\<exists>a b. s = a @ sub @ b)"
proof (induction s)
  case Nil
  show ?case by auto
next
  case (Cons c s)
  have "(\<exists>a b. c # s = a @ sub @ b) \<longleftrightarrow> prefix sub (c # s) \<or> (\<exists>a b. s = a @ sub @ b)"
  proof
    assume "\<exists>a b. c # s = a @ sub @ b"
    then obtain a b where eq: "c # s = a @ sub @ b" by blast
    show "prefix sub (c # s) \<or> (\<exists>a b. s = a @ sub @ b)"
      using eq by (cases a) (auto simp: prefix_def)
  next
    assume "prefix sub (c # s) \<or> (\<exists>a b. s = a @ sub @ b)"
    then show "\<exists>a b. c # s = a @ sub @ b"
      by (auto simp: prefix_def) (metis append_Nil, metis append_Cons)
  qed
  with Cons show ?case by simp
qed

lemma contains_middle [simp]: "contains sub (a @ sub @ b)"
  by (auto simp: contains_iff)

lemma contains_self [simp]: "contains s s"
  using contains_middle [of s "[]" "[]"] by simp

lemma contains_append_left: "contains sub s \<Longrightarrow> contains sub (a @ s)"
  by (metis append.assoc contains_iff)

lemma contains_append_right: "contains sub s \<Longrightarrow> contains sub (s @ b)"
  by (metis append.assoc contains_iff)

section \<open>Splitting\<close>

lemma split_on_ne [simp]: "split_on c s \<noteq> []"
  by (induction s) (auto split: list.splits)

lemma join_split_on: "join_with [c] (split_on c s) = s"
proof (induction s)
  case Nil
  show ?case by simp
next
  case (Cons x s)
  obtain w ws where sp: "split_on c s = w # ws"
    using split_on_ne [of c s] by (meson neq_Nil_conv)
  with Cons show ?case by (cases ws) auto
qed

lemma split_on_no_sep: "w \<in> set (split_on c s) \<Longrightarrow> c \<notin> set w"
proof (induction s arbitrary: w)
  case Nil
  then show ?case by simp
next
  case (Cons x s)
  obtain v vs where sp: "split_on c s = v # vs"
    using split_on_ne [of c s] by (meson neq_Nil_conv)
  with Cons show ?case by (auto split: if_splits)
qed

lemma split_on_free [simp]: "c \<notin> set s \<Longrightarrow> split_on c s = [s]"
  by (induction s) auto

lemma split_on_append_sep:
  "c \<notin> set a \<Longrightarrow> split_on c (a @ c # s) = a # split_on c s"
  by (induction a) auto

lemma length_split_on: "length (split_on c s) = Suc (count_list s c)"
proof (induction s)
  case Nil
  show ?case by simp
next
  case (Cons x s)
  then show ?case by (auto split: list.splits)
qed

lemma split_first_at: "c \<notin> set a \<Longrightarrow> split_first c (a @ c # b) = [a, b]"
  by (induction a) (auto simp: split_first_def split: list.splits)

lemma split_first_free:
  assumes "c \<notin> set s"
  shows "split_first c s = [s]"
proof -
  have "dropWhile (\<lambda>x. x \<noteq> c) s = []" using assms by (auto simp: dropWhile_eq_Nil_conv)
  then show ?thesis by (simp only: split_first_def list.case)
qed

lemma takeWhile_at: "c \<notin> set a \<Longrightarrow> takeWhile (\<lambda>x. x \<noteq> c) (a @ c # b) = a"
  by (induction a) auto

lemma split_first_hd: "hd (split_first c s) = takeWhile (\<lambda>x. x \<noteq> c) s"
proof (cases "c \<in> set s")
  case True
  then obtain a b where s: "s = a @ c # b" and "c \<notin> set a"
    by (meson split_list_first)
  then show ?thesis by (simp add: split_first_at takeWhile_at)
next
  case False
  then have "takeWhile (\<lambda>x. x \<noteq> c) s = s" by (auto simp: takeWhile_eq_all_conv)
  then show ?thesis by (simp only: split_first_free [OF False] list.sel)
qed

lemma split_last_free: "c \<notin> set s \<Longrightarrow> split_last c s = [s]"
  by (simp add: split_last_def split_first_free)

lemma split_last_at: "c \<notin> set b \<Longrightarrow> split_last c (a @ c # b) = [a, b]"
  by (simp add: split_last_def split_first_at)

section \<open>Numbers\<close>

lemma of_char_digit_char [simp]: "d < 10 \<Longrightarrow> of_char (digit_char d) = 48 + d"
  by (simp add: digit_char_def)

lemma is_digit_digit_char [simp]: "d < 10 \<Longrightarrow> is_digit (digit_char d)"
  by (simp add: is_digit_def)

lemma str_of_nat_ne [simp]: "str_of_nat n \<noteq> []"
  by (subst str_of_nat.simps) simp

lemma str_of_nat_digits: "list_all is_digit (str_of_nat n)"
proof (induction n rule: str_of_nat.induct)
  case (1 n)
  then show ?case
    by (cases "n < 10") (simp_all add: str_of_nat.simps [of n])
qed

lemma digits_val_snoc [simp]: "digits_val (s @ [c]) = 10 * digits_val s + (of_char c - 48)"
  by (simp add: digits_val_def)

lemma digits_val_str_of_nat [simp]: "digits_val (str_of_nat n) = n"
proof (induction n rule: str_of_nat.induct)
  case (1 n)
  show ?case
  proof (cases "n < 10")
    case True
    then show ?thesis
      by (simp add: str_of_nat.simps [of n] digits_val_def)
  next
    case False
    with 1 show ?thesis by (simp add: str_of_nat.simps [of n])
  qed
qed

lemma str_of_nat_inj [simp]: "str_of_nat m = str_of_nat n \<longleftrightarrow> m = n"
  by (metis digits_val_str_of_nat)

lemma digit_not_special:
  "is_digit c \<Longrightarrow> c \<noteq> CHR ''-'' \<and> c \<noteq> CHR ''+'' \<and> c \<noteq> CHR ''_'' \<and> c \<noteq> CHR ''.'' \<and>
     c \<noteq> newline \<and> \<not> is_space c"
  by (auto simp: is_digit_def is_space_def Let_def)

lemma dropWhile_not: "(\<And>x. x \<in> set s \<Longrightarrow> \<not> P x) \<Longrightarrow> dropWhile P s = s"
  by (cases s) auto

lemma strip_digits:
  assumes "list_all is_digit s"
  shows "strip s = s"
proof -
  have "x \<in> set s \<Longrightarrow> \<not> is_space x" for x
    using assms digit_not_special by (auto simp: list_all_iff)
  then have "dropWhile is_space s = s" and "dropWhile is_space (rev s) = rev s"
    by (auto intro!: dropWhile_not)
  then show ?thesis by (simp add: strip_def)
qed

lemma unsigned_val_digits:
  assumes "list_all is_digit s" and "s \<noteq> []"
  shows "unsigned_val s = Some (int (digits_val s))"
proof -
  have "CHR ''_'' \<notin> set s"
    using assms(1) by (auto simp: list_all_iff dest: digit_not_special)
  with assms show ?thesis
    by (simp add: unsigned_val_def digit_groups_ok_def)
qed

lemma py_int_digits:
  assumes "list_all is_digit s" and "s \<noteq> []"
  shows "py_int s = Inr (int (digits_val s))"
proof -
  obtain c s' where s: "s = c # s'" using assms(2) by (cases s) auto
  with assms have "signed_val s = Some (int (digits_val s))"
    using digit_not_special [of c] by (simp add: signed_val_def unsigned_val_digits)
  with assms show ?thesis by (simp add: py_int_def strip_digits)
qed

lemma py_int_str_of_nat [simp]: "py_int (str_of_nat n) = Inr (int n)"
  by (simp add: py_int_digits str_of_nat_digits)

section \<open>Joining and case\<close>

lemma length_lower [simp]: "length (lower s) = length s"
  by (simp add: lower_def)

lemma lower_append [simp]: "lower (a @ b) = lower a @ lower b"
  by (simp add: lower_def)

lemma join_with_Cons: "xs \<noteq> [] \<Longrightarrow> join_with sep (x # xs) = x @ sep @ join_with sep xs"
  by (cases xs) auto

lemma contains_join: "x \<in> set xs \<Longrightarrow> contains x (join_with sep xs)"
proof (induction xs)
  case Nil
  then show ?case by simp
next
  case (Cons y ys)
  show ?case
  proof (cases "ys = []")
    case True
    with Cons.prems show ?thesis by simp
  next
    case False
    then have j: "join_with sep (y # ys) = y @ sep @ join_with sep ys"
      by (rule join_with_Cons)
    show ?thesis
    proof (cases "x = y")
      case True
      then show ?thesis using j contains_append_right [OF contains_self] by simp
    next
      case neq: False
      with Cons have "contains x (join_with sep ys)" by simp
      then show ?thesis unfolding j by (intro contains_append_left)
    qed
  qed
qed

end
