(* ===== verification/World.thy ===== *)
theory World
  imports Py_Strings "HOL-Library.Multiset"
begin

text \<open>
  The outside of the program. Everything the code calls that is not in the repository (the
  CloudShell Automation API and its REST and portal interfaces, SMB, FTP, SCP, TFTP and
  vCenter servers, the host's ping, the \<^verbatim>\<open>retrying\<close> package) is a parameter of the model: a
  record of reply functions. Each call is an event of the history, and a reply may depend
  on the whole history before it and on the call's arguments, so that the theorems, which
  quantify over the record, hold for every deterministic behaviour of the services.
  \<^verbatim>\<open>time.sleep\<close> is an event too; log records are not.
\<close>

section \<open>What the services answer\<close>

text \<open>The attributes of \<^verbatim>\<open>ResourceInfo\<close>, \<^verbatim>\<open>ReservationSlimStatus\<close>, \<^verbatim>\<open>VmDetails\<close> and
  \<^verbatim>\<open>SharedFile\<close> objects that the source reads.\<close>

datatype vm_details = VmDetails (vm_UID: string) (vm_NetworkData: "(string \<times> string) list list")

datatype resource_info = ResourceInfo
  (ri_Name: string)
  (ri_ResourceFamilyName: string)
  (ri_ResourceModelName: string)
  (ri_Address: string)
  (ri_ResourceAttributes: "(string \<times> string) list")
  (ri_ChildResources: "resource_info list")
  (ri_VmDetails: vm_details)

datatype slim_status = SlimStatus (ProvisioningStatus: string) (Status: string)

datatype shared_file = SharedFile
  (sf_filename: string) (sf_isDirectory: bool) (sf_last_write_time: int)

datatype json =
    JNull
  | JBool bool
  | JInt int
  | JStr string
  | JList "json list"
  | JObj "(string \<times> json) list"

section \<open>Calls\<close>

text \<open>Methods of \<^verbatim>\<open>CloudShellAPISession\<close>; \<open>ApiConnect\<close> is its constructor.\<close>

datatype api_call =
    ApiConnect string string string
  | CreateImmediateReservation string string int
  | CreateImmediateTopologyReservation string string int string "(string \<times> string) list"
  | GetReservationStatus string
  | GetReservationDetails string
  | EndReservation string
  | DeleteReservation string
  | CreateResource string string string string string
  | RenameResource string string
  | DeleteResource string
  | SetAttributesValues string "(string \<times> string) list"
  | GetResourceCommands string
  | GetResourceDetails string
  | AutoLoad string
  | UpdateResourceDriver string string
  | AddResourcesToReservation string "string list"
  | RemoveResourcesFromReservation string "string list"
  | AddServiceToReservation string string string "(string \<times> string) list"
  | ExecuteCommand string string string string "(string \<times> string) list"
  | ExecuteEnvironmentCommand string string "(string \<times> string) list"
  | GetTopologiesByCategory string
  | GetTopologyDetails string
  | UpdatePhysicalConnection string string
  | SetConnectorsInReservation string "(string \<times> string \<times> string \<times> string) list"
  | ConnectRoutesInReservation string "string list" string
  | DisconnectRoutesInReservation string "string list"
  | RemoveConnectorsFromReservation string "string list"
  | GetReservationResourcesPositions string
  | RefreshVMDetails string "string list"

text \<open>Methods of \<^verbatim>\<open>PackagingRestApiClient\<close>; \<open>RestConnect\<close> is its constructor.\<close>

datatype rest_call =
    RestConnect int string string string
  | AddShell string
  | UpdateShell string string
  | DeleteShell string
  | ImportPackage string

text \<open>Calls of \<^verbatim>\<open>requests.session()\<close>, of \<^verbatim>\<open>SMBConnection\<close>, of the file transfer clients, of
  vCenter and of the local host.\<close>

datatype http_call =
    HttpGet string
  | HttpPost string "(string \<times> string) list"

datatype smb_call =
    SmbEcho
  | SmbConnect string string string bool
  | ListPath string string
  | CreateDirectory string string
  | StoreFile string string string
  | DeleteFiles string string
  | RetrieveFile string string

datatype file_call =
    FileConnect
  | FileLogin "string option" "string option"
  | FileChannel
  | FileList
  | FileOpen string
  | FileRead string
  | FileDelete string

datatype host_call =
    Ping string
  | MkDir string
  | RmTree string
  | WriteFile string string
  | Unlink string
  | UrlRetrieve string string
  | TempFile
  | ZipCreate string
  | ZipAdd string string string
  | RunCommand "string list"
  | ChDir string

datatype event =
    Api string api_call
  | Rest string rest_call
  | Http http_call
  | Smb string smb_call
  | Ftp string file_call
  | Scp string file_call
  | Tftp string file_call
  | VcenterConnect string bool
  | VcenterDisconnect string
  | VcenterFindByUuid string string
  | Host host_call
  | Sleep int

section \<open>The services as a parameter\<close>

text \<open>One reply function per type of answer. \<open>session_username\<close> is the attribute
  \<^verbatim>\<open>username\<close> of an API session opened for the given user, \<open>encrypt_b64\<close> the RSA encryption
  of a text with a PEM key followed by base64, and \<open>set_order\<close> the order in which a set of
  \<open>n\<close> objects is iterated or in which \<open>n\<close> submitted tasks run. Of the local files, \<open>rep_file\<close> gives the
  content, \<open>rep_zip\<close> the names and contents of the members of an archive, and \<open>rep_yaml\<close> the parsed
  \<^verbatim>\<open>shell-definition.yaml\<close> of a shell package; \<open>fromtimestamp\<close> is the local time of a time stamp.\<close>

record services =
  rep_unit :: "event list \<Rightarrow> event \<Rightarrow> exn + unit"
  rep_str :: "event list \<Rightarrow> event \<Rightarrow> exn + string"
  rep_strs :: "event list \<Rightarrow> event \<Rightarrow> exn + string list"
  rep_info :: "event list \<Rightarrow> event \<Rightarrow> exn + resource_info"
  rep_status :: "event list \<Rightarrow> event \<Rightarrow> exn + slim_status"
  rep_json :: "event list \<Rightarrow> event \<Rightarrow> exn + json"
  rep_files :: "event list \<Rightarrow> event \<Rightarrow> exn + shared_file list"
  session_username :: "string \<Rightarrow> string"
  encrypt_b64 :: "string \<Rightarrow> string \<Rightarrow> exn + string"
  set_order :: "event list \<Rightarrow> nat \<Rightarrow> nat list"
  rep_file :: "event list \<Rightarrow> string \<Rightarrow> exn + string"
  rep_zip :: "event list \<Rightarrow> string \<Rightarrow> exn + (string \<times> string) list"
  rep_yaml :: "event list \<Rightarrow> string \<Rightarrow> exn + json"
  fromtimestamp :: "int \<Rightarrow> int"

text \<open>The decorator \<^verbatim>\<open>@retry(stop_max_attempt_number=n, retry_on_exception=p)\<close> of the
  \<^verbatim>\<open>retrying\<close> package, at the result types the source uses it.\<close>

type_synonym ('s, 'a) retry_decorator =
  "nat \<Rightarrow> (exn \<Rightarrow> bool) \<Rightarrow> ('s, 'a) pym \<Rightarrow> ('s, 'a) pym"

text \<open>What the code relies on: a first attempt is always made, a value or an exception that
  the predicate rejects ends the loop, and the exception of the last attempt is raised.\<close>

definition retrying_law :: "('s, 'a) retry_decorator \<Rightarrow> bool" where
  "retrying_law rt \<longleftrightarrow>
     (\<forall>p m s. rt 1 p m s = m s) \<and>
     (\<forall>n p m s. rt (Suc (Suc n)) p m s =
        (case m s of
           (Inl e, s') \<Rightarrow> if p e then rt (Suc n) p m s' else (Inl e, s')
         | (Inr x, s') \<Rightarrow> (Inr x, s')))"

text \<open>A concrete decorator that satisfies the law.\<close>

fun retry_ref :: "('s, 'a) retry_decorator" where
  "retry_ref 0 p m s = m s"
| "retry_ref (Suc 0) p m s = m s"
| "retry_ref (Suc (Suc n)) p m s =
     (case m s of
        (Inl e, s') \<Rightarrow> if p e then retry_ref (Suc n) p m s' else (Inl e, s')
      | (Inr x, s') \<Rightarrow> (Inr x, s'))"

definition orders_ok :: "'e services_scheme \<Rightarrow> bool" where
  "orders_ok svc \<longleftrightarrow>
     (\<forall>h n. distinct (set_order svc h n) \<and> set (set_order svc h n) = {0..<n})"

section \<open>The state shared by all components\<close>

text \<open>The history of calls and the two cached properties of the CloudShell handler objects:
  the objects, by identity, whose \<^verbatim>\<open>_api\<close> or \<^verbatim>\<open>_rest_api\<close> holds a session. Components extend
  this record with their own mutable objects.\<close>

record world =
  hist :: "event list"
  api_cached :: "nat list"
  rest_cached :: "nat list"
  next_oid :: nat

definition init_world :: world where
  "init_world = \<lparr>hist = [], api_cached = [], rest_cached = [], next_oid = 0\<rparr>"

type_synonym ('x, 'a) io = "('x world_scheme, 'a) pym"

text \<open>A call: the reply for the history so far; the call is then part of the history.\<close>

definition ask :: "(event list \<Rightarrow> event \<Rightarrow> exn + 'a) \<Rightarrow> event \<Rightarrow> ('x, 'a) io" where
  "ask rep ev w = (rep (hist w) ev, w\<lparr>hist := hist w @ [ev]\<rparr>)"

definition sleep :: "int \<Rightarrow> ('x, unit) io" where
  "sleep n = modify (\<lambda>w. w\<lparr>hist := hist w @ [Sleep n]\<rparr>)"

text \<open>Reading a local file is no event.\<close>

definition read_env :: "(event list \<Rightarrow> string \<Rightarrow> exn + 'a) \<Rightarrow> string \<Rightarrow> ('x, 'a) io" where
  "read_env rep p w = (rep (hist w) p, w)"

definition new_oid :: "('x, nat) io" where
  "new_oid w = (Inr (next_oid w), w\<lparr>next_oid := Suc (next_oid w)\<rparr>)"

definition permute :: "nat list \<Rightarrow> 'a list \<Rightarrow> 'a list" where
  "permute is xs = map (\<lambda>i. xs ! i) is"

text \<open>\<^verbatim>\<open>with ThreadPoolExecutor() as executor: futures = {executor.submit(m) ...}\<close> and the
  iteration over the set of futures: the tasks run in one order of the services and their
  outcomes are read in another. A task is atomic.\<close>

definition executor_outcomes ::
  "'e services_scheme \<Rightarrow> ('x, 'a) io list \<Rightarrow> 'x world_scheme \<Rightarrow> (exn + 'a) list \<times> 'x world_scheme" where
  "executor_outcomes svc ms w =
     (let (rs, w') = run_all (permute (set_order svc (hist w) (length ms)) ms) w
      in (permute (set_order svc (hist w') (length ms)) rs, w'))"

text \<open>Leaving the executor waits for the tasks: a task that does not return blocks.\<close>

definition executor :: "'e services_scheme \<Rightarrow> ('x, 'a) io list \<Rightarrow> ('x, (exn + 'a) list) io" where
  "executor svc ms w =
     (case executor_outcomes svc ms w of
        (rs, w') \<Rightarrow> if Inl NoReturn \<in> set rs then (Inl NoReturn, w') else (Inr rs, w'))"

section \<open>Events a statement issues\<close>

definition since :: "event list \<Rightarrow> event list \<Rightarrow> event list" where
  "since h h' = drop (length h) h'"

definition extends_by :: "event set \<Rightarrow> event list \<Rightarrow> event list \<Rightarrow> bool" where
  "extends_by A h h' \<longleftrightarrow> (\<exists>t. h' = h @ t \<and> set t \<subseteq> A)"

definition issues :: "event set \<Rightarrow> ('x, 'a) io \<Rightarrow> bool" where
  "issues A m = keeps (\<lambda>w w'. extends_by A (hist w) (hist w')) m"

lemma ask_run [run_simps]:
  "ask rep ev w = (rep (hist w) ev, w\<lparr>hist := hist w @ [ev]\<rparr>)"
  by (simp add: ask_def)

lemma sleep_run [run_simps]: "sleep n w = (Inr (), w\<lparr>hist := hist w @ [Sleep n]\<rparr>)"
  by (simp add: sleep_def run_simps)

lemma read_env_run [run_simps]: "read_env rep p w = (rep (hist w) p, w)"
  by (simp add: read_env_def)

lemma new_oid_run [run_simps]: "new_oid w = (Inr (next_oid w), w\<lparr>next_oid := Suc (next_oid w)\<rparr>)"
  by (simp add: new_oid_def)

lemma raises_ask [raising]: "(\<And>h e. rep h ev = Inl e \<Longrightarrow> P e) \<Longrightarrow> raises P (ask rep ev)"
  by (auto simp: raises_def run_simps)

lemma raises_sleep [raising]: "raises P (sleep n)"
  by (simp add: raises_def run_simps)

lemma raises_new_oid [raising]: "raises P new_oid"
  by (simp add: raises_def run_simps)

lemma raises_read_env [raising]: "(\<And>h e. rep h p = Inl e \<Longrightarrow> P e) \<Longrightarrow> raises P (read_env rep p)"
  by (auto simp: raises_def run_simps)

lemma extends_by_refl: "extends_by A h h"
  by (simp add: extends_by_def)

lemma extends_by_trans: "extends_by A h h' \<Longrightarrow> extends_by A h' h'' \<Longrightarrow> extends_by A h h''"
  by (auto simp: extends_by_def)

text \<open>Histories only grow, by events of the given set: a preorder on states, so that every
  combinator of the statements keeps it.\<close>

interpretation footprint_of: state_preorder "\<lambda>w w' :: 'x world_scheme. extends_by A (hist w) (hist w')"
  for A
  by unfold_locales (auto intro: extends_by_refl extends_by_trans)

lemmas issues_ret [footprint] = footprint_of.keeps_ret [folded issues_def]
lemmas issues_raise [footprint] = footprint_of.keeps_raise [folded issues_def]
lemmas issues_of_result [footprint] = footprint_of.keeps_of_result [folded issues_def]
lemmas issues_get_state [footprint] = footprint_of.keeps_get_state [folded issues_def]
lemmas issues_bnd [footprint] = footprint_of.keeps_bnd [folded issues_def]
lemmas issues_andthen [footprint] = footprint_of.keeps_andthen [folded issues_def]
lemmas issues_try_except_else [footprint] =
  footprint_of.keeps_try_except_else [folded issues_def]
lemmas issues_try_except [footprint] = footprint_of.keeps_try_except [folded issues_def]
lemmas issues_try_finally [footprint] = footprint_of.keeps_try_finally [folded issues_def]
lemmas issues_for_each [footprint] = footprint_of.keeps_for_each [folded issues_def]
lemmas issues_map_m [footprint] = footprint_of.keeps_map_m [folded issues_def]
lemmas issues_if [footprint] = footprint_of.keeps_if [folded issues_def]

lemma issuesI: "(\<And>w. extends_by A (hist w) (hist (snd (m w)))) \<Longrightarrow> issues A m"
  by (simp add: issues_def keeps_def)

lemma issuesD: "issues A m \<Longrightarrow> m w = (r, w') \<Longrightarrow> \<exists>t. hist w' = hist w @ t \<and> set t \<subseteq> A"
  by (auto simp: issues_def extends_by_def dest: keepsD)

lemma issues_mono: "issues A m \<Longrightarrow> A \<subseteq> B \<Longrightarrow> issues B m"
  by (fastforce simp: issues_def keeps_def extends_by_def)

lemma issues_ask [footprint]: "ev \<in> A \<Longrightarrow> issues A (ask rep ev)"
  by (rule issuesI) (auto simp: run_simps extends_by_def)

lemma issues_sleep [footprint]: "Sleep n \<in> A \<Longrightarrow> issues A (sleep n)"
  by (rule issuesI) (auto simp: run_simps extends_by_def)

lemma issues_read_env [footprint]: "issues A (read_env rep p)"
  by (rule issuesI) (simp add: run_simps extends_by_refl)

lemma issues_new_oid [footprint]: "issues A new_oid"
  by (rule issuesI) (simp add: run_simps extends_by_refl)

lemma issues_modify: "(\<And>w. hist (f w) = hist w) \<Longrightarrow> issues A (modify f)"
  by (rule issuesI) (simp add: run_simps extends_by_refl)

section \<open>Retrying\<close>

lemma retry_ref_law: "retrying_law retry_ref"
  by (simp add: retrying_law_def)

lemma retrying_law_one: "retrying_law rt \<Longrightarrow> rt (Suc 0) p m s = m s"
  by (simp add: retrying_law_def)

lemma retrying_law_Suc:
  "retrying_law rt \<Longrightarrow> rt (Suc (Suc n)) p m s =
     (case m s of
        (Inl e, s') \<Rightarrow> if p e then rt (Suc n) p m s' else (Inl e, s')
      | (Inr x, s') \<Rightarrow> (Inr x, s'))"
  by (simp add: retrying_law_def)

text \<open>The state in which the \<open>k\<close>-th repetition of a call starts.\<close>

primrec attempt_state :: "('s, 'a) pym \<Rightarrow> 's \<Rightarrow> nat \<Rightarrow> 's" where
  "attempt_state m s 0 = s"
| "attempt_state m s (Suc k) = snd (m (attempt_state m s k))"

lemma attempt_state_shift: "attempt_state m s (Suc k) = attempt_state m (snd (m s)) k"
  by (induction k) simp_all

text \<open>The contract of a decorated call, for any decorator that keeps the law: an invariant of
  the attempts is one of the loop, a call that succeeds or fails for good is not repeated, and
  the loop raises nothing that an attempt did not raise.\<close>

locale retrying =
  fixes rt :: "('s, 'a) retry_decorator"
  assumes law: "retrying_law rt"
begin

lemma once: "rt (Suc 0) p m s = m s"
  using law by (rule retrying_law_one)

lemma again:
  "rt (Suc (Suc n)) p m s =
     (case m s of
        (Inl e, s') \<Rightarrow> if p e then rt (Suc n) p m s' else (Inl e, s')
      | (Inr x, s') \<Rightarrow> (Inr x, s'))"
  using law by (rule retrying_law_Suc)

lemma success_at_once: "m s = (Inr x, s') \<Longrightarrow> rt (Suc n) p m s = (Inr x, s')"
  by (cases n) (simp_all add: once again)

lemma failure_for_good: "m s = (Inl e, s') \<Longrightarrow> \<not> p e \<Longrightarrow> rt (Suc n) p m s = (Inl e, s')"
  by (cases n) (simp_all add: once again)

lemma attempts_keep:
  assumes "I s" and "\<And>s r s'. I s \<Longrightarrow> m s = (r, s') \<Longrightarrow> I s'"
  shows "I (snd (rt (Suc n) p m s))"
  using assms(1)
proof (induction n arbitrary: s)
  case 0
  with assms(2) show ?case by (cases "m s") (auto simp: once)
next
  case (Suc n)
  obtain r s' where ms: "m s = (r, s')" by (cases "m s")
  with assms(2) Suc.prems have "I s'" by blast
  with Suc.IH have "I (snd (rt (Suc n) p m s'))" by blast
  with ms \<open>I s'\<close> show ?case by (auto simp: again split: sum.splits)
qed

lemma course:
  "\<exists>k \<le> n. (\<forall>j < k. \<exists>e. fst (m (attempt_state m s j)) = Inl e \<and> p e) \<and>
     rt (Suc n) p m s = m (attempt_state m s k) \<and>
     (k < n \<longrightarrow> (\<forall>e. fst (m (attempt_state m s k)) = Inl e \<longrightarrow> \<not> p e))"
proof (induction n arbitrary: s)
  case 0
  show ?case by (simp add: once)
next
  case (Suc n)
  obtain r s' where ms: "m s = (r, s')" by (cases "m s")
  show ?case
  proof (cases "\<exists>e. r = Inl e \<and> p e")
    case True
    have st: "attempt_state m s (Suc j) = attempt_state m s' j" for j
      unfolding attempt_state_shift using ms by simp
    from Suc.IH [of s'] obtain k where k: "k \<le> n"
      "\<forall>j < k. \<exists>e. fst (m (attempt_state m s' j)) = Inl e \<and> p e"
      "rt (Suc n) p m s' = m (attempt_state m s' k)"
      "k < n \<longrightarrow> (\<forall>e. fst (m (attempt_state m s' k)) = Inl e \<longrightarrow> \<not> p e)"
      by blast
    have "\<exists>e. fst (m (attempt_state m s j)) = Inl e \<and> p e" if "j < Suc k" for j
      using that True ms k(2) by (cases j) (auto simp: st simp del: attempt_state.simps(2))
    moreover have "rt (Suc (Suc n)) p m s = m (attempt_state m s (Suc k))"
      using True ms k(3) by (auto simp: again st simp del: attempt_state.simps(2))
    ultimately show ?thesis
      using k(1,4) by (intro exI [of _ "Suc k"]) (auto simp: st simp del: attempt_state.simps(2))
  next
    case False
    with ms have "rt (Suc (Suc n)) p m s = m s" by (auto simp: again split: sum.splits)
    with False ms show ?thesis by (intro exI [of _ 0]) auto
  qed
qed

lemma attempts_count:
  assumes "I s"
    and "\<And>s r s'. I s \<Longrightarrow> m s = (r, s') \<Longrightarrow> I s' \<and> f s' = Suc (f s)"
  shows "f s < f (snd (rt (Suc n) p m s)) \<and> f (snd (rt (Suc n) p m s)) \<le> f s + Suc n"
  using assms(1)
proof (induction n arbitrary: s)
  case 0
  with assms(2) show ?case by (cases "m s") (auto simp: once)
next
  case (Suc n)
  obtain r s' where ms: "m s = (r, s')" by (cases "m s")
  with assms(2) Suc.prems have "I s'" "f s' = Suc (f s)" by blast+
  with Suc.IH [of s'] ms show ?case by (auto simp: again split: sum.splits)
qed

lemma raises_attempts: "raises P m \<Longrightarrow> raises P (rt (Suc n) p m)"
proof (rule raisesI)
  fix s e s'
  assume "raises P m" and "rt (Suc n) p m s = (Inl e, s')"
  then show "P e"
  proof (induction n arbitrary: s)
    case 0
    then show ?case by (auto simp: once dest: raisesD)
  next
    case (Suc n)
    then show ?case by (auto simp: again split: prod.splits sum.splits if_splits dest: raisesD)
  qed
qed

lemma result_of_an_attempt:
  assumes "rt (Suc n) p m s = (r, s')"
  shows "\<exists>t. m t = (r, s')"
  using assms
proof (induction n arbitrary: s)
  case 0
  then show ?case by (auto simp: once)
next
  case (Suc n)
  obtain q t where ms: "m s = (q, t)" by (cases "m s")
  show ?case
  proof (cases "\<exists>e. q = Inl e \<and> p e")
    case True
    with ms Suc.prems have "rt (Suc n) p m t = (r, s')" by (auto simp: again)
    then show ?thesis by (rule Suc.IH)
  next
    case False
    with ms Suc.prems have "m s = (r, s')" by (auto simp: again split: sum.splits)
    then show ?thesis by blast
  qed
qed

end

interpretation retry_model: retrying retry_ref
  by unfold_locales (rule retry_ref_law)

section \<open>Orders of sets and of tasks\<close>

lemma length_permute [simp]: "length (permute is xs) = length is"
  by (simp add: permute_def)

lemma set_permute:
  assumes "set is = {0..<length xs}"
  shows "set (permute is xs) = set xs"
proof -
  have "set (permute is xs) = set (map (\<lambda>i. xs ! i) [0..<length xs])"
    using assms by (simp add: permute_def)
  then show ?thesis by (simp only: map_nth)
qed

lemma mset_permute:
  assumes "distinct is" and "set is = {0..<length xs}"
  shows "mset (permute is xs) = mset xs"
proof -
  have "mset is = mset [0..<length xs]"
    using assms by (intro set_eq_iff_mset_eq_distinct [THEN iffD1]) auto
  then have "mset (permute is xs) = mset (map (\<lambda>i. xs ! i) [0..<length xs])"
    by (simp only: permute_def mset_map)
  then show ?thesis by (simp only: map_nth)
qed

lemma orders_ok_D:
  assumes "orders_ok svc"
  shows "distinct (set_order svc h n)" and "set (set_order svc h n) = {0..<n}"
    and "length (set_order svc h n) = n"
proof -
  show d: "distinct (set_order svc h n)" and s: "set (set_order svc h n) = {0..<n}"
    using assms by (auto simp: orders_ok_def)
  show "length (set_order svc h n) = n"
    using distinct_card [OF d] s by simp
qed

section \<open>Concrete services\<close>

text \<open>Services that accept everything, for evaluation at concrete inputs.\<close>

definition some_resource_info :: resource_info where
  "some_resource_info = ResourceInfo ''res'' ''CS_Router'' ''Model'' ''192.168.2.1'' [] []
     (VmDetails ''uid'' [])"

definition obliging_services :: services where
  "obliging_services =
     \<lparr>rep_unit = (\<lambda>h ev. Inr ()), rep_str = (\<lambda>h ev. Inr ''f91adb5c''), rep_strs = (\<lambda>h ev. Inr []),
      rep_info = (\<lambda>h ev. Inr some_resource_info),
      rep_status = (\<lambda>h ev. Inr (SlimStatus ''Ready'' ''Completed'')),
      rep_json = (\<lambda>h ev. Inr JNull), rep_files = (\<lambda>h ev. Inr []),
      session_username = (\<lambda>u. u), encrypt_b64 = (\<lambda>k t. Inr t), set_order = (\<lambda>h n. [0..<n]),
      rep_file = (\<lambda>h p. Inr []), rep_zip = (\<lambda>h p. Inr []), rep_yaml = (\<lambda>h p. Inr JNull), fromtimestamp = (\<lambda>t. t)\<rparr>"

lemma obliging_simps [simp]:
  "rep_unit obliging_services h ev = Inr ()"
  "rep_str obliging_services h ev = Inr ''f91adb5c''"
  "rep_strs obliging_services h ev = Inr []"
  "rep_info obliging_services h ev = Inr some_resource_info"
  "rep_status obliging_services h ev = Inr (SlimStatus ''Ready'' ''Completed'')"
  "rep_json obliging_services h ev = Inr JNull"
  "rep_files obliging_services h ev = Inr []"
  "session_username obliging_services u = u"
  "encrypt_b64 obliging_services k t = Inr t"
  "set_order obliging_services h n = [0..<n]"
  "rep_file obliging_services h p = Inr []"
  "rep_zip obliging_services h p = Inr []"
  "rep_yaml obliging_services h p = Inr JNull"
  "fromtimestamp obliging_services i = i"
  by (simp_all add: obliging_services_def)

lemma obliging_orders_ok: "orders_ok obliging_services"
  by (simp add: orders_ok_def)

end
