(* ===== verification/Configs.thy ===== *)
theory Configs
  imports Py_Strings
begin

text \<open>
  \<^verbatim>\<open>shell_tests/configs.py\<close> and \<^verbatim>\<open>shell_tests/helpers/config_helpers.py\<close>: one record per
  configuration model (a subclass extends the record of its base), the validators and
  methods of the models, and what they guarantee: how the test settings of a shell and of
  a resource are merged, which versions are accepted, how a host splits into network
  location and path. The parsing of YAML into the fields is done by \<^verbatim>\<open>pydantic\<close> and is not
  modelled; each validator is modelled on the values it receives.
\<close>

section \<open>Models\<close>

record cloudshell_config =
  csc_host :: string
  csc_user :: string
  csc_password :: string
  csc_os_user :: string
  csc_os_password :: string
  csc_domain :: string

record networking_app_conf =
  nac_name :: string
  nac_blueprint_name :: string

record cs_on_do_config =
  cs_version :: string
  delete_cs :: bool
  cs_specific_version :: string

record do_config = cloudshell_config +
  cs_on_do_conf :: "cs_on_do_config option"
  networking_apps :: "networking_app_conf list"

record tests_config =
  expected_failures :: "(string, string) dict"
  run_tests :: bool
  original_run_tests :: "bool option"

record additional_port =
  ap_name :: string

datatype resource_command_mode = ENABLE | CONFIG

record resource_command =
  rcmd_command :: string
  rcmd_mode :: resource_command_mode

record resource_config =
  rc_name :: string
  rc_shell_name :: string
  rc_device_ip :: "string option"
  rc_attributes :: "(string, string) dict"
  rc_children_attributes :: "(string, (string, string) dict) dict"
  rc_tests_conf :: tests_config
  rc_is_first_gen :: bool
  rc_networking_app_name :: "string option"
  rc_additional_ports :: "additional_port list"
  rc_setup_commands :: "resource_command list"
  rc_teardown_commands :: "resource_command list"

record deployment_resource_config =
  drc_name :: string
  drc_is_first_gen :: bool
  drc_attributes :: "(string, string) dict"
  drc_children_attributes :: "(string, (string, string) dict) dict"
  drc_blueprint_name :: string
  drc_tests_conf :: tests_config

record app_config =
  app_name :: string
  app_cp_resource_name :: string
  app_deployment :: string
  app_attributes :: "(string, string) dict"

record service_config =
  svc_name :: string
  svc_shell_name :: "string option"
  svc_attributes :: "(string, string) dict"
  svc_tests_conf :: tests_config

record host_config =
  hc_host :: string

record host_with_user_config = host_config +
  hc_user :: "string option"
  hc_password :: "string option"

record shell_config =
  shc_name :: string
  shc_path :: string
  shc_dependencies_path :: "string option"
  shc_extra_standards_paths :: "string list"
  shc_tests_conf :: tests_config

text \<open>The tests configuration of a sandbox is \<open>None\<close> when it is not given: the default of the source is
  the class \<^verbatim>\<open>TestsConfig\<close> itself, not an instance.\<close>

record sandbox_config =
  sc_name :: string
  sc_resource_names :: "string list"
  sc_deployment_resource_names :: "string list"
  sc_service_names :: "string list"
  sc_blueprint_name :: "string option"
  sc_specific_version :: "string option"
  sc_tests_conf :: "tests_config option"

record blueprint_config =
  bp_name :: string
  bp_app_names :: "string list"

record vcenter_config =
  vc_host :: string
  vc_user :: string
  vc_password :: string

record main_config =
  mc_version :: string
  do_conf :: "do_config option"
  cs_conf :: "cloudshell_config option"
  shells_conf :: "shell_config list"
  resources_conf :: "resource_config list"
  deployment_resources_conf :: "deployment_resource_config list"
  apps_conf :: "app_config list"
  services_conf :: "service_config list"
  ftp_conf :: "host_with_user_config option"
  scp_conf :: "host_with_user_config option"
  tftp_conf :: "host_config option"
  sandboxes_conf :: "sandbox_config list"
  blueprints_conf :: "blueprint_config list"
  vcenter_conf :: "vcenter_config option"

text \<open>The defaults of the optional fields.\<close>

definition TestsConfig_default :: tests_config where
  "TestsConfig_default = \<lparr>expected_failures = [], run_tests = True, original_run_tests = None\<rparr>"

section \<open>Methods and validators\<close>

subsection \<open>Test settings\<close>

definition TestsConfig_iadd :: "tests_config \<Rightarrow> tests_config \<Rightarrow> tests_config" where
  "TestsConfig_iadd self other =
     (let self' = self\<lparr>expected_failures :=
            dict_update (dict_of (expected_failures other)) (expected_failures self)\<rparr>
      in (case original_run_tests self' of
            Some b \<Rightarrow> self'\<lparr>run_tests := b\<rparr>
          | None \<Rightarrow>
              (case original_run_tests other of
                 Some b \<Rightarrow> self'\<lparr>run_tests := b\<rparr>
               | None \<Rightarrow> self')))"

subsection \<open>Commands of a resource\<close>

text \<open>An item of \<^verbatim>\<open>Setup Commands\<close>: a mapping or a plain value.\<close>

datatype raw_command = RawDict "(string \<times> string) list" | RawValue string

definition ResourceCommandMode_value :: "resource_command_mode \<Rightarrow> string" where
  "ResourceCommandMode_value m = (case m of ENABLE \<Rightarrow> ''ENABLE'' | CONFIG \<Rightarrow> ''CONFIG'')"

definition repr_dict :: "(string \<times> string) list \<Rightarrow> string" where
  "repr_dict d = ''{'' @ join_with '', '' (map (\<lambda>(k, v). repr_str k @ '': '' @ repr_str v) d) @ ''}''"

definition ResourceConfig_parse_commands :: "raw_command \<Rightarrow> exn + string \<times> string" where
  "ResourceConfig_parse_commands v =
     (case v of
        RawDict d \<Rightarrow>
          (case d of
             [(mode, command)] \<Rightarrow> Inr (mode, command)
           | _ \<Rightarrow> Inl (ValueError (''Expect CONFIG: command or ENABLE: command, got '' @ repr_dict d)))
      | RawValue command \<Rightarrow> Inr (ResourceCommandMode_value ENABLE, command))"

subsection \<open>Hosts\<close>

definition HostConfig_netloc :: "'a host_config_scheme \<Rightarrow> string" where
  "HostConfig_netloc conf = hd (split_first (CHR ''/'') (hc_host conf))"

definition removeprefix :: "string \<Rightarrow> string \<Rightarrow> string" where
  "removeprefix p s = (if prefix p s then drop (length p) s else s)"

definition HostConfig_path :: "'a host_config_scheme \<Rightarrow> string" where
  "HostConfig_path conf =
     (let path = removeprefix (HostConfig_netloc conf) (hc_host conf)
      in if path \<noteq> [] then ''/'' @ path else path)"

subsection \<open>Versions\<close>

primrec result_map :: "('a \<Rightarrow> exn + 'b) \<Rightarrow> 'a list \<Rightarrow> exn + 'b list" where
  "result_map f [] = Inr []"
| "result_map f (x # xs) =
     (case f x of
        Inl e \<Rightarrow> Inl e
      | Inr y \<Rightarrow> (case result_map f xs of Inl e \<Rightarrow> Inl e | Inr ys \<Rightarrow> Inr (y # ys)))"

definition str_version_to_tuple :: "string \<Rightarrow> exn + int list" where
  "str_version_to_tuple version = result_map py_int (split_on (CHR ''.'') version)"

text \<open>\<^verbatim>\<open><\<close> on tuples of integers: lexicographic, a proper prefix is smaller.\<close>

fun tuple_less :: "int list \<Rightarrow> int list \<Rightarrow> bool" where
  "tuple_less _ [] = False"
| "tuple_less [] (_ # _) = True"
| "tuple_less (x # xs) (y # ys) = (x < y \<or> x = y \<and> tuple_less xs ys)"

definition MIN_COMPATIBLE_CONF_VER :: string where
  "MIN_COMPATIBLE_CONF_VER = ''0.13''"

definition MAX_COMPATIBLE_CONF_VER :: string where
  "MAX_COMPATIBLE_CONF_VER = ''0.16''"

definition version_less :: "string \<Rightarrow> string \<Rightarrow> exn + bool" where
  "version_less a b =
     (case str_version_to_tuple a of
        Inl e \<Rightarrow> Inl e
      | Inr as \<Rightarrow>
          (case str_version_to_tuple b of Inl e \<Rightarrow> Inl e | Inr bs \<Rightarrow> Inr (tuple_less as bs)))"

definition MainConfig_is_compatible_version :: "string \<Rightarrow> exn + string" where
  "MainConfig_is_compatible_version v =
     (case version_less v MIN_COMPATIBLE_CONF_VER of
        Inl e \<Rightarrow> Inl e
      | Inr too_old \<Rightarrow>
          if too_old
          then Inl (ValueError (''Minimum compatible config version is '' @ MIN_COMPATIBLE_CONF_VER))
          else (case version_less MAX_COMPATIBLE_CONF_VER v of
                  Inl e \<Rightarrow> Inl e
                | Inr too_new \<Rightarrow>
                    if too_new
                    then Inl (ValueError (''This version of Auto tests do not supported '' @ v @
                           '' version of config.'' @ ''Update Auto tests''))
                    else Inr v))"

subsection \<open>The main configuration\<close>

definition MainConfig_check_cs_conf_or_do ::
  "do_config option \<Rightarrow> 'c option \<Rightarrow> exn + 'c option" where
  "MainConfig_check_cs_conf_or_do do_value cs_value =
     (let cs_on_do = (case do_value of None \<Rightarrow> None | Some d \<Rightarrow> cs_on_do_conf d)
      in if cs_on_do = None \<and> cs_value = None
         then Inl (ValueError ''either CS on Do config or CloudShell config is required'')
         else Inr cs_value)"

text \<open>The loop of \<^verbatim>\<open>_merge_tests_config\<close>. Its second argument is the access
  \<^verbatim>\<open>conf.shell_name\<close>, which the loop makes once per shell: a model that has no such field
  raises there.\<close>

fun merge_tests_config ::
  "shell_config list \<Rightarrow> exn + string option \<Rightarrow> tests_config \<Rightarrow> exn + tests_config" where
  "merge_tests_config [] shell_name tests_conf = Inr tests_conf"
| "merge_tests_config (shell_conf # shells) shell_name tests_conf =
     (case shell_name of
        Inl e \<Rightarrow> Inl e
      | Inr n \<Rightarrow>
          if Some (shc_name shell_conf) = n
          then Inr (TestsConfig_iadd tests_conf (shc_tests_conf shell_conf))
          else merge_tests_config shells shell_name tests_conf)"

definition merge_resource_config :: "shell_config list \<Rightarrow> resource_config \<Rightarrow> exn + resource_config" where
  "merge_resource_config shells conf =
     map_sum id (\<lambda>t. conf\<lparr>rc_tests_conf := t\<rparr>)
       (merge_tests_config shells (Inr (Some (rc_shell_name conf))) (rc_tests_conf conf))"

definition merge_service_config :: "shell_config list \<Rightarrow> service_config \<Rightarrow> exn + service_config" where
  "merge_service_config shells conf =
     map_sum id (\<lambda>t. conf\<lparr>svc_tests_conf := t\<rparr>)
       (merge_tests_config shells (Inr (svc_shell_name conf)) (svc_tests_conf conf))"

definition merge_deployment_config ::
  "shell_config list \<Rightarrow> deployment_resource_config \<Rightarrow> exn + deployment_resource_config" where
  "merge_deployment_config shells conf =
     map_sum id (\<lambda>t. conf\<lparr>drc_tests_conf := t\<rparr>)
       (merge_tests_config shells
          (Inl (AttributeError ''DeploymentResourceConfig object has no attribute shell_name''))
          (drc_tests_conf conf))"

text \<open>The validator on the items of its three fields, in the order of the fields.\<close>

definition MainConfig_merge_tests_config :: "main_config \<Rightarrow> exn + main_config" where
  "MainConfig_merge_tests_config conf =
     (case result_map (merge_resource_config (shells_conf conf)) (resources_conf conf) of
        Inl e \<Rightarrow> Inl e
      | Inr rs \<Rightarrow>
          (case result_map (merge_deployment_config (shells_conf conf))
                  (deployment_resources_conf conf) of
             Inl e \<Rightarrow> Inl e
           | Inr ds \<Rightarrow>
               (case result_map (merge_service_config (shells_conf conf)) (services_conf conf) of
                  Inl e \<Rightarrow> Inl e
                | Inr ss \<Rightarrow>
                    Inr (conf\<lparr>resources_conf := rs, deployment_resources_conf := ds,
                               services_conf := ss\<rparr>))))"

definition MainConfig_update_from_cli_params :: "main_config \<Rightarrow> string option \<Rightarrow> exn + main_config" where
  "MainConfig_update_from_cli_params conf first_shell_dependencies_path =
     (case first_shell_dependencies_path of
        None \<Rightarrow> Inr conf
      | Some p \<Rightarrow>
          (case shells_conf conf of
             [] \<Rightarrow> Inl (IndexError ''list index out of range'')
           | shell # shells \<Rightarrow>
               Inr (conf\<lparr>shells_conf := shell\<lparr>shc_dependencies_path := Some p\<rparr> # shells\<rparr>)))"

section \<open>Merging test settings\<close>

lemma expected_failures_iadd [simp]:
  "expected_failures (TestsConfig_iadd s t) =
     dict_update (dict_of (expected_failures t)) (expected_failures s)"
  by (simp add: TestsConfig_iadd_def Let_def split: option.splits)

lemma run_tests_iadd:
  "run_tests (TestsConfig_iadd s t) =
     (case original_run_tests s of
        Some b \<Rightarrow> b
      | None \<Rightarrow> (case original_run_tests t of Some b \<Rightarrow> b | None \<Rightarrow> run_tests s))"
  by (simp add: TestsConfig_iadd_def Let_def split: option.splits)

lemma original_run_tests_iadd [simp]:
  "original_run_tests (TestsConfig_iadd s t) = original_run_tests s"
  by (simp add: TestsConfig_iadd_def Let_def split: option.splits)

lemma dict_get_of: "dict_ok d \<Longrightarrow> dict_get (dict_of d) k = dict_get d k"
  by (simp add: dict_of_def dict_get_update split: option.splits)

lemma expected_failures_lookup:
  assumes "dict_ok (expected_failures s)" and "dict_ok (expected_failures t)"
  shows "dict_get (expected_failures (TestsConfig_iadd s t)) k =
    (case dict_get (expected_failures s) k of
       Some r \<Rightarrow> Some r
     | None \<Rightarrow> dict_get (expected_failures t) k)"
  using assms by (simp add: dict_get_update dict_get_of split: option.split)

text \<open>The shell whose settings a configuration gets: the first of its name.\<close>

definition shell_of :: "shell_config list \<Rightarrow> string option \<Rightarrow> shell_config option" where
  "shell_of shells n = find (\<lambda>s. Some (shc_name s) = n) shells"

lemma merge_tests_config_find:
  "merge_tests_config shells (Inr n) t =
     Inr (case shell_of shells n of
            None \<Rightarrow> t
          | Some s \<Rightarrow> TestsConfig_iadd t (shc_tests_conf s))"
  by (induction shells) (auto simp: shell_of_def)

lemma result_map_Inr:
  assumes "\<And>x. x \<in> set xs \<Longrightarrow> f x = Inr (g x)"
  shows "result_map f xs = Inr (map g xs)"
  using assms by (induction xs) auto

lemma result_map_elements:
  "result_map f xs = Inr ys \<Longrightarrow> list_all2 (\<lambda>x y. f x = Inr y) xs ys"
  by (induction xs arbitrary: ys) (auto split: sum.splits)

definition merged_resource :: "shell_config list \<Rightarrow> resource_config \<Rightarrow> resource_config" where
  "merged_resource shells conf =
     (case shell_of shells (Some (rc_shell_name conf)) of
        None \<Rightarrow> conf
      | Some s \<Rightarrow>
          conf\<lparr>rc_tests_conf := TestsConfig_iadd (rc_tests_conf conf) (shc_tests_conf s)\<rparr>)"

lemma merge_resource_config_eq:
  "merge_resource_config shells conf = Inr (merged_resource shells conf)"
  by (simp add: merge_resource_config_def merge_tests_config_find merged_resource_def
      split: option.splits)

lemma merge_service_config_Inr: "\<exists>c. merge_service_config shells conf = Inr c"
  by (simp add: merge_service_config_def merge_tests_config_find)

lemma resources_merged:
  "result_map (merge_resource_config shells) confs = Inr (map (merged_resource shells) confs)"
  by (rule result_map_Inr) (rule merge_resource_config_eq)

lemma services_merge_total: "\<exists>cs. result_map (merge_service_config shells) confs = Inr cs"
  by (induction confs)
     (auto simp: merge_service_config_def merge_tests_config_find split: sum.splits)

section \<open>Properties\<close>

text \<open>C39. Merging the test settings of the shells into a configuration without deployment
  resources never fails, touches nothing but the test settings, and gives every resource,
  from the first shell of its shell name and its own settings: for each test the resource's
  own expected failure, else the shell's; the resource's own \<^verbatim>\<open>Run Tests\<close> if it was given,
  else the shell's if that was given, else the value the resource had. A resource whose
  shell is not configured keeps its settings.\<close>

theorem merge_tests_config_correct:
  assumes none: "deployment_resources_conf conf = []"
    and oks: "\<forall>s \<in> set (shells_conf conf). dict_ok (expected_failures (shc_tests_conf s))"
    and okr: "\<forall>r \<in> set (resources_conf conf). dict_ok (expected_failures (rc_tests_conf r))"
  shows "\<exists>conf'. MainConfig_merge_tests_config conf = Inr conf' \<and>
    shells_conf conf' = shells_conf conf \<and>
    list_all2 (\<lambda>r r'.
        r' = r\<lparr>rc_tests_conf := rc_tests_conf r'\<rparr> \<and>
        (case find (\<lambda>s. shc_name s = rc_shell_name r) (shells_conf conf) of
           None \<Rightarrow> r' = r
         | Some s \<Rightarrow>
             (\<forall>k. dict_get (expected_failures (rc_tests_conf r')) k =
                (case dict_get (expected_failures (rc_tests_conf r)) k of
                   Some reason \<Rightarrow> Some reason
                 | None \<Rightarrow> dict_get (expected_failures (shc_tests_conf s)) k)) \<and>
             run_tests (rc_tests_conf r') =
                (case original_run_tests (rc_tests_conf r) of
                   Some b \<Rightarrow> b
                 | None \<Rightarrow>
                     (case original_run_tests (shc_tests_conf s) of
                        Some b \<Rightarrow> b
                      | None \<Rightarrow> run_tests (rc_tests_conf r)))))
      (resources_conf conf) (resources_conf conf')"
proof -
  let ?shells = "shells_conf conf"
  obtain ss where ss: "result_map (merge_service_config ?shells) (services_conf conf) = Inr ss"
    using services_merge_total by blast
  have find_in: "s \<in> set xs" if "find P xs = Some s" for P and s :: shell_config and xs
    using that by (auto simp: find_Some_iff)
  have eq: "shell_of ?shells (Some n) = find (\<lambda>s. shc_name s = n) ?shells" for n
    by (simp add: shell_of_def)
  show ?thesis
    by (auto simp: MainConfig_merge_tests_config_def none resources_merged ss list_all2_map2
        list_all2_same merged_resource_def eq run_tests_iadd bspec [OF oks] bspec [OF okr] dict_get_update dict_get_of
        dest!: find_in split: option.split)
qed

definition test_config_yaml :: main_config where
  "test_config_yaml =
     (let sh = \<lparr>shc_name = ''Cisco'', shc_path = ''/tmp/cisco.zip'', shc_dependencies_path = None,
               shc_extra_standards_paths = [],
               shc_tests_conf = \<lparr>expected_failures =
                   [(''TestSaveConfig.test_save_running_config'', ''exception msg 1''),
                    (''TestRestoreConfig.test_orchestration_restore'', ''exception msg 2'')],
                 run_tests = False, original_run_tests = Some False\<rparr>\<rparr>;
          res = (\<lambda>n t. \<lparr>rc_name = n, rc_shell_name = ''Cisco'', rc_device_ip = None, rc_attributes = [],
               rc_children_attributes = [], rc_tests_conf = t, rc_is_first_gen = False,
               rc_networking_app_name = None, rc_additional_ports = [], rc_setup_commands = [],
               rc_teardown_commands = []\<rparr>)
      in \<lparr>mc_version = ''0.13'', do_conf = None, cs_conf = None, shells_conf = [sh],
          resources_conf =
            [res ''Cisco'' \<lparr>expected_failures =
                 [(''TestRestoreConfig.test_orchestration_restore'', ''exception msg 4''),
                  (''TestRestoreConfig.test_restore_startup_config_append'', ''exception msg 3'')],
               run_tests = True, original_run_tests = Some True\<rparr>,
             res ''Cisco2'' TestsConfig_default],
          deployment_resources_conf = [], apps_conf = [], services_conf = [], ftp_conf = None,
          scp_conf = None, tftp_conf = None, sandboxes_conf = [], blueprints_conf = [],
          vcenter_conf = None\<rparr>)"

theorem merge_tests_config_correct_witness:
  "\<exists>conf'. MainConfig_merge_tests_config test_config_yaml = Inr conf' \<and>
     map (run_tests \<circ> rc_tests_conf) (resources_conf conf') = [True, False]"
proof -
  have prems: "deployment_resources_conf test_config_yaml = []"
    "\<forall>s \<in> set (shells_conf test_config_yaml). dict_ok (expected_failures (shc_tests_conf s))"
    "\<forall>r \<in> set (resources_conf test_config_yaml). dict_ok (expected_failures (rc_tests_conf r))"
    by (auto simp: test_config_yaml_def Let_def dict_ok_def TestsConfig_default_def)
  let ?R = "\<lambda>r r'. case find (\<lambda>s. shc_name s = rc_shell_name r) (shells_conf test_config_yaml) of
      None \<Rightarrow> r' = r
    | Some s \<Rightarrow> run_tests (rc_tests_conf r') =
        (case original_run_tests (rc_tests_conf r) of
           Some b \<Rightarrow> b
         | None \<Rightarrow> (case original_run_tests (shc_tests_conf s) of
                       Some b \<Rightarrow> b
                     | None \<Rightarrow> run_tests (rc_tests_conf r)))"
  have yes: "map (run_tests \<circ> rc_tests_conf) rs = [True, False]"
    if "list_all2 ?R (resources_conf test_config_yaml) rs" for rs
    using that by (simp add: test_config_yaml_def Let_def TestsConfig_default_def list_all2_Cons1)
      (elim exE conjE, simp)
  show ?thesis
    apply (rule exE [OF merge_tests_config_correct [OF prems]])
    subgoal premises p for conf'
      by (rule exI [of _ conf'], rule conjI [OF conjunct1 [OF p]], rule yes,
          rule list_all2_mono [OF conjunct2 [OF conjunct2 [OF p]]])
         (auto split: option.splits)
    done
qed

text \<open>A configuration that has shells and at least one deployment resource cannot be
  loaded: the validator reads \<^verbatim>\<open>shell_name\<close> of the deployment resource, a field that model
  does not have, and the \<^verbatim>\<open>AttributeError\<close> is raised whatever the resource is.\<close>

theorem deployment_resources_never_load:
  assumes "shells_conf conf \<noteq> []" and "deployment_resources_conf conf \<noteq> []"
  shows "\<exists>msg. MainConfig_merge_tests_config conf = Inl (AttributeError msg)"
proof -
  obtain s ss where "shells_conf conf = s # ss" using assms(1) by (meson neq_Nil_conv)
  moreover obtain d ds where "deployment_resources_conf conf = d # ds"
    using assms(2) by (meson neq_Nil_conv)
  ultimately show ?thesis
    by (simp add: MainConfig_merge_tests_config_def resources_merged merge_deployment_config_def)
qed

theorem deployment_resources_never_load_witness:
  "\<exists>msg. MainConfig_merge_tests_config (test_config_yaml\<lparr>deployment_resources_conf :=
      [\<lparr>drc_name = ''app'', drc_is_first_gen = False, drc_attributes = [],
        drc_children_attributes = [], drc_blueprint_name = ''bp'',
        drc_tests_conf = TestsConfig_default\<rparr>]\<rparr>) = Inl (AttributeError msg)"
  by (rule deployment_resources_never_load) (simp_all add: test_config_yaml_def Let_def)

section \<open>Versions\<close>

lemma dot_not_in_str_of_nat [simp]: "CHR ''.'' \<notin> set (str_of_nat n)"
  using str_of_nat_digits [of n] by (auto simp: list_all_iff dest: digit_not_special)

lemma str_version_to_tuple_single [simp]:
  "str_version_to_tuple (str_of_nat a) = Inr [int a]"
  by (simp add: str_version_to_tuple_def)

lemma str_version_to_tuple_dot [simp]:
  "str_version_to_tuple (str_of_nat a @ CHR ''.'' # s) =
     (case str_version_to_tuple s of Inl e \<Rightarrow> Inl e | Inr xs \<Rightarrow> Inr (int a # xs))"
  by (simp add: str_version_to_tuple_def split_on_append_sep)

lemma version_bounds:
  "str_version_to_tuple MIN_COMPATIBLE_CONF_VER = Inr [0, 13]"
  "str_version_to_tuple MAX_COMPATIBLE_CONF_VER = Inr [0, 16]"
  by code_simp+

lemma is_compatible_version_iff:
  "MainConfig_is_compatible_version v = Inr v' \<longleftrightarrow>
     v' = v \<and> (\<exists>xs. str_version_to_tuple v = Inr xs \<and> \<not> tuple_less xs [0, 13] \<and> \<not> tuple_less [0, 16] xs)"
  by (auto simp: MainConfig_is_compatible_version_def version_less_def version_bounds
      split: sum.splits if_splits)

text \<open>The accepted versions, on the decimal texts of version numbers: \<^verbatim>\<open>a.b\<close> is accepted
  exactly for \<^verbatim>\<open>0.13\<close> to \<^verbatim>\<open>0.16\<close> (numbers, not text: \<^verbatim>\<open>0.9\<close> is below \<^verbatim>\<open>0.13\<close>), and a version with
  a patch number \<^verbatim>\<open>a.b.c\<close> exactly for \<^verbatim>\<open>0.13.c\<close> to \<^verbatim>\<open>0.15.c\<close>, since \<^verbatim>\<open>0.16.c\<close> is above the tuple of
  \<^verbatim>\<open>0.16\<close>. A rejected version is a \<^verbatim>\<open>ValueError\<close>.\<close>

theorem compatible_versions:
  "(MainConfig_is_compatible_version (str_of_nat a @ ''.'' @ str_of_nat b) =
      Inr (str_of_nat a @ ''.'' @ str_of_nat b) \<longleftrightarrow> a = 0 \<and> 13 \<le> b \<and> b \<le> 16) \<and>
   (MainConfig_is_compatible_version (str_of_nat a @ ''.'' @ str_of_nat b @ ''.'' @ str_of_nat c) =
      Inr (str_of_nat a @ ''.'' @ str_of_nat b @ ''.'' @ str_of_nat c)
    \<longleftrightarrow> a = 0 \<and> 13 \<le> b \<and> b \<le> 15) \<and>
   (MainConfig_is_compatible_version (str_of_nat a @ ''.'' @ str_of_nat b) =
      Inr (str_of_nat a @ ''.'' @ str_of_nat b) \<or>
    (\<exists>m. MainConfig_is_compatible_version (str_of_nat a @ ''.'' @ str_of_nat b) = Inl (ValueError m)))"
proof (intro conjI)
  show "MainConfig_is_compatible_version (str_of_nat a @ ''.'' @ str_of_nat b) =
      Inr (str_of_nat a @ ''.'' @ str_of_nat b) \<longleftrightarrow> a = 0 \<and> 13 \<le> b \<and> b \<le> 16"
    by (auto simp: is_compatible_version_iff)
  show "MainConfig_is_compatible_version (str_of_nat a @ ''.'' @ str_of_nat b @ ''.'' @ str_of_nat c) =
      Inr (str_of_nat a @ ''.'' @ str_of_nat b @ ''.'' @ str_of_nat c)
    \<longleftrightarrow> a = 0 \<and> 13 \<le> b \<and> b \<le> 15"
    by (auto simp: is_compatible_version_iff)
  show "MainConfig_is_compatible_version (str_of_nat a @ ''.'' @ str_of_nat b) =
      Inr (str_of_nat a @ ''.'' @ str_of_nat b) \<or>
    (\<exists>m. MainConfig_is_compatible_version (str_of_nat a @ ''.'' @ str_of_nat b) = Inl (ValueError m))"
    by (auto simp: MainConfig_is_compatible_version_def version_less_def version_bounds)
qed

section \<open>Hosts\<close>

lemma netloc_takeWhile: "HostConfig_netloc conf = takeWhile (\<lambda>c. c \<noteq> CHR ''/'') (hc_host conf)"
  by (simp add: HostConfig_netloc_def split_first_hd)

lemma netloc_prefix: "hc_host conf = HostConfig_netloc conf @ dropWhile (\<lambda>c. c \<noteq> CHR ''/'') (hc_host conf)"
  by (simp add: netloc_takeWhile)

lemma path_dropWhile:
  "HostConfig_path conf =
     (let d = dropWhile (\<lambda>c. c \<noteq> CHR ''/'') (hc_host conf) in if d \<noteq> [] then CHR ''/'' # d else [])"
proof -
  have "removeprefix (HostConfig_netloc conf) (hc_host conf) =
      dropWhile (\<lambda>c. c \<noteq> CHR ''/'') (hc_host conf)"
    using netloc_prefix [of conf] by (metis append_eq_conv_conj prefixI removeprefix_def)
  then show ?thesis by (simp only: HostConfig_path_def Let_def append.simps) metis
qed

text \<open>A host is its network location, which holds no slash, followed by nothing or by a
  slash and a directory. In the first case the path of the configuration is empty; in the
  second it is the directory with \<^emph>\<open>two\<close> slashes before it, since the property adds a slash
  to a remainder that starts with one.\<close>

theorem host_config_split:
  "CHR ''/'' \<notin> set (HostConfig_netloc conf) \<and>
   (hc_host conf = HostConfig_netloc conf \<and> HostConfig_path conf = [] \<or>
     (\<exists>dir. hc_host conf = HostConfig_netloc conf @ ''/'' @ dir \<and> HostConfig_path conf = ''//'' @ dir))"
proof
  show "CHR ''/'' \<notin> set (HostConfig_netloc conf)"
    by (auto simp: netloc_takeWhile dest: set_takeWhileD)
  let ?d = "dropWhile (\<lambda>c. c \<noteq> CHR ''/'') (hc_host conf)"
  have host: "hc_host conf = HostConfig_netloc conf @ ?d" by (rule netloc_prefix)
  show "hc_host conf = HostConfig_netloc conf \<and> HostConfig_path conf = [] \<or>
     (\<exists>dir. hc_host conf = HostConfig_netloc conf @ ''/'' @ dir \<and> HostConfig_path conf = ''//'' @ dir)"
  proof (cases ?d)
    case Nil
    with host have "hc_host conf = HostConfig_netloc conf" by (simp only: append_Nil2)
    moreover have "HostConfig_path conf = []"
      by (simp only: path_dropWhile Let_def Nil) simp
    ultimately show ?thesis by blast
  next
    case (Cons c dir)
    then have "c = CHR ''/''" by (metis (mono_tags, lifting) dropWhile_eq_Cons_conv)
    with Cons have d: "?d = ''/'' @ dir" by simp
    with host have "hc_host conf = HostConfig_netloc conf @ ''/'' @ dir" by metis
    moreover have "HostConfig_path conf = ''//'' @ dir"
      by (simp only: path_dropWhile Let_def d) simp
    ultimately show ?thesis by blast
  qed
qed

end
