(* ===== verification/Resource_Names.thy ===== *)
theory Resource_Names
  imports Py_Strings
begin

text \<open>
  \<^verbatim>\<open>generate_new_resource_name\<close> of \<^verbatim>\<open>shell_tests/helpers/cs_helpers.py\<close>, by which
  \<^verbatim>\<open>CloudShellHandler.create_resource\<close> and \<^verbatim>\<open>rename_resource\<close> look for a free name, and the
  facts that make these searches end: a numbered name counts up, and the names generated
  from any start are pairwise different from some point on, so they leave every finite set.
\<close>

section \<open>The name and the index of a resource\<close>

text \<open>The match of \<^verbatim>\<open>^(?P<name>.+)-(?P<v>\d+)$\<close>: \<^verbatim>\<open>.\<close> matches no newline, and \<^verbatim>\<open>$\<close> matches at the
  end or before a newline that ends the text. The version has no dash, so the dash of the
  pattern is the last one.\<close>

definition search_name_version :: "string \<Rightarrow> (string \<times> string) option" where
  "search_name_version s =
     (let s0 = (if s \<noteq> [] \<and> last s = newline then butlast s else s)
      in (case split_last (CHR ''-'') s0 of
            [name, v] \<Rightarrow>
              if name \<noteq> [] \<and> newline \<notin> set name \<and> v \<noteq> [] \<and> list_all is_digit v
              then Some (name, v) else None
          | _ \<Rightarrow> None))"

definition generate_new_resource_name :: "string \<Rightarrow> string" where
  "generate_new_resource_name name =
     (case search_name_version name of
        Some (n, v) \<Rightarrow> n @ ''-'' @ str_of_nat (digits_val v + 1)
      | None \<Rightarrow> name @ ''-'' @ str_of_nat (0 + 1))"

section \<open>Numbered names\<close>

lemma str_of_nat_chars:
  "newline \<notin> set (str_of_nat n)" "CHR ''-'' \<notin> set (str_of_nat n)"
  using str_of_nat_digits [of n] by (auto simp: list_all_iff dest: digit_not_special)

lemma last_str_of_nat [simp]: "last (str_of_nat n) \<noteq> newline"
  using str_of_nat_chars(1) [of n] last_in_set [OF str_of_nat_ne [of n]] by metis

lemma search_numbered:
  "search_name_version (b @ CHR ''-'' # str_of_nat n) =
     (if b \<noteq> [] \<and> newline \<notin> set b then Some (b, str_of_nat n) else None)"
  by (simp add: search_name_version_def Let_def split_last_at str_of_nat_chars str_of_nat_digits
      last_append)

definition numbered :: "string \<Rightarrow> nat \<Rightarrow> string" where
  "numbered b n = b @ CHR ''-'' # str_of_nat n"

lemma numbered_inj [simp]: "numbered b m = numbered b n \<longleftrightarrow> m = n"
  by (simp add: numbered_def)

lemma generate_numbered:
  "b \<noteq> [] \<Longrightarrow> newline \<notin> set b \<Longrightarrow> generate_new_resource_name (numbered b n) = numbered b (Suc n)"
  by (simp add: generate_new_resource_name_def numbered_def search_numbered)

lemma generate_iterate_numbered:
  "b \<noteq> [] \<Longrightarrow> newline \<notin> set b \<Longrightarrow>
     (generate_new_resource_name ^^ i) (numbered b n) = numbered b (n + i)"
  by (induction i) (simp_all add: generate_numbered)

text \<open>Every generated name is a numbered one, and a base that cannot match again only grows.\<close>

lemma generate_is_numbered: "\<exists>b n. generate_new_resource_name s = numbered b n"
  by (auto simp: generate_new_resource_name_def numbered_def split: option.splits)

lemma generate_unmatched:
  "b = [] \<or> newline \<in> set b \<Longrightarrow>
     generate_new_resource_name (numbered b n) = numbered (numbered b n) 1"
  by (auto simp: generate_new_resource_name_def numbered_def search_numbered)

lemma newline_in_numbered: "newline \<in> set b \<Longrightarrow> newline \<in> set (numbered b n)"
  by (simp add: numbered_def)

lemma newline_base_grows:
  assumes "newline \<in> set b"
  shows "\<exists>c m. (generate_new_resource_name ^^ i) (numbered b n) = numbered c m \<and>
    newline \<in> set c \<and> length b + i \<le> length c"
proof (induction i)
  case 0
  with assms show ?case by auto
next
  case (Suc i)
  then obtain c m where c: "(generate_new_resource_name ^^ i) (numbered b n) = numbered c m"
    and nl: "newline \<in> set c" and len: "length b + i \<le> length c"
    by blast
  from c nl have "(generate_new_resource_name ^^ Suc i) (numbered b n) = numbered (numbered c m) 1"
    by (simp add: generate_unmatched)
  moreover have "length b + Suc i \<le> length (numbered c m)"
    using len by (simp add: numbered_def)
  ultimately show ?case using newline_in_numbered [OF nl] by blast
qed

lemma numbered_leave_finite:
  assumes "finite T" and "b \<noteq> []" and "newline \<notin> set b"
  shows "\<exists>i. (generate_new_resource_name ^^ i) (numbered b n) \<notin> T"
proof (rule ccontr)
  assume "\<not> ?thesis"
  then have "range (\<lambda>i. numbered b (n + i)) \<subseteq> T"
    using assms by (auto simp: generate_iterate_numbered)
  then have "finite (range (\<lambda>i. numbered b (n + i)))"
    using assms(1) by (rule finite_subset)
  moreover have "inj (\<lambda>i. numbered b (n + i))" by (simp add: inj_on_def)
  ultimately show False using finite_imageD infinite_UNIV_nat by blast
qed

lemma newline_leave_finite:
  assumes "finite T" and "newline \<in> set b"
  shows "\<exists>i. (generate_new_resource_name ^^ i) (numbered b n) \<notin> T"
proof -
  obtain k where k: "\<forall>s \<in> T. length s < k"
    using assms(1) finite_nat_set_iff_bounded [of "length ` T"] by auto
  obtain c m where "(generate_new_resource_name ^^ k) (numbered b n) = numbered c m"
    and "length b + k \<le> length c"
    using newline_base_grows [OF assms(2)] by blast
  then have "\<not> length ((generate_new_resource_name ^^ k) (numbered b n)) < k"
    by (simp add: numbered_def)
  with k show ?thesis by blast
qed

lemma generated_numbered_leave_finite:
  assumes "finite T"
  shows "\<exists>i. (generate_new_resource_name ^^ i) (numbered b n) \<notin> T"
proof -
  consider "b \<noteq> []" "newline \<notin> set b" | "newline \<in> set b" | "b = []"
    by blast
  then show ?thesis
  proof cases
    case 1
    with assms show ?thesis by (rule numbered_leave_finite)
  next
    case 2
    with assms show ?thesis by (rule newline_leave_finite)
  next
    case 3
    have ne: "numbered [] n \<noteq> []" and nl: "newline \<notin> set (numbered [] n)"
      by (simp_all add: numbered_def str_of_nat_chars)
    have step: "generate_new_resource_name (numbered b n) = numbered (numbered [] n) 1"
      using 3 by (simp add: generate_unmatched)
    obtain i where "(generate_new_resource_name ^^ i) (numbered (numbered [] n) 1) \<notin> T"
      using numbered_leave_finite [OF assms ne nl] by blast
    then have "(generate_new_resource_name ^^ Suc i) (numbered b n) \<notin> T"
      by (simp add: funpow_swap1 step del: funpow.simps) (simp add: step funpow_swap1)
    then show ?thesis by blast
  qed
qed

lemma generated_leave_finite:
  assumes "finite T"
  shows "\<exists>i. (generate_new_resource_name ^^ i) s \<notin> T"
proof -
  obtain b n where step: "generate_new_resource_name s = numbered b n"
    using generate_is_numbered by blast
  obtain i where "(generate_new_resource_name ^^ i) (numbered b n) \<notin> T"
    using generated_numbered_leave_finite [OF assms] by blast
  then have "(generate_new_resource_name ^^ Suc i) s \<notin> T"
    by (simp add: funpow_Suc_right step del: funpow.simps)
  then show ?thesis by blast
qed

section \<open>Properties\<close>

text \<open>A name that ends in a dash and a number gets the next number, with the same name before
  the dash, so that generating \<open>i\<close> times counts up by \<open>i\<close>, also past a change of the number of
  digits; a name without a dash gets \<^verbatim>\<open>-1\<close>. The name before the dash is any non-empty text
  without a newline.\<close>

theorem generate_new_resource_name_counts:
  assumes "name \<noteq> []" and "newline \<notin> set name"
  shows "(generate_new_resource_name ^^ i) (name @ ''-'' @ str_of_nat n) = name @ ''-'' @ str_of_nat (n + i) \<and>
    (CHR ''-'' \<notin> set name \<longrightarrow> generate_new_resource_name name = name @ ''-1'')"
proof (intro conjI impI)
  show "(generate_new_resource_name ^^ i) (name @ ''-'' @ str_of_nat n) = name @ ''-'' @ str_of_nat (n + i)"
    using generate_iterate_numbered [OF assms, of i n] by (simp add: numbered_def)
  assume "CHR ''-'' \<notin> set name"
  moreover have "last name \<noteq> newline" using assms last_in_set by metis
  ultimately have "search_name_version name = None"
    by (simp add: search_name_version_def Let_def split_last_free)
  moreover have "str_of_nat 1 = ''1''" by code_simp
  ultimately show "generate_new_resource_name name = name @ ''-1''"
    by (simp add: generate_new_resource_name_def)
qed

theorem generate_new_resource_name_counts_witness:
  "(generate_new_resource_name ^^ 3) (''Cisco'' @ ''-'' @ str_of_nat 9) = ''Cisco'' @ ''-'' @ str_of_nat 12 \<and>
   generate_new_resource_name ''Cisco'' = ''Cisco'' @ ''-1''"
  using generate_new_resource_name_counts [of "''Cisco''" 3 9] by simp

end
