(* ===== verification/Cs_Handler.thy ===== *)
theory Cs_Handler
  imports World Configs Resource_Names
begin

text \<open>
  \<^verbatim>\<open>shell_tests/handlers/cs_handler.py\<close> and \<^verbatim>\<open>shell_tests/helpers/cs_http.py\<close>: the wrapper of the
  CloudShell interfaces. One definition per method of \<^verbatim>\<open>CloudShellHandler\<close>; a session is
  opened at its first use and kept with the object, a failed opening is not kept. The polling
  loops carry the number of rounds that are left; the two searches for a free resource name,
  which the source bounds by nothing, carry fuel. The lemmas give the exact course of the
  polling loops, the error translation of commands, and that the name searches end.
\<close>

section \<open>The handler and its sessions\<close>

record cs_handler =
  csh_conf :: cloudshell_config
  csh_oid :: nat

definition CloudShellHandler_new :: "cloudshell_config \<Rightarrow> ('x, cs_handler) io" where
  "CloudShellHandler_new conf = bnd new_oid (\<lambda>i. ret \<lparr>csh_conf = conf, csh_oid = i\<rparr>)"

abbreviation csh_host :: "cs_handler \<Rightarrow> string" where
  "csh_host cs \<equiv> csc_host (csh_conf cs)"

definition CloudShellHandler_rest_api :: "'e services_scheme \<Rightarrow> cs_handler \<Rightarrow> ('x, unit) io" where
  "CloudShellHandler_rest_api svc cs =
     bnd (get_state (\<lambda>w. csh_oid cs \<in> set (rest_cached w))) (\<lambda>cached.
       if cached then ret ()
       else andthen
         (ask (rep_unit svc) (Rest (csh_host cs)
            (RestConnect 9000 (csc_user (csh_conf cs)) (csc_password (csh_conf cs))
               (csc_domain (csh_conf cs)))))
         (modify (\<lambda>w. w\<lparr>rest_cached := csh_oid cs # rest_cached w\<rparr>)))"

definition CloudShellHandler_api :: "'e services_scheme \<Rightarrow> cs_handler \<Rightarrow> ('x, unit) io" where
  "CloudShellHandler_api svc cs =
     bnd (get_state (\<lambda>w. csh_oid cs \<in> set (api_cached w))) (\<lambda>cached.
       if cached then ret ()
       else andthen
         (ask (rep_unit svc) (Api (csh_host cs)
            (ApiConnect (csc_user (csh_conf cs)) (csc_password (csh_conf cs))
               (csc_domain (csh_conf cs)))))
         (modify (\<lambda>w. w\<lparr>api_cached := csh_oid cs # api_cached w\<rparr>)))"

text \<open>\<^verbatim>\<open>self._rest_api.f(...)\<close> and \<^verbatim>\<open>self._api.f(...)\<close>\<close>

definition rest_call ::
  "'e services_scheme \<Rightarrow> (event list \<Rightarrow> event \<Rightarrow> exn + 'a) \<Rightarrow> cs_handler \<Rightarrow> rest_call \<Rightarrow> ('x, 'a) io" where
  "rest_call svc rep cs c = andthen (CloudShellHandler_rest_api svc cs) (ask rep (Rest (csh_host cs) c))"

definition api_call ::
  "'e services_scheme \<Rightarrow> (event list \<Rightarrow> event \<Rightarrow> exn + 'a) \<Rightarrow> cs_handler \<Rightarrow> api_call \<Rightarrow> ('x, 'a) io" where
  "api_call svc rep cs c = andthen (CloudShellHandler_api svc cs) (ask rep (Api (csh_host cs) c))"

fun is_connection_error :: "exn \<Rightarrow> bool" where
  "is_connection_error (MaxRetryError _) = True"
| "is_connection_error e = is_OSError e"

primrec wait_for_cs_loop :: "nat \<Rightarrow> 'e services_scheme \<Rightarrow> cs_handler \<Rightarrow> ('x, unit) io" where
  "wait_for_cs_loop 0 svc cs = raise_exn CSIsNotAliveError"
| "wait_for_cs_loop (Suc n) svc cs =
     try_except_else (CloudShellHandler_api svc cs)
       (\<lambda>e. if is_connection_error e then andthen (sleep 10) (wait_for_cs_loop n svc cs)
            else raise_exn e)
       (\<lambda>_. ret ())"

definition CloudShellHandler_wait_for_cs_is_started ::
  "'e services_scheme \<Rightarrow> cs_handler \<Rightarrow> ('x, unit) io" where
  "CloudShellHandler_wait_for_cs_is_started svc cs = wait_for_cs_loop 10 svc cs"

section \<open>Shells and packages\<close>

text \<open>The group of \<^verbatim>\<open>re.search("named '(?P<name>.+)' already exists", s)\<close>: the leftmost start,
  then the longest name on the line.\<close>

fun greedy_until :: "string \<Rightarrow> string \<Rightarrow> string option" where
  "greedy_until suf [] = None"
| "greedy_until suf (c # s) =
     (if c = newline then None
      else (case greedy_until suf s of
              Some n \<Rightarrow> Some (c # n)
            | None \<Rightarrow> if prefix suf s then Some [c] else None))"

definition named_prefix :: string where
  "named_prefix = ''named '' @ [quote]"

definition exists_suffix :: string where
  "exists_suffix = [quote] @ '' already exists''"

fun search_existing_name :: "string \<Rightarrow> string option" where
  "search_existing_name [] = None"
| "search_existing_name (c # s) =
     (if prefix named_prefix (c # s)
      then (case greedy_until exists_suffix (drop (length named_prefix) (c # s)) of
              Some n \<Rightarrow> Some n
            | None \<Rightarrow> search_existing_name s)
      else search_existing_name s)"

definition retry_on_invalid_driver :: "exn \<Rightarrow> bool" where
  "retry_on_invalid_driver e \<longleftrightarrow> contains ''invalid driver'' (lower (exn_str e))"

definition install_shell_once :: "'e services_scheme \<Rightarrow> cs_handler \<Rightarrow> string \<Rightarrow> ('x, unit) io" where
  "install_shell_once svc cs shell_path =
     try_except (rest_call svc (rep_unit svc) cs (AddShell shell_path))
       (\<lambda>e. if \<not> is_Exception e then raise_exn e
            else if \<not> contains ''already exists'' (exn_arg0 e) then raise_exn e
            else (case search_existing_name (exn_arg0 e) of
                    None \<Rightarrow> raise_exn (AttributeError ''NoneType object has no attribute group'')
                  | Some shell_name \<Rightarrow>
                      rest_call svc (rep_unit svc) cs (UpdateShell shell_path shell_name)))"

definition CloudShellHandler_install_shell ::
  "('x world_scheme, unit) retry_decorator \<Rightarrow> 'e services_scheme \<Rightarrow> cs_handler \<Rightarrow> string \<Rightarrow> ('x, unit) io" where
  "CloudShellHandler_install_shell rt svc cs shell_path =
     rt 7 retry_on_invalid_driver (install_shell_once svc cs shell_path)"

definition CloudShellHandler_remove_shell :: "'e services_scheme \<Rightarrow> cs_handler \<Rightarrow> string \<Rightarrow> ('x, unit) io" where
  "CloudShellHandler_remove_shell svc cs shell_name = rest_call svc (rep_unit svc) cs (DeleteShell shell_name)"

definition CloudShellHandler_import_package :: "'e services_scheme \<Rightarrow> cs_handler \<Rightarrow> string \<Rightarrow> ('x, unit) io" where
  "CloudShellHandler_import_package svc cs package_path =
     rest_call svc (rep_unit svc) cs (ImportPackage package_path)"

section \<open>Errors of a reservation, over HTTP\<close>

fun json_repr :: "json \<Rightarrow> string" where
  "json_repr JNull = ''None''"
| "json_repr (JBool b) = (if b then ''True'' else ''False'')"
| "json_repr (JInt i) = str_of_int i"
| "json_repr (JStr s) = repr_str s"
| "json_repr (JList xs) = repr_list (map json_repr xs)"
| "json_repr (JObj ps) =
     ''{'' @ join_with '', '' (map (\<lambda>p. repr_str (fst p) @ '': '' @ json_repr (snd p)) ps) @ ''}''"

definition json_str :: "json \<Rightarrow> string" where
  "json_str j = (case j of JStr s \<Rightarrow> s | _ \<Rightarrow> json_repr j)"

definition json_item :: "string \<Rightarrow> json \<Rightarrow> exn + json" where
  "json_item k j =
     (case j of
        JObj ps \<Rightarrow> (case dict_get ps k of Some v \<Rightarrow> Inr v | None \<Rightarrow> Inl (KeyError k))
      | _ \<Rightarrow> Inl (TypeError ''indices must be integers''))"

definition json_iter :: "json \<Rightarrow> exn + json list" where
  "json_iter j =
     (case j of
        JList xs \<Rightarrow> Inr xs
      | JObj ps \<Rightarrow> Inr (map (JStr \<circ> fst) ps)
      | JStr s \<Rightarrow> Inr (map (\<lambda>c. JStr [c]) s)
      | _ \<Rightarrow> Inl (TypeError ''object is not iterable''))"

definition get_activity :: "'e services_scheme \<Rightarrow> string \<Rightarrow> json \<Rightarrow> ('x, json \<times> json) io" where
  "get_activity svc get_activity_url eid =
     bnd (ask (rep_json svc) (Http (HttpGet (get_activity_url @ json_str eid)))) (\<lambda>resp.
     bnd (of_result (json_item ''Data'' resp)) (\<lambda>data.
     bnd (of_result (json_item ''Text'' data)) (\<lambda>txt.
     bnd (of_result (json_item ''Output'' data)) (\<lambda>output. ret (txt, output)))))"

definition get_reservation_errors ::
  "'e services_scheme \<Rightarrow> cloudshell_config \<Rightarrow> string \<Rightarrow> ('x, (json \<times> json) list) io" where
  "get_reservation_errors svc conf reservation_id =
     (let url = ''http://'' @ csc_host conf @ ''/'';
          workspace_api = url @ ''api/WorkspaceApi/'';
          login_url = url @ ''Account/Login'';
          get_activities_url =
            workspace_api @ ''GetFilteredActivityFeedInfoList?diagramId='' @ reservation_id;
          public_key_url = url @ ''Account/PublicKey'';
          get_activity_url = workspace_api @ ''GetActivityFeedInfo?eventId='';
          data = [(''FromEventId'', ''0''), (''IsError'', ''True'')]
      in bnd (ask (rep_str svc) (Http (HttpGet public_key_url))) (\<lambda>pem.
         bnd (of_result (encrypt_b64 svc pem (csc_user conf))) (\<lambda>enc_user.
         bnd (of_result (encrypt_b64 svc pem (csc_password conf))) (\<lambda>enc_pass.
         bnd (ask (rep_unit svc)
                (Http (HttpPost login_url [(''username'', enc_user), (''password'', enc_pass)]))) (\<lambda>_.
         bnd (ask (rep_json svc) (Http (HttpPost get_activities_url data))) (\<lambda>resp.
         bnd (of_result (json_item ''Data'' resp)) (\<lambda>d.
         bnd (of_result (json_item ''Items'' d)) (\<lambda>its.
         bnd (of_result (json_iter its)) (\<lambda>items.
         bnd (of_result (result_map (json_item ''Id'') items)) (\<lambda>ids.
         map_m (get_activity svc get_activity_url) ids))))))))))"

definition CloudShellHandler_get_reservation_errors ::
  "'e services_scheme \<Rightarrow> cs_handler \<Rightarrow> string \<Rightarrow> ('x, (json \<times> json) list) io" where
  "CloudShellHandler_get_reservation_errors svc cs reservation_id =
     get_reservation_errors svc (csh_conf cs) reservation_id"

text \<open>\<^verbatim>\<open>str\<close> of a list of pairs\<close>

definition errors_str :: "(json \<times> json) list \<Rightarrow> string" where
  "errors_str es = repr_list (map (\<lambda>(a, b). ''('' @ json_repr a @ '', '' @ json_repr b @ '')'') es)"

section \<open>Reservations\<close>

definition CloudShellHandler_create_reservation ::
  "'e services_scheme \<Rightarrow> cs_handler \<Rightarrow> string \<Rightarrow> int \<Rightarrow> ('x, string) io" where
  "CloudShellHandler_create_reservation svc cs name duration =
     api_call svc (rep_str svc) cs
       (CreateImmediateReservation name (session_username svc (csc_user (csh_conf cs))) duration)"

definition CloudShellHandler_create_topology_reservation ::
  "'e services_scheme \<Rightarrow> cs_handler \<Rightarrow> string \<Rightarrow> string \<Rightarrow> int \<Rightarrow> string option \<Rightarrow> ('x, string) io" where
  "CloudShellHandler_create_topology_reservation svc cs name topology_name duration specific_version =
     (let global_input_req =
            (case specific_version of
               None \<Rightarrow> []
             | Some v \<Rightarrow> if v = [] then [] else [(''Version'', v)])
      in api_call svc (rep_str svc) cs
           (CreateImmediateTopologyReservation name (session_username svc (csc_user (csh_conf cs)))
              duration topology_name global_input_req))"

definition CloudShellHandler_get_reservation_status ::
  "'e services_scheme \<Rightarrow> cs_handler \<Rightarrow> string \<Rightarrow> ('x, slim_status) io" where
  "CloudShellHandler_get_reservation_status svc cs reservation_id =
     api_call svc (rep_status svc) cs (GetReservationStatus reservation_id)"

definition reservation_started :: "slim_status \<Rightarrow> bool" where
  "reservation_started status \<longleftrightarrow>
     ProvisioningStatus status = ''Ready'' \<or>
     ProvisioningStatus status = ''Not Run'' \<and> Status status = ''Started''"

primrec wait_started_loop ::
  "nat \<Rightarrow> 'e services_scheme \<Rightarrow> cs_handler \<Rightarrow> string \<Rightarrow> ('x, unit) io" where
  "wait_started_loop 0 svc cs reservation_id =
     raise_exn (CreationReservationError
       (''The reservation '' @ reservation_id @ '' doesn'' @ [quote] @ ''t started''))"
| "wait_started_loop (Suc n) svc cs reservation_id =
     bnd (CloudShellHandler_get_reservation_status svc cs reservation_id) (\<lambda>status.
       if reservation_started status then ret ()
       else if ProvisioningStatus status = ''Error''
       then bnd (CloudShellHandler_get_reservation_errors svc cs reservation_id) (\<lambda>errors.
              raise_exn (CreationReservationError (errors_str errors)))
       else andthen (sleep 30) (wait_started_loop n svc cs reservation_id))"

definition CloudShellHandler_wait_reservation_is_started ::
  "'e services_scheme \<Rightarrow> cs_handler \<Rightarrow> string \<Rightarrow> ('x, unit) io" where
  "CloudShellHandler_wait_reservation_is_started svc cs reservation_id =
     wait_started_loop 60 svc cs reservation_id"

definition CloudShellHandler_delete_reservation ::
  "'e services_scheme \<Rightarrow> cs_handler \<Rightarrow> string \<Rightarrow> ('x, unit) io" where
  "CloudShellHandler_delete_reservation svc cs reservation_id =
     api_call svc (rep_unit svc) cs (DeleteReservation reservation_id)"

primrec wait_ended_loop ::
  "nat \<Rightarrow> 'e services_scheme \<Rightarrow> cs_handler \<Rightarrow> string \<Rightarrow> ('x, unit) io" where
  "wait_ended_loop 0 svc cs reservation_id =
     raise_exn (BaseAutomationException (''Can'' @ [quote] @ ''t end reservation''))"
| "wait_ended_loop (Suc n) svc cs reservation_id =
     bnd (CloudShellHandler_get_reservation_status svc cs reservation_id) (\<lambda>status.
       if Status status = ''Completed'' then ret ()
       else andthen (sleep 30) (wait_ended_loop n svc cs reservation_id))"

definition CloudShellHandler_end_reservation ::
  "'e services_scheme \<Rightarrow> cs_handler \<Rightarrow> string \<Rightarrow> bool \<Rightarrow> ('x, unit) io" where
  "CloudShellHandler_end_reservation svc cs reservation_id wait =
     andthen (api_call svc (rep_unit svc) cs (EndReservation reservation_id))
       (if wait then wait_ended_loop 30 svc cs reservation_id else ret ())"

definition CloudShellHandler_get_reservation_details ::
  "'e services_scheme \<Rightarrow> cs_handler \<Rightarrow> string \<Rightarrow> ('x, string) io" where
  "CloudShellHandler_get_reservation_details svc cs reservation_id =
     api_call svc (rep_str svc) cs (GetReservationDetails reservation_id)"

section \<open>Resources\<close>

fun has_code :: "string \<Rightarrow> exn \<Rightarrow> bool" where
  "has_code c (CloudShellAPIError code _ _) = (code = c)"
| "has_code c _ = False"

text \<open>The \<^verbatim>\<open>while True\<close> loops; \<open>NoReturn\<close> when the fuel is used up. Error 114 is a name that is
  taken.\<close>

primrec create_resource_loop ::
  "nat \<Rightarrow> 'e services_scheme \<Rightarrow> cs_handler \<Rightarrow> string \<Rightarrow> string \<Rightarrow> string \<Rightarrow> string \<Rightarrow> string \<Rightarrow> bool \<Rightarrow>
   ('x, string) io" where
  "create_resource_loop 0 svc cs name model address family parent_path create_new = raise_exn NoReturn"
| "create_resource_loop (Suc fuel) svc cs name model address family parent_path create_new =
     try_except_else
       (api_call svc (rep_unit svc) cs (CreateResource family model name address parent_path))
       (\<lambda>e. if \<not> has_code ''114'' e then raise_exn e
            else if create_new
            then create_resource_loop fuel svc cs (generate_new_resource_name name) model address
                   family parent_path create_new
            else ret name)
       (\<lambda>_. ret name)"

definition CloudShellHandler_create_resource ::
  "nat \<Rightarrow> 'e services_scheme \<Rightarrow> cs_handler \<Rightarrow> string \<Rightarrow> string \<Rightarrow> string \<Rightarrow> string \<Rightarrow> string \<Rightarrow> bool \<Rightarrow>
   ('x, string) io" where
  "CloudShellHandler_create_resource fuel svc cs name model address family parent_path create_new =
     create_resource_loop fuel svc cs name model address family parent_path create_new"

primrec CloudShellHandler_rename_resource ::
  "nat \<Rightarrow> 'e services_scheme \<Rightarrow> cs_handler \<Rightarrow> string \<Rightarrow> string \<Rightarrow> ('x, string) io" where
  "CloudShellHandler_rename_resource 0 svc cs current_name new_name = raise_exn NoReturn"
| "CloudShellHandler_rename_resource (Suc fuel) svc cs current_name new_name =
     try_except_else
       (api_call svc (rep_unit svc) cs (RenameResource current_name new_name))
       (\<lambda>e. if \<not> has_code ''114'' e then raise_exn e
            else CloudShellHandler_rename_resource fuel svc cs current_name
                   (generate_new_resource_name new_name))
       (\<lambda>_. ret new_name)"

definition CloudShellHandler_set_resource_attributes ::
  "'e services_scheme \<Rightarrow> cs_handler \<Rightarrow> string \<Rightarrow> string \<Rightarrow> (string, string) dict \<Rightarrow> ('x, unit) io" where
  "CloudShellHandler_set_resource_attributes svc cs resource_name namespace attributes =
     (let ns = namespace @ (if namespace \<noteq> [] then ''.'' else [])
      in api_call svc (rep_unit svc) cs
           (SetAttributesValues resource_name (map (\<lambda>(k, v). (ns @ k, v)) attributes)))"

definition CloudShellHandler_get_resource_commands ::
  "'e services_scheme \<Rightarrow> cs_handler \<Rightarrow> string \<Rightarrow> ('x, string list) io" where
  "CloudShellHandler_get_resource_commands svc cs resource_name =
     api_call svc (rep_strs svc) cs (GetResourceCommands resource_name)"

text \<open>\<^verbatim>\<open>except CloudShellAPIError as e: if "The PyPi server ..." in str(e): raise
  DependenciesBrokenError() from e; raise e\<close>\<close>

definition pypi_down_msg :: string where
  "pypi_down_msg = ''The PyPi server process might be down or inaccessible''"

definition translate_pypi_error :: "exn \<Rightarrow> exn" where
  "translate_pypi_error e =
     (if is_CloudShellAPIError e \<and> contains pypi_down_msg (exn_str e) then DependenciesBrokenError
      else e)"

definition CloudShellHandler_resource_autoload ::
  "'e services_scheme \<Rightarrow> cs_handler \<Rightarrow> string \<Rightarrow> ('x, unit) io" where
  "CloudShellHandler_resource_autoload svc cs resource_name =
     try_except (api_call svc (rep_unit svc) cs (AutoLoad resource_name))
       (\<lambda>e. raise_exn (translate_pypi_error e))"

definition CloudShellHandler_update_driver_for_the_resource ::
  "'e services_scheme \<Rightarrow> cs_handler \<Rightarrow> string \<Rightarrow> string \<Rightarrow> ('x, unit) io" where
  "CloudShellHandler_update_driver_for_the_resource svc cs resource_name driver_name =
     api_call svc (rep_unit svc) cs (UpdateResourceDriver resource_name driver_name)"

definition CloudShellHandler_add_resource_to_reservation ::
  "'e services_scheme \<Rightarrow> cs_handler \<Rightarrow> string \<Rightarrow> string \<Rightarrow> ('x, unit) io" where
  "CloudShellHandler_add_resource_to_reservation svc cs reservation_id resource_name =
     api_call svc (rep_unit svc) cs (AddResourcesToReservation reservation_id [resource_name])"

definition CloudShellHandler_remove_resource_from_reservation ::
  "'e services_scheme \<Rightarrow> cs_handler \<Rightarrow> string \<Rightarrow> string \<Rightarrow> ('x, unit) io" where
  "CloudShellHandler_remove_resource_from_reservation svc cs reservation_id resource_name =
     api_call svc (rep_unit svc) cs (RemoveResourcesFromReservation reservation_id [resource_name])"

definition CloudShellHandler_add_service_to_reservation ::
  "'e services_scheme \<Rightarrow> cs_handler \<Rightarrow> string \<Rightarrow> string \<Rightarrow> string \<Rightarrow> (string, string) dict \<Rightarrow> ('x, unit) io" where
  "CloudShellHandler_add_service_to_reservation svc cs reservation_id service_model service_name attributes =
     api_call svc (rep_unit svc) cs
       (AddServiceToReservation reservation_id service_model service_name
          (map (\<lambda>(k, v). (service_model @ ''.'' @ k, v)) attributes))"

definition CloudShellHandler_delete_resource :: "'e services_scheme \<Rightarrow> cs_handler \<Rightarrow> string \<Rightarrow> ('x, unit) io" where
  "CloudShellHandler_delete_resource svc cs resource_name =
     api_call svc (rep_unit svc) cs (DeleteResource resource_name)"

definition CloudShellHandler_get_resource_details ::
  "'e services_scheme \<Rightarrow> cs_handler \<Rightarrow> string \<Rightarrow> ('x, resource_info) io" where
  "CloudShellHandler_get_resource_details svc cs resource_name =
     api_call svc (rep_info svc) cs (GetResourceDetails resource_name)"

section \<open>Commands\<close>

definition CloudShellHandler_execute_command ::
  "'e services_scheme \<Rightarrow> cs_handler \<Rightarrow> string \<Rightarrow> string \<Rightarrow> string \<Rightarrow> string \<Rightarrow> (string, string) dict \<Rightarrow>
   ('x, string) io" where
  "CloudShellHandler_execute_command svc cs reservation_id target_name target_type command_name command_kwargs =
     try_except
       (api_call svc (rep_str svc) cs
          (ExecuteCommand reservation_id target_name target_type command_name command_kwargs))
       (\<lambda>e. raise_exn (translate_pypi_error e))"

definition CloudShellHandler_execute_command_on_resource ::
  "'e services_scheme \<Rightarrow> cs_handler \<Rightarrow> string \<Rightarrow> string \<Rightarrow> string \<Rightarrow> (string, string) dict \<Rightarrow> ('x, string) io" where
  "CloudShellHandler_execute_command_on_resource svc cs reservation_id resource_name =
     CloudShellHandler_execute_command svc cs reservation_id resource_name ''Resource''"

definition CloudShellHandler_execute_command_on_service ::
  "'e services_scheme \<Rightarrow> cs_handler \<Rightarrow> string \<Rightarrow> string \<Rightarrow> string \<Rightarrow> (string, string) dict \<Rightarrow> ('x, string) io" where
  "CloudShellHandler_execute_command_on_service svc cs reservation_id service_name =
     CloudShellHandler_execute_command svc cs reservation_id service_name ''Service''"

definition CloudShellHandler_execute_reservation_command ::
  "'e services_scheme \<Rightarrow> cs_handler \<Rightarrow> string \<Rightarrow> string \<Rightarrow> (string, string) dict option \<Rightarrow> ('x, string) io" where
  "CloudShellHandler_execute_reservation_command svc cs reservation_id command_name params =
     api_call svc (rep_str svc) cs
       (ExecuteEnvironmentCommand reservation_id command_name
          (case params of None \<Rightarrow> [] | Some ps \<Rightarrow> ps))"

section \<open>Topologies and connections\<close>

definition CloudShellHandler_get_topologies_by_category ::
  "'e services_scheme \<Rightarrow> cs_handler \<Rightarrow> string \<Rightarrow> ('x, string list) io" where
  "CloudShellHandler_get_topologies_by_category svc cs category_name =
     api_call svc (rep_strs svc) cs (GetTopologiesByCategory category_name)"

text \<open>Of the details of a topology the source reads the names of its apps.\<close>

definition CloudShellHandler_get_topology_details ::
  "'e services_scheme \<Rightarrow> cs_handler \<Rightarrow> string \<Rightarrow> ('x, string list) io" where
  "CloudShellHandler_get_topology_details svc cs topology_name =
     api_call svc (rep_strs svc) cs (GetTopologyDetails topology_name)"

definition CloudShellHandler_add_physical_connection ::
  "'e services_scheme \<Rightarrow> cs_handler \<Rightarrow> string \<Rightarrow> string \<Rightarrow> string \<Rightarrow> ('x, unit) io" where
  "CloudShellHandler_add_physical_connection svc cs reservation_id port1 port2 =
     api_call svc (rep_unit svc) cs (UpdatePhysicalConnection port1 port2)"

definition CloudShellHandler_connect_ports_with_connector ::
  "'e services_scheme \<Rightarrow> cs_handler \<Rightarrow> string \<Rightarrow> string \<Rightarrow> string \<Rightarrow> string \<Rightarrow> ('x, unit) io" where
  "CloudShellHandler_connect_ports_with_connector svc cs reservation_id port1 port2 connector_name =
     andthen
       (api_call svc (rep_unit svc) cs
          (SetConnectorsInReservation reservation_id [(port1, port2, ''bi'', connector_name)]))
       (api_call svc (rep_unit svc) cs
          (ConnectRoutesInReservation reservation_id [port1, port2] ''bi''))"

definition CloudShellHandler_remove_connector ::
  "'e services_scheme \<Rightarrow> cs_handler \<Rightarrow> string \<Rightarrow> string \<Rightarrow> string \<Rightarrow> ('x, unit) io" where
  "CloudShellHandler_remove_connector svc cs reservation_id port1 port2 =
     andthen
       (api_call svc (rep_unit svc) cs (DisconnectRoutesInReservation reservation_id [port1, port2]))
       (api_call svc (rep_unit svc) cs (RemoveConnectorsFromReservation reservation_id [port1, port2]))"

definition CloudShellHandler_get_resources_names_in_reservation ::
  "'e services_scheme \<Rightarrow> cs_handler \<Rightarrow> string \<Rightarrow> ('x, string list) io" where
  "CloudShellHandler_get_resources_names_in_reservation svc cs reservation_id =
     api_call svc (rep_strs svc) cs (GetReservationResourcesPositions reservation_id)"

definition CloudShellHandler_refresh_vm_details ::
  "'e services_scheme \<Rightarrow> cs_handler \<Rightarrow> string \<Rightarrow> string list \<Rightarrow> ('x, unit) io" where
  "CloudShellHandler_refresh_vm_details svc cs reservation_id app_names =
     api_call svc (rep_unit svc) cs (RefreshVMDetails reservation_id app_names)"

section \<open>Sessions\<close>

text \<open>The handler's automation session is open.\<close>

definition connected :: "cs_handler \<Rightarrow> 'x world_scheme \<Rightarrow> bool" where
  "connected cs w \<longleftrightarrow> csh_oid cs \<in> set (api_cached w)"

abbreviation add_events :: "event list \<Rightarrow> 'x world_scheme \<Rightarrow> 'x world_scheme" where
  "add_events es w \<equiv> w\<lparr>hist := hist w @ es\<rparr>"

lemma connected_hist [simp]: "connected cs (w\<lparr>hist := h\<rparr>) = connected cs w"
  by (simp add: connected_def)

lemma api_connected [run_simps]: "connected cs w \<Longrightarrow> CloudShellHandler_api svc cs w = (Inr (), w)"
  by (simp add: CloudShellHandler_api_def connected_def run_simps)

lemma api_call_connected [run_simps]:
  "connected cs w \<Longrightarrow> api_call svc rep cs c w =
     (rep (hist w) (Api (csh_host cs) c), add_events [Api (csh_host cs) c] w)"
  by (simp add: api_call_def run_simps)

lemma get_status_connected [run_simps]:
  "connected cs w \<Longrightarrow> CloudShellHandler_get_reservation_status svc cs rid w =
     (rep_status svc (hist w) (Api (csh_host cs) (GetReservationStatus rid)),
      add_events [Api (csh_host cs) (GetReservationStatus rid)] w)"
  by (simp add: CloudShellHandler_get_reservation_status_def run_simps)

text \<open>Sessions stay open: a preorder on states that every statement of the handler keeps.\<close>

definition sessions_stay :: "'x world_scheme \<Rightarrow> 'x world_scheme \<Rightarrow> bool" where
  "sessions_stay w w' \<longleftrightarrow> set (api_cached w) \<subseteq> set (api_cached w')"

interpretation sessions: state_preorder sessions_stay
  by unfold_locales (auto simp: sessions_stay_def)

lemma sessions_stay_ask: "keeps sessions_stay (ask rep ev)"
  by (rule keepsI) (simp add: run_simps sessions_stay_def)

lemma sessions_stay_sleep: "keeps sessions_stay (sleep n)"
  by (rule keepsI) (simp add: run_simps sessions_stay_def)

lemma sessions_stay_api: "keeps sessions_stay (CloudShellHandler_api svc cs)"
  by (rule keepsI) (auto simp: CloudShellHandler_api_def run_simps sessions_stay_def split: sum.splits)

lemma sessions_stay_api_call: "keeps sessions_stay (api_call svc rep cs c)"
  unfolding api_call_def by (intro sessions.keeps_andthen sessions_stay_api sessions_stay_ask)

lemmas stays = sessions.keeps_ret sessions.keeps_raise sessions.keeps_of_result sessions.keeps_get_state
  sessions.keeps_bnd sessions.keeps_andthen sessions.keeps_if sessions.keeps_map_m sessions.keeps_for_each
  sessions.keeps_try_except sessions.keeps_try_except_else sessions.keeps_try_finally
  sessions_stay_ask sessions_stay_sleep sessions_stay_api sessions_stay_api_call

lemma connected_stay: "keeps sessions_stay m \<Longrightarrow> m w = (r, w') \<Longrightarrow> connected cs w \<Longrightarrow> connected cs w'"
  using keepsD [of sessions_stay m w r w'] by (auto simp: sessions_stay_def connected_def)

lemma api_call_connects:
  assumes "api_call svc rep cs c w = (Inr x, w')"
  shows "connected cs w'"
  using assms
  by (auto simp: api_call_def CloudShellHandler_api_def run_simps connected_def split: sum.splits if_splits)

text \<open>A call issues itself and, if the session is not open, its opening.\<close>

definition api_events :: "cs_handler \<Rightarrow> api_call set \<Rightarrow> event set" where
  "api_events cs A =
     Api (csh_host cs) ` insert (ApiConnect (csc_user (csh_conf cs)) (csc_password (csh_conf cs))
                              (csc_domain (csh_conf cs))) A"

lemma issues_api_call [footprint]: "c \<in> A \<Longrightarrow> issues (api_events cs A) (api_call svc rep cs c)"
  unfolding api_call_def CloudShellHandler_api_def
  by (intro footprint issues_modify) (auto simp: api_events_def)

section \<open>Bounded waiting\<close>

text \<open>The events of \<open>k\<close> rounds that found nothing: the probe and a pause.\<close>

definition rounds :: "event \<Rightarrow> int \<Rightarrow> nat \<Rightarrow> event list" where
  "rounds ev pause k = concat (replicate k [ev, Sleep pause])"

lemma rounds_simps [simp]:
  "rounds ev p 0 = []"
  "rounds ev p (Suc k) = [ev, Sleep p] @ rounds ev p k"
  by (simp_all add: rounds_def)

text \<open>The three waiting loops share one shape: probe, and pause and go on after a reply that
  leaves the matter open, up to a number of rounds. Their course: the first \<open>k\<close> probes leave it
  open, and either all rounds are used up or the next reply is the one that counts.\<close>

locale bounded_wait =
  fixes loop :: "nat \<Rightarrow> ('x, unit) io"
    and probe :: "('x, 'a) io"
    and ev :: event
    and pause :: int
    and again :: "exn + 'a \<Rightarrow> bool"
    and fin :: "exn + 'a \<Rightarrow> ('x, unit) io"
    and exhausted :: exn
    and ok :: "'x world_scheme \<Rightarrow> bool"
  assumes loop_0: "loop 0 = raise_exn exhausted"
    and loop_Suc: "loop (Suc n) w =
      (case probe w of (q, w1) \<Rightarrow> if again q then loop n (add_events [Sleep pause] w1) else fin q w1)"
    and probe_again: "ok w \<Longrightarrow> probe w = (q, w1) \<Longrightarrow> again q \<Longrightarrow> w1 = add_events [ev] w"
    and ok_add: "ok w \<Longrightarrow> ok (add_events es w)"
begin

lemma course:
  assumes "ok w" and "loop n w = (r, w')"
  shows "\<exists>k \<le> n.
    (\<forall>i < k. again (fst (probe (add_events (rounds ev pause i) w)))) \<and>
    (k = n \<and> r = Inl exhausted \<and> w' = add_events (rounds ev pause n) w \<or>
     k < n \<and> (case probe (add_events (rounds ev pause k) w) of (q, w1) \<Rightarrow> \<not> again q \<and> fin q w1 = (r, w')))"
  using assms
proof (induction n arbitrary: w)
  case 0
  then show ?case by (intro exI [of _ 0]) (simp add: loop_0 run_simps)
next
  case (Suc n)
  obtain q w1 where p: "probe w = (q, w1)" by (cases "probe w")
  let ?w2 = "add_events [ev, Sleep pause] w"
  have shift: "add_events (rounds ev pause i) ?w2 = add_events (rounds ev pause (Suc i)) w" for i
    by simp
  show ?case
  proof (cases "again q")
    case True
    have "w1 = add_events [ev] w" using Suc.prems(1) p True by (rule probe_again)
    then have "add_events [Sleep pause] w1 = ?w2" by simp
    with True p Suc.prems(2) have l2: "loop n ?w2 = (r, w')"
      by (simp add: loop_Suc)
    have ok2: "ok ?w2" using Suc.prems(1) by (rule ok_add)
    from Suc.IH [OF ok2 l2] show ?thesis
    proof (elim exE conjE)
      fix k
      assume k: "k \<le> n"
        and before0: "\<forall>i < k. again (fst (probe (add_events (rounds ev pause i) ?w2)))"
        and after0: "k = n \<and> r = Inl exhausted \<and> w' = add_events (rounds ev pause n) ?w2 \<or>
           k < n \<and> (case probe (add_events (rounds ev pause k) ?w2) of
              (q, w1) \<Rightarrow> \<not> again q \<and> fin q w1 = (r, w'))"
      note before = before0 [unfolded shift] and after = after0 [unfolded shift]
      have "again (fst (probe (add_events (rounds ev pause i) w)))" if "i < Suc k" for i
        using that True p before by (cases i) simp_all
      with k after show ?thesis by (intro exI [of _ "Suc k"]) auto
    qed
  next
    case False
    with p Suc.prems show ?thesis
      by (intro exI [of _ 0]) (simp add: loop_Suc)
  qed
qed

end

definition status_event :: "cs_handler \<Rightarrow> string \<Rightarrow> event" where
  "status_event cs rid = Api (csh_host cs) (GetReservationStatus rid)"

definition connect_event :: "cs_handler \<Rightarrow> event" where
  "connect_event cs = Api (csh_host cs)
     (ApiConnect (csc_user (csh_conf cs)) (csc_password (csh_conf cs)) (csc_domain (csh_conf cs)))"

definition not_started :: "string \<Rightarrow> exn" where
  "not_started rid = CreationReservationError (''The reservation '' @ rid @ '' doesn'' @ [quote] @ ''t started'')"

definition cannot_end :: exn where
  "cannot_end = BaseAutomationException (''Can'' @ [quote] @ ''t end reservation'')"

text \<open>What the loops do with the reply that ends them.\<close>

definition start_decided ::
  "'e services_scheme \<Rightarrow> cs_handler \<Rightarrow> string \<Rightarrow> exn + slim_status \<Rightarrow> ('x, unit) io" where
  "start_decided svc cs rid q =
     (case q of
        Inl e \<Rightarrow> raise_exn e
      | Inr status \<Rightarrow>
          if reservation_started status then ret ()
          else bnd (CloudShellHandler_get_reservation_errors svc cs rid) (\<lambda>errors.
                 raise_exn (CreationReservationError (errors_str errors))))"

fun undecided :: "exn + slim_status \<Rightarrow> bool" where
  "undecided (Inl e) = False"
| "undecided (Inr st) = (\<not> reservation_started st \<and> ProvisioningStatus st \<noteq> ''Error'')"

fun not_completed :: "exn + slim_status \<Rightarrow> bool" where
  "not_completed (Inl e) = False"
| "not_completed (Inr st) = (Status st \<noteq> ''Completed'')"

fun not_reachable :: "exn + unit \<Rightarrow> bool" where
  "not_reachable (Inl e) = is_connection_error e"
| "not_reachable (Inr _) = False"

lemma status_probe_connected:
  "connected cs w \<Longrightarrow> CloudShellHandler_get_reservation_status svc cs rid w =
     (rep_status svc (hist w) (status_event cs rid), add_events [status_event cs rid] w)"
  by (simp add: status_event_def run_simps)

interpretation starting: bounded_wait "\<lambda>n. wait_started_loop n svc cs rid"
    "CloudShellHandler_get_reservation_status svc cs rid" "status_event cs rid" 30 undecided
    "start_decided svc cs rid" "not_started rid" "connected cs"
  for svc :: "'e services_scheme" and cs rid
proof unfold_locales
  fix n and w :: "'a world_scheme"
  show "wait_started_loop (Suc n) svc cs rid w =
      (case CloudShellHandler_get_reservation_status svc cs rid w of
         (q, w1) \<Rightarrow> if undecided q then wait_started_loop n svc cs rid (add_events [Sleep 30] w1)
                    else start_decided svc cs rid q w1)"
    by (auto simp: run_simps start_decided_def split: prod.splits sum.splits)
qed (auto simp: not_started_def status_probe_connected)

interpretation ending: bounded_wait "\<lambda>n. wait_ended_loop n svc cs rid"
    "CloudShellHandler_get_reservation_status svc cs rid" "status_event cs rid" 30 not_completed
    "\<lambda>q. of_result (map_sum id (\<lambda>_. ()) q)" cannot_end "connected cs"
  for svc :: "'e services_scheme" and cs rid
proof unfold_locales
  fix n and w :: "'a world_scheme"
  show "wait_ended_loop (Suc n) svc cs rid w =
      (case CloudShellHandler_get_reservation_status svc cs rid w of
         (q, w1) \<Rightarrow> if not_completed q then wait_ended_loop n svc cs rid (add_events [Sleep 30] w1)
                    else of_result (map_sum id (\<lambda>_. ()) q) w1)"
    by (auto simp: run_simps split: prod.splits sum.splits)
qed (auto simp: cannot_end_def status_probe_connected)

lemma is_connection_error_NoReturn [simp]: "\<not> is_connection_error NoReturn"
  by simp

lemma api_not_connected:
  "\<not> connected cs w \<Longrightarrow> CloudShellHandler_api svc cs w =
     (case rep_unit svc (hist w) (connect_event cs) of
        Inl e \<Rightarrow> (Inl e, add_events [connect_event cs] w)
      | Inr _ \<Rightarrow> (Inr (), (add_events [connect_event cs] w)\<lparr>api_cached := csh_oid cs # api_cached w\<rparr>))"
  by (simp add: CloudShellHandler_api_def connected_def connect_event_def run_simps split: sum.splits)

interpretation connecting: bounded_wait "\<lambda>n. wait_for_cs_loop n svc cs"
    "CloudShellHandler_api svc cs" "connect_event cs" 10 not_reachable of_result CSIsNotAliveError
    "\<lambda>w. \<not> connected cs w"
  for svc :: "'e services_scheme" and cs
proof unfold_locales
  fix n and w :: "'a world_scheme"
  show "wait_for_cs_loop (Suc n) svc cs w =
      (case CloudShellHandler_api svc cs w of
         (q, w1) \<Rightarrow> if not_reachable q then wait_for_cs_loop n svc cs (add_events [Sleep 10] w1)
                    else of_result q w1)"
    by (auto simp: run_simps split: prod.splits sum.splits)
next
  fix w w1 :: "'a world_scheme" and q
  assume "\<not> connected cs w" "CloudShellHandler_api svc cs w = (q, w1)" "not_reachable q"
  then show "w1 = add_events [connect_event cs] w"
    by (cases q) (simp_all add: api_not_connected split: sum.splits)
qed auto

section \<open>Searching for a free name\<close>

text \<open>Both searches: an attempt that the server answers with error 114 is repeated under the next
  generated name.\<close>

locale name_search =
  fixes search :: "nat \<Rightarrow> string \<Rightarrow> ('x, string) io"
    and rep :: "event list \<Rightarrow> event \<Rightarrow> exn + unit"
    and ev :: "string \<Rightarrow> event"
    and ok :: "'x world_scheme \<Rightarrow> bool"
  assumes search_Suc: "ok w \<Longrightarrow> search (Suc fuel) name w =
      (case rep (hist w) (ev name) of
         Inl e \<Rightarrow> if has_code ''114'' e
                  then search fuel (generate_new_resource_name name) (add_events [ev name] w)
                  else (Inl e, add_events [ev name] w)
       | Inr _ \<Rightarrow> (Inr name, add_events [ev name] w))"
    and ok_add: "ok w \<Longrightarrow> ok (add_events es w)"
begin

lemma ends_within:
  assumes free: "\<forall>h n e. n \<notin> T \<longrightarrow> rep h (ev n) = Inl e \<longrightarrow> \<not> has_code ''114'' e"
    and "ok w" and "(generate_new_resource_name ^^ j) name \<notin> T"
  shows "\<exists>i r. (\<forall>fuel > i. search fuel name w =
      (r, add_events (map (\<lambda>m. ev ((generate_new_resource_name ^^ m) name)) [0..<Suc i]) w)) \<and>
    (r = Inr ((generate_new_resource_name ^^ i) name) \<or>
     (\<exists>e. r = Inl e \<and> \<not> has_code ''114'' e \<and>
        rep (hist w @ map (\<lambda>m. ev ((generate_new_resource_name ^^ m) name)) [0..<i])
          (ev ((generate_new_resource_name ^^ i) name)) = Inl e))"
  using assms(2,3)
proof (induction j arbitrary: name w)
  case 0
  with free have "rep (hist w) (ev name) = Inl e \<Longrightarrow> \<not> has_code ''114'' e" for e by simp
  with 0 show ?case
    by (intro exI [of _ 0] exI [of _ "map_sum id (\<lambda>_. name) (rep (hist w) (ev name))"])
       (cases "rep (hist w) (ev name)"; auto simp: gr0_conv_Suc search_Suc)
next
  case (Suc j)
  let ?g = generate_new_resource_name
  let ?w1 = "add_events [ev name] w"
  show ?case
  proof (cases "\<exists>e. rep (hist w) (ev name) = Inl e \<and> has_code ''114'' e")
    case True
    have ok1: "ok ?w1" using Suc.prems(1) by (rule ok_add)
    have "(?g ^^ j) (?g name) \<notin> T" using Suc.prems(2) by (simp add: funpow_swap1)
    from Suc.IH [OF ok1 this] obtain i r where run: "\<forall>fuel > i. search fuel (?g name) ?w1 =
        (r, add_events (map (\<lambda>m. ev ((?g ^^ m) (?g name))) [0..<Suc i]) ?w1)"
      and res: "r = Inr ((?g ^^ i) (?g name)) \<or> (\<exists>e. r = Inl e \<and> \<not> has_code ''114'' e \<and>
        rep (hist ?w1 @ map (\<lambda>m. ev ((?g ^^ m) (?g name))) [0..<i]) (ev ((?g ^^ i) (?g name))) = Inl e)"
      by blast
    have shift: "(?g ^^ m) (?g name) = (?g ^^ Suc m) name" for m by (simp add: funpow_swap1)
    have names: "ev name # map (\<lambda>m. ev ((?g ^^ Suc m) name)) [0..<k] =
        map (\<lambda>m. ev ((?g ^^ m) name)) [0..<Suc k]" for k
      by (simp add: map_upt_Suc del: upt_Suc)
    have "search fuel name w =
        (r, add_events (map (\<lambda>m. ev ((?g ^^ m) name)) [0..<Suc (Suc i)]) w)" if "fuel > Suc i" for fuel
    proof -
      obtain f where f: "fuel = Suc f" "f > i" using \<open>fuel > Suc i\<close> by (cases fuel) auto
      with True Suc.prems(1) have "search fuel name w = search f (?g name) ?w1" by (auto simp: search_Suc)
      also have "\<dots> = (r, add_events (map (\<lambda>m. ev ((?g ^^ Suc m) name)) [0..<Suc i]) ?w1)"
        using run f(2) unfolding shift by blast
      finally show ?thesis by (simp add: names [symmetric] del: upt_Suc funpow.simps)
    qed
    moreover have "r = Inr ((?g ^^ Suc i) name) \<or> (\<exists>e. r = Inl e \<and> \<not> has_code ''114'' e \<and>
        rep (hist w @ map (\<lambda>m. ev ((?g ^^ m) name)) [0..<Suc i]) (ev ((?g ^^ Suc i) name)) = Inl e)"
      using res unfolding shift by (simp add: names [symmetric] del: upt_Suc funpow.simps)
    ultimately show ?thesis by blast
  next
    case False
    with Suc.prems(1) show ?thesis
      by (intro exI [of _ 0] exI [of _ "map_sum id (\<lambda>_. name) (rep (hist w) (ev name))"])
         (cases "rep (hist w) (ev name)"; auto simp: gr0_conv_Suc search_Suc)
  qed
qed

lemma ends:
  assumes "ok w" and "finite T"
    and "\<forall>h n e. n \<notin> T \<longrightarrow> rep h (ev n) = Inl e \<longrightarrow> \<not> has_code ''114'' e"
  shows "\<exists>i r. (\<forall>fuel > i. search fuel name w =
      (r, add_events (map (\<lambda>m. ev ((generate_new_resource_name ^^ m) name)) [0..<Suc i]) w)) \<and>
    (r = Inr ((generate_new_resource_name ^^ i) name) \<or>
     (\<exists>e. r = Inl e \<and> \<not> has_code ''114'' e \<and>
        rep (hist w @ map (\<lambda>m. ev ((generate_new_resource_name ^^ m) name)) [0..<i])
          (ev ((generate_new_resource_name ^^ i) name)) = Inl e))"
  using generated_leave_finite [OF assms(2)] ends_within [OF assms(3,1)] by blast

end

interpretation creating: name_search
    "\<lambda>fuel name. CloudShellHandler_create_resource fuel svc cs name model address family parent True"
    "rep_unit svc" "\<lambda>name. Api (csh_host cs) (CreateResource family model name address parent)"
    "connected cs"
  for svc :: "'e services_scheme" and cs model address family parent
  by unfold_locales
     (auto simp: CloudShellHandler_create_resource_def run_simps split: prod.splits sum.splits)

interpretation renaming: name_search
    "\<lambda>fuel name. CloudShellHandler_rename_resource fuel svc cs current name"
    "rep_unit svc" "\<lambda>name. Api (csh_host cs) (RenameResource current name)"
    "connected cs"
  for svc :: "'e services_scheme" and cs current
  by unfold_locales (auto simp: run_simps split: prod.splits sum.splits)

section \<open>Updating an installed shell\<close>

lemma greedy_until_no_quote: "quote \<notin> set s \<Longrightarrow> greedy_until exists_suffix s = None"
proof (induction s)
  case Nil
  show ?case by simp
next
  case (Cons c s)
  then have "\<not> prefix exists_suffix s"
    by (auto simp: exists_suffix_def prefix_def)
  with Cons show ?case by simp
qed

lemma greedy_until_name:
  assumes "name \<noteq> []" and "newline \<notin> set name" and "quote \<notin> set post"
  shows "greedy_until exists_suffix (name @ exists_suffix @ post) = Some name"
  using assms
proof (induction name)
  case Nil
  then show ?case by simp
next
  case (Cons c name)
  show ?case
  proof (cases "name = []")
    case True
    have "greedy_until exists_suffix ('' already exists'' @ post) = None"
      using assms(3) by (intro greedy_until_no_quote) auto
    moreover have "\<not> prefix exists_suffix ('' already exists'' @ post)"
      by (auto simp: exists_suffix_def)
    ultimately have "greedy_until exists_suffix (exists_suffix @ post) = None"
      by (simp add: exists_suffix_def)
    with True Cons.prems show ?thesis by simp
  next
    case False
    with Cons show ?thesis by auto
  qed
qed

lemma search_existing_name_found:
  assumes "quote \<notin> set pre" and "name \<noteq> []" and "newline \<notin> set name" and "quote \<notin> set post"
  shows "search_existing_name (pre @ named_prefix @ name @ exists_suffix @ post) = Some name"
  using assms(1)
proof (induction pre)
  case Nil
  let ?rest = "name @ exists_suffix @ post"
  have "greedy_until exists_suffix (drop (length named_prefix) (named_prefix @ ?rest)) = Some name"
    using greedy_until_name [OF assms(2-4)] by simp
  moreover obtain c t where ct: "named_prefix @ ?rest = c # t" by (cases "named_prefix @ ?rest") (auto simp: named_prefix_def)
  moreover have "prefix named_prefix (named_prefix @ ?rest)" by simp
  ultimately have "search_existing_name (c # t) = Some name"
    by (simp del: drop_append)
  with ct show ?case by simp
next
  case (Cons c pre)
  let ?rest = "name @ exists_suffix @ post"
  let ?u = "(c # pre) @ ''named ''"
  have "\<not> prefix named_prefix (?u @ quote # ?rest)"
  proof
    assume "prefix named_prefix (?u @ quote # ?rest)"
    then obtain zs where eq: "?u @ quote # ?rest = named_prefix @ zs" by (elim prefixE)
    have "named_prefix = take 7 (?u @ quote # ?rest)"
      unfolding eq by (simp add: named_prefix_def)
    also have "\<dots> = take 7 ?u @ take (7 - length ?u) (quote # ?rest)" by (rule take_append)
    also have "7 - length ?u = 0" by simp
    also have "take 7 ?u @ take 0 (quote # ?rest) = take 7 ?u" by (simp only: take_0 append_Nil2)
    finally have "set named_prefix = set (take 7 ?u)" by (rule arg_cong)
    moreover have "quote \<in> set named_prefix" by (simp add: named_prefix_def)
    ultimately have "quote \<in> set (take 7 ?u)" by blast
    then have "quote \<in> set ?u" by (meson in_set_takeD)
    with Cons.prems show False by simp
  qed
  then have "\<not> prefix named_prefix (c # pre @ named_prefix @ ?rest)"
    by (simp add: named_prefix_def)
  with Cons show ?case by simp
qed

lemma rest_call_connected [run_simps]:
  "csh_oid cs \<in> set (rest_cached w) \<Longrightarrow> rest_call svc rep cs c w =
     (rep (hist w) (Rest (csh_host cs) c), add_events [Rest (csh_host cs) c] w)"
  by (simp add: rest_call_def CloudShellHandler_rest_api_def run_simps)

lemma install_shell_once_updates:
  assumes "csh_oid cs \<in> set (rest_cached w)"
    and "rep_unit svc (hist w) (Rest (csh_host cs) (AddShell path)) = Inl e" and "is_Exception e"
    and "exn_arg0 e = pre @ named_prefix @ name @ exists_suffix @ post"
    and "quote \<notin> set pre" and "name \<noteq> []" and "newline \<notin> set name" and "quote \<notin> set post"
  shows "install_shell_once svc cs path w =
    (rep_unit svc (hist w @ [Rest (csh_host cs) (AddShell path)]) (Rest (csh_host cs) (UpdateShell path name)),
     add_events [Rest (csh_host cs) (AddShell path), Rest (csh_host cs) (UpdateShell path name)] w)"
proof -
  have "exists_suffix = [quote, CHR '' ''] @ ''already exists''" by (simp add: exists_suffix_def)
  then have "contains ''already exists'' (exn_arg0 e)"
    unfolding assms(4) contains_iff
    by (intro exI [of _ "pre @ named_prefix @ name @ [quote, CHR '' '']"] exI [of _ post]) simp
  moreover have "search_existing_name (exn_arg0 e) = Some name"
    unfolding assms(4) using assms(5-8) by (rule search_existing_name_found)
  moreover have "e \<noteq> NoReturn" using assms(3) by auto
  ultimately show ?thesis
    using assms(1-3) by (simp add: install_shell_once_def run_simps)
qed

section \<open>Properties\<close>

text \<open>C14. Waiting for a reservation, on an open session: the first \<open>k\<close> statuses, at most sixty of
  them and each followed by a pause of thirty seconds, are neither started nor in error. If
  they are all sixty the reservation counts as not started and \<^verbatim>\<open>CreationReservationError\<close> is
  raised. Otherwise the next status call decides: its exception is raised, a started
  reservation returns, and a reservation in error raises \<^verbatim>\<open>CreationReservationError\<close> with the
  errors of its activity feed (or the exception that fetching them raises). Started is
  \<^verbatim>\<open>Ready\<close>, or \<^verbatim>\<open>Not Run\<close> with the status \<^verbatim>\<open>Started\<close>. Nothing else is called.\<close>

theorem wait_reservation_is_started_course:
  assumes "connected cs w"
    and "CloudShellHandler_wait_reservation_is_started svc cs rid w = (r, w')"
  shows "\<exists>k \<le> 60.
    (\<forall>i < k. \<exists>st. rep_status svc (hist w @ rounds (status_event cs rid) 30 i) (status_event cs rid) = Inr st \<and>
       \<not> reservation_started st \<and> ProvisioningStatus st \<noteq> ''Error'') \<and>
    (k = 60 \<and> r = Inl (not_started rid) \<and> w' = add_events (rounds (status_event cs rid) 30 60) w \<or>
     k < 60 \<and>
     (let w1 = add_events (rounds (status_event cs rid) 30 k @ [status_event cs rid]) w
      in case rep_status svc (hist w @ rounds (status_event cs rid) 30 k) (status_event cs rid) of
           Inl e \<Rightarrow> r = Inl e \<and> w' = w1
         | Inr st \<Rightarrow>
             if reservation_started st then r = Inr () \<and> w' = w1
             else ProvisioningStatus st = ''Error'' \<and>
               (case get_reservation_errors svc (csh_conf cs) rid w1 of
                  (Inl e, w2) \<Rightarrow> r = Inl e \<and> w' = w2
                | (Inr errors, w2) \<Rightarrow>
                    r = Inl (CreationReservationError (errors_str errors)) \<and> w' = w2)))"
proof -
  have "wait_started_loop 60 svc cs rid w = (r, w')"
    using assms(2) by (simp add: CloudShellHandler_wait_reservation_is_started_def)
  from starting.course [OF assms(1) this] show ?thesis
  proof (elim exE conjE, intro exI conjI)
    fix k :: nat
    assume before: "\<forall>i < k. undecided (fst (CloudShellHandler_get_reservation_status svc cs rid
        (add_events (rounds (status_event cs rid) 30 i) w)))"
    show "\<forall>i < k. \<exists>st. rep_status svc (hist w @ rounds (status_event cs rid) 30 i) (status_event cs rid) = Inr st \<and>
       \<not> reservation_started st \<and> ProvisioningStatus st \<noteq> ''Error''"
    proof (intro allI impI)
      fix i
      assume "i < k"
      with before assms(1)
      have "undecided (rep_status svc (hist w @ rounds (status_event cs rid) 30 i) (status_event cs rid))"
        by (simp add: status_probe_connected)
      then show "\<exists>st. rep_status svc (hist w @ rounds (status_event cs rid) 30 i) (status_event cs rid) = Inr st \<and>
         \<not> reservation_started st \<and> ProvisioningStatus st \<noteq> ''Error''"
        by (rule undecided.elims) auto
    qed
  qed (auto simp: assms(1) status_probe_connected start_decided_def run_simps Let_def
      CloudShellHandler_get_reservation_errors_def split: sum.splits if_splits prod.splits)
qed

text \<open>Inputs of the evaluations: the handler of the configuration in the repository's tests, a state
  in which its sessions are open, and services whose reservations stay in \<^verbatim>\<open>Setup\<close>.\<close>

definition do_example :: cs_handler where
  "do_example = \<lparr>csh_conf = \<lparr>csc_host = ''192.168.1.3'', csc_user = ''do_admin'',
     csc_password = ''do_password'', csc_os_user = [], csc_os_password = [],
     csc_domain = ''do_domain''\<rparr>, csh_oid = 0\<rparr>"

definition open_world :: world where
  "open_world = init_world\<lparr>api_cached := [0], rest_cached := [0], next_oid := 1\<rparr>"

definition setup_services :: services where
  "setup_services = obliging_services\<lparr>rep_status := (\<lambda>h ev. Inr (SlimStatus ''Setup'' ''Completed''))\<rparr>"

lemma connected_example [simp]: "connected do_example open_world"
  by (simp add: connected_def do_example_def open_world_def init_world_def)

theorem wait_reservation_is_started_course_witness:
  "CloudShellHandler_wait_reservation_is_started setup_services do_example ''f91adb5c'' open_world =
     (Inl (not_started ''f91adb5c''),
      add_events (rounds (status_event do_example ''f91adb5c'') 30 60) open_world)"
proof -
  obtain r w' where run: "CloudShellHandler_wait_reservation_is_started setup_services do_example
      ''f91adb5c'' open_world = (r, w')"
    by (cases "CloudShellHandler_wait_reservation_is_started setup_services do_example
      ''f91adb5c'' open_world")
  show ?thesis
    using wait_reservation_is_started_course [OF connected_example run] run
    by (auto simp: setup_services_def reservation_started_def Let_def)
qed

lemma wait_ended_course:
  assumes "connected cs w" and "wait_ended_loop 30 svc cs rid w = (r, w')" and "ev = status_event cs rid"
  shows "\<exists>k \<le> 30.
     (\<forall>i < k. \<exists>st. rep_status svc (hist w @ rounds ev 30 i) ev = Inr st \<and> Status st \<noteq> ''Completed'') \<and>
     (k = 30 \<and> r = Inl cannot_end \<and> w' = add_events (rounds ev 30 30) w \<or>
      k < 30 \<and> w' = add_events (rounds ev 30 k @ [ev]) w \<and>
      (case rep_status svc (hist w @ rounds ev 30 k) ev of
         Inl e \<Rightarrow> r = Inl e
       | Inr st \<Rightarrow> Status st = ''Completed'' \<and> r = Inr ()))"
proof -
  have probes: "CloudShellHandler_get_reservation_status svc cs rid (add_events es w) =
      (rep_status svc (hist w @ es) ev, add_events (es @ [ev]) w)" for es
    using assms(1,3) by (simp add: status_probe_connected)
  have unfinished: "\<exists>st. q = Inr st \<and> Status st \<noteq> ''Completed''" if "not_completed q" for q
    using that by (rule not_completed.elims) auto
  show ?thesis
    using ending.course [OF assms(1,2)] unfolding assms(3) [symmetric] probes
    by (elim exE conjE) (rule exI, intro conjI, assumption, simp add: unfinished,
        auto simp: run_simps split: sum.splits)
qed

text \<open>C33. Ending a reservation, on an open session: the reservation is asked to end first, and the
  exception of that call is raised. Without waiting nothing else is called. With waiting, the
  status is read until it is \<^verbatim>\<open>Completed\<close>, at most thirty times and thirty seconds apart, and a
  reservation that is still not completed raises \<^verbatim>\<open>BaseAutomationException\<close>.\<close>

theorem end_reservation_course:
  assumes "connected cs w"
    and "CloudShellHandler_end_reservation svc cs rid wait w = (r, w')"
  shows "case rep_unit svc (hist w) (Api (csh_host cs) (EndReservation rid)) of
      Inl e \<Rightarrow> r = Inl e \<and> w' = add_events [Api (csh_host cs) (EndReservation rid)] w
    | Inr _ \<Rightarrow>
        let w0 = add_events [Api (csh_host cs) (EndReservation rid)] w; ev = status_event cs rid
        in if \<not> wait then r = Inr () \<and> w' = w0
           else \<exists>k \<le> 30.
             (\<forall>i < k. \<exists>st. rep_status svc (hist w0 @ rounds ev 30 i) ev = Inr st \<and> Status st \<noteq> ''Completed'') \<and>
             (k = 30 \<and> r = Inl cannot_end \<and> w' = add_events (rounds ev 30 30) w0 \<or>
              k < 30 \<and> w' = add_events (rounds ev 30 k @ [ev]) w0 \<and>
              (case rep_status svc (hist w0 @ rounds ev 30 k) ev of
                 Inl e \<Rightarrow> r = Inl e
               | Inr st \<Rightarrow> Status st = ''Completed'' \<and> r = Inr ()))"
proof -
  let ?w0 = "add_events [Api (csh_host cs) (EndReservation rid)] w"
  have "connected cs ?w0" using assms(1) by simp
  note waiting = wait_ended_course [OF this _ refl, of svc rid r w']
  show ?thesis
    using assms waiting
    by (auto simp: CloudShellHandler_end_reservation_def run_simps Let_def split: sum.splits if_splits)
qed

theorem end_reservation_course_witness:
  "CloudShellHandler_end_reservation obliging_services do_example ''f91adb5c'' True open_world =
     (Inr (), add_events [Api ''192.168.1.3'' (EndReservation ''f91adb5c''),
        status_event do_example ''f91adb5c''] open_world)"
proof -
  obtain r w' where run: "CloudShellHandler_end_reservation obliging_services do_example
      ''f91adb5c'' True open_world = (r, w')"
    by (cases "CloudShellHandler_end_reservation obliging_services do_example ''f91adb5c'' True open_world")
  have host: "csh_host do_example = ''192.168.1.3''" by (simp add: do_example_def)
  have none_before: "(\<forall>i. \<not> i < k) \<longleftrightarrow> k = (0 :: nat)" for k by auto
  show ?thesis
    using end_reservation_course [OF connected_example run] run
    by (auto simp: Let_def host none_before)
qed

text \<open>C34. Creating a resource under a new name, on an open session: when only names of a finite set
  are taken (error 114), the search ends. It tries the name and the names generated from it, in
  order and each once, up to the \<open>i\<close>-th, and with more than \<open>i\<close> rounds of fuel returns that name or
  raises the other error that the server answered for it.\<close>

theorem create_resource_finds_name:
  assumes "connected cs w" and "finite T"
    and "\<forall>h n e. n \<notin> T \<longrightarrow>
      rep_unit svc h (Api (csh_host cs) (CreateResource family model n address parent)) = Inl e \<longrightarrow>
      \<not> has_code ''114'' e"
  shows "\<exists>i r.
    (\<forall>fuel > i. CloudShellHandler_create_resource fuel svc cs name model address family parent True w =
       (r, add_events (map (\<lambda>m. Api (csh_host cs)
              (CreateResource family model ((generate_new_resource_name ^^ m) name) address parent)) [0..<Suc i]) w)) \<and>
    (r = Inr ((generate_new_resource_name ^^ i) name) \<or>
     (\<exists>e. r = Inl e \<and> \<not> has_code ''114'' e \<and>
        rep_unit svc
          (hist w @ map (\<lambda>m. Api (csh_host cs)
             (CreateResource family model ((generate_new_resource_name ^^ m) name) address parent)) [0..<i])
          (Api (csh_host cs) (CreateResource family model ((generate_new_resource_name ^^ i) name) address parent)) = Inl e))"
  using creating.ends [OF assms] .

text \<open>Services on which some resource names are taken.\<close>

definition taken_services :: "string list \<Rightarrow> services" where
  "taken_services ns = obliging_services\<lparr>rep_unit := (\<lambda>h ev. case ev of
     Api _ (CreateResource _ _ n _ _) \<Rightarrow>
       if n \<in> set ns then Inl (CloudShellAPIError ''114'' ''exists'' ''exists'') else Inr ()
   | Api _ (RenameResource _ n) \<Rightarrow>
       if n \<in> set ns then Inl (CloudShellAPIError ''114'' ''exists'' ''exists'') else Inr ()
   | _ \<Rightarrow> Inr ())\<rparr>"

lemma taken_services_reply [simp]:
  "rep_unit (taken_services ns) h (Api a (CreateResource f m n b p)) =
     (if n \<in> set ns then Inl (CloudShellAPIError ''114'' ''exists'' ''exists'') else Inr ())"
  "rep_unit (taken_services ns) h (Api a (RenameResource c n)) =
     (if n \<in> set ns then Inl (CloudShellAPIError ''114'' ''exists'' ''exists'') else Inr ())"
  by (simp_all add: taken_services_def)

theorem create_resource_finds_name_witness:
  "\<exists>i. \<forall>fuel > i. \<exists>w'.
    CloudShellHandler_create_resource fuel (taken_services [''R1'']) do_example ''R1'' ''M'' ''1.1.1.1'' ''F'' [] True
      open_world = (Inr ((generate_new_resource_name ^^ i) ''R1''), w')"
proof -
  have T: "finite (set [''R1''])" by simp
  have free: "\<forall>h n e. n \<notin> set [''R1''] \<longrightarrow> rep_unit (taken_services [''R1'']) h
      (Api (csh_host do_example) (CreateResource ''F'' ''M'' n ''1.1.1.1'' [])) = Inl e \<longrightarrow> \<not> has_code ''114'' e"
    by simp
  from create_resource_finds_name [OF connected_example T free, of "''R1''"]
  show ?thesis
    by (elim exE conjE disjE) (auto intro!: exI split: if_splits)
qed

text \<open>Renaming a resource, on an open session: under the same condition the search ends. The
  new name and the names generated from it are tried in order, each once, and the one under which
  the resource was renamed is returned, unless another error of the server is raised.\<close>

theorem rename_resource_finds_name:
  assumes "connected cs w" and "finite T"
    and "\<forall>h n e. n \<notin> T \<longrightarrow>
      rep_unit svc h (Api (csh_host cs) (RenameResource current n)) = Inl e \<longrightarrow> \<not> has_code ''114'' e"
  shows "\<exists>i r.
    (\<forall>fuel > i. CloudShellHandler_rename_resource fuel svc cs current name w =
       (r, add_events (map (\<lambda>m. Api (csh_host cs)
              (RenameResource current ((generate_new_resource_name ^^ m) name))) [0..<Suc i]) w)) \<and>
    (r = Inr ((generate_new_resource_name ^^ i) name) \<or>
     (\<exists>e. r = Inl e \<and> \<not> has_code ''114'' e \<and>
        rep_unit svc
          (hist w @ map (\<lambda>m. Api (csh_host cs)
             (RenameResource current ((generate_new_resource_name ^^ m) name))) [0..<i])
          (Api (csh_host cs) (RenameResource current ((generate_new_resource_name ^^ i) name))) = Inl e))"
  using renaming.ends [OF assms] .

theorem rename_resource_finds_name_witness:
  "\<exists>i. \<forall>fuel > i. \<exists>w'.
    CloudShellHandler_rename_resource fuel (taken_services [''R1'']) do_example ''R0'' ''R1'' open_world =
      (Inr ((generate_new_resource_name ^^ i) ''R1''), w')"
proof -
  have T: "finite (set [''R1''])" by simp
  have free: "\<forall>h n e. n \<notin> set [''R1''] \<longrightarrow> rep_unit (taken_services [''R1'']) h
      (Api (csh_host do_example) (RenameResource ''R0'' n)) = Inl e \<longrightarrow> \<not> has_code ''114'' e"
    by simp
  from rename_resource_finds_name [OF connected_example T free, of "''R1''"]
  show ?thesis
    by (elim exE conjE disjE) (auto intro!: exI split: if_splits)
qed

text \<open>C37. Waiting for CloudShell, before a session is open: the session is tried at most ten times,
  ten seconds apart, and only connection errors (of the operating system or of the retrying HTTP
  pool) are passed over. If all ten are, \<^verbatim>\<open>CSIsNotAliveError\<close> is raised; otherwise the reply after
  \<open>k\<close> of them decides: another exception is raised, and an accepted session is kept open. On an open
  session nothing is called.\<close>

theorem wait_for_cs_is_started_course:
  "case CloudShellHandler_wait_for_cs_is_started svc cs w of (r, w') \<Rightarrow>
     if connected cs w then r = Inr () \<and> w' = w
     else \<exists>k \<le> 10.
       (\<forall>i < k. not_reachable (rep_unit svc (hist w @ rounds (connect_event cs) 10 i) (connect_event cs))) \<and>
       (k = 10 \<and> r = Inl CSIsNotAliveError \<and> w' = add_events (rounds (connect_event cs) 10 10) w \<or>
        k < 10 \<and>
        (let w1 = add_events (rounds (connect_event cs) 10 k @ [connect_event cs]) w
         in case rep_unit svc (hist w @ rounds (connect_event cs) 10 k) (connect_event cs) of
              Inl e \<Rightarrow> r = Inl e \<and> \<not> is_connection_error e \<and> w' = w1
            | Inr _ \<Rightarrow> r = Inr () \<and> connected cs w' \<and> w' = w1\<lparr>api_cached := csh_oid cs # api_cached w\<rparr>))"
proof (cases "connected cs w")
  case True
  then show ?thesis
    by (simp add: CloudShellHandler_wait_for_cs_is_started_def eval_nat_numeral run_simps)
next
  case False
  obtain r w' where run: "wait_for_cs_loop 10 svc cs w = (r, w')"
    by (cases "wait_for_cs_loop 10 svc cs w")
  have probe: "CloudShellHandler_api svc cs (add_events es w) =
     (case rep_unit svc (hist w @ es) (connect_event cs) of
        Inl e \<Rightarrow> (Inl e, add_events (es @ [connect_event cs]) w)
      | Inr _ \<Rightarrow> (Inr (), (add_events (es @ [connect_event cs]) w)\<lparr>api_cached := csh_oid cs # api_cached w\<rparr>))"
    for es
    using False by (simp add: api_not_connected split: sum.splits)
  have first: "fst (CloudShellHandler_api svc cs (add_events es w)) = rep_unit svc (hist w @ es) (connect_event cs)"
    for es
    unfolding probe by (simp split: sum.splits)
  obtain k where k: "k \<le> 10" "\<forall>i < k. not_reachable (fst (CloudShellHandler_api svc cs
      (add_events (rounds (connect_event cs) 10 i) w)))"
    and after: "k = 10 \<and> r = Inl CSIsNotAliveError \<and> w' = add_events (rounds (connect_event cs) 10 10) w \<or>
      k < 10 \<and> (case CloudShellHandler_api svc cs (add_events (rounds (connect_event cs) 10 k) w) of
        (q, w1) \<Rightarrow> \<not> not_reachable q \<and> of_result q w1 = (r, w'))"
    using connecting.course [OF False run] by (elim exE conjE) (rule that)
  have "k = 10 \<and> r = Inl CSIsNotAliveError \<and> w' = add_events (rounds (connect_event cs) 10 10) w \<or>
      k < 10 \<and>
      (let w1 = add_events (rounds (connect_event cs) 10 k @ [connect_event cs]) w
       in case rep_unit svc (hist w @ rounds (connect_event cs) 10 k) (connect_event cs) of
            Inl e \<Rightarrow> r = Inl e \<and> \<not> is_connection_error e \<and> w' = w1
          | Inr _ \<Rightarrow> r = Inr () \<and> connected cs w' \<and> w' = w1\<lparr>api_cached := csh_oid cs # api_cached w\<rparr>)"
    using after unfolding probe
    by (cases "rep_unit svc (hist w @ rounds (connect_event cs) 10 k) (connect_event cs)")
       (auto simp: Let_def run_simps connected_def)
  with k False show ?thesis
    unfolding CloudShellHandler_wait_for_cs_is_started_def run first
    by (simp only: prod.case if_False) blast
qed

definition dead_services :: services where
  "dead_services = obliging_services\<lparr>rep_unit := (\<lambda>h ev. Inl (OSError ''Connection refused''))\<rparr>"

theorem wait_for_cs_is_started_course_witness:
  "CloudShellHandler_wait_for_cs_is_started dead_services do_example init_world =
     (Inl CSIsNotAliveError, add_events (rounds (connect_event do_example) 10 10) init_world)"
proof -
  obtain r w' where run: "CloudShellHandler_wait_for_cs_is_started dead_services do_example init_world = (r, w')"
    by (cases "CloudShellHandler_wait_for_cs_is_started dead_services do_example init_world")
  have "\<not> connected do_example init_world" by (simp add: connected_def init_world_def)
  with wait_for_cs_is_started_course [where svc = dead_services and cs = do_example and w = init_world]
  show ?thesis by (auto simp: run dead_services_def Let_def)
qed

text \<open>C36. Installing a shell that CloudShell already has, on an open REST session: when the server
  refuses the package because a shell with its name exists, as its message says with the name in
  quotes, that shell is updated with the package, whatever the name is (also with spaces or
  dashes in it), and the update decides the outcome unless it fails for an invalid driver. This
  holds for every retrying decorator that keeps its documented law.\<close>

theorem install_shell_updates_existing:
  assumes "retrying_law rt"
    and "csh_oid cs \<in> set (rest_cached w)"
    and "rep_unit svc (hist w) (Rest (csh_host cs) (AddShell path)) = Inl e" and "is_Exception e"
    and "exn_arg0 e = pre @ named_prefix @ name @ exists_suffix @ post"
    and "quote \<notin> set pre" and "name \<noteq> []" and "newline \<notin> set name" and "quote \<notin> set post"
    and "rep_unit svc (hist w @ [Rest (csh_host cs) (AddShell path)])
           (Rest (csh_host cs) (UpdateShell path name)) = r"
    and "\<forall>e'. r = Inl e' \<longrightarrow> \<not> retry_on_invalid_driver e'"
  shows "CloudShellHandler_install_shell rt svc cs path w =
    (r, add_events [Rest (csh_host cs) (AddShell path), Rest (csh_host cs) (UpdateShell path name)] w)"
proof -
  have once: "install_shell_once svc cs path w =
    (r, add_events [Rest (csh_host cs) (AddShell path), Rest (csh_host cs) (UpdateShell path name)] w)"
    using install_shell_once_updates [OF assms(2-9)] assms(10) by simp
  have "rt (Suc (Suc 5)) retry_on_invalid_driver (install_shell_once svc cs path) w =
    (r, add_events [Rest (csh_host cs) (AddShell path), Rest (csh_host cs) (UpdateShell path name)] w)"
    unfolding retrying_law_Suc [OF assms(1)] once
    using assms(11) by (cases r) auto
  then show ?thesis by (simp add: CloudShellHandler_install_shell_def)
qed

text \<open>Services that refuse a package because its shell is installed.\<close>

definition installed_error :: exn where
  "installed_error = OtherError [''A shell '' @ named_prefix @ ''Cisco IOS'' @ exists_suffix @ ''.''] []"

definition installed_services :: services where
  "installed_services = obliging_services\<lparr>rep_unit := (\<lambda>h ev. case ev of
     Rest _ (AddShell _) \<Rightarrow> Inl installed_error | _ \<Rightarrow> Inr ())\<rparr>"

theorem install_shell_updates_existing_witness:
  "CloudShellHandler_install_shell retry_ref installed_services do_example ''ios.zip'' open_world =
     (Inr (), add_events [Rest ''192.168.1.3'' (AddShell ''ios.zip''),
        Rest ''192.168.1.3'' (UpdateShell ''ios.zip'' ''Cisco IOS'')] open_world)"
proof -
  have "csh_oid do_example \<in> set (rest_cached open_world)" "csh_host do_example = ''192.168.1.3''"
    by (simp_all add: do_example_def open_world_def)
  moreover have "exn_arg0 installed_error = ''A shell '' @ named_prefix @ ''Cisco IOS'' @ exists_suffix @ ''.''"
    by (simp add: installed_error_def)
  ultimately show ?thesis
    using install_shell_updates_existing [OF retry_ref_law, of do_example open_world installed_services
        "''ios.zip''" installed_error "''A shell ''" "''Cisco IOS''" "''.''" "Inr ()"]
    by (simp add: installed_services_def installed_error_def)
qed

definition uploads :: "string \<Rightarrow> event list \<Rightarrow> nat" where
  "uploads path es = length (filter (\<lambda>e. \<exists>host. e = Rest host (AddShell path)) es)"

lemma install_shell_once_uploads:
  assumes "csh_oid cs \<in> set (rest_cached w)" and "install_shell_once svc cs path w = (r, w')"
  shows "csh_oid cs \<in> set (rest_cached w') \<and> uploads path (hist w') = Suc (uploads path (hist w))"
  using assms
  by (auto simp: install_shell_once_def run_simps uploads_def split: sum.splits if_splits option.splits)

text \<open>Installing a shell, on an open REST session, uploads the package at least once and at most
  seven times, for every retrying decorator that keeps its law.\<close>

theorem install_shell_attempts:
  assumes "retrying_law rt" and "csh_oid cs \<in> set (rest_cached w)"
    and "CloudShellHandler_install_shell rt svc cs path w = (r, w')"
  shows "1 \<le> uploads path (hist w') - uploads path (hist w) \<and> uploads path (hist w') - uploads path (hist w) \<le> 7"
proof -
  have "uploads path (hist w) < uploads path (hist (snd (rt (Suc 6) retry_on_invalid_driver (install_shell_once svc cs path) w))) \<and>
    uploads path (hist (snd (rt (Suc 6) retry_on_invalid_driver (install_shell_once svc cs path) w))) \<le> uploads path (hist w) + Suc 6"
    by (rule retrying.attempts_count [where I = "\<lambda>w. csh_oid cs \<in> set (rest_cached w)"
          and f = "\<lambda>w. uploads path (hist w)" and m = "install_shell_once svc cs path"])
       (use assms(1,2) in \<open>auto simp: retrying_def dest: install_shell_once_uploads\<close>)
  then show ?thesis using assms(3) by (auto simp: CloudShellHandler_install_shell_def)
qed

theorem install_shell_attempts_witness:
  "let w' = snd (CloudShellHandler_install_shell retry_ref
      (obliging_services\<lparr>rep_unit := (\<lambda>h ev. Inl (OtherError [''Invalid driver''] ''Invalid driver''))\<rparr>)
      do_example ''ios.zip'' open_world)
   in 1 \<le> uploads ''ios.zip'' (hist w') - uploads ''ios.zip'' (hist open_world) \<and>
      uploads ''ios.zip'' (hist w') - uploads ''ios.zip'' (hist open_world) \<le> 7"
proof -
  have "csh_oid do_example \<in> set (rest_cached open_world)" by (simp add: do_example_def open_world_def)
  then show ?thesis
    unfolding Let_def by (intro install_shell_attempts [OF retry_ref_law]) (auto intro: prod.collapse [symmetric])
qed

end
