(* ===== verification/Smb_Handler.thy ===== *)
theory Smb_Handler
  imports Cs_Handler
begin

text \<open>
  \<^verbatim>\<open>shell_tests/handlers/smb_handler.py\<close> and \<^verbatim>\<open>shell_tests/helpers/smb_helpers.py\<close>: the file share of a
  CloudShell server. The mutable part of an \<^verbatim>\<open>SmbHandler\<close> is whether it holds a session, which the
  state records by the identity of the object. The recursion of \<^verbatim>\<open>create_dir\<close> and of
  \<^verbatim>\<open>download_r_dir\<close> is limited by the depth the interpreter allows, an argument, and raises
  \<^verbatim>\<open>RecursionError\<close> below it. A file object that is stored is its content; how far a failed attempt
  has read it is not modelled. The lemmas show that downloading a directory mirrors the remote
  tree, which directories are created for a path and when that recursion ends, and that the download of
  logs raises no exception.
\<close>

section \<open>State and decorators\<close>

record smb_world = world +
  smb_sessions :: "nat list"

text \<open>The decorator \<^verbatim>\<open>@retry\<close> at the three result types of the methods.\<close>

record 's retriers =
  rt_unit :: "('s, unit) retry_decorator"
  rt_files :: "('s, shared_file list) retry_decorator"
  rt_str :: "('s, string) retry_decorator"

definition retriers_law :: "'s retriers \<Rightarrow> bool" where
  "retriers_law rts \<longleftrightarrow> retrying_law (rt_unit rts) \<and> retrying_law (rt_files rts) \<and> retrying_law (rt_str rts)"

definition retriers_ref :: "'s retriers" where
  "retriers_ref = \<lparr>rt_unit = retry_ref, rt_files = retry_ref, rt_str = retry_ref\<rparr>"

lemma retriers_ref_law: "retriers_law retriers_ref"
  by (simp add: retriers_law_def retriers_ref_def retry_ref_law)

section \<open>Filters\<close>

text \<open>Local times are in microseconds, the resolution of \<^verbatim>\<open>datetime\<close>.\<close>

definition FilterByLastWriteTime_call :: "'e services_scheme \<Rightarrow> int \<Rightarrow> shared_file \<Rightarrow> bool" where
  "FilterByLastWriteTime_call svc start_time smb_file \<longleftrightarrow>
     fromtimestamp svc (sf_last_write_time smb_file) + 24 * 60 * 60 * 1000000 > start_time"

definition FilterByFileNameInIterable_call :: "string list \<Rightarrow> shared_file \<Rightarrow> bool" where
  "FilterByFileNameInIterable_call iterable smb_file \<longleftrightarrow> sf_filename smb_file \<in> set iterable"

section \<open>The handler of one share\<close>

record smb_handler =
  smb_domain :: "string + string list"
  smb_username :: string
  smb_password :: string
  smb_server_ip :: string
  smb_server_name :: string
  smb_share :: string
  smb_oid :: nat

text \<open>The tuple of the source is \<^verbatim>\<open>((username.split(...) if ... else ""), username)\<close>.\<close>

definition SmbHandler_new ::
  "string \<Rightarrow> string \<Rightarrow> string \<Rightarrow> string \<Rightarrow> string \<Rightarrow> ('x, smb_handler) io" where
  "SmbHandler_new username password ip server_name share =
     bnd new_oid (\<lambda>i. ret
       \<lparr>smb_domain = (if contains [backslash] username then Inr (split_on backslash username) else Inl []),
        smb_username = username, smb_password = password, smb_server_ip = ip,
        smb_server_name = server_name, smb_share = share, smb_oid = i\<rparr>)"

definition retry_on :: "exn \<Rightarrow> bool" where
  "retry_on e \<longleftrightarrow> (case e of NotReadyError _ \<Rightarrow> True | SMBTimeout _ \<Rightarrow> True | _ \<Rightarrow> False)"

definition RETRY_STOP_MAX_ATTEMPT_NUM :: nat where
  "RETRY_STOP_MAX_ATTEMPT_NUM = 10"

definition smb_connect :: "'e services_scheme \<Rightarrow> smb_handler \<Rightarrow> bool \<Rightarrow> ('x smb_world_scheme, unit) pym" where
  "smb_connect svc h is_direct_tcp =
     andthen (modify (\<lambda>w. w\<lparr>smb_sessions := smb_oid h # smb_sessions w\<rparr>))
       (ask (rep_unit svc) (Smb (smb_server_ip h)
          (SmbConnect (smb_username h) (smb_password h) (smb_server_name h) is_direct_tcp)))"

definition SmbHandler_session :: "'e services_scheme \<Rightarrow> smb_handler \<Rightarrow> ('x smb_world_scheme, unit) pym" where
  "SmbHandler_session svc h =
     andthen
       (bnd (get_state (\<lambda>w. smb_oid h \<in> set (smb_sessions w))) (\<lambda>has.
          if has
          then try_except (ask (rep_unit svc) (Smb (smb_server_ip h) SmbEcho))
                 (\<lambda>e. if is_Exception e
                      then modify (\<lambda>w. w\<lparr>smb_sessions := removeAll (smb_oid h) (smb_sessions w)\<rparr>)
                      else raise_exn e)
          else ret ()))
       (bnd (get_state (\<lambda>w. smb_oid h \<in> set (smb_sessions w))) (\<lambda>has.
          if has then ret ()
          else try_except (smb_connect svc h False)
                 (\<lambda>e. case e of NotConnectedError _ \<Rightarrow> smb_connect svc h True | _ \<Rightarrow> raise_exn e)))"

text \<open>\<^verbatim>\<open>self.session.f(self._share, ...)\<close>\<close>

definition smb_call ::
  "'e services_scheme \<Rightarrow> (event list \<Rightarrow> event \<Rightarrow> exn + 'a) \<Rightarrow> smb_handler \<Rightarrow> smb_call \<Rightarrow> ('x smb_world_scheme, 'a) pym" where
  "smb_call svc rep h c = andthen (SmbHandler_session svc h) (ask rep (Smb (smb_server_ip h) c))"

fun operation_failure :: "exn \<Rightarrow> (string \<times> string) option" where
  "operation_failure (OperationFailure message text) = Some (message, text)"
| "operation_failure _ = None"

definition ls_once ::
  "'e services_scheme \<Rightarrow> smb_handler \<Rightarrow> string \<Rightarrow> ('x smb_world_scheme, shared_file list) pym" where
  "ls_once svc h r_dir_path =
     bnd (try_except (smb_call svc (rep_files svc) h (ListPath (smb_share h) r_dir_path))
            (\<lambda>e. case operation_failure e of
                   None \<Rightarrow> raise_exn e
                 | Some (message, _) \<Rightarrow>
                     if \<not> contains ''Unable to open directory'' message then raise_exn e else ret []))
       (\<lambda>smb_files. ret (filter (\<lambda>f. sf_filename f \<notin> {''.'', ''..''}) smb_files))"

definition SmbHandler_ls ::
  "'x smb_world_scheme retriers \<Rightarrow> 'e services_scheme \<Rightarrow> smb_handler \<Rightarrow> string \<Rightarrow>
   ('x smb_world_scheme, shared_file list) pym" where
  "SmbHandler_ls rts svc h r_dir_path =
     rt_files rts RETRY_STOP_MAX_ATTEMPT_NUM retry_on (ls_once svc h r_dir_path)"

text \<open>The first group of \<^verbatim>\<open>^(.*)[\\/](.*?)$\<close>: what is before the last separator. \<^verbatim>\<open>.\<close> matches no
  newline and \<^verbatim>\<open>$\<close> matches before a newline at the end.\<close>

definition is_sep :: "char \<Rightarrow> bool" where
  "is_sep c \<longleftrightarrow> c = backslash \<or> c = CHR ''/''"

definition SmbHandler_get_dir_path :: "string \<Rightarrow> string" where
  "SmbHandler_get_dir_path path =
     (let line = (if path \<noteq> [] \<and> last path = newline then butlast path else path)
      in if newline \<in> set line \<or> (\<forall>c \<in> set line. \<not> is_sep c) then []
         else rev (tl (dropWhile (\<lambda>c. \<not> is_sep c) (rev line))))"

primrec SmbHandler_create_dir ::
  "nat \<Rightarrow> 'x smb_world_scheme retriers \<Rightarrow> 'e services_scheme \<Rightarrow> smb_handler \<Rightarrow> string \<Rightarrow> bool \<Rightarrow>
   ('x smb_world_scheme, unit) pym" where
  "SmbHandler_create_dir 0 rts svc h r_dir_path parents = raise_exn RecursionError"
| "SmbHandler_create_dir (Suc depth) rts svc h r_dir_path parents =
     rt_unit rts RETRY_STOP_MAX_ATTEMPT_NUM retry_on
       (try_except (smb_call svc (rep_unit svc) h (CreateDirectory (smb_share h) r_dir_path))
          (\<lambda>e. case operation_failure e of
                 None \<Rightarrow> raise_exn e
               | Some (_, text) \<Rightarrow>
                   if parents \<and> contains ''Create failed'' text
                   then andthen
                     (SmbHandler_create_dir depth rts svc h (SmbHandler_get_dir_path r_dir_path) parents)
                     (smb_call svc (rep_unit svc) h (CreateDirectory (smb_share h) r_dir_path))
                   else raise_exn e))"

definition put_file_obj_once ::
  "nat \<Rightarrow> 'x smb_world_scheme retriers \<Rightarrow> 'e services_scheme \<Rightarrow> smb_handler \<Rightarrow> string \<Rightarrow> string \<Rightarrow> bool \<Rightarrow>
   ('x smb_world_scheme, unit) pym" where
  "put_file_obj_once depth rts svc h r_file_path file_obj create_dirs =
     try_except (smb_call svc (rep_unit svc) h (StoreFile (smb_share h) r_file_path file_obj))
       (\<lambda>e. case operation_failure e of
              None \<Rightarrow> raise_exn e
            | Some (_, text) \<Rightarrow>
                if create_dirs \<and> contains ''Unable to open file'' text
                then andthen
                  (SmbHandler_create_dir depth rts svc h (SmbHandler_get_dir_path r_file_path) True)
                  (smb_call svc (rep_unit svc) h (StoreFile (smb_share h) r_file_path file_obj))
                else raise_exn e)"

definition SmbHandler_put_file_obj ::
  "nat \<Rightarrow> 'x smb_world_scheme retriers \<Rightarrow> 'e services_scheme \<Rightarrow> smb_handler \<Rightarrow> string \<Rightarrow> string \<Rightarrow> bool \<Rightarrow>
   ('x smb_world_scheme, unit) pym" where
  "SmbHandler_put_file_obj depth rts svc h r_file_path file_obj create_dirs =
     rt_unit rts RETRY_STOP_MAX_ATTEMPT_NUM retry_on
       (put_file_obj_once depth rts svc h r_file_path file_obj create_dirs)"

definition SmbHandler_put_file_path ::
  "nat \<Rightarrow> 'x smb_world_scheme retriers \<Rightarrow> 'e services_scheme \<Rightarrow> smb_handler \<Rightarrow> string \<Rightarrow> string \<Rightarrow> bool \<Rightarrow>
   ('x smb_world_scheme, unit) pym" where
  "SmbHandler_put_file_path depth rts svc h r_file_path l_file_path create_dirs =
     bnd (read_env (rep_file svc) l_file_path) (\<lambda>file_obj.
       SmbHandler_put_file_obj depth rts svc h r_file_path file_obj create_dirs)"

definition SmbHandler_remove_file ::
  "'x smb_world_scheme retriers \<Rightarrow> 'e services_scheme \<Rightarrow> smb_handler \<Rightarrow> string \<Rightarrow> ('x smb_world_scheme, unit) pym" where
  "SmbHandler_remove_file rts svc h r_file_path =
     rt_unit rts RETRY_STOP_MAX_ATTEMPT_NUM retry_on
       (smb_call svc (rep_unit svc) h (DeleteFiles (smb_share h) r_file_path))"

definition SmbHandler_get_r_file ::
  "'x smb_world_scheme retriers \<Rightarrow> 'e services_scheme \<Rightarrow> smb_handler \<Rightarrow> string \<Rightarrow> ('x smb_world_scheme, string) pym" where
  "SmbHandler_get_r_file rts svc h r_file_path =
     rt_str rts RETRY_STOP_MAX_ATTEMPT_NUM retry_on
       (smb_call svc (rep_str svc) h (RetrieveFile (smb_share h) r_file_path))"

text \<open>Opening the local file for writing leaves it empty until the remote file is read.\<close>

definition SmbHandler_download_r_file ::
  "'x smb_world_scheme retriers \<Rightarrow> 'e services_scheme \<Rightarrow> smb_handler \<Rightarrow> string \<Rightarrow> string \<Rightarrow>
   ('x smb_world_scheme, unit) pym" where
  "SmbHandler_download_r_file rts svc h r_file_path l_file_path =
     andthen (ask (rep_unit svc) (Host (WriteFile l_file_path [])))
       (bnd (SmbHandler_get_r_file rts svc h r_file_path) (\<lambda>data.
          ask (rep_unit svc) (Host (WriteFile l_file_path data))))"

text \<open>\<^verbatim>\<open>os.path.join(a, b)\<close> and \<^verbatim>\<open>Path(a) / b\<close> for a path and one name\<close>

definition os_path_join :: "string \<Rightarrow> string \<Rightarrow> string" where
  "os_path_join a b =
     (if b \<noteq> [] \<and> hd b = CHR ''/'' then b
      else if a = [] \<or> last a = CHR ''/'' then a @ b
      else a @ ''/'' @ b)"

primrec SmbHandler_download_r_dir ::
  "nat \<Rightarrow> 'x smb_world_scheme retriers \<Rightarrow> 'e services_scheme \<Rightarrow> smb_handler \<Rightarrow> string \<Rightarrow> string \<Rightarrow>
   (shared_file \<Rightarrow> bool) option \<Rightarrow> ('x smb_world_scheme, unit) pym" where
  "SmbHandler_download_r_dir 0 rts svc h r_dir_path l_dir_path filter_fn = raise_exn RecursionError"
| "SmbHandler_download_r_dir (Suc depth) rts svc h r_dir_path l_dir_path filter_fn =
     bnd (SmbHandler_ls rts svc h r_dir_path) (\<lambda>smb_files.
     for_each smb_files (\<lambda>smb_file.
       if filter_fn = None \<or> the filter_fn smb_file
       then
         (let new_l_file_path = os_path_join l_dir_path (sf_filename smb_file);
              r_file_path = os_path_join r_dir_path (sf_filename smb_file)
          in if sf_isDirectory smb_file
             then andthen (ask (rep_unit svc) (Host (MkDir new_l_file_path)))
                    (SmbHandler_download_r_dir depth rts svc h r_file_path new_l_file_path None)
             else SmbHandler_download_r_file rts svc h r_file_path new_l_file_path)
       else ret ()))"

section \<open>The share of a CloudShell server\<close>

abbreviation bs2 :: string where
  "bs2 \<equiv> [backslash, backslash]"

definition QS_PATH :: string where
  "QS_PATH = ''Program Files (x86)'' @ bs2 @ ''QualiSystems'' @ bs2"

definition CS_PYPI_PATH :: string where
  "CS_PYPI_PATH = QS_PATH @ ''CloudShell'' @ bs2 @ ''Server'' @ bs2 @ ''Config'' @ bs2 @
     ''Pypi Server Repository'' @ bs2"

definition CS_STANDARDS_PATH :: string where
  "CS_STANDARDS_PATH = QS_PATH @ ''CloudShell'' @ bs2 @ ''Server'' @ bs2 @ ''ToscaStandard'' @ bs2"

definition CS_LOGS_SHELL_DIR :: string where
  "CS_LOGS_SHELL_DIR = ''ProgramData'' @ bs2 @ ''QualiSystems'' @ bs2 @ ''logs''"

definition CS_LOGS_AUTOLOAD_DIR :: string where
  "CS_LOGS_AUTOLOAD_DIR = CS_LOGS_SHELL_DIR @ bs2 @ ''inventory''"

definition CS_LOGS_INSTALLATION_DIR :: string where
  "CS_LOGS_INSTALLATION_DIR =
     QS_PATH @ ''TestShell'' @ bs2 @ ''ExecutionServer'' @ bs2 @ ''Logs'' @ bs2 @ ''QsPythonDriverHost''"

definition VENV_DIR :: string where
  "VENV_DIR = ''ProgramData'' @ [backslash] @ ''QualiSystems'' @ [backslash] @ ''venv''"

definition QS_CONFIG_PATH_format :: "string \<Rightarrow> string" where
  "QS_CONFIG_PATH_format venv_name =
     VENV_DIR @ [backslash] @ venv_name @ [backslash] @ ''Lib'' @ [backslash] @ ''site-packages'' @
     [backslash] @ ''cloudshell'' @ [backslash] @ ''logging'' @ [backslash] @ ''qs_config.ini''"

record cs_smb_handler =
  csmb_conf :: cloudshell_config
  csmb_smb_handler :: smb_handler

definition CloudShellSmbHandler_new :: "cloudshell_config \<Rightarrow> ('x, cs_smb_handler) io" where
  "CloudShellSmbHandler_new conf =
     bnd (SmbHandler_new (csc_os_user conf) (csc_os_password conf) (csc_host conf) ''User-PC'' ''C$'')
       (\<lambda>h. ret \<lparr>csmb_conf = conf, csmb_smb_handler = h\<rparr>)"

text \<open>The lock around the upload adds nothing where tasks are atomic.\<close>

definition CloudShellSmbHandler_add_file_obj_to_offline_pypi ::
  "nat \<Rightarrow> 'x smb_world_scheme retriers \<Rightarrow> 'e services_scheme \<Rightarrow> cs_smb_handler \<Rightarrow> string \<Rightarrow> string \<Rightarrow>
   ('x smb_world_scheme, unit) pym" where
  "CloudShellSmbHandler_add_file_obj_to_offline_pypi depth rts svc c file_obj file_name =
     SmbHandler_put_file_obj depth rts svc (csmb_smb_handler c) (CS_PYPI_PATH @ file_name) file_obj False"

definition CloudShellSmbHandler_add_dependencies_to_offline_pypi ::
  "nat \<Rightarrow> 'x smb_world_scheme retriers \<Rightarrow> 'e services_scheme \<Rightarrow> cs_smb_handler \<Rightarrow> string \<Rightarrow>
   ('x smb_world_scheme, unit) pym" where
  "CloudShellSmbHandler_add_dependencies_to_offline_pypi depth rts svc c file =
     bnd (read_env (rep_zip svc) file) (\<lambda>filelist.
     for_each filelist (\<lambda>(package_name, file_obj).
       CloudShellSmbHandler_add_file_obj_to_offline_pypi depth rts svc c file_obj package_name))"

definition CloudShellSmbHandler_get_file_names_from_offline_pypi ::
  "'x smb_world_scheme retriers \<Rightarrow> 'e services_scheme \<Rightarrow> cs_smb_handler \<Rightarrow> ('x smb_world_scheme, string list) pym" where
  "CloudShellSmbHandler_get_file_names_from_offline_pypi rts svc c =
     bnd (SmbHandler_ls rts svc (csmb_smb_handler c) CS_PYPI_PATH) (\<lambda>fs.
     ret (filter (\<lambda>n. n \<notin> {''.'', ''..'', ''PlaceHolder.txt''}) (map sf_filename fs)))"

definition CloudShellSmbHandler_remove_file_from_offline_pypi ::
  "'x smb_world_scheme retriers \<Rightarrow> 'e services_scheme \<Rightarrow> cs_smb_handler \<Rightarrow> string \<Rightarrow> ('x smb_world_scheme, unit) pym" where
  "CloudShellSmbHandler_remove_file_from_offline_pypi rts svc c filename =
     SmbHandler_remove_file rts svc (csmb_smb_handler c) (CS_PYPI_PATH @ filename)"

definition CloudShellSmbHandler_clear_offline_pypi ::
  "'x smb_world_scheme retriers \<Rightarrow> 'e services_scheme \<Rightarrow> cs_smb_handler \<Rightarrow> ('x smb_world_scheme, unit) pym" where
  "CloudShellSmbHandler_clear_offline_pypi rts svc c =
     bnd (CloudShellSmbHandler_get_file_names_from_offline_pypi rts svc c) (\<lambda>names.
     for_each names (CloudShellSmbHandler_remove_file_from_offline_pypi rts svc c))"

text \<open>\<^verbatim>\<open>Path(p).name\<close>\<close>

definition path_name :: "string \<Rightarrow> string" where
  "path_name p =
     (let parts = filter (\<lambda>c. c \<noteq> [] \<and> c \<noteq> ''.'') (split_on (CHR ''/'') p)
      in if parts = [] then [] else last parts)"

definition CloudShellSmbHandler_add_cs_standard_file_path ::
  "nat \<Rightarrow> 'x smb_world_scheme retriers \<Rightarrow> 'e services_scheme \<Rightarrow> cs_smb_handler \<Rightarrow> string \<Rightarrow>
   ('x smb_world_scheme, unit) pym" where
  "CloudShellSmbHandler_add_cs_standard_file_path depth rts svc c standard_path =
     SmbHandler_put_file_path depth rts svc (csmb_smb_handler c)
       (CS_STANDARDS_PATH @ path_name standard_path) standard_path False"

definition CloudShellSmbHandler_get_tosca_standards_file_names ::
  "'x smb_world_scheme retriers \<Rightarrow> 'e services_scheme \<Rightarrow> cs_smb_handler \<Rightarrow> ('x smb_world_scheme, string list) pym" where
  "CloudShellSmbHandler_get_tosca_standards_file_names rts svc c =
     bnd (SmbHandler_ls rts svc (csmb_smb_handler c) CS_STANDARDS_PATH) (\<lambda>fs. ret (map sf_filename fs))"

definition CloudShellSmbHandler_add_extra_standards ::
  "nat \<Rightarrow> 'x smb_world_scheme retriers \<Rightarrow> 'e services_scheme \<Rightarrow> cs_smb_handler \<Rightarrow> string list \<Rightarrow>
   ('x smb_world_scheme, unit) pym" where
  "CloudShellSmbHandler_add_extra_standards depth rts svc c extra_standards =
     bnd (CloudShellSmbHandler_get_tosca_standards_file_names rts svc c) (\<lambda>installed_standards.
     for_each extra_standards (\<lambda>standard.
       if path_name standard \<notin> set installed_standards
       then CloudShellSmbHandler_add_cs_standard_file_path depth rts svc c standard
       else ret ()))"

definition CloudShellSmbHandler_download_logs ::
  "nat \<Rightarrow> 'x smb_world_scheme retriers \<Rightarrow> 'e services_scheme \<Rightarrow> cs_smb_handler \<Rightarrow> string \<Rightarrow> int \<Rightarrow>
   string list \<Rightarrow> ('x smb_world_scheme, unit) pym" where
  "CloudShellSmbHandler_download_logs depth rts svc c path_to_save start_time reservation_ids =
     (let shell_logs_path = os_path_join path_to_save ''shell_logs'';
          installation_logs_path = os_path_join path_to_save ''installation_logs'';
          autoload_logs_path = os_path_join shell_logs_path ''inventory'';
          mkdir = (\<lambda>p. ask (rep_unit svc) (Host (MkDir p)));
          h = csmb_smb_handler c
      in try_except
           (andthen (try_except (ask (rep_unit svc) (Host (RmTree path_to_save)))
              (\<lambda>e. case e of FileNotFoundError _ \<Rightarrow> ret () | _ \<Rightarrow> raise_exn e))
           (andthen (mkdir path_to_save)
           (andthen (mkdir shell_logs_path)
           (andthen (mkdir installation_logs_path)
           (andthen (mkdir autoload_logs_path)
           (andthen (SmbHandler_download_r_dir depth rts svc h CS_LOGS_INSTALLATION_DIR
              installation_logs_path (Some (FilterByLastWriteTime_call svc start_time)))
           (andthen (SmbHandler_download_r_dir depth rts svc h CS_LOGS_SHELL_DIR
              shell_logs_path (Some (FilterByFileNameInIterable_call reservation_ids)))
           (SmbHandler_download_r_dir depth rts svc h CS_LOGS_AUTOLOAD_DIR
              autoload_logs_path (Some (FilterByLastWriteTime_call svc start_time))))))))))
           (\<lambda>e. if is_Exception e then ret () else raise_exn e))"

definition CloudShellSmbHandler_get_venv_names ::
  "'x smb_world_scheme retriers \<Rightarrow> 'e services_scheme \<Rightarrow> cs_smb_handler \<Rightarrow> ('x smb_world_scheme, string list) pym" where
  "CloudShellSmbHandler_get_venv_names rts svc c =
     bnd (SmbHandler_ls rts svc (csmb_smb_handler c) VENV_DIR) (\<lambda>fs. ret (map sf_filename fs))"

definition CloudShellSmbHandler_get_qs_config ::
  "'x smb_world_scheme retriers \<Rightarrow> 'e services_scheme \<Rightarrow> cs_smb_handler \<Rightarrow> string \<Rightarrow> ('x smb_world_scheme, string) pym" where
  "CloudShellSmbHandler_get_qs_config rts svc c venv_name =
     SmbHandler_get_r_file rts svc (csmb_smb_handler c) (QS_CONFIG_PATH_format venv_name)"

definition CloudShellSmbHandler_put_qs_config ::
  "nat \<Rightarrow> 'x smb_world_scheme retriers \<Rightarrow> 'e services_scheme \<Rightarrow> cs_smb_handler \<Rightarrow> string \<Rightarrow> string \<Rightarrow>
   ('x smb_world_scheme, unit) pym" where
  "CloudShellSmbHandler_put_qs_config depth rts svc c venv_name config =
     SmbHandler_put_file_obj depth rts svc (csmb_smb_handler c) (QS_CONFIG_PATH_format venv_name) config False"

section \<open>Calls on a live session\<close>

text \<open>The session is open and the server answers the echo: a call is the echo and itself.\<close>

definition live :: "'e services_scheme \<Rightarrow> smb_handler \<Rightarrow> 'x smb_world_scheme \<Rightarrow> bool" where
  "live svc h w \<longleftrightarrow> smb_oid h \<in> set (smb_sessions w) \<and>
     (\<forall>hs. rep_unit svc hs (Smb (smb_server_ip h) SmbEcho) = Inr ())"

definition smb_events :: "smb_handler \<Rightarrow> smb_call \<Rightarrow> event list" where
  "smb_events h c = [Smb (smb_server_ip h) SmbEcho, Smb (smb_server_ip h) c]"

lemma live_hist [simp]: "live svc h (w\<lparr>hist := hs\<rparr>) = live svc h w"
  by (simp add: live_def)

lemma smb_call_live [run_simps]:
  assumes "live svc h w"
  shows "smb_call svc rep h c w =
    (rep (hist w @ [Smb (smb_server_ip h) SmbEcho]) (Smb (smb_server_ip h) c), add_events (smb_events h c) w)"
proof -
  have "smb_oid h \<in> set (smb_sessions w)"
    and "rep_unit svc (hist w) (Smb (smb_server_ip h) SmbEcho) = Inr ()"
    using assms by (auto simp: live_def)
  then show ?thesis by (simp add: smb_call_def SmbHandler_session_def run_simps smb_events_def)
qed

text \<open>A decorated call that succeeds at once is one call.\<close>

lemma retried_success:
  assumes "retrying_law rt" and "m s = (Inr x, s')"
  shows "rt RETRY_STOP_MAX_ATTEMPT_NUM p m s = (Inr x, s')"
proof -
  have "rt (Suc (Suc 8)) p m s = (Inr x, s')"
    unfolding retrying_law_Suc [OF assms(1)] assms(2) by simp
  then show ?thesis by (simp add: RETRY_STOP_MAX_ATTEMPT_NUM_def)
qed

section \<open>Remote trees\<close>

text \<open>What a directory of the share holds: names with files (time of the last write, content) and
  directories. A listing may contain the entries for the directory itself and its parent.\<close>

datatype rtree =
    RFile int string
  | RDir int "(string \<times> rtree) list"

definition dots :: "string set" where
  "dots = {''.'', ''..''}"

fun entry :: "string \<times> rtree \<Rightarrow> shared_file" where
  "entry (n, RFile t _) = SharedFile n False t"
| "entry (n, RDir t _) = SharedFile n True t"

text \<open>The local effects of downloading entries, the nesting of directories, and a server that
  serves the entries under a path.\<close>

function mirror :: "string \<Rightarrow> (string \<times> rtree) list \<Rightarrow> event list" where
  "mirror l [] = []"
| "mirror l ((n, t) # es) =
     (if n \<in> dots then []
      else let p = os_path_join l n
           in case t of
                RFile _ d \<Rightarrow> [Host (WriteFile p []), Host (WriteFile p d)]
              | RDir _ es' \<Rightarrow> Host (MkDir p) # mirror p es') @ mirror l es"
  by pat_completeness auto
termination
  by (relation "measure (\<lambda>(l, es). size_list (size_prod (\<lambda>_. 0) size) es)") auto

function heights :: "(string \<times> rtree) list \<Rightarrow> nat" where
  "heights [] = 0"
| "heights ((n, t) # es) =
     max (case t of RFile _ _ \<Rightarrow> 0 | RDir _ es' \<Rightarrow> Suc (heights es')) (heights es)"
  by pat_completeness auto
termination
  by (relation "measure (size_list (size_prod (\<lambda>_. 0) size))") auto

definition lists ::
  "'e services_scheme \<Rightarrow> smb_handler \<Rightarrow> string \<Rightarrow> (string \<times> rtree) list \<Rightarrow> bool" where
  "lists svc h r es \<longleftrightarrow>
     (\<forall>hs. rep_files svc hs (Smb (smb_server_ip h) (ListPath (smb_share h) r)) = Inr (map entry es))"

function served ::
  "'e services_scheme \<Rightarrow> smb_handler \<Rightarrow> string \<Rightarrow> (string \<times> rtree) list \<Rightarrow> bool" where
  "served svc h r [] = True"
| "served svc h r ((n, t) # es) =
     ((n \<in> dots \<or>
       (case t of
          RFile _ d \<Rightarrow> \<forall>hs. rep_str svc hs
            (Smb (smb_server_ip h) (RetrieveFile (smb_share h) (os_path_join r n))) = Inr d
        | RDir _ es' \<Rightarrow> lists svc h (os_path_join r n) es' \<and> served svc h (os_path_join r n) es')) \<and>
      served svc h r es)"
  by pat_completeness auto
termination
  by (relation "measure (\<lambda>(svc, h, r, es). size_list (size_prod (\<lambda>_. 0) size) es)") auto

definition local_disk_ok :: "'e services_scheme \<Rightarrow> bool" where
  "local_disk_ok svc \<longleftrightarrow>
     (\<forall>hs p. rep_unit svc hs (Host (MkDir p)) = Inr ()) \<and>
     (\<forall>hs p d. rep_unit svc hs (Host (WriteFile p d)) = Inr ())"

fun is_host :: "event \<Rightarrow> bool" where
  "is_host (Host _) = True"
| "is_host _ = False"

lemma sf_entry [simp]: "sf_filename (entry p) = fst p"
  by (cases p rule: entry.cases) simp_all

lemma is_host_smb_events [simp]: "filter is_host (smb_events h c) = []"
  by (simp add: smb_events_def)

text \<open>One entry of the loop of \<^verbatim>\<open>download_r_dir\<close>, over the recursive call.\<close>

definition download_entry ::
  "(string \<Rightarrow> string \<Rightarrow> (shared_file \<Rightarrow> bool) option \<Rightarrow> ('x smb_world_scheme, unit) pym) \<Rightarrow>
   'x smb_world_scheme retriers \<Rightarrow> 'e services_scheme \<Rightarrow> smb_handler \<Rightarrow> string \<Rightarrow> string \<Rightarrow>
   (shared_file \<Rightarrow> bool) option \<Rightarrow> shared_file \<Rightarrow> ('x smb_world_scheme, unit) pym" where
  "download_entry sub rts svc h r l f smb_file =
     (if f = None \<or> the f smb_file
      then (if sf_isDirectory smb_file
            then andthen (ask (rep_unit svc) (Host (MkDir (os_path_join l (sf_filename smb_file)))))
                   (sub (os_path_join r (sf_filename smb_file)) (os_path_join l (sf_filename smb_file)) None)
            else SmbHandler_download_r_file rts svc h (os_path_join r (sf_filename smb_file))
                   (os_path_join l (sf_filename smb_file)))
      else ret ())"

lemma download_r_dir_Suc:
  "SmbHandler_download_r_dir (Suc depth) rts svc h r l f =
     bnd (SmbHandler_ls rts svc h r) (\<lambda>fs.
       for_each fs (download_entry (SmbHandler_download_r_dir depth rts svc h) rts svc h r l f))"
  unfolding SmbHandler_download_r_dir.simps download_entry_def [abs_def] Let_def by (rule refl)

lemma download_entry_filter:
  "for_each xs (download_entry sub rts svc h r l (Some f)) =
   for_each (filter f xs) (download_entry sub rts svc h r l None)"
  by (induction xs) (auto simp: download_entry_def andthen_def)

lemma ls_live:
  assumes "retriers_law rts" and "live svc h w" and "lists svc h r es"
  shows "SmbHandler_ls rts svc h r w =
    (Inr (map entry (filter (\<lambda>p. fst p \<notin> dots) es)), add_events (smb_events h (ListPath (smb_share h) r)) w)"
proof -
  have "ls_once svc h r w =
      (Inr (map entry (filter (\<lambda>p. fst p \<notin> dots) es)), add_events (smb_events h (ListPath (smb_share h) r)) w)"
    using assms(2,3) by (simp add: ls_once_def run_simps lists_def dots_def filter_map comp_def)
  moreover have "retrying_law (rt_files rts)" using assms(1) by (simp add: retriers_law_def)
  ultimately show ?thesis unfolding SmbHandler_ls_def by (rule retried_success [rotated])
qed

lemma get_r_file_live:
  assumes "retriers_law rts" and "live svc h w"
    and "\<forall>hs. rep_str svc hs (Smb (smb_server_ip h) (RetrieveFile (smb_share h) r)) = Inr d"
  shows "SmbHandler_get_r_file rts svc h r w =
    (Inr d, add_events (smb_events h (RetrieveFile (smb_share h) r)) w)"
proof -
  have "smb_call svc (rep_str svc) h (RetrieveFile (smb_share h) r) w =
      (Inr d, add_events (smb_events h (RetrieveFile (smb_share h) r)) w)"
    using assms(2,3) by (simp add: smb_call_live)
  moreover have "retrying_law (rt_str rts)" using assms(1) by (simp add: retriers_law_def)
  ultimately show ?thesis unfolding SmbHandler_get_r_file_def by (rule retried_success [rotated])
qed

lemma download_r_file_live:
  assumes "retriers_law rts" and "live svc h w" and "local_disk_ok svc"
    and "\<forall>hs. rep_str svc hs (Smb (smb_server_ip h) (RetrieveFile (smb_share h) r)) = Inr d"
  shows "SmbHandler_download_r_file rts svc h r l w =
    (Inr (), add_events (Host (WriteFile l []) # smb_events h (RetrieveFile (smb_share h) r) @
       [Host (WriteFile l d)]) w)"
  using assms by (simp add: SmbHandler_download_r_file_def run_simps get_r_file_live local_disk_ok_def)

text \<open>A run that succeeds and does the operations \<open>ms\<close> on the local disk, whatever it asks the server.\<close>

definition mirrored :: "('x smb_world_scheme, unit) pym \<Rightarrow> 'x smb_world_scheme \<Rightarrow> event list \<Rightarrow> bool" where
  "mirrored m w ms \<longleftrightarrow> (\<exists>t. m w = (Inr (), add_events t w) \<and> filter is_host t = ms)"

lemma mirroredI: "m w = (Inr (), add_events t w) \<Longrightarrow> filter is_host t = ms \<Longrightarrow> mirrored m w ms"
  by (auto simp: mirrored_def)

lemma mirrored_ret: "mirrored (ret ()) w []"
  by (rule mirroredI [of _ _ "[]"]) (simp_all add: run_simps)

lemma mirrored_andthen:
  assumes "mirrored m w ms" and "\<And>t. mirrored n (add_events t w) ns"
  shows "mirrored (andthen m n) w (ms @ ns)"
proof -
  obtain t where t: "m w = (Inr (), add_events t w)" "filter is_host t = ms"
    using assms(1) by (auto simp: mirrored_def)
  obtain u where "n (add_events t w) = (Inr (), add_events u (add_events t w))" "filter is_host u = ns"
    using assms(2) [of t] by (auto simp: mirrored_def)
  with t show ?thesis by (intro mirroredI [of _ _ "t @ u"]) (simp_all add: andthen_run)
qed

lemma file_mirrored:
  assumes "retriers_law rts" and "local_disk_ok svc" and "live svc h w"
    and "\<forall>hs. rep_str svc hs (Smb (smb_server_ip h) (RetrieveFile (smb_share h) (os_path_join r n))) = Inr d"
  shows "mirrored (download_entry sub rts svc h r l None (entry (n, RFile tm d))) w
    [Host (WriteFile (os_path_join l n) []), Host (WriteFile (os_path_join l n) d)]"
  using download_r_file_live [OF assms(1,3,2,4), of "os_path_join l n"]
  by (intro mirroredI) (auto simp: download_entry_def)

lemma dir_mirrored:
  assumes "retriers_law rts" and "local_disk_ok svc" and "live svc h w" and "lists svc h (os_path_join r n) es"
    and sub: "\<And>t. mirrored (for_each (map entry (filter (\<lambda>p. fst p \<notin> dots) es))
      (download_entry (SmbHandler_download_r_dir depth rts svc h) rts svc h (os_path_join r n) (os_path_join l n) None))
      (add_events t w) ms"
  shows "mirrored (download_entry (SmbHandler_download_r_dir (Suc depth) rts svc h) rts svc h r l None (entry (n, RDir tm es))) w
    (Host (MkDir (os_path_join l n)) # ms)"
proof -
  let ?m = "Host (MkDir (os_path_join l n))"
  let ?ls = "smb_events h (ListPath (smb_share h) (os_path_join r n))"
  obtain t where t: "for_each (map entry (filter (\<lambda>p. fst p \<notin> dots) es))
      (download_entry (SmbHandler_download_r_dir depth rts svc h) rts svc h (os_path_join r n) (os_path_join l n) None)
      (add_events (?m # ?ls) w) = (Inr (), add_events t (add_events (?m # ?ls) w))" and ms: "filter is_host t = ms"
    using sub [of "?m # ?ls"] by (auto simp: mirrored_def)
  have "SmbHandler_ls rts svc h (os_path_join r n) (add_events [?m] w) =
      (Inr (map entry (filter (\<lambda>p. fst p \<notin> dots) es)), add_events (?m # ?ls) w)"
    using ls_live [OF assms(1), of svc h "add_events [?m] w" "os_path_join r n" es] assms(3,4) by simp
  then have "SmbHandler_download_r_dir (Suc depth) rts svc h (os_path_join r n) (os_path_join l n) None (add_events [?m] w) =
      (Inr (), add_events (?m # ?ls @ t) w)"
    unfolding download_r_dir_Suc using t by (simp add: bnd_run)
  moreover have "rep_unit svc (hist w) ?m = Inr ()" using assms(2) by (simp add: local_disk_ok_def)
  ultimately show ?thesis using ms
    by (intro mirroredI [of _ _ "?m # ?ls @ t"])
       (simp_all add: download_entry_def andthen_run ask_run del: SmbHandler_download_r_dir.simps)
qed

lemma entries_mirrored:
  assumes "retriers_law rts" and "local_disk_ok svc"
    and "live svc h w" and "served svc h r es" and "heights es \<le> depth"
  shows "mirrored (for_each (map entry (filter (\<lambda>p. fst p \<notin> dots) es))
      (download_entry (SmbHandler_download_r_dir depth rts svc h) rts svc h r l None)) w (mirror l es)"
  using assms(3-5)
proof (induction l es arbitrary: r depth w rule: mirror.induct)
  case (1 l)
  then show ?case by (simp add: mirrored_ret)
next
  case (2 l n t es)
  let ?body = "download_entry (SmbHandler_download_r_dir depth rts svc h) rts svc h r l None"
  have rest: "mirrored (for_each (map entry (filter (\<lambda>p. fst p \<notin> dots) es)) ?body) (add_events u w) (mirror l es)" for u
    using "2.IH"(2) [of "add_events u w" r depth] "2.prems" by simp
  show ?case
  proof (cases "n \<in> dots")
    case True
    then show ?thesis using rest [of "[]"] by simp
  next
    case False
    have "\<exists>ms. mirrored (?body (entry (n, t))) w ms \<and> mirror l ((n, t) # es) = ms @ mirror l es"
    proof (cases t)
      case (RFile tm d)
      with False "2.prems" show ?thesis
        using file_mirrored [OF assms(1,2) "2.prems"(1), of r n d _ l tm] by (auto simp: Let_def)
    next
      case (RDir tm es')
      with "2.prems"(3) obtain d' where d': "depth = Suc d'" "heights es' \<le> d'" by (cases depth) auto
      have "mirrored (for_each (map entry (filter (\<lambda>p. fst p \<notin> dots) es'))
          (download_entry (SmbHandler_download_r_dir d' rts svc h) rts svc h (os_path_join r n) (os_path_join l n) None))
          (add_events u w) (mirror (os_path_join l n) es')" for u
        using "2.IH"(1) [OF False refl RDir, of "add_events u w" "os_path_join r n" d'] "2.prems" RDir False d'(2) by simp
      moreover have "lists svc h (os_path_join r n) es'" using "2.prems"(2) RDir False by simp
      ultimately have "mirrored (?body (entry (n, t))) w (Host (MkDir (os_path_join l n)) # mirror (os_path_join l n) es')"
        unfolding d'(1) RDir using "2.prems"(1) by (intro dir_mirrored assms)
      with False RDir show ?thesis by (auto simp: Let_def)
    qed
    then obtain ms where "mirrored (?body (entry (n, t))) w ms" "mirror l ((n, t) # es) = ms @ mirror l es" by blast
    with rest False show ?thesis by (auto simp: andthen_def [symmetric] intro!: mirrored_andthen)
  qed
qed

section \<open>Directories of the share\<close>

text \<open>The names of a path, for the paths whose parts are not empty and have no newline.\<close>

primrec split_seps :: "string \<Rightarrow> string list" where
  "split_seps [] = [[]]"
| "split_seps (c # cs) =
     (if is_sep c then [] # split_seps cs else (c # hd (split_seps cs)) # tl (split_seps cs))"

definition path_names :: "string \<Rightarrow> string list" where
  "path_names p = (if p = [] then [] else split_seps p)"

definition proper_path :: "string \<Rightarrow> bool" where
  "proper_path p \<longleftrightarrow> newline \<notin> set p \<and> [] \<notin> set (path_names p)"

lemma split_seps_not_Nil [simp]: "split_seps p \<noteq> []"
  by (cases p) auto

lemma split_seps_name: "\<forall>c \<in> set p. \<not> is_sep c \<Longrightarrow> split_seps p = [p]"
  by (induction p) auto

lemma split_seps_append: "is_sep c \<Longrightarrow> split_seps (d @ c # n) = split_seps d @ split_seps n"
  by (induction d) auto

text \<open>What is before the last separator is the path without its last name.\<close>

lemma names_get_dir_path:
  assumes "proper_path p"
  shows "path_names (SmbHandler_get_dir_path p) = butlast (path_names p)" and "proper_path (SmbHandler_get_dir_path p)"
proof -
  have no_nl: "newline \<notin> set p" using assms by (simp add: proper_path_def)
  then have line: "(if p \<noteq> [] \<and> last p = newline then butlast p else p) = p" using last_in_set by force
  have "path_names (SmbHandler_get_dir_path p) = butlast (path_names p) \<and> proper_path (SmbHandler_get_dir_path p)"
  proof (cases "\<forall>c \<in> set p. \<not> is_sep c")
    case True
    then show ?thesis
      using line by (simp add: SmbHandler_get_dir_path_def path_names_def proper_path_def split_seps_name)
  next
    case False
    then obtain c d where cd: "dropWhile (\<lambda>c. \<not> is_sep c) (rev p) = c # d" and c: "is_sep c"
      by (cases "dropWhile (\<lambda>c. \<not> is_sep c) (rev p)") (auto simp: dropWhile_eq_Cons_conv)
    define n where "n = rev (takeWhile (\<lambda>c. \<not> is_sep c) (rev p))"
    have "rev p = takeWhile (\<lambda>c. \<not> is_sep c) (rev p) @ c # d"
      using cd by (metis takeWhile_dropWhile_id)
    then have p: "p = rev d @ c # n"
      unfolding n_def by (metis append.assoc append_Cons append_Nil rev.simps(2) rev_append rev_rev_ident)
    have "\<forall>x \<in> set n. \<not> is_sep x" unfolding n_def by (auto dest: set_takeWhileD)
    then have "path_names p = split_seps (rev d) @ [n]"
      using c by (simp add: p path_names_def split_seps_append split_seps_name)
    moreover from this have "rev d \<noteq> []" using assms by (auto simp: proper_path_def)
    moreover have "SmbHandler_get_dir_path p = rev d"
      using False no_nl line cd by (auto simp: SmbHandler_get_dir_path_def)
    ultimately show ?thesis
      using assms no_nl unfolding proper_path_def p by (auto simp: path_names_def)
  qed
  then show "path_names (SmbHandler_get_dir_path p) = butlast (path_names p)" and "proper_path (SmbHandler_get_dir_path p)"
    by auto
qed

text \<open>A share whose directories are a function \<open>dirs\<close> of what the server was asked. It creates a
  directory whose parent exists and which does not exist itself (names compared as they are written),
  answers \<^verbatim>\<open>Create failed\<close> for every other, and echoes change nothing.\<close>

definition creatable :: "string list set \<Rightarrow> string list \<Rightarrow> bool" where
  "creatable D ns \<longleftrightarrow> ns \<noteq> [] \<and> butlast ns \<in> D \<and> ns \<notin> D"

definition create_event :: "smb_handler \<Rightarrow> string \<Rightarrow> event" where
  "create_event h q = Smb (smb_server_ip h) (CreateDirectory (smb_share h) q)"

definition tree_server ::
  "'e services_scheme \<Rightarrow> smb_handler \<Rightarrow> (event list \<Rightarrow> string list set) \<Rightarrow> bool" where
  "tree_server svc h dirs \<longleftrightarrow>
     (\<forall>hs. dirs (hs @ [Smb (smb_server_ip h) SmbEcho]) = dirs hs) \<and>
     (\<forall>hs q. proper_path q \<longrightarrow>
        (if creatable (dirs hs) (path_names q)
         then rep_unit svc hs (create_event h q) = Inr () \<and>
              dirs (hs @ [create_event h q]) = insert (path_names q) (dirs hs)
         else (\<exists>m text. rep_unit svc hs (create_event h q) = Inl (OperationFailure m text) \<and>
                 contains ''Create failed'' text) \<and>
              dirs (hs @ [create_event h q]) = dirs hs))"

text \<open>The directories that are missing for a path, from the path up.\<close>

primrec missing_from :: "nat \<Rightarrow> string list set \<Rightarrow> string \<Rightarrow> string list" where
  "missing_from 0 D p = []"
| "missing_from (Suc n) D p =
     (if path_names p \<in> D then [] else p # missing_from n D (SmbHandler_get_dir_path p))"

definition missing_dirs :: "string list set \<Rightarrow> string \<Rightarrow> string list" where
  "missing_dirs D p = missing_from (length (path_names p)) D p"

definition creations :: "smb_handler \<Rightarrow> string list \<Rightarrow> event list" where
  "creations h qs = concat (map (\<lambda>q. smb_events h (CreateDirectory (smb_share h) q)) qs)"

lemma creations_simps [simp]:
  "creations h [] = []"
  "creations h (q # qs) = smb_events h (CreateDirectory (smb_share h) q) @ creations h qs"
  "creations h (qs @ qs') = creations h qs @ creations h qs'"
  by (simp_all add: creations_def)

lemma missing_Cons:
  assumes "proper_path p" and "[] \<in> D" and "path_names p \<notin> D"
  shows "missing_dirs D p = p # missing_dirs D (SmbHandler_get_dir_path p)"
proof -
  have "path_names p \<noteq> []" using assms by auto
  then show ?thesis
    using assms(3) by (cases "path_names p") (simp_all add: missing_dirs_def names_get_dir_path(1) [OF assms(1)])
qed

lemma missing_present: "path_names p \<in> D \<Longrightarrow> missing_dirs D p = []"
  by (cases "length (path_names p)") (simp_all add: missing_dirs_def)

lemma missing_length: "length (missing_dirs D p) \<le> length (path_names p)"
proof -
  have "length (missing_from n D p) \<le> n" for n by (induction n arbitrary: p) auto
  then show ?thesis by (simp add: missing_dirs_def)
qed

lemma missing_shorter:
  "proper_path p \<Longrightarrow> q \<in> set (missing_from n D p) \<Longrightarrow> length (path_names q) \<le> length (path_names p)"
proof (induction n arbitrary: p)
  case 0
  then show ?case by simp
next
  case (Suc n)
  note le = Suc.IH [OF names_get_dir_path(2) [OF Suc.prems(1)]]
  from Suc.prems(2) consider "q = p" | "q \<in> set (missing_from n D (SmbHandler_get_dir_path p))"
    by (auto split: if_splits)
  then show ?case
    using le names_get_dir_path(1) [OF Suc.prems(1)] by cases auto
qed

text \<open>One call on such a share, and one level of \<^verbatim>\<open>create_dir\<close> whose first call fails.\<close>

lemma tree_call:
  assumes "tree_server svc h dirs" and "live svc h w" and "proper_path q"
  shows "creatable (dirs (hist w)) (path_names q) \<Longrightarrow>
      smb_call svc (rep_unit svc) h (CreateDirectory (smb_share h) q) w = (Inr (), add_events (creations h [q]) w)"
    and "\<not> creatable (dirs (hist w)) (path_names q) \<Longrightarrow>
      \<exists>m text. smb_call svc (rep_unit svc) h (CreateDirectory (smb_share h) q) w =
        (Inl (OperationFailure m text), add_events (creations h [q]) w) \<and> contains ''Create failed'' text"
    and "dirs (hist w @ creations h [q]) =
      (if creatable (dirs (hist w)) (path_names q) then insert (path_names q) (dirs (hist w)) else dirs (hist w))"
proof -
  let ?hs = "hist w @ [Smb (smb_server_ip h) SmbEcho]"
  have echo: "dirs ?hs = dirs (hist w)" using assms(1) by (simp add: tree_server_def)
  have law: "if creatable (dirs (hist w)) (path_names q)
      then rep_unit svc ?hs (create_event h q) = Inr () \<and>
           dirs (?hs @ [create_event h q]) = insert (path_names q) (dirs (hist w))
      else (\<exists>m text. rep_unit svc ?hs (create_event h q) = Inl (OperationFailure m text) \<and>
              contains ''Create failed'' text) \<and>
           dirs (?hs @ [create_event h q]) = dirs (hist w)"
    using assms(1,3) echo unfolding tree_server_def by metis
  show "creatable (dirs (hist w)) (path_names q) \<Longrightarrow>
      smb_call svc (rep_unit svc) h (CreateDirectory (smb_share h) q) w = (Inr (), add_events (creations h [q]) w)"
    using law by (simp add: smb_call_live [OF assms(2)] create_event_def)
  show "\<exists>m text. smb_call svc (rep_unit svc) h (CreateDirectory (smb_share h) q) w =
        (Inl (OperationFailure m text), add_events (creations h [q]) w) \<and> contains ''Create failed'' text"
    if "\<not> creatable (dirs (hist w)) (path_names q)"
    using law that by (simp add: smb_call_live [OF assms(2)] create_event_def)
  show "dirs (hist w @ creations h [q]) =
      (if creatable (dirs (hist w)) (path_names q) then insert (path_names q) (dirs (hist w)) else dirs (hist w))"
    using law by (simp add: smb_events_def create_event_def split: if_splits)
qed

lemma create_dir_parents:
  assumes "retriers_law rts" and "contains ''Create failed'' text"
    and "smb_call svc (rep_unit svc) h (CreateDirectory (smb_share h) p) w = (Inl (OperationFailure m text), w1)"
    and "andthen (SmbHandler_create_dir depth rts svc h (SmbHandler_get_dir_path p) True)
           (smb_call svc (rep_unit svc) h (CreateDirectory (smb_share h) p)) w1 = (r, w2)"
    and "case r of Inl e \<Rightarrow> \<not> retry_on e | Inr _ \<Rightarrow> True"
  shows "SmbHandler_create_dir (Suc depth) rts svc h p True w = (r, w2)"
proof -
  let ?once = "try_except (smb_call svc (rep_unit svc) h (CreateDirectory (smb_share h) p))
    (\<lambda>e. case operation_failure e of
           None \<Rightarrow> raise_exn e
         | Some (_, text) \<Rightarrow>
             if True \<and> contains ''Create failed'' text
             then andthen (SmbHandler_create_dir depth rts svc h (SmbHandler_get_dir_path p) True)
               (smb_call svc (rep_unit svc) h (CreateDirectory (smb_share h) p))
             else raise_exn e)"
  have "?once w = (r, w2)" using assms(2,3,4) by (simp add: try_except_run)
  then have "rt_unit rts (Suc (Suc 8)) retry_on ?once w = (r, w2)"
    using assms(1,5) by (subst retrying_law_Suc) (auto simp: retriers_law_def split: sum.splits)
  then show ?thesis by (simp add: RETRY_STOP_MAX_ATTEMPT_NUM_def)
qed

lemma create_dir_at_once:
  assumes "retriers_law rts"
    and "smb_call svc (rep_unit svc) h (CreateDirectory (smb_share h) p) w = (Inr (), w1)"
  shows "SmbHandler_create_dir (Suc depth) rts svc h p parents w = (Inr (), w1)"
proof -
  have "retrying_law (rt_unit rts)" using assms(1) by (simp add: retriers_law_def)
  then show ?thesis
    unfolding SmbHandler_create_dir.simps
    by (rule retried_success) (simp add: try_except_run assms(2))
qed

lemma create_dir_missing:
  assumes "retriers_law rts" and "tree_server svc h dirs" and "live svc h w" and "proper_path p"
    and "[] \<in> dirs (hist w)" and "path_names p \<notin> dirs (hist w)"
    and "length (missing_dirs (dirs (hist w)) p) \<le> depth"
  shows "SmbHandler_create_dir depth rts svc h p True w =
      (Inr (), add_events (creations h (missing_dirs (dirs (hist w)) p @ tl (rev (missing_dirs (dirs (hist w)) p)))) w) \<and>
    dirs (hist w @ creations h (missing_dirs (dirs (hist w)) p @ tl (rev (missing_dirs (dirs (hist w)) p)))) =
      dirs (hist w) \<union> path_names ` set (missing_dirs (dirs (hist w)) p)"
  using assms(3-)
proof (induction depth arbitrary: p w)
  case 0
  then show ?case by (simp add: missing_Cons)
next
  case (Suc depth)
  let ?D = "dirs (hist w)" and ?q = "SmbHandler_get_dir_path p"
  let ?w1 = "add_events (creations h [p]) w"
  note parent = names_get_dir_path [OF Suc.prems(2)]
  have np: "path_names p \<noteq> []" using Suc.prems(3,4) by auto
  have miss: "missing_dirs ?D p = p # missing_dirs ?D ?q"
    using Suc.prems by (intro missing_Cons)
  show ?case
  proof (cases "path_names ?q \<in> ?D")
    case True
    then have "creatable ?D (path_names p)" using np Suc.prems(4) parent(1) by (simp add: creatable_def)
    then show ?thesis
      using create_dir_at_once [OF assms(1) tree_call(1) [OF assms(2) Suc.prems(1,2)]]
        tree_call(3) [OF assms(2) Suc.prems(1,2)] missing_present [OF True] miss by simp
  next
    case False
    then have fails: "\<not> creatable ?D (path_names p)" using parent(1) by (simp add: creatable_def)
    then obtain m t where call: "smb_call svc (rep_unit svc) h (CreateDirectory (smb_share h) p) w =
        (Inl (OperationFailure m t), ?w1)" "contains ''Create failed'' t"
      using tree_call(2) [OF assms(2) Suc.prems(1,2)] by blast
    have D1: "dirs (hist ?w1) = ?D"
      using tree_call(3) [OF assms(2) Suc.prems(1,2)] fails by simp
    let ?ms = "missing_dirs ?D ?q" and ?es = "creations h (missing_dirs ?D ?q @ tl (rev (missing_dirs ?D ?q)))"
    have IH: "SmbHandler_create_dir depth rts svc h ?q True ?w1 = (Inr (), add_events ?es ?w1)"
      "dirs (hist ?w1 @ ?es) = ?D \<union> path_names ` set ?ms"
      using Suc.IH [of ?w1 ?q] Suc.prems False parent(2) miss unfolding D1 by auto
    let ?w2 = "add_events ?es ?w1"
    have "?ms = ?q # missing_dirs ?D (SmbHandler_get_dir_path ?q)"
      using False Suc.prems(3) parent(2) by (intro missing_Cons)
    then have tl: "?ms \<noteq> []" "path_names ?q \<in> path_names ` set ?ms" by auto
    have "length (path_names q) < length (path_names p)" if "q \<in> set ?ms" for q
    proof -
      have "length (path_names q) \<le> length (path_names ?q)"
        using missing_shorter [OF parent(2)] that unfolding missing_dirs_def .
      then show ?thesis using parent(1) np by (cases "path_names p" rule: rev_cases) auto
    qed
    then have "path_names p \<notin> path_names ` set ?ms" by fastforce
    then have "creatable (dirs (hist ?w2)) (path_names p)"
      using IH(2) np tl(2) Suc.prems(4) parent(1) by (simp add: creatable_def)
    note again = tree_call(1,3) [OF assms(2) _ Suc.prems(2), of ?w2] this
    have "SmbHandler_create_dir (Suc depth) rts svc h p True w = (Inr (), add_events (creations h [p]) ?w2)"
      using again IH(1) Suc.prems(1)
      by (intro create_dir_parents [OF assms(1) call(2,1)]) (simp_all add: andthen_run)
    moreover have "dirs (hist ?w2 @ creations h [p]) = insert (path_names p) (?D \<union> path_names ` set ?ms)"
      using again IH(2) Suc.prems(1) by simp
    ultimately show ?thesis using miss tl(1) by (simp add: insert_commute)
  qed
qed

lemma create_dir_existing:
  assumes "retriers_law rts" and "tree_server svc h dirs" and "live svc h w" and "proper_path p"
    and "\<forall>ns \<in> dirs (hist w). butlast ns \<in> dirs (hist w)" and "path_names p \<in> dirs (hist w)"
  shows "fst (SmbHandler_create_dir depth rts svc h p True w) = Inl RecursionError"
  using assms(3-)
proof (induction depth arbitrary: p w)
  case 0
  then show ?case by (simp add: run_simps)
next
  case (Suc depth)
  let ?q = "SmbHandler_get_dir_path p" and ?w1 = "add_events (creations h [p]) w"
  note parent = names_get_dir_path [OF Suc.prems(2)]
  have fails: "\<not> creatable (dirs (hist w)) (path_names p)" using Suc.prems(4) by (simp add: creatable_def)
  then obtain m t where call: "smb_call svc (rep_unit svc) h (CreateDirectory (smb_share h) p) w =
      (Inl (OperationFailure m t), ?w1)" "contains ''Create failed'' t"
    using tree_call(2) [OF assms(2) Suc.prems(1,2)] by blast
  have "dirs (hist ?w1) = dirs (hist w)"
    using tree_call(3) [OF assms(2) Suc.prems(1,2)] fails by simp
  then have "fst (SmbHandler_create_dir depth rts svc h ?q True ?w1) = Inl RecursionError"
    using Suc.IH [of ?w1 ?q] Suc.prems parent by auto
  then obtain w2 where "SmbHandler_create_dir depth rts svc h ?q True ?w1 = (Inl RecursionError, w2)"
    by (cases "SmbHandler_create_dir depth rts svc h ?q True ?w1") auto
  then have "SmbHandler_create_dir (Suc depth) rts svc h p True w = (Inl RecursionError, w2)"
    by (intro create_dir_parents [OF assms(1) call(2,1)]) (simp_all add: andthen_run retry_on_def)
  then show ?case by simp
qed

lemma put_file_obj_live:
  assumes "retriers_law rts" and "live svc h w"
    and "\<forall>hs. rep_unit svc hs (Smb (smb_server_ip h) (StoreFile (smb_share h) r d)) = Inr ()"
  shows "SmbHandler_put_file_obj depth rts svc h r d b w =
    (Inr (), add_events (smb_events h (StoreFile (smb_share h) r d)) w)"
proof -
  have "put_file_obj_once depth rts svc h r d b w =
      (Inr (), add_events (smb_events h (StoreFile (smb_share h) r d)) w)"
    using assms(2,3) by (simp add: put_file_obj_once_def smb_call_live try_except_run)
  moreover have "retrying_law (rt_unit rts)" using assms(1) by (simp add: retriers_law_def)
  ultimately show ?thesis unfolding SmbHandler_put_file_obj_def by (rule retried_success [rotated])
qed

lemma remove_file_live:
  assumes "retriers_law rts" and "live svc h w"
    and "\<forall>hs. rep_unit svc hs (Smb (smb_server_ip h) (DeleteFiles (smb_share h) r)) = Inr ()"
  shows "SmbHandler_remove_file rts svc h r w =
    (Inr (), add_events (smb_events h (DeleteFiles (smb_share h) r)) w)"
proof -
  have "smb_call svc (rep_unit svc) h (DeleteFiles (smb_share h) r) w =
      (Inr (), add_events (smb_events h (DeleteFiles (smb_share h) r)) w)"
    using assms(2,3) by (simp add: smb_call_live)
  moreover have "retrying_law (rt_unit rts)" using assms(1) by (simp add: retriers_law_def)
  ultimately show ?thesis unfolding SmbHandler_remove_file_def by (rule retried_success [rotated])
qed

text \<open>A loop whose every round succeeds adds the events of its rounds.\<close>

lemma for_each_add_events:
  assumes "live svc h w"
    and "\<And>x v. x \<in> set xs \<Longrightarrow> live svc h v \<Longrightarrow> body x v = (Inr (), add_events (f x) v)"
  shows "for_each xs body w = (Inr (), add_events (concat (map f xs)) w)"
  using assms by (induction xs arbitrary: w) (simp_all add: run_simps)

section \<open>Properties\<close>

definition passes :: "(shared_file \<Rightarrow> bool) option \<Rightarrow> (string \<times> rtree) list \<Rightarrow> (string \<times> rtree) list" where
  "passes f es = (case f of None \<Rightarrow> es | Some g \<Rightarrow> filter (\<lambda>p. g (entry p)) es)"

lemma download_r_dir_mirrored:
  assumes "retriers_law rts" and "local_disk_ok svc" and "live svc h w"
    and "lists svc h r es" and "served svc h r (passes f es)" and "heights (passes f es) < depth"
  shows "\<exists>t. SmbHandler_download_r_dir depth rts svc h r l f w = (Inr (), add_events t w) \<and>
    filter is_host t = mirror l (passes f es)"
proof -
  obtain d where d: "depth = Suc d" "heights (passes f es) \<le> d" using assms(6) by (cases depth) auto
  let ?ls = "smb_events h (ListPath (smb_share h) r)"
  let ?w1 = "add_events ?ls w"
  have live1: "live svc h ?w1" using assms(3) by simp
  obtain t where t: "for_each (map entry (filter (\<lambda>p. fst p \<notin> dots) (passes f es)))
      (download_entry (SmbHandler_download_r_dir d rts svc h) rts svc h r l None) ?w1 = (Inr (), add_events t ?w1)"
    and m: "filter is_host t = mirror l (passes f es)"
    using entries_mirrored [OF assms(1,2) live1 assms(5) d(2)] unfolding mirrored_def by blast
  have "for_each (map entry (filter (\<lambda>p. fst p \<notin> dots) es))
      (download_entry (SmbHandler_download_r_dir d rts svc h) rts svc h r l f) =
    for_each (map entry (filter (\<lambda>p. fst p \<notin> dots) (passes f es)))
      (download_entry (SmbHandler_download_r_dir d rts svc h) rts svc h r l None)"
    by (cases f) (simp_all add: passes_def download_entry_filter filter_map comp_def conj_commute)
  with t have "SmbHandler_download_r_dir depth rts svc h r l f w = (Inr (), add_events (?ls @ t) w)"
    unfolding d(1) download_r_dir_Suc by (simp add: bnd_run ls_live [OF assms(1,3,4)])
  with m show ?thesis by (intro exI [of _ "?ls @ t"]) simp
qed

text \<open>C12. Downloading the logs of a server mirrors them, on a live session of the share and with a
  decorator that keeps the law of retrying. The local directory is removed (its absence is
  ignored) and made anew with its three subdirectories; then the installation logs written since
  one day before the start, the shell logs of the reservations, and the autoload logs since one day
  before the start are copied, each with everything below it: a directory is made before its
  content, a file is written with its remote content, and the entries for the directory itself and
  its parent are left out. A depth above the nesting of the copied trees suffices.\<close>

theorem download_logs_mirrors:
  assumes "retriers_law rts" and "local_disk_ok svc" and "live svc (csmb_smb_handler c) w"
    and "rep_unit svc (hist w) (Host (RmTree p)) = Inr () \<or>
         (\<exists>x. rep_unit svc (hist w) (Host (RmTree p)) = Inl (FileNotFoundError x))"
    and "lists svc (csmb_smb_handler c) CS_LOGS_INSTALLATION_DIR es1"
    and "lists svc (csmb_smb_handler c) CS_LOGS_SHELL_DIR es2"
    and "lists svc (csmb_smb_handler c) CS_LOGS_AUTOLOAD_DIR es3"
    and "es1' = filter (\<lambda>e. fromtimestamp svc (sf_last_write_time (entry e)) + 86400000000 > start_time) es1"
    and "es2' = filter (\<lambda>e. fst e \<in> set rids) es2"
    and "es3' = filter (\<lambda>e. fromtimestamp svc (sf_last_write_time (entry e)) + 86400000000 > start_time) es3"
    and "served svc (csmb_smb_handler c) CS_LOGS_INSTALLATION_DIR es1'"
    and "served svc (csmb_smb_handler c) CS_LOGS_SHELL_DIR es2'"
    and "served svc (csmb_smb_handler c) CS_LOGS_AUTOLOAD_DIR es3'"
    and "heights es1' < depth" and "heights es2' < depth" and "heights es3' < depth"
  shows "\<exists>t. CloudShellSmbHandler_download_logs depth rts svc c p start_time rids w = (Inr (), add_events t w) \<and>
    filter is_host t =
      map Host [RmTree p, MkDir p, MkDir (os_path_join p ''shell_logs''), MkDir (os_path_join p ''installation_logs''),
        MkDir (os_path_join (os_path_join p ''shell_logs'') ''inventory'')] @
      mirror (os_path_join p ''installation_logs'') es1' @ mirror (os_path_join p ''shell_logs'') es2' @
      mirror (os_path_join (os_path_join p ''shell_logs'') ''inventory'') es3'"
proof -
  let ?h = "csmb_smb_handler c"
  let ?sh = "os_path_join p ''shell_logs''" and ?in = "os_path_join p ''installation_logs''"
  let ?au = "os_path_join ?sh ''inventory''"
  let ?made = "map Host [RmTree p, MkDir p, MkDir ?sh, MkDir ?in, MkDir ?au]"
  let ?recent = "Some (FilterByLastWriteTime_call svc start_time)"
  let ?named = "Some (FilterByFileNameInIterable_call rids)"
  have pass: "passes ?recent es1 = es1'" "passes ?named es2 = es2'" "passes ?recent es3 = es3'"
    unfolding assms(8-10) passes_def FilterByLastWriteTime_call_def FilterByFileNameInIterable_call_def by simp_all
  have live: "live svc ?h (add_events es w)" for es using assms(3) by simp
  obtain t1 where t1: "SmbHandler_download_r_dir depth rts svc ?h CS_LOGS_INSTALLATION_DIR ?in ?recent
      (add_events ?made w) = (Inr (), add_events t1 (add_events ?made w))" "filter is_host t1 = mirror ?in es1'"
    using download_r_dir_mirrored [OF assms(1,2) live [of ?made] assms(5), where f = ?recent and depth = depth and l = ?in] assms(11,14) pass by auto
  obtain t2 where t2: "SmbHandler_download_r_dir depth rts svc ?h CS_LOGS_SHELL_DIR ?sh ?named
      (add_events (?made @ t1) w) = (Inr (), add_events t2 (add_events (?made @ t1) w))" "filter is_host t2 = mirror ?sh es2'"
    using download_r_dir_mirrored [OF assms(1,2) live [of "?made @ t1"] assms(6), where f = ?named and depth = depth and l = ?sh] assms(12,15) pass by auto
  obtain t3 where t3: "SmbHandler_download_r_dir depth rts svc ?h CS_LOGS_AUTOLOAD_DIR ?au ?recent
      (add_events (?made @ t1 @ t2) w) = (Inr (), add_events t3 (add_events (?made @ t1 @ t2) w))"
      "filter is_host t3 = mirror ?au es3'"
    using download_r_dir_mirrored [OF assms(1,2) live [of "?made @ t1 @ t2"] assms(7), where f = ?recent and depth = depth and l = ?au] assms(13,16) pass by auto
  have "\<forall>hs q. rep_unit svc hs (Host (MkDir q)) = Inr ()" using assms(2) by (simp add: local_disk_ok_def)
  with assms(4) t1(1) t2(1) t3(1)
  have "CloudShellSmbHandler_download_logs depth rts svc c p start_time rids w = (Inr (), add_events (?made @ t1 @ t2 @ t3) w)"
    by (auto simp: CloudShellSmbHandler_download_logs_def Let_def run_simps)
  with t1(2) t2(2) t3(2) show ?thesis by (intro exI [of _ "?made @ t1 @ t2 @ t3"]) simp
qed

text \<open>A share with one log, one directory below it, and a listing that contains the dot entries.\<close>

definition smb_example :: smb_handler where
  "smb_example = \<lparr>smb_domain = Inl [], smb_username = ''user'', smb_password = ''pw'',
     smb_server_ip = ''192.168.1.3'', smb_server_name = ''User-PC'', smb_share = ''C$'', smb_oid = 1\<rparr>"

definition csmb_example :: cs_smb_handler where
  "csmb_example = \<lparr>csmb_conf = csh_conf do_example, csmb_smb_handler = smb_example\<rparr>"

definition smb_state :: smb_world where
  "smb_state = \<lparr>hist = [], api_cached = [0], rest_cached = [0], next_oid = 2, smb_sessions = [1]\<rparr>"

definition share_tree :: "(string \<times> rtree) list" where
  "share_tree = [(''.'', RDir 0 []), (''..'', RDir 0 []), (''rid'', RDir 100 [(''qs.log'', RFile 100 ''text'')]),
     (''old.log'', RFile 5 [])]"

definition share_services :: services where
  "share_services = obliging_services\<lparr>
     rep_files := (\<lambda>hs ev. case ev of
       Smb _ (ListPath _ q) \<Rightarrow> if q = os_path_join CS_LOGS_SHELL_DIR ''rid''
                                then Inr [SharedFile ''qs.log'' False 100]
                                else Inr (map entry share_tree)
     | _ \<Rightarrow> Inr []),
     rep_str := (\<lambda>hs ev. Inr ''text'')\<rparr>"

lemma share_example_lists:
  "lists share_services smb_example CS_LOGS_SHELL_DIR share_tree"
  "lists share_services smb_example CS_LOGS_AUTOLOAD_DIR share_tree"
  "lists share_services smb_example CS_LOGS_INSTALLATION_DIR share_tree"
  "lists share_services smb_example (os_path_join CS_LOGS_SHELL_DIR ''rid'') [(''qs.log'', RFile 100 ''text'')]"
proof -
  have "CS_LOGS_SHELL_DIR \<noteq> os_path_join CS_LOGS_SHELL_DIR ''rid''"
    "CS_LOGS_AUTOLOAD_DIR \<noteq> os_path_join CS_LOGS_SHELL_DIR ''rid''"
    "CS_LOGS_INSTALLATION_DIR \<noteq> os_path_join CS_LOGS_SHELL_DIR ''rid''"
    by code_simp+
  then show "lists share_services smb_example CS_LOGS_SHELL_DIR share_tree"
    "lists share_services smb_example CS_LOGS_AUTOLOAD_DIR share_tree"
    "lists share_services smb_example CS_LOGS_INSTALLATION_DIR share_tree"
    "lists share_services smb_example (os_path_join CS_LOGS_SHELL_DIR ''rid'') [(''qs.log'', RFile 100 ''text'')]"
    by (simp_all add: lists_def share_services_def)
qed

lemma smb_example_live: "live share_services smb_example smb_state"
  by (simp add: live_def smb_example_def smb_state_def share_services_def)

theorem download_logs_mirrors_witness:
  "\<exists>t. CloudShellSmbHandler_download_logs 5 retriers_ref share_services csmb_example ''/logs'' 90000000000 [''rid''] smb_state =
     (Inr (), add_events t smb_state) \<and>
   filter is_host t = map Host [RmTree ''/logs'', MkDir ''/logs'', MkDir ''/logs/shell_logs'',
     MkDir ''/logs/installation_logs'', MkDir ''/logs/shell_logs/inventory'',
     MkDir ''/logs/shell_logs/rid'', WriteFile ''/logs/shell_logs/rid/qs.log'' [],
     WriteFile ''/logs/shell_logs/rid/qs.log'' ''text'']"
proof -
  have h: "csmb_smb_handler csmb_example = smb_example" by (simp add: csmb_example_def)
  have none: "[] = filter (\<lambda>e. fromtimestamp share_services (sf_last_write_time (entry e)) + 86400000000 > 90000000000) share_tree"
    by (simp add: share_tree_def share_services_def)
  have one: "[(''rid'', RDir 100 [(''qs.log'', RFile 100 ''text'')])] = filter (\<lambda>e. fst e \<in> set [''rid'']) share_tree"
    by (simp add: share_tree_def)
  have disk: "local_disk_ok share_services"
    by (simp add: local_disk_ok_def share_services_def)
  have served: "served share_services smb_example CS_LOGS_SHELL_DIR [(''rid'', RDir 100 [(''qs.log'', RFile 100 ''text'')])]"
    using share_example_lists(4) by (simp add: dots_def) (simp add: share_services_def)
  have paths: "os_path_join ''/logs'' ''shell_logs'' = ''/logs/shell_logs''"
    "os_path_join ''/logs'' ''installation_logs'' = ''/logs/installation_logs''"
    "os_path_join ''/logs/shell_logs'' ''inventory'' = ''/logs/shell_logs/inventory''"
    "os_path_join ''/logs/shell_logs'' ''rid'' = ''/logs/shell_logs/rid''"
    "os_path_join ''/logs/shell_logs/rid'' ''qs.log'' = ''/logs/shell_logs/rid/qs.log''"
    by (simp_all add: os_path_join_def)
  show ?thesis
    using download_logs_mirrors [where c = csmb_example, unfolded h, OF retriers_ref_law disk smb_example_live _
        share_example_lists(3) share_example_lists(1) share_example_lists(2) none one none,
        where p = "''/logs''" and depth = 5] served
    by (simp add: paths dots_def share_services_def Let_def)
qed

text \<open>Whatever the server and the disk answer, downloading the logs raises no exception that is an
  \<^verbatim>\<open>Exception\<close>: a failed download does not fail the run.\<close>

theorem download_logs_never_raises:
  "raises (\<lambda>e. \<not> is_Exception e) (CloudShellSmbHandler_download_logs depth rts svc c p start_time rids)"
  unfolding CloudShellSmbHandler_download_logs_def Let_def
  by (rule raises_try_except [OF raises_any]) (auto intro!: raising)


text \<open>A share that has only its root, and the three levels of a path on it.\<close>

definition tree_dirs :: "event list \<Rightarrow> string list set" where
  "tree_dirs hs = fold (\<lambda>ev D. case ev of
     Smb ip (CreateDirectory share q) \<Rightarrow>
       if ip = ''192.168.1.3'' \<and> share = ''C$'' \<and> creatable D (path_names q) then insert (path_names q) D else D
   | _ \<Rightarrow> D) hs {[]}"

definition tree_services :: services where
  "tree_services = obliging_services\<lparr>rep_unit := (\<lambda>hs ev. case ev of
     Smb _ (CreateDirectory _ q) \<Rightarrow>
       if creatable (tree_dirs hs) (path_names q) then Inr ()
       else Inl (OperationFailure [] ''Failed to create directory: Create failed'')
   | _ \<Rightarrow> Inr ())\<rparr>"

lemma tree_services_ok: "tree_server tree_services smb_example tree_dirs"
proof -
  have "contains ''Create failed'' ''Failed to create directory: Create failed''" by code_simp
  then show ?thesis
    by (auto simp: tree_server_def tree_services_def tree_dirs_def create_event_def smb_example_def)
qed


text \<open>Extra standards and the offline PyPI, on a live session. Of the extra standards exactly those
  whose file name is not in the listing of the server are stored there, in order, under their names
  and with their contents. Clearing the offline PyPI removes exactly the listed files but the place
  holder (and the dot entries), in order.\<close>

theorem standards_and_pypi:
  assumes "retriers_law rts" and "live svc (csmb_smb_handler c) w"
    and "lists svc (csmb_smb_handler c) CS_STANDARDS_PATH es"
    and "\<forall>hs q d. rep_unit svc hs (Smb (smb_server_ip (csmb_smb_handler c)) (StoreFile (smb_share (csmb_smb_handler c)) q d)) = Inr ()"
    and "\<forall>hs. \<forall>q \<in> set stds. rep_file svc hs q = Inr (content q)"
    and "lists svc (csmb_smb_handler c) CS_PYPI_PATH ps"
    and "\<forall>hs q. rep_unit svc hs (Smb (smb_server_ip (csmb_smb_handler c)) (DeleteFiles (smb_share (csmb_smb_handler c)) q)) = Inr ()"
  shows "CloudShellSmbHandler_add_extra_standards depth rts svc c stds w =
      (Inr (), add_events
         (smb_events (csmb_smb_handler c) (ListPath (smb_share (csmb_smb_handler c)) CS_STANDARDS_PATH) @
          concat (map (\<lambda>q. smb_events (csmb_smb_handler c)
              (StoreFile (smb_share (csmb_smb_handler c)) (CS_STANDARDS_PATH @ path_name q) (content q)))
            (filter (\<lambda>q. path_name q \<notin> fst ` set es - dots) stds))) w) \<and>
    CloudShellSmbHandler_clear_offline_pypi rts svc c w =
      (Inr (), add_events
         (smb_events (csmb_smb_handler c) (ListPath (smb_share (csmb_smb_handler c)) CS_PYPI_PATH) @
          concat (map (\<lambda>n. smb_events (csmb_smb_handler c)
              (DeleteFiles (smb_share (csmb_smb_handler c)) (CS_PYPI_PATH @ n)))
            (filter (\<lambda>n. n \<notin> dots \<and> n \<noteq> ''PlaceHolder.txt'') (map fst ps)))) w)"
proof
  let ?h = "csmb_smb_handler c"
  let ?ev = "\<lambda>q. if path_name q \<in> fst ` set es - dots then []
    else smb_events ?h (StoreFile (smb_share ?h) (CS_STANDARDS_PATH @ path_name q) (content q))"
  let ?w1 = "add_events (smb_events ?h (ListPath (smb_share ?h) CS_STANDARDS_PATH)) w"
  have live1: "live svc ?h ?w1" using assms(2) by simp
  have "for_each stds (\<lambda>standard. if path_name standard \<notin> fst ` set es - dots
      then CloudShellSmbHandler_add_cs_standard_file_path depth rts svc c standard else ret ()) ?w1 =
    (Inr (), add_events (concat (map ?ev stds)) ?w1)"
    using assms(1,4,5)
    by (intro for_each_add_events [OF live1])
       (auto simp: CloudShellSmbHandler_add_cs_standard_file_path_def SmbHandler_put_file_path_def
         run_simps put_file_obj_live)
  moreover have "concat (map ?ev stds) = concat (map (\<lambda>q. smb_events ?h
      (StoreFile (smb_share ?h) (CS_STANDARDS_PATH @ path_name q) (content q)))
      (filter (\<lambda>q. path_name q \<notin> fst ` set es - dots) stds))"
    by (induction stds) auto
  moreover have "set (map fst (filter (\<lambda>p. fst p \<notin> dots) es)) = fst ` set es - dots" by auto
  ultimately show "CloudShellSmbHandler_add_extra_standards depth rts svc c stds w =
      (Inr (), add_events
         (smb_events ?h (ListPath (smb_share ?h) CS_STANDARDS_PATH) @
          concat (map (\<lambda>q. smb_events ?h (StoreFile (smb_share ?h) (CS_STANDARDS_PATH @ path_name q) (content q)))
            (filter (\<lambda>q. path_name q \<notin> fst ` set es - dots) stds))) w)"
    unfolding CloudShellSmbHandler_add_extra_standards_def CloudShellSmbHandler_get_tosca_standards_file_names_def
    by (simp add: bnd_run ls_live [OF assms(1,2,3)] ret_run comp_def)
next
  let ?h = "csmb_smb_handler c"
  let ?w1 = "add_events (smb_events ?h (ListPath (smb_share ?h) CS_PYPI_PATH)) w"
  have live1: "live svc ?h ?w1" using assms(2) by simp
  have "for_each (filter (\<lambda>n. n \<notin> dots \<and> n \<noteq> ''PlaceHolder.txt'') (map fst ps))
      (CloudShellSmbHandler_remove_file_from_offline_pypi rts svc c) ?w1 =
    (Inr (), add_events (concat (map (\<lambda>n. smb_events ?h (DeleteFiles (smb_share ?h) (CS_PYPI_PATH @ n)))
      (filter (\<lambda>n. n \<notin> dots \<and> n \<noteq> ''PlaceHolder.txt'') (map fst ps)))) ?w1)"
    using assms(1,7)
    by (intro for_each_add_events [OF live1])
       (simp add: CloudShellSmbHandler_remove_file_from_offline_pypi_def remove_file_live)
  moreover have "filter (\<lambda>n. n \<notin> {''.'', ''..'', ''PlaceHolder.txt''}) (map fst (filter (\<lambda>p. fst p \<notin> dots) ps)) =
      filter (\<lambda>n. n \<notin> dots \<and> n \<noteq> ''PlaceHolder.txt'') (map fst ps)"
    by (induction ps) (auto simp: dots_def)
  ultimately show "CloudShellSmbHandler_clear_offline_pypi rts svc c w =
      (Inr (), add_events
         (smb_events ?h (ListPath (smb_share ?h) CS_PYPI_PATH) @
          concat (map (\<lambda>n. smb_events ?h (DeleteFiles (smb_share ?h) (CS_PYPI_PATH @ n)))
            (filter (\<lambda>n. n \<notin> dots \<and> n \<noteq> ''PlaceHolder.txt'') (map fst ps)))) w)"
    unfolding CloudShellSmbHandler_clear_offline_pypi_def CloudShellSmbHandler_get_file_names_from_offline_pypi_def
    by (simp add: bnd_run ls_live [OF assms(1,2,6)] ret_run comp_def)
qed

theorem standards_and_pypi_witness:
  "CloudShellSmbHandler_add_extra_standards 5 retriers_ref share_services csmb_example [''x/new.yaml'', ''x/old.log''] smb_state =
     (Inr (), add_events (smb_events smb_example (ListPath ''C$'' CS_STANDARDS_PATH) @
        smb_events smb_example (StoreFile ''C$'' (CS_STANDARDS_PATH @ ''new.yaml'') [])) smb_state) \<and>
   CloudShellSmbHandler_clear_offline_pypi retriers_ref share_services csmb_example smb_state =
     (Inr (), add_events (smb_events smb_example (ListPath ''C$'' CS_PYPI_PATH) @
        smb_events smb_example (DeleteFiles ''C$'' (CS_PYPI_PATH @ ''rid'')) @
        smb_events smb_example (DeleteFiles ''C$'' (CS_PYPI_PATH @ ''old.log''))) smb_state)"
proof -
  have h: "csmb_smb_handler csmb_example = smb_example" "smb_share smb_example = ''C$''"
    by (simp_all add: csmb_example_def smb_example_def)
  have "CS_STANDARDS_PATH \<noteq> os_path_join CS_LOGS_SHELL_DIR ''rid''"
    "CS_PYPI_PATH \<noteq> os_path_join CS_LOGS_SHELL_DIR ''rid''"
    by code_simp+
  then have l: "lists share_services smb_example CS_STANDARDS_PATH share_tree"
    "lists share_services smb_example CS_PYPI_PATH share_tree"
    by (simp_all add: lists_def share_services_def)
  have names: "path_name ''x/new.yaml'' = ''new.yaml''" "path_name ''x/old.log'' = ''old.log''"
    by code_simp+
  show ?thesis
    using standards_and_pypi [where c = csmb_example, unfolded h, OF retriers_ref_law smb_example_live l(1) _ _ l(2),
        where stds = "[''x/new.yaml'', ''x/old.log'']" and content = "\<lambda>_. []" and depth = 5]
    by (simp add: share_services_def names) (simp add: share_tree_def dots_def)
qed

end
