(* ===== verification/Shell_Handler.thy ===== *)
theory Shell_Handler
  imports Smb_Handler
begin

text \<open>
  \<^verbatim>\<open>shell_tests/handlers/shell_handler.py\<close> and \<^verbatim>\<open>shell_tests/helpers/shell_helpers.py\<close>: a shell package, its
  installation and its removal. The attributes of \<^verbatim>\<open>ShellHandler\<close> are assigned only by its
  constructor, so a handler is a value. The lemmas show what is left behind when the preparation
  fails, and which failures of the removal are tolerated.
\<close>

section \<open>The definition of a shell\<close>

text \<open>\<^verbatim>\<open>node_type.rsplit(".", 1)[-1]\<close>, for a node type that is text.\<close>

definition get_resource_model_from_shell_definition ::
  "'e services_scheme \<Rightarrow> string \<Rightarrow> ('x, string) io" where
  "get_resource_model_from_shell_definition svc shell_path =
     bnd (read_env (rep_yaml svc) shell_path) (\<lambda>data.
     bnd (of_result (json_item ''node_types'' data)) (\<lambda>node_types.
     bnd (of_result (json_iter node_types)) (\<lambda>its.
       case its of
         [] \<Rightarrow> raise_exn StopIteration
       | JStr node_type # _ \<Rightarrow> ret (last (split_last (CHR ''.'') node_type))
       | _ \<Rightarrow> raise_exn (AttributeError ''rsplit''))))"

definition get_shell_name_from_shell_definition ::
  "'e services_scheme \<Rightarrow> string \<Rightarrow> ('x, json) io" where
  "get_shell_name_from_shell_definition svc shell_path =
     bnd (read_env (rep_yaml svc) shell_path) (\<lambda>data.
     bnd (of_result (json_item ''metadata'' data)) (\<lambda>metadata.
     of_result (json_item ''template_name'' metadata)))"

section \<open>The handler\<close>

record shell_handler =
  shh_conf :: shell_config
  shh_model :: string
  shh_cs_shell_name :: json
  shh_cs_handler :: cs_handler
  shh_cs_smb_handler :: "cs_smb_handler option"

definition ShellHandler_new ::
  "'e services_scheme \<Rightarrow> shell_config \<Rightarrow> cs_handler \<Rightarrow> cs_smb_handler option \<Rightarrow> ('x, shell_handler) io" where
  "ShellHandler_new svc conf cs smb =
     bnd (get_resource_model_from_shell_definition svc (shc_path conf)) (\<lambda>model.
     bnd (get_shell_name_from_shell_definition svc (shc_path conf)) (\<lambda>cs_shell_name.
     ret \<lparr>shh_conf = conf, shh_model = model, shh_cs_shell_name = cs_shell_name,
          shh_cs_handler = cs, shh_cs_smb_handler = smb\<rparr>))"

definition ShellHandler_install_shell ::
  "'x smb_world_scheme retriers \<Rightarrow> 'e services_scheme \<Rightarrow> shell_handler \<Rightarrow> ('x smb_world_scheme, unit) pym" where
  "ShellHandler_install_shell rts svc sh =
     CloudShellHandler_install_shell (rt_unit rts) svc (shh_cs_handler sh) (shc_path (shh_conf sh))"

text \<open>Without an SMB handler the extra files are only warned about.\<close>

definition ShellHandler_store_extra_files ::
  "nat \<Rightarrow> 'x smb_world_scheme retriers \<Rightarrow> 'e services_scheme \<Rightarrow> shell_handler \<Rightarrow> ('x smb_world_scheme, unit) pym" where
  "ShellHandler_store_extra_files depth rts svc sh =
     andthen
       (case (shh_cs_smb_handler sh, shc_dependencies_path (shh_conf sh)) of
          (Some smb, Some path) \<Rightarrow> CloudShellSmbHandler_add_dependencies_to_offline_pypi depth rts svc smb path
        | _ \<Rightarrow> ret ())
       (case shh_cs_smb_handler sh of
          Some smb \<Rightarrow> if shc_extra_standards_paths (shh_conf sh) \<noteq> []
                      then CloudShellSmbHandler_add_extra_standards depth rts svc smb
                             (shc_extra_standards_paths (shh_conf sh))
                      else ret ()
        | None \<Rightarrow> ret ())"

definition ShellHandler_finish ::
  "'x smb_world_scheme retriers \<Rightarrow> 'e services_scheme \<Rightarrow> shell_handler \<Rightarrow> ('x smb_world_scheme, unit) pym" where
  "ShellHandler_finish rts svc sh =
     andthen
       (try_except
          (CloudShellHandler_remove_shell svc (shh_cs_handler sh) (json_str (shh_cs_shell_name sh)))
          (\<lambda>e. case e of
                 ShellNotFoundException _ \<Rightarrow> ret ()
               | _ \<Rightarrow> if is_Exception e
                      then (if \<not> contains ''This shell is used'' (exn_str e) then raise_exn e else ret ())
                      else raise_exn e))
       (case (shc_dependencies_path (shh_conf sh), shh_cs_smb_handler sh) of
          (Some _, Some smb) \<Rightarrow> CloudShellSmbHandler_clear_offline_pypi rts svc smb
        | _ \<Rightarrow> ret ())"

definition ShellHandler_prepare ::
  "nat \<Rightarrow> 'x smb_world_scheme retriers \<Rightarrow> 'e services_scheme \<Rightarrow> shell_handler \<Rightarrow> ('x smb_world_scheme, unit) pym" where
  "ShellHandler_prepare depth rts svc sh =
     try_except
       (andthen (ShellHandler_store_extra_files depth rts svc sh) (ShellHandler_install_shell rts svc sh))
       (\<lambda>e. if is_Exception e then andthen (ShellHandler_finish rts svc sh) (raise_exn e) else raise_exn e)"

definition ShellHandler_create ::
  "nat \<Rightarrow> 'x smb_world_scheme retriers \<Rightarrow> 'e services_scheme \<Rightarrow> shell_config \<Rightarrow> cs_handler \<Rightarrow>
   cs_smb_handler option \<Rightarrow> ('x smb_world_scheme, shell_handler) pym" where
  "ShellHandler_create depth rts svc conf cs smb =
     bnd (ShellHandler_new svc conf cs smb) (\<lambda>handler.
     andthen (ShellHandler_prepare depth rts svc handler) (ret handler))"

section \<open>Properties\<close>

fun tolerated_removal :: "exn \<Rightarrow> bool" where
  "tolerated_removal (ShellNotFoundException _) = True"
| "tolerated_removal e = (is_Exception e \<and> contains ''This shell is used'' (exn_str e))"

lemma removal_handler:
  "(case e of
      ShellNotFoundException _ \<Rightarrow> ret ()
    | _ \<Rightarrow> if is_Exception e
           then (if \<not> contains ''This shell is used'' (exn_str e) then raise_exn e else ret ())
           else raise_exn e) = (if tolerated_removal e then ret () else raise_exn e)"
  by (cases e) simp_all

lemma finish_without_smb:
  assumes "csh_oid (shh_cs_handler sh) \<in> set (rest_cached w)"
    and "shh_cs_smb_handler sh = None \<or> shc_dependencies_path (shh_conf sh) = None"
  shows "ShellHandler_finish rts svc sh w =
    (let ev = Rest (csh_host (shh_cs_handler sh)) (DeleteShell (json_str (shh_cs_shell_name sh)))
     in (case rep_unit svc (hist w) ev of
           Inl e \<Rightarrow> if tolerated_removal e then Inr () else Inl e
         | Inr _ \<Rightarrow> Inr (), add_events [ev] w))"
proof -
  have none: "(case (shc_dependencies_path (shh_conf sh), shh_cs_smb_handler sh) of
      (Some _, Some smb) \<Rightarrow> CloudShellSmbHandler_clear_offline_pypi rts svc smb | _ \<Rightarrow> ret ()) = ret ()"
    using assms(2) by (auto split: option.splits)
  have "\<not> tolerated_removal NoReturn" by simp
  then show ?thesis
    using assms(1)
    unfolding ShellHandler_finish_def none removal_handler CloudShellHandler_remove_shell_def
    by (auto simp: run_simps Let_def split: sum.splits)
qed

text \<open>C35. A failed installation is cleaned up. On an open REST session and without an SMB handler, when
  the server refuses the package with an exception that is neither of an existing shell nor of an
  invalid driver, the shell is removed and the exception of the installation is raised; a removal
  that finds no shell, or a shell in use, is passed over, and any other failure of the removal is
  raised instead. Nothing else is called.\<close>

theorem shell_prepare_cleans_up:
  assumes "retriers_law rts" and "csh_oid (shh_cs_handler sh) \<in> set (rest_cached w)"
    and "shh_cs_smb_handler sh = None"
    and "rep_unit svc (hist w) (Rest (csh_host (shh_cs_handler sh)) (AddShell (shc_path (shh_conf sh)))) = Inl e"
    and "is_Exception e" and "\<not> contains ''already exists'' (exn_arg0 e)" and "\<not> retry_on_invalid_driver e"
  shows "ShellHandler_prepare depth rts svc sh w =
    (let add = Rest (csh_host (shh_cs_handler sh)) (AddShell (shc_path (shh_conf sh)));
         del = Rest (csh_host (shh_cs_handler sh)) (DeleteShell (json_str (shh_cs_shell_name sh)))
     in (Inl (case rep_unit svc (hist w @ [add]) del of
                Inl e' \<Rightarrow> if tolerated_removal e' then e else e'
              | Inr _ \<Rightarrow> e), add_events [add, del] w))"
proof -
  let ?add = "Rest (csh_host (shh_cs_handler sh)) (AddShell (shc_path (shh_conf sh)))"
  have "e \<noteq> NoReturn" using assms(5) by auto
  then have "install_shell_once svc (shh_cs_handler sh) (shc_path (shh_conf sh)) w = (Inl e, add_events [?add] w)"
    using assms(2,4-6) by (simp add: install_shell_once_def run_simps)
  then have "rt_unit rts (Suc (Suc 5)) retry_on_invalid_driver
      (install_shell_once svc (shh_cs_handler sh) (shc_path (shh_conf sh))) w = (Inl e, add_events [?add] w)"
    using assms(1,7) by (subst retrying_law_Suc) (auto simp: retriers_law_def)
  then have inst: "ShellHandler_install_shell rts svc sh w = (Inl e, add_events [?add] w)"
    by (simp add: ShellHandler_install_shell_def CloudShellHandler_install_shell_def)
  have "ShellHandler_store_extra_files depth rts svc sh = ret ()"
    using assms(3) by (simp add: ShellHandler_store_extra_files_def)
  with inst \<open>e \<noteq> NoReturn\<close> assms(5) show ?thesis
    using finish_without_smb [of sh "add_events [?add] w" rts svc] assms(2,3)
    by (auto simp: ShellHandler_prepare_def try_except_run andthen_run raise_run Let_def split: sum.splits)
qed

text \<open>A shell whose package the server refuses and whose name it does not know.\<close>

definition shell_example :: shell_handler where
  "shell_example = \<lparr>shh_conf = \<lparr>shc_name = ''Cisco'', shc_path = ''ios.zip'', shc_dependencies_path = Some ''deps.zip'',
     shc_extra_standards_paths = [], shc_tests_conf = TestsConfig_default\<rparr>, shh_model = ''Cisco IOS'',
     shh_cs_shell_name = JStr ''Cisco IOS'', shh_cs_handler = do_example, shh_cs_smb_handler = None\<rparr>"

definition refusing_services :: services where
  "refusing_services = obliging_services\<lparr>rep_unit := (\<lambda>h ev. case ev of
     Rest _ (AddShell _) \<Rightarrow> Inl (OtherError [''bad package''] ''bad package'')
   | _ \<Rightarrow> Inl (ShellNotFoundException []))\<rparr>"

theorem shell_prepare_cleans_up_witness:
  "ShellHandler_prepare 5 retriers_ref refusing_services shell_example smb_state =
     (Inl (OtherError [''bad package''] ''bad package''),
      add_events [Rest ''192.168.1.3'' (AddShell ''ios.zip''), Rest ''192.168.1.3'' (DeleteShell ''Cisco IOS'')] smb_state)"
proof -
  have "csh_oid (shh_cs_handler shell_example) \<in> set (rest_cached smb_state)"
    "shh_cs_smb_handler shell_example = None"
    "csh_host (shh_cs_handler shell_example) = ''192.168.1.3''" "shc_path (shh_conf shell_example) = ''ios.zip''"
    "json_str (shh_cs_shell_name shell_example) = ''Cisco IOS''"
    by (simp_all add: shell_example_def do_example_def smb_state_def json_str_def)
  moreover have "\<not> contains ''already exists'' ''bad package''"
    "\<not> retry_on_invalid_driver (OtherError [''bad package''] ''bad package'')"
    by code_simp+
  ultimately show ?thesis
    using shell_prepare_cleans_up [OF retriers_ref_law, of shell_example smb_state refusing_services
        "OtherError [''bad package''] ''bad package''" 5]
    by (simp add: refusing_services_def)
qed

text \<open>Removing a shell, on an open REST session: with an SMB handler and dependencies the offline
  PyPI is cleared afterwards, exactly when the removal succeeded or its failure is tolerated.\<close>

theorem shell_finish_course:
  assumes "csh_oid (shh_cs_handler sh) \<in> set (rest_cached w)"
  shows "ShellHandler_finish rts svc sh w =
    (let ev = Rest (csh_host (shh_cs_handler sh)) (DeleteShell (json_str (shh_cs_shell_name sh)));
         w1 = add_events [ev] w;
         clear = (case (shc_dependencies_path (shh_conf sh), shh_cs_smb_handler sh) of
                    (Some _, Some smb) \<Rightarrow> CloudShellSmbHandler_clear_offline_pypi rts svc smb w1
                  | _ \<Rightarrow> (Inr (), w1))
     in (case rep_unit svc (hist w) ev of
           Inl e \<Rightarrow> if tolerated_removal e then clear else (Inl e, w1)
         | Inr _ \<Rightarrow> clear))"
proof -
  have "\<not> tolerated_removal NoReturn" by simp
  then show ?thesis
    using assms
    unfolding ShellHandler_finish_def removal_handler CloudShellHandler_remove_shell_def
    by (auto simp: run_simps Let_def split: sum.splits option.splits)
qed

theorem shell_finish_course_witness:
  "ShellHandler_finish retriers_ref refusing_services shell_example smb_state =
     (Inr (), add_events [Rest ''192.168.1.3'' (DeleteShell ''Cisco IOS'')] smb_state)"
proof -
  have "csh_oid (shh_cs_handler shell_example) \<in> set (rest_cached smb_state)"
    by (simp add: shell_example_def do_example_def smb_state_def)
  then show ?thesis
    by (simp add: shell_finish_course Let_def refusing_services_def)
       (simp add: shell_example_def do_example_def json_str_def)
qed

end
