(* ===== verification/Sandbox_Handler.thy ===== *)
theory Sandbox_Handler
  imports Cs_Handler
begin

text \<open>
  \<^verbatim>\<open>shell_tests/handlers/sandbox_handler.py\<close>: a reservation of CloudShell and the calls made in it.
  The attributes of \<^verbatim>\<open>SandboxHandler\<close> are never assigned after its construction, so a handler is a
  value. The three methods that store the sandbox in a resource or service handler
  (\<^verbatim>\<open>add_resource_to_reservation\<close>, \<^verbatim>\<open>remove_resource_from_reservation\<close> and
  \<^verbatim>\<open>add_service_to_reservation\<close>) are with the objects they change, in the theory of the resource
  handlers. The lemmas show that a reservation whose start fails is asked to end, and which
  resource is taken for a deployed app.
\<close>

section \<open>The handler\<close>

record sandbox_handler =
  sbh_conf :: sandbox_config
  sbh_reservation_id :: string
  sbh_cs_handler :: cs_handler

definition opt_truthy :: "string option \<Rightarrow> bool" where
  "opt_truthy o' \<longleftrightarrow> (case o' of None \<Rightarrow> False | Some s \<Rightarrow> s \<noteq> [])"

definition SandboxHandler_create ::
  "'e services_scheme \<Rightarrow> sandbox_config \<Rightarrow> cs_handler \<Rightarrow> int \<Rightarrow> ('x, sandbox_handler) io" where
  "SandboxHandler_create svc conf cs duration =
     bnd (if opt_truthy (sc_blueprint_name conf)
          then CloudShellHandler_create_topology_reservation svc cs (sc_name conf)
                 (the (sc_blueprint_name conf)) duration (sc_specific_version conf)
          else CloudShellHandler_create_reservation svc cs (sc_name conf) duration) (\<lambda>rid.
     andthen
       (try_except (CloudShellHandler_wait_reservation_is_started svc cs rid)
          (\<lambda>e. andthen (CloudShellHandler_end_reservation svc cs rid False) (raise_exn e)))
       (ret \<lparr>sbh_conf = conf, sbh_reservation_id = rid, sbh_cs_handler = cs\<rparr>))"

definition SandboxHandler_end_reservation ::
  "'e services_scheme \<Rightarrow> sandbox_handler \<Rightarrow> bool \<Rightarrow> ('x, unit) io" where
  "SandboxHandler_end_reservation svc sb wait =
     CloudShellHandler_end_reservation svc (sbh_cs_handler sb) (sbh_reservation_id sb) wait"

definition SandboxHandler_delete_reservation :: "'e services_scheme \<Rightarrow> sandbox_handler \<Rightarrow> ('x, unit) io" where
  "SandboxHandler_delete_reservation svc sb =
     CloudShellHandler_delete_reservation svc (sbh_cs_handler sb) (sbh_reservation_id sb)"

definition SandboxHandler_execute_resource_command ::
  "'e services_scheme \<Rightarrow> sandbox_handler \<Rightarrow> string \<Rightarrow> string \<Rightarrow> (string, string) dict \<Rightarrow> ('x, string) io" where
  "SandboxHandler_execute_resource_command svc sb resource_name command_name command_kwargs =
     CloudShellHandler_execute_command_on_resource svc (sbh_cs_handler sb) (sbh_reservation_id sb)
       resource_name command_name command_kwargs"

definition SandboxHandler_execute_service_command ::
  "'e services_scheme \<Rightarrow> sandbox_handler \<Rightarrow> string \<Rightarrow> string \<Rightarrow> (string, string) dict \<Rightarrow> ('x, string) io" where
  "SandboxHandler_execute_service_command svc sb service_name command_name command_kwargs =
     CloudShellHandler_execute_command_on_service svc (sbh_cs_handler sb) (sbh_reservation_id sb)
       service_name command_name command_kwargs"

definition SandboxHandler_add_physical_connection ::
  "'e services_scheme \<Rightarrow> sandbox_handler \<Rightarrow> string \<Rightarrow> string \<Rightarrow> ('x, unit) io" where
  "SandboxHandler_add_physical_connection svc sb port_name1 port_name2 =
     CloudShellHandler_add_physical_connection svc (sbh_cs_handler sb) (sbh_reservation_id sb)
       port_name1 port_name2"

definition SandboxHandler_connect_ports_with_connector ::
  "'e services_scheme \<Rightarrow> sandbox_handler \<Rightarrow> string \<Rightarrow> string \<Rightarrow> string \<Rightarrow> ('x, unit) io" where
  "SandboxHandler_connect_ports_with_connector svc sb port_name1 port_name2 connector_name =
     CloudShellHandler_connect_ports_with_connector svc (sbh_cs_handler sb) (sbh_reservation_id sb)
       port_name1 port_name2 connector_name"

definition SandboxHandler_remove_connector ::
  "'e services_scheme \<Rightarrow> sandbox_handler \<Rightarrow> string \<Rightarrow> string \<Rightarrow> ('x, unit) io" where
  "SandboxHandler_remove_connector svc sb port_name1 port_name2 =
     CloudShellHandler_remove_connector svc (sbh_cs_handler sb) (sbh_reservation_id sb)
       port_name1 port_name2"

definition SandboxHandler_wait_for_started :: "'e services_scheme \<Rightarrow> sandbox_handler \<Rightarrow> ('x, unit) io" where
  "SandboxHandler_wait_for_started svc sb =
     CloudShellHandler_wait_reservation_is_started svc (sbh_cs_handler sb) (sbh_reservation_id sb)"

definition SandboxHandler_refresh_vm_details ::
  "'e services_scheme \<Rightarrow> sandbox_handler \<Rightarrow> string list \<Rightarrow> ('x, unit) io" where
  "SandboxHandler_refresh_vm_details svc sb app_names =
     CloudShellHandler_refresh_vm_details svc (sbh_cs_handler sb) (sbh_reservation_id sb) app_names"

definition SandboxHandler_finish :: "'e services_scheme \<Rightarrow> sandbox_handler \<Rightarrow> bool \<Rightarrow> ('x, unit) io" where
  "SandboxHandler_finish svc sb wait = SandboxHandler_end_reservation svc sb wait"

section \<open>The resource of a deployed app\<close>

definition suitable_resource_name :: "string \<Rightarrow> string \<Rightarrow> bool" where
  "suitable_resource_name app resource_name \<longleftrightarrow>
     prefix app resource_name \<or> prefix (replace_all '' '' ''-'' app) resource_name"

definition several_resources_error :: "string \<Rightarrow> string \<Rightarrow> string list \<Rightarrow> exn" where
  "several_resources_error app rid names = DeploymentResourceNotFoundError
     (''There are more than one suitable resource for the name '' @ app @ '' in the reservation '' @
      rid @ ''. Available resources are '' @ repr_list (map repr_str names))"

definition no_resource_error :: "string \<Rightarrow> string \<Rightarrow> string list \<Rightarrow> exn" where
  "no_resource_error app rid names = DeploymentResourceNotFoundError
     (''Could not find the deployment resource with prefix '' @ app @ '' in the reservation '' @
      rid @ ''. Available resources are '' @ repr_list (map repr_str names))"

text \<open>\<open>None\<close> of the blueprint name is passed on as the text of an absent name: the source calls this
  method only for sandboxes of a blueprint.\<close>

definition SandboxHandler_get_deployment_resource_name ::
  "'e services_scheme \<Rightarrow> sandbox_handler \<Rightarrow> ('x, string) io" where
  "SandboxHandler_get_deployment_resource_name svc sb =
     bnd (CloudShellHandler_get_topology_details svc (sbh_cs_handler sb)
            (case sc_blueprint_name (sbh_conf sb) of None \<Rightarrow> ''None'' | Some n \<Rightarrow> n)) (\<lambda>apps.
     if length apps \<noteq> 1
     then raise_exn (AssertionError ''Supported only 1 app in the reservation'')
     else
       (let app = apps ! 0
        in bnd (CloudShellHandler_get_resources_names_in_reservation svc (sbh_cs_handler sb)
                  (sbh_reservation_id sb)) (\<lambda>names.
           let found_names = filter (suitable_resource_name app) names
           in if length found_names > 1
              then raise_exn (several_resources_error app (sbh_reservation_id sb) names)
              else if found_names = []
              then raise_exn (no_resource_error app (sbh_reservation_id sb) names)
              else ret (found_names ! 0))))"

section \<open>Sessions\<close>

lemma sessions_stay_get_activity: "keeps sessions_stay (get_activity svc url eid)"
  unfolding get_activity_def by (intro stays)

lemma sessions_stay_get_reservation_errors: "keeps sessions_stay (get_reservation_errors svc conf rid)"
  unfolding get_reservation_errors_def Let_def by (intro stays sessions_stay_get_activity)

lemma sessions_stay_wait_started: "keeps sessions_stay (wait_started_loop n svc cs rid)"
  by (induction n)
     (auto simp: CloudShellHandler_get_reservation_status_def CloudShellHandler_get_reservation_errors_def
       intro!: stays sessions_stay_get_reservation_errors)

lemma end_without_waiting:
  "connected cs w \<Longrightarrow> CloudShellHandler_end_reservation svc cs rid False w =
     (rep_unit svc (hist w) (Api (csh_host cs) (EndReservation rid)),
      add_events [Api (csh_host cs) (EndReservation rid)] w)"
  by (auto simp: CloudShellHandler_end_reservation_def run_simps split: sum.splits)

section \<open>Properties\<close>

lemma filter_finds_one:
  "length (filter P xs) \<le> 1 \<and> filter P xs \<noteq> [] \<and> filter P xs ! 0 = n \<longleftrightarrow>
   (\<exists>before after. xs = before @ [n] @ after \<and> P n \<and> (\<forall>m \<in> set before \<union> set after. \<not> P m))"
proof -
  have "length (filter P xs) \<le> 1 \<and> filter P xs \<noteq> [] \<and> filter P xs ! 0 = n \<longleftrightarrow> filter P xs = [n]"
    by (cases "filter P xs") auto
  also have "\<dots> \<longleftrightarrow> (\<exists>before after. xs = before @ [n] @ after \<and> P n \<and>
      (\<forall>m \<in> set before \<union> set after. \<not> P m))"
  proof -
    have empty: "[] = filter P vs \<longleftrightarrow> (\<forall>m \<in> set vs. \<not> P m)" for vs by (induction vs) auto
    show ?thesis unfolding filter_eq_Cons_iff empty by (simp add: ball_Un) blast
  qed
  finally show ?thesis .
qed


text \<open>The call that creates the reservation of a sandbox.\<close>

definition create_call ::
  "'e services_scheme \<Rightarrow> sandbox_config \<Rightarrow> cs_handler \<Rightarrow> int \<Rightarrow> api_call" where
  "create_call svc conf cs duration =
     (if opt_truthy (sc_blueprint_name conf)
      then CreateImmediateTopologyReservation (sc_name conf) (session_username svc (csc_user (csh_conf cs)))
             duration (the (sc_blueprint_name conf))
             (if opt_truthy (sc_specific_version conf) then [(''Version'', the (sc_specific_version conf))] else [])
      else CreateImmediateReservation (sc_name conf) (session_username svc (csc_user (csh_conf cs))) duration)"

lemma create_reservation_call:
  "(if opt_truthy (sc_blueprint_name conf)
    then CloudShellHandler_create_topology_reservation svc cs (sc_name conf)
           (the (sc_blueprint_name conf)) duration (sc_specific_version conf)
    else CloudShellHandler_create_reservation svc cs (sc_name conf) duration) =
   api_call svc (rep_str svc) cs (create_call svc conf cs duration)"
  by (auto simp: create_call_def CloudShellHandler_create_topology_reservation_def opt_truthy_def
      CloudShellHandler_create_reservation_def split: option.splits)

text \<open>C13. No reservation is leaked. Creating a sandbox makes one reservation call, of the blueprint with
  its specific version if the configuration names them. Its failure is raised and nothing else is
  called. Otherwise the sandbox waits for the start, and is returned, with the reservation's id,
  exactly if the wait returns; when the wait raises anything, an interrupt included, the last call is
  the one that ends that reservation, without waiting, and the exception is the one of the wait
  unless ending fails too.\<close>

theorem sandbox_create_never_leaks:
  "case api_call svc (rep_str svc) cs (create_call svc conf cs duration) w of
     (Inl e, w1) \<Rightarrow> SandboxHandler_create svc conf cs duration w = (Inl e, w1)
   | (Inr rid, w1) \<Rightarrow>
       (case CloudShellHandler_wait_reservation_is_started svc cs rid w1 of
          (Inr _, w2) \<Rightarrow> SandboxHandler_create svc conf cs duration w =
            (Inr \<lparr>sbh_conf = conf, sbh_reservation_id = rid, sbh_cs_handler = cs\<rparr>, w2)
        | (Inl e, w2) \<Rightarrow> SandboxHandler_create svc conf cs duration w =
            (if e = NoReturn then (Inl e, w2)
             else (Inl (case rep_unit svc (hist w2) (Api (csh_host cs) (EndReservation rid)) of
                          Inl e' \<Rightarrow> e' | Inr _ \<Rightarrow> e),
                   add_events [Api (csh_host cs) (EndReservation rid)] w2)))"
proof -
  have "connected cs w2"
    if "api_call svc (rep_str svc) cs (create_call svc conf cs duration) w = (Inr rid, w1)"
      "CloudShellHandler_wait_reservation_is_started svc cs rid w1 = (r, w2)" for rid w1 r w2
    using connected_stay [OF sessions_stay_wait_started that(2)
        [unfolded CloudShellHandler_wait_reservation_is_started_def] api_call_connects [OF that(1)]] .
  then show ?thesis
    unfolding SandboxHandler_create_def create_reservation_call
    by (auto simp: run_simps end_without_waiting split: prod.splits sum.splits)
qed

text \<open>The resource taken for the deployed app of a sandbox, on an open session: the blueprint must
  have exactly one app, and among the resources of the reservation there must be exactly one whose
  name starts with the app's name, or with that name with dashes for its spaces; that one is
  returned. None and several raise \<^verbatim>\<open>DeploymentResourceNotFoundError\<close>.\<close>

theorem get_deployment_resource_name_unique:
  assumes "connected (sbh_cs_handler sb) w"
    and "rep_strs svc (hist w) (Api (csh_host (sbh_cs_handler sb)) (GetTopologyDetails bp)) = Inr apps"
    and "sc_blueprint_name (sbh_conf sb) = Some bp"
    and "rep_strs svc (hist w @ [Api (csh_host (sbh_cs_handler sb)) (GetTopologyDetails bp)])
           (Api (csh_host (sbh_cs_handler sb)) (GetReservationResourcesPositions (sbh_reservation_id sb))) = Inr names"
  shows "(\<exists>w'. SandboxHandler_get_deployment_resource_name svc sb w = (Inr n, w')) \<longleftrightarrow>
    (\<exists>app before after. apps = [app] \<and> names = before @ [n] @ after \<and> suitable_resource_name app n \<and>
       (\<forall>m \<in> set before \<union> set after. \<not> suitable_resource_name app m))"
proof -
  show ?thesis
  proof (cases "\<exists>app. apps = [app]")
    case True
    then obtain app where app: "apps = [app]" by blast
    have "(\<exists>w'. SandboxHandler_get_deployment_resource_name svc sb w = (Inr n, w')) \<longleftrightarrow>
        length (filter (suitable_resource_name app) names) \<le> 1 \<and>
        filter (suitable_resource_name app) names \<noteq> [] \<and> filter (suitable_resource_name app) names ! 0 = n"
      using assms app
      by (auto simp: SandboxHandler_get_deployment_resource_name_def run_simps Let_def
          CloudShellHandler_get_topology_details_def CloudShellHandler_get_resources_names_in_reservation_def)
    also have "\<dots> \<longleftrightarrow> (\<exists>before after. names = before @ [n] @ after \<and> suitable_resource_name app n \<and>
       (\<forall>m \<in> set before \<union> set after. \<not> suitable_resource_name app m))"
      by (rule filter_finds_one)
    finally show ?thesis using app by auto
  next
    case False
    then have "length apps \<noteq> 1" by (auto simp: length_Suc_conv)
    with assms False show ?thesis
      by (auto simp: SandboxHandler_get_deployment_resource_name_def run_simps
          CloudShellHandler_get_topology_details_def)
  qed
qed

text \<open>A sandbox of a blueprint with one app, whose resource has a dash for the space.\<close>

definition app_sandbox :: sandbox_handler where
  "app_sandbox = \<lparr>sbh_conf = \<lparr>sc_name = ''s'', sc_resource_names = [], sc_deployment_resource_names = [],
     sc_service_names = [], sc_blueprint_name = Some ''bp'', sc_specific_version = None, sc_tests_conf = None\<rparr>,
     sbh_reservation_id = ''f91adb5c'', sbh_cs_handler = do_example\<rparr>"

definition app_services :: services where
  "app_services = obliging_services\<lparr>rep_strs := (\<lambda>h ev. case ev of
     Api _ (GetTopologyDetails _) \<Rightarrow> Inr [''vm app'']
   | _ \<Rightarrow> Inr [''other'', ''vm-app-12''])\<rparr>"

theorem get_deployment_resource_name_unique_witness:
  "\<exists>w'. SandboxHandler_get_deployment_resource_name app_services app_sandbox open_world = (Inr ''vm-app-12'', w')"
proof -
  have suit: "suitable_resource_name ''vm app'' ''vm-app-12''" "\<not> suitable_resource_name ''vm app'' ''other''"
    by (code_simp, code_simp)
  then have "\<exists>app before after. [''vm app''] = [app] \<and> [''other'', ''vm-app-12''] = before @ [''vm-app-12''] @ after \<and>
      suitable_resource_name app ''vm-app-12'' \<and>
      (\<forall>m \<in> set before \<union> set after. \<not> suitable_resource_name app m)"
    by (intro exI [of _ "''vm app''"] exI [of _ "[''other'']"] exI [of _ "[]"]) simp
  then show ?thesis
    by (subst get_deployment_resource_name_unique [where bp = "''bp''" and apps = "[''vm app'']"
          and names = "[''other'', ''vm-app-12'']"])
       (simp_all add: app_sandbox_def app_services_def)
qed

end
