(* ===== verification/Resource_Handler.thy ===== *)
theory Resource_Handler
  imports Shell_Handler Sandbox_Handler
begin

text \<open>
  \<^verbatim>\<open>shell_tests/handlers/resource_handler.py\<close>, and the methods of \<^verbatim>\<open>SandboxHandler\<close> that store a sandbox
  in a handler. Resource, service and deployment handlers are mutable and shared between the
  storage and the tests, so they live in the state and are named by their position; a method takes
  the position. Threads are not interleaved here: \<^verbatim>\<open>autoload_finished.wait()\<close> on an unset event blocks,
  the marker \<open>NoReturn\<close>. The interleaving of the autoload methods is the subject of its own theory.
  The lemmas give the flags after an autoload, the recovery from a missing driver, the namespace
  chosen for a child's attribute, the ports that are added, and the bookkeeping of broken
  dependencies.
\<close>

section \<open>Objects\<close>

datatype device_type = REAL_DEVICE | SIMULATOR | WITHOUT_DEVICE | SHELL_FROM_TEMPLATE

text \<open>\<open>rh_family\<close> is the cached property; the events \<^verbatim>\<open>_autoload_started\<close> and \<^verbatim>\<open>autoload_finished\<close> are
  flags.\<close>

record resource_handler =
  rh_conf :: resource_config
  rh_name :: string
  rh_attributes :: "(string, string) dict"
  rh_children_attributes :: "(string, (string, string) dict) dict"
  rh_cs_handler :: cs_handler
  rh_shell_handler :: shell_handler
  rh_dependencies_are_broken :: bool
  rh_sandbox_handler :: "sandbox_handler option"
  rh_family :: "string option"
  rh_autoload_started :: bool
  rh_autoload_finished :: bool
  rh_is_autoload_success :: "bool option"

record service_handler =
  sh_name :: string
  sh_model :: string
  sh_attributes :: "(string, string) dict"
  sh_sandbox_handler :: "sandbox_handler option"

record deployment_handler =
  dh_conf :: deployment_resource_config
  dh_name :: string
  dh_vm_name :: string
  dh_attributes :: "(string, string) dict"
  dh_sandbox_handler :: sandbox_handler
  dh_model :: "string option"
  dh_device_ip :: "string option"

record objects = smb_world +
  resource_objs :: "resource_handler list"
  service_objs :: "service_handler list"
  deployment_objs :: "deployment_handler list"

type_synonym ('x, 'a) obj_io = "('x objects_scheme, 'a) pym"

definition rh_get :: "nat \<Rightarrow> (resource_handler \<Rightarrow> 'a) \<Rightarrow> ('x, 'a) obj_io" where
  "rh_get i f = get_state (\<lambda>w. f (resource_objs w ! i))"

definition rh_upd :: "nat \<Rightarrow> (resource_handler \<Rightarrow> resource_handler) \<Rightarrow> ('x, unit) obj_io" where
  "rh_upd i f = modify (\<lambda>w. w\<lparr>resource_objs := (resource_objs w)[i := f (resource_objs w ! i)]\<rparr>)"

definition sh_get :: "nat \<Rightarrow> (service_handler \<Rightarrow> 'a) \<Rightarrow> ('x, 'a) obj_io" where
  "sh_get i f = get_state (\<lambda>w. f (service_objs w ! i))"

definition sh_upd :: "nat \<Rightarrow> (service_handler \<Rightarrow> service_handler) \<Rightarrow> ('x, unit) obj_io" where
  "sh_upd i f = modify (\<lambda>w. w\<lparr>service_objs := (service_objs w)[i := f (service_objs w ! i)]\<rparr>)"

definition dh_get :: "nat \<Rightarrow> (deployment_handler \<Rightarrow> 'a) \<Rightarrow> ('x, 'a) obj_io" where
  "dh_get i f = get_state (\<lambda>w. f (deployment_objs w ! i))"

definition dh_upd :: "nat \<Rightarrow> (deployment_handler \<Rightarrow> deployment_handler) \<Rightarrow> ('x, unit) obj_io" where
  "dh_upd i f = modify (\<lambda>w. w\<lparr>deployment_objs := (deployment_objs w)[i := f (deployment_objs w ! i)]\<rparr>)"

section \<open>Resources\<close>

definition ResourceHandler_new ::
  "resource_config \<Rightarrow> cs_handler \<Rightarrow> shell_handler \<Rightarrow> ('x, nat) obj_io" where
  "ResourceHandler_new conf cs sh =
     bnd (get_state (\<lambda>w. length (resource_objs w))) (\<lambda>i.
     andthen
       (modify (\<lambda>w. w\<lparr>resource_objs := resource_objs w @
          [\<lparr>rh_conf = conf, rh_name = rc_name conf, rh_attributes = [], rh_children_attributes = [],
            rh_cs_handler = cs, rh_shell_handler = sh, rh_dependencies_are_broken = False,
            rh_sandbox_handler = None, rh_family = None, rh_autoload_started = False,
            rh_autoload_finished = False, rh_is_autoload_success = None\<rparr>]\<rparr>))
       (ret i))"

definition ResourceHandler_sandbox_handler :: "nat \<Rightarrow> ('x, sandbox_handler) obj_io" where
  "ResourceHandler_sandbox_handler i =
     bnd (rh_get i rh_sandbox_handler) (\<lambda>s.
       case s of
         None \<Rightarrow> raise_exn (BaseAutomationException ''You have to add Sandbox Handler'')
       | Some sb \<Rightarrow> ret sb)"

definition ResourceHandler_set_sandbox_handler :: "nat \<Rightarrow> sandbox_handler option \<Rightarrow> ('x, unit) obj_io" where
  "ResourceHandler_set_sandbox_handler i val = rh_upd i (\<lambda>o'. o'\<lparr>rh_sandbox_handler := val\<rparr>)"

definition ResourceHandler_get_details :: "'e services_scheme \<Rightarrow> nat \<Rightarrow> ('x, resource_info) obj_io" where
  "ResourceHandler_get_details svc i =
     bnd (rh_get i rh_cs_handler) (\<lambda>cs. bnd (rh_get i rh_name) (\<lambda>name.
     CloudShellHandler_get_resource_details svc cs name))"

definition ResourceHandler_family :: "'e services_scheme \<Rightarrow> nat \<Rightarrow> ('x, string) obj_io" where
  "ResourceHandler_family svc i =
     bnd (rh_get i rh_family) (\<lambda>cached.
       case cached of
         Some f \<Rightarrow> ret f
       | None \<Rightarrow> bnd (ResourceHandler_get_details svc i) (\<lambda>info.
           andthen (rh_upd i (\<lambda>o'. o'\<lparr>rh_family := Some (ri_ResourceFamilyName info)\<rparr>))
             (ret (ri_ResourceFamilyName info))))"

definition ResourceHandler_device_type :: "resource_config \<Rightarrow> device_type" where
  "ResourceHandler_device_type conf =
     (if contains ''SHELL_FROM_TEMPLATE'' (rc_name conf) then SHELL_FROM_TEMPLATE
      else if \<not> opt_truthy (rc_device_ip conf) then WITHOUT_DEVICE
      else if opt_truthy (dict_get (rc_attributes conf) ''User'') then REAL_DEVICE
      else SIMULATOR)"

abbreviation rh_model :: "resource_handler \<Rightarrow> string" where
  "rh_model o' \<equiv> shh_model (rh_shell_handler o')"

definition ResourceHandler_set_attributes ::
  "'e services_scheme \<Rightarrow> nat \<Rightarrow> (string, string) dict \<Rightarrow> ('x, unit) obj_io" where
  "ResourceHandler_set_attributes svc i attributes =
     bnd (rh_get i id) (\<lambda>o'.
     let namespace = (if \<not> rc_is_first_gen (rh_conf o') then rh_model o' else [])
     in andthen (CloudShellHandler_set_resource_attributes svc (rh_cs_handler o') (rh_name o') namespace attributes)
          (rh_upd i (\<lambda>o'. o'\<lparr>rh_attributes := dict_update (rh_attributes o') attributes\<rparr>)))"

text \<open>\<^verbatim>\<open>create_resource\<close> is called without new names, so its loop is left in the first round.\<close>

definition ResourceHandler_create_resource :: "'e services_scheme \<Rightarrow> nat \<Rightarrow> ('x, unit) obj_io" where
  "ResourceHandler_create_resource svc i =
     bnd (rh_get i id) (\<lambda>o'.
     let ip = (if opt_truthy (rc_device_ip (rh_conf o')) then the (rc_device_ip (rh_conf o')) else ''127.0.0.1'')
     in bnd (CloudShellHandler_create_resource 1 svc (rh_cs_handler o') (rh_name o') (rh_model o') ip [] [] False) (\<lambda>name.
        andthen (rh_upd i (\<lambda>o'. o'\<lparr>rh_name := name\<rparr>))
          (if rc_attributes (rh_conf o') \<noteq> []
           then ResourceHandler_set_attributes svc i (rc_attributes (rh_conf o')) else ret ())))"

definition ResourceHandler_create ::
  "'e services_scheme \<Rightarrow> resource_config \<Rightarrow> cs_handler \<Rightarrow> shell_handler \<Rightarrow> ('x, nat) obj_io" where
  "ResourceHandler_create svc conf cs sh =
     bnd (ResourceHandler_new conf cs sh) (\<lambda>i.
     andthen (ResourceHandler_create_resource svc i) (ret i))"

text \<open>The loop over the attributes of a child: the namespace and the name of the one that was looked at
  last.\<close>

fun child_namespace :: "string \<Rightarrow> (string \<times> string) list \<Rightarrow> string \<Rightarrow> exn + string" where
  "child_namespace namespace [] attribute_name = Inr namespace"
| "child_namespace namespace ((n, _) # infos) attribute_name =
     (case split_last (CHR ''.'') n of
        [ns, name] \<Rightarrow> if name = attribute_name then Inr ns else child_namespace ns infos attribute_name
      | _ \<Rightarrow> Inl (ValueError ''not enough values to unpack (expected 2, got 1)''))"

definition ResourceHandler_set_child_attribute ::
  "'e services_scheme \<Rightarrow> nat \<Rightarrow> resource_info \<Rightarrow> string \<Rightarrow> string \<Rightarrow> ('x, unit) obj_io" where
  "ResourceHandler_set_child_attribute svc i child_info attribute_name attribute_value =
     bnd (of_result (child_namespace (ri_ResourceModelName child_info) (ri_ResourceAttributes child_info)
            attribute_name)) (\<lambda>namespace.
     bnd (rh_get i rh_cs_handler) (\<lambda>cs.
     CloudShellHandler_set_resource_attributes svc cs (ri_Name child_info) namespace
       [(attribute_name, attribute_value)]))"

definition ResourceHandler_set_children_attributes ::
  "'e services_scheme \<Rightarrow> nat \<Rightarrow> (string, (string, string) dict) dict \<Rightarrow> ('x, unit) obj_io" where
  "ResourceHandler_set_children_attributes svc i children_attributes =
     for_each children_attributes (\<lambda>(child_name, attributes).
       bnd (rh_get i id) (\<lambda>o'.
       bnd (CloudShellHandler_get_resource_details svc (rh_cs_handler o')
              (rh_name o' @ ''/'' @ child_name)) (\<lambda>child_info.
       for_each attributes (\<lambda>(attribute_name, attribute_value).
         ResourceHandler_set_child_attribute svc i child_info attribute_name attribute_value))))"

fun no_driver :: "exn \<Rightarrow> bool" where
  "no_driver (CloudShellAPIError code message _) = (code = ''129'' \<or> message = ''no driver associated'')"
| "no_driver _ = False"

definition ResourceHandler_autoload_inner :: "'e services_scheme \<Rightarrow> nat \<Rightarrow> ('x, unit) obj_io" where
  "ResourceHandler_autoload_inner svc i =
     bnd (rh_get i id) (\<lambda>o'.
     try_except (CloudShellHandler_resource_autoload svc (rh_cs_handler o') (rh_name o'))
       (\<lambda>e. if is_CloudShellAPIError e
            then (if no_driver e
                  then andthen
                    (CloudShellHandler_update_driver_for_the_resource svc (rh_cs_handler o') (rh_name o') (rh_model o'))
                    (CloudShellHandler_resource_autoload svc (rh_cs_handler o') (rh_name o'))
                  else raise_exn e)
            else if e = DependenciesBrokenError
            then andthen (rh_upd i (\<lambda>o'. o'\<lparr>rh_dependencies_are_broken := True\<rparr>)) (raise_exn e)
            else raise_exn e))"

fun find_chassis :: "resource_info list \<Rightarrow> string option" where
  "find_chassis [] = None"
| "find_chassis (child_res # rest) =
     (if ri_ResourceFamilyName child_res = ''CS_Chassis'' then Some (ri_Name child_res) else find_chassis rest)"

definition ResourceHandler_add_additional_ports ::
  "'e services_scheme \<Rightarrow> nat \<Rightarrow> additional_port list \<Rightarrow> ('x, unit) obj_io" where
  "ResourceHandler_add_additional_ports svc i additional_port_configs =
     bnd (ResourceHandler_get_details svc i) (\<lambda>info.
     bnd (rh_get i rh_cs_handler) (\<lambda>cs.
     bnd (case find_chassis (ri_ChildResources info) of
            Some n \<Rightarrow> ret n
          | None \<Rightarrow>
              bnd (CloudShellHandler_create_resource 1 svc cs ''Chassis 1''
                     (ri_ResourceModelName info @ ''.GenericChassis'') ''CH1'' ''CS_Chassis'' (ri_Name info) False)
                (\<lambda>name. ret (ri_Name info @ ''/'' @ name))) (\<lambda>chassis_name.
     for_each (zip [1..<Suc (length additional_port_configs)] additional_port_configs) (\<lambda>(k, port_conf).
       bnd (CloudShellHandler_create_resource 1 svc cs (ap_name port_conf)
              (ri_ResourceModelName info @ ''.GenericPort'') (''P'' @ str_of_nat k) ''CS_Port'' chassis_name False)
         (\<lambda>_. ret ())))))"

definition ResourceHandler_autoload :: "'e services_scheme \<Rightarrow> nat \<Rightarrow> ('x, unit) obj_io" where
  "ResourceHandler_autoload svc i =
     andthen (rh_upd i (\<lambda>o'. o'\<lparr>rh_autoload_started := True\<rparr>))
     (andthen
       (bnd (rh_get i rh_conf) (\<lambda>conf.
        try_except_else
          (andthen (ResourceHandler_autoload_inner svc i)
          (andthen (if rc_additional_ports conf \<noteq> []
                    then ResourceHandler_add_additional_ports svc i (rc_additional_ports conf) else ret ())
            (if rc_children_attributes conf \<noteq> []
             then ResourceHandler_set_children_attributes svc i (rc_children_attributes conf) else ret ())))
          (\<lambda>e. if is_Exception e
               then andthen (rh_upd i (\<lambda>o'. o'\<lparr>rh_is_autoload_success := Some False\<rparr>))
                 (andthen (rh_upd i (\<lambda>o'. o'\<lparr>rh_autoload_finished := True\<rparr>)) (raise_exn e))
               else raise_exn e)
          (\<lambda>_. andthen (rh_upd i (\<lambda>o'. o'\<lparr>rh_is_autoload_success := Some True\<rparr>))
                 (rh_upd i (\<lambda>o'. o'\<lparr>rh_autoload_finished := True\<rparr>)))))
       (rh_upd i (\<lambda>o'. o'\<lparr>rh_autoload_started := False\<rparr>)))"

definition ResourceHandler_autoload_if_needed :: "'e services_scheme \<Rightarrow> nat \<Rightarrow> ('x, unit) obj_io" where
  "ResourceHandler_autoload_if_needed svc i =
     bnd (rh_get i rh_autoload_finished) (\<lambda>finished.
       if \<not> finished
       then bnd (rh_get i rh_autoload_started) (\<lambda>started.
              if started then raise_exn NoReturn else ResourceHandler_autoload svc i)
       else ret ())"

definition ResourceHandler_get_commands :: "'e services_scheme \<Rightarrow> nat \<Rightarrow> ('x, string list) obj_io" where
  "ResourceHandler_get_commands svc i =
     bnd (rh_get i id) (\<lambda>o'. CloudShellHandler_get_resource_commands svc (rh_cs_handler o') (rh_name o'))"

definition ResourceHandler_execute_command ::
  "'e services_scheme \<Rightarrow> nat \<Rightarrow> string \<Rightarrow> (string, string) dict \<Rightarrow> ('x, string) obj_io" where
  "ResourceHandler_execute_command svc i command_name command_kwargs =
     try_except
       (bnd (ResourceHandler_sandbox_handler i) (\<lambda>sb.
        bnd (rh_get i rh_name) (\<lambda>name.
        SandboxHandler_execute_resource_command svc sb name command_name command_kwargs)))
       (\<lambda>e. if e = DependenciesBrokenError
            then andthen (rh_upd i (\<lambda>o'. o'\<lparr>rh_dependencies_are_broken := True\<rparr>)) (raise_exn e)
            else raise_exn e)"

definition ResourceHandler_health_check :: "'e services_scheme \<Rightarrow> nat \<Rightarrow> ('x, string) obj_io" where
  "ResourceHandler_health_check svc i = ResourceHandler_execute_command svc i ''health_check'' []"

definition ResourceHandler_run_custom_command :: "'e services_scheme \<Rightarrow> nat \<Rightarrow> string \<Rightarrow> ('x, string) obj_io" where
  "ResourceHandler_run_custom_command svc i command =
     ResourceHandler_execute_command svc i ''run_custom_command'' [(''custom_command'', command)]"

definition ResourceHandler_run_custom_config_command ::
  "'e services_scheme \<Rightarrow> nat \<Rightarrow> string \<Rightarrow> ('x, string) obj_io" where
  "ResourceHandler_run_custom_config_command svc i command =
     ResourceHandler_execute_command svc i ''run_custom_config_command'' [(''custom_command'', command)]"

definition ResourceHandler_run_resource_commands ::
  "'e services_scheme \<Rightarrow> nat \<Rightarrow> resource_command list \<Rightarrow> ('x, unit) obj_io" where
  "ResourceHandler_run_resource_commands svc i commands =
     for_each commands (\<lambda>command.
       if rcmd_mode command = CONFIG
       then bnd (ResourceHandler_run_custom_config_command svc i (rcmd_command command)) (\<lambda>_. ret ())
       else bnd (ResourceHandler_run_custom_command svc i (rcmd_command command)) (\<lambda>_. ret ()))"

definition ResourceHandler_save :: "'e services_scheme \<Rightarrow> nat \<Rightarrow> string \<Rightarrow> string \<Rightarrow> ('x, string) obj_io" where
  "ResourceHandler_save svc i path_to_save configuration_type =
     ResourceHandler_execute_command svc i ''save''
       [(''folder_path'', path_to_save), (''configuration_type'', configuration_type)]"

definition ResourceHandler_orchestration_save ::
  "'e services_scheme \<Rightarrow> nat \<Rightarrow> string \<Rightarrow> string \<Rightarrow> ('x, string) obj_io" where
  "ResourceHandler_orchestration_save svc i mode custom_params =
     ResourceHandler_execute_command svc i ''orchestration_save''
       [(''mode'', mode), (''custom_params'', custom_params)]"

definition ResourceHandler_restore ::
  "'e services_scheme \<Rightarrow> nat \<Rightarrow> string \<Rightarrow> string \<Rightarrow> string \<Rightarrow> ('x, string) obj_io" where
  "ResourceHandler_restore svc i path configuration_type restore_method =
     ResourceHandler_execute_command svc i ''restore''
       [(''path'', path), (''configuration_type'', configuration_type), (''restore_method'', restore_method)]"

definition ResourceHandler_orchestration_restore ::
  "'e services_scheme \<Rightarrow> nat \<Rightarrow> string \<Rightarrow> string \<Rightarrow> ('x, string) obj_io" where
  "ResourceHandler_orchestration_restore svc i saved_artifact_info custom_params =
     ResourceHandler_execute_command svc i ''orchestration_restore''
       [(''saved_artifact_info'', saved_artifact_info), (''custom_params'', custom_params)]"

definition ResourceHandler_rename :: "nat \<Rightarrow> 'e services_scheme \<Rightarrow> nat \<Rightarrow> string \<Rightarrow> ('x, unit) obj_io" where
  "ResourceHandler_rename fuel svc i new_name =
     bnd (rh_get i id) (\<lambda>o'.
     bnd (CloudShellHandler_rename_resource fuel svc (rh_cs_handler o') (rh_name o') new_name) (\<lambda>name.
     rh_upd i (\<lambda>o'. o'\<lparr>rh_name := name\<rparr>)))"

definition ResourceHandler_finish :: "'e services_scheme \<Rightarrow> nat \<Rightarrow> ('x, unit) obj_io" where
  "ResourceHandler_finish svc i =
     bnd (rh_get i id) (\<lambda>o'. CloudShellHandler_delete_resource svc (rh_cs_handler o') (rh_name o'))"

section \<open>Services\<close>

definition ServiceHandler_new :: "string \<Rightarrow> (string, string) dict \<Rightarrow> string \<Rightarrow> ('x, nat) obj_io" where
  "ServiceHandler_new name attributes model =
     bnd (get_state (\<lambda>w. length (service_objs w))) (\<lambda>i.
     andthen
       (modify (\<lambda>w. w\<lparr>service_objs := service_objs w @
          [\<lparr>sh_name = name, sh_model = model, sh_attributes = attributes, sh_sandbox_handler = None\<rparr>]\<rparr>))
       (ret i))"

text \<open>\<^verbatim>\<open>conf.model\<close>: a \<^verbatim>\<open>ServiceConfig\<close> has no such field, and pydantic models raise for it.\<close>

definition ServiceConfig_model :: "service_config \<Rightarrow> exn + string" where
  "ServiceConfig_model conf = Inl (AttributeError ''ServiceConfig object has no attribute model'')"

definition ServiceHandler_from_conf :: "service_config \<Rightarrow> ('x, nat) obj_io" where
  "ServiceHandler_from_conf conf =
     bnd (of_result (ServiceConfig_model conf)) (\<lambda>model.
     ServiceHandler_new (svc_name conf) (svc_attributes conf) model)"

definition ServiceHandler_sandbox_handler :: "nat \<Rightarrow> ('x, sandbox_handler) obj_io" where
  "ServiceHandler_sandbox_handler i =
     bnd (sh_get i sh_sandbox_handler) (\<lambda>s.
       case s of
         None \<Rightarrow> raise_exn (BaseAutomationException ''You have to add Sandbox Handler'')
       | Some sb \<Rightarrow> ret sb)"

definition ServiceHandler_set_sandbox_handler :: "nat \<Rightarrow> sandbox_handler option \<Rightarrow> ('x, unit) obj_io" where
  "ServiceHandler_set_sandbox_handler i val = sh_upd i (\<lambda>o'. o'\<lparr>sh_sandbox_handler := val\<rparr>)"

definition ServiceHandler_device_type :: device_type where
  "ServiceHandler_device_type = REAL_DEVICE"

definition ServiceHandler_execute_command ::
  "'e services_scheme \<Rightarrow> nat \<Rightarrow> string \<Rightarrow> (string, string) dict \<Rightarrow> ('x, string) obj_io" where
  "ServiceHandler_execute_command svc i command_name command_kwargs =
     bnd (ServiceHandler_sandbox_handler i) (\<lambda>sb.
     bnd (sh_get i sh_name) (\<lambda>name.
     SandboxHandler_execute_service_command svc sb name command_name command_kwargs))"

definition ServiceHandler_load_config ::
  "'e services_scheme \<Rightarrow> nat \<Rightarrow> string \<Rightarrow> (string, string) dict option \<Rightarrow> ('x, string) obj_io" where
  "ServiceHandler_load_config svc i config_path extra_kwargs =
     ServiceHandler_execute_command svc i ''load_config''
       (dict_set ''config_file_location'' config_path (case extra_kwargs of None \<Rightarrow> [] | Some d \<Rightarrow> d))"

definition ServiceHandler_start_traffic ::
  "'e services_scheme \<Rightarrow> nat \<Rightarrow> (string, string) dict option \<Rightarrow> ('x, string) obj_io" where
  "ServiceHandler_start_traffic svc i extra_kwargs =
     ServiceHandler_execute_command svc i ''start_traffic'' (case extra_kwargs of None \<Rightarrow> [] | Some d \<Rightarrow> d)"

definition ServiceHandler_stop_traffic ::
  "'e services_scheme \<Rightarrow> nat \<Rightarrow> (string, string) dict option \<Rightarrow> ('x, string) obj_io" where
  "ServiceHandler_stop_traffic svc i extra_kwargs =
     ServiceHandler_execute_command svc i ''stop_traffic'' (case extra_kwargs of None \<Rightarrow> [] | Some d \<Rightarrow> d)"

definition ServiceHandler_get_statistics ::
  "'e services_scheme \<Rightarrow> nat \<Rightarrow> (string, string) dict option \<Rightarrow> ('x, string) obj_io" where
  "ServiceHandler_get_statistics svc i extra_kwargs =
     ServiceHandler_execute_command svc i ''get_statistics'' (case extra_kwargs of None \<Rightarrow> [] | Some d \<Rightarrow> d)"

definition ServiceHandler_get_test_file :: "'e services_scheme \<Rightarrow> nat \<Rightarrow> string \<Rightarrow> ('x, string) obj_io" where
  "ServiceHandler_get_test_file svc i test_name =
     ServiceHandler_execute_command svc i ''get_test_file'' [(''test_name'', test_name)]"

section \<open>Deployment resources\<close>

definition DeploymentResourceHandler_new ::
  "deployment_resource_config \<Rightarrow> string \<Rightarrow> sandbox_handler \<Rightarrow> ('x, nat) obj_io" where
  "DeploymentResourceHandler_new conf vm_name sb =
     bnd (get_state (\<lambda>w. length (deployment_objs w))) (\<lambda>i.
     andthen
       (modify (\<lambda>w. w\<lparr>deployment_objs := deployment_objs w @
          [\<lparr>dh_conf = conf, dh_name = vm_name, dh_vm_name = vm_name, dh_attributes = [],
            dh_sandbox_handler = sb, dh_model = None, dh_device_ip = None\<rparr>]\<rparr>))
       (ret i))"

abbreviation dh_cs_handler :: "deployment_handler \<Rightarrow> cs_handler" where
  "dh_cs_handler o' \<equiv> sbh_cs_handler (dh_sandbox_handler o')"

definition DeploymentResourceHandler_get_details :: "'e services_scheme \<Rightarrow> nat \<Rightarrow> ('x, resource_info) obj_io" where
  "DeploymentResourceHandler_get_details svc i =
     bnd (dh_get i id) (\<lambda>o'. CloudShellHandler_get_resource_details svc (dh_cs_handler o') (dh_name o'))"

definition DeploymentResourceHandler_model :: "'e services_scheme \<Rightarrow> nat \<Rightarrow> ('x, string) obj_io" where
  "DeploymentResourceHandler_model svc i =
     bnd (dh_get i dh_model) (\<lambda>cached.
       case cached of
         Some m \<Rightarrow> ret m
       | None \<Rightarrow> bnd (DeploymentResourceHandler_get_details svc i) (\<lambda>info.
           andthen (dh_upd i (\<lambda>o'. o'\<lparr>dh_model := Some (ri_ResourceModelName info)\<rparr>))
             (ret (ri_ResourceModelName info))))"

definition DeploymentResourceHandler_device_ip :: "'e services_scheme \<Rightarrow> nat \<Rightarrow> ('x, string) obj_io" where
  "DeploymentResourceHandler_device_ip svc i =
     bnd (dh_get i dh_device_ip) (\<lambda>cached.
       case cached of
         Some ip \<Rightarrow> ret ip
       | None \<Rightarrow> bnd (DeploymentResourceHandler_get_details svc i) (\<lambda>info.
           andthen (dh_upd i (\<lambda>o'. o'\<lparr>dh_device_ip := Some (ri_Address info)\<rparr>))
             (ret (ri_Address info))))"

definition DeploymentResourceHandler_device_type :: device_type where
  "DeploymentResourceHandler_device_type = REAL_DEVICE"

definition DeploymentResourceHandler_rename ::
  "nat \<Rightarrow> 'e services_scheme \<Rightarrow> nat \<Rightarrow> string \<Rightarrow> ('x, unit) obj_io" where
  "DeploymentResourceHandler_rename fuel svc i new_name =
     bnd (dh_get i id) (\<lambda>o'.
     bnd (CloudShellHandler_rename_resource fuel svc (dh_cs_handler o') (dh_name o') new_name) (\<lambda>name.
     dh_upd i (\<lambda>o'. o'\<lparr>dh_name := name\<rparr>)))"

definition DeploymentResourceHandler_set_attributes ::
  "'e services_scheme \<Rightarrow> nat \<Rightarrow> (string, string) dict \<Rightarrow> ('x, unit) obj_io" where
  "DeploymentResourceHandler_set_attributes svc i attributes =
     bnd (dh_get i id) (\<lambda>o'.
     bnd (if \<not> drc_is_first_gen (dh_conf o') then DeploymentResourceHandler_model svc i else ret []) (\<lambda>namespace.
     andthen (CloudShellHandler_set_resource_attributes svc (dh_cs_handler o') (dh_name o') namespace attributes)
       (dh_upd i (\<lambda>o'. o'\<lparr>dh_attributes := dict_update (dh_attributes o') attributes\<rparr>))))"

definition DeploymentResourceHandler_create_resource ::
  "'e services_scheme \<Rightarrow> deployment_resource_config \<Rightarrow> sandbox_handler \<Rightarrow> ('x, nat) obj_io" where
  "DeploymentResourceHandler_create_resource svc conf sb =
     bnd (SandboxHandler_get_deployment_resource_name svc sb) (\<lambda>vm_name.
     bnd (DeploymentResourceHandler_new conf vm_name sb) (\<lambda>i.
     andthen (if drc_attributes conf \<noteq> [] then DeploymentResourceHandler_set_attributes svc i (drc_attributes conf)
              else ret ())
       (ret i)))"

definition DeploymentResourceHandler_refresh_vm_details :: "'e services_scheme \<Rightarrow> nat \<Rightarrow> ('x, unit) obj_io" where
  "DeploymentResourceHandler_refresh_vm_details svc i =
     bnd (dh_get i id) (\<lambda>o'. SandboxHandler_refresh_vm_details svc (dh_sandbox_handler o') [dh_name o'])"

section \<open>The sandbox of a handler\<close>

definition SandboxHandler_add_resource_to_reservation ::
  "'e services_scheme \<Rightarrow> sandbox_handler \<Rightarrow> nat \<Rightarrow> ('x, unit) obj_io" where
  "SandboxHandler_add_resource_to_reservation svc sb i =
     bnd (rh_get i rh_name) (\<lambda>name.
     andthen (CloudShellHandler_add_resource_to_reservation svc (sbh_cs_handler sb) (sbh_reservation_id sb) name)
       (ResourceHandler_set_sandbox_handler i (Some sb)))"

definition SandboxHandler_remove_resource_from_reservation ::
  "'e services_scheme \<Rightarrow> sandbox_handler \<Rightarrow> nat \<Rightarrow> ('x, unit) obj_io" where
  "SandboxHandler_remove_resource_from_reservation svc sb i =
     bnd (rh_get i rh_name) (\<lambda>name.
     andthen (CloudShellHandler_remove_resource_from_reservation svc (sbh_cs_handler sb) (sbh_reservation_id sb) name)
       (ResourceHandler_set_sandbox_handler i None))"

definition SandboxHandler_add_service_to_reservation ::
  "'e services_scheme \<Rightarrow> sandbox_handler \<Rightarrow> nat \<Rightarrow> ('x, unit) obj_io" where
  "SandboxHandler_add_service_to_reservation svc sb i =
     bnd (sh_get i id) (\<lambda>o'.
     andthen (CloudShellHandler_add_service_to_reservation svc (sbh_cs_handler sb) (sbh_reservation_id sb)
                (sh_model o') (sh_name o') (sh_attributes o'))
       (ServiceHandler_set_sandbox_handler i (Some sb)))"

section \<open>Reading and writing objects\<close>

lemma rh_run [run_simps]:
  "rh_get i f w = (Inr (f (resource_objs w ! i)), w)"
  "rh_upd i g w = (Inr (), w\<lparr>resource_objs := (resource_objs w)[i := g (resource_objs w ! i)]\<rparr>)"
  by (simp_all add: rh_get_def rh_upd_def run_simps)

lemma sh_run [run_simps]:
  "sh_get i f w = (Inr (f (service_objs w ! i)), w)"
  "sh_upd i g w = (Inr (), w\<lparr>service_objs := (service_objs w)[i := g (service_objs w ! i)]\<rparr>)"
  by (simp_all add: sh_get_def sh_upd_def run_simps)

lemma dh_run [run_simps]:
  "dh_get i f w = (Inr (f (deployment_objs w ! i)), w)"
  "dh_upd i g w = (Inr (), w\<lparr>deployment_objs := (deployment_objs w)[i := g (deployment_objs w ! i)]\<rparr>)"
  by (simp_all add: dh_get_def dh_upd_def run_simps)

lemma connected_objs [simp]:
  "connected cs (w\<lparr>resource_objs := os\<rparr>) = connected cs w"
  "connected cs (w\<lparr>service_objs := ss\<rparr>) = connected cs w"
  "connected cs (w\<lparr>deployment_objs := ds\<rparr>) = connected cs w"
  by (simp_all add: connected_def)

section \<open>What a step leaves of the resources\<close>

text \<open>The flags of the autoload and the configuration of every resource: a preorder that the parts of an
  autoload keep.\<close>

definition autoload_flags :: "resource_handler \<Rightarrow> resource_config \<times> bool \<times> bool \<times> bool option" where
  "autoload_flags o' = (rh_conf o', rh_autoload_started o', rh_autoload_finished o', rh_is_autoload_success o')"

definition flags_same :: "'x objects_scheme \<Rightarrow> 'x objects_scheme \<Rightarrow> bool" where
  "flags_same w w' \<longleftrightarrow> map autoload_flags (resource_objs w') = map autoload_flags (resource_objs w)"

interpretation flags: state_preorder flags_same
  by unfold_locales (auto simp: flags_same_def)

lemma flags_same_ask: "keeps flags_same (ask rep ev)"
  by (rule keepsI) (simp add: run_simps flags_same_def)

lemma flags_same_api_call: "keeps flags_same (api_call svc rep cs c)"
  by (rule keepsI)
     (auto simp: api_call_def CloudShellHandler_api_def run_simps flags_same_def split: sum.splits)

lemma flags_same_rh_get: "keeps flags_same (rh_get i f)"
  by (rule keepsI) (simp add: run_simps flags_same_def)

lemma flags_same_rh_upd:
  assumes "\<And>o'. autoload_flags (g o') = autoload_flags o'"
  shows "keeps flags_same (rh_upd i g)"
proof (rule keepsI)
  fix w :: "'x objects_scheme"
  have "map autoload_flags ((resource_objs w)[i := g (resource_objs w ! i)]) = map autoload_flags (resource_objs w)"
    by (cases "i < length (resource_objs w)") (simp_all add: map_update assms list_update_same_conv list_update_beyond)
  then show "flags_same w (snd (rh_upd i g w))" by (simp add: run_simps flags_same_def)
qed

lemmas flags_kept = flags.keeps_ret flags.keeps_raise flags.keeps_of_result flags.keeps_bnd flags.keeps_andthen
  flags.keeps_try_except flags.keeps_for_each flags_same_ask flags_same_api_call flags_same_rh_get

lemma flags_same_broken:
  "keeps flags_same (rh_upd i (\<lambda>o'. o'\<lparr>rh_dependencies_are_broken := True\<rparr>))"
  by (rule flags_same_rh_upd) (simp add: autoload_flags_def)

lemma flags_same_resource_autoload: "keeps flags_same (CloudShellHandler_resource_autoload svc cs n)"
  unfolding CloudShellHandler_resource_autoload_def by (intro flags_kept)

lemma flags_same_autoload_inner: "keeps flags_same (ResourceHandler_autoload_inner svc i)"
  unfolding ResourceHandler_autoload_inner_def CloudShellHandler_update_driver_for_the_resource_def
  by (intro flags_kept flags.keeps_if flags_same_resource_autoload flags_same_broken)

lemma flags_same_create_resource:
  "keeps flags_same (CloudShellHandler_create_resource fuel svc cs n m a f p b)"
proof -
  have "keeps flags_same (create_resource_loop fuel svc cs n m a f p b)"
    by (induction fuel arbitrary: n)
       (auto intro!: flags_kept flags.keeps_try_except_else)
  then show ?thesis by (simp add: CloudShellHandler_create_resource_def)
qed

lemma flags_same_add_ports: "keeps flags_same (ResourceHandler_add_additional_ports svc i ports)"
  unfolding ResourceHandler_add_additional_ports_def ResourceHandler_get_details_def
    CloudShellHandler_get_resource_details_def
  by (intro flags_kept flags_same_create_resource)
     (auto split: option.splits intro!: flags_kept flags_same_create_resource)

lemma flags_same_set_children: "keeps flags_same (ResourceHandler_set_children_attributes svc i cas)"
  unfolding ResourceHandler_set_children_attributes_def ResourceHandler_set_child_attribute_def
    CloudShellHandler_set_resource_attributes_def CloudShellHandler_get_resource_details_def Let_def
  by (intro flags.keeps_for_each) (auto split: prod.splits intro!: flags_kept)

text \<open>The body of an autoload under its lock.\<close>

definition autoload_body :: "'e services_scheme \<Rightarrow> nat \<Rightarrow> resource_config \<Rightarrow> ('x, unit) obj_io" where
  "autoload_body svc i conf =
     andthen (ResourceHandler_autoload_inner svc i)
     (andthen (if rc_additional_ports conf \<noteq> []
               then ResourceHandler_add_additional_ports svc i (rc_additional_ports conf) else ret ())
       (if rc_children_attributes conf \<noteq> []
        then ResourceHandler_set_children_attributes svc i (rc_children_attributes conf) else ret ()))"

lemma flags_same_autoload_body: "keeps flags_same (autoload_body svc i conf)"
  unfolding autoload_body_def
  by (intro flags_kept flags.keeps_if flags_same_autoload_inner flags_same_add_ports flags_same_set_children)



lemma autoload_outcome:
  assumes "i < length (resource_objs w)" and "ResourceHandler_autoload svc i w = (r, w')"
  shows "length (resource_objs w') = length (resource_objs w)"
    and "\<And>j. j < length (resource_objs w) \<Longrightarrow> j \<noteq> i \<Longrightarrow>
      autoload_flags (resource_objs w' ! j) = autoload_flags (resource_objs w ! j)"
    and "let old = resource_objs w ! i; new = resource_objs w' ! i
     in case r of
          Inr _ \<Rightarrow> rh_is_autoload_success new = Some True \<and> rh_autoload_finished new \<and> \<not> rh_autoload_started new
        | Inl e \<Rightarrow>
            if is_Exception e
            then rh_is_autoload_success new = Some False \<and> rh_autoload_finished new \<and> rh_autoload_started new
            else rh_is_autoload_success new = rh_is_autoload_success old \<and>
                 rh_autoload_finished new = rh_autoload_finished old \<and> rh_autoload_started new"
proof -
  let ?w1 = "w\<lparr>resource_objs := (resource_objs w)[i := (resource_objs w ! i)\<lparr>rh_autoload_started := True\<rparr>]\<rparr>"
  obtain q w2 where body: "autoload_body svc i (rh_conf (resource_objs ?w1 ! i)) ?w1 = (q, w2)"
    by (cases "autoload_body svc i (rh_conf (resource_objs ?w1 ! i)) ?w1")
  have same: "map autoload_flags (resource_objs w2) = map autoload_flags (resource_objs ?w1)"
    using keepsD [OF flags_same_autoload_body body] by (simp add: flags_same_def)
  then have len: "length (resource_objs w2) = length (resource_objs w)"
    using map_eq_imp_length_eq by fastforce
  have at: "autoload_flags (resource_objs w2 ! j) = autoload_flags (resource_objs ?w1 ! j)"
    if "j < length (resource_objs w)" for j
    using arg_cong [OF same, of "\<lambda>xs. xs ! j"] that len by simp
  show "length (resource_objs w') = length (resource_objs w)"
    "\<And>j. j < length (resource_objs w) \<Longrightarrow> j \<noteq> i \<Longrightarrow>
      autoload_flags (resource_objs w' ! j) = autoload_flags (resource_objs w ! j)"
    "let old = resource_objs w ! i; new = resource_objs w' ! i
     in case r of
          Inr _ \<Rightarrow> rh_is_autoload_success new = Some True \<and> rh_autoload_finished new \<and> \<not> rh_autoload_started new
        | Inl e \<Rightarrow>
            if is_Exception e
            then rh_is_autoload_success new = Some False \<and> rh_autoload_finished new \<and> rh_autoload_started new
            else rh_is_autoload_success new = rh_is_autoload_success old \<and>
                 rh_autoload_finished new = rh_autoload_finished old \<and> rh_autoload_started new"
    using assms(2) body len at [of i] at assms(1) unfolding ResourceHandler_autoload_def autoload_body_def [symmetric]
    by (auto simp: run_simps Let_def autoload_flags_def nth_list_update split: sum.splits if_splits)
qed

section \<open>Properties\<close>

text \<open>C19. The state after an autoload. When it returns, the resource is marked as loaded with success,
  finished and no longer started. When it raises an \<^verbatim>\<open>Exception\<close> it is marked as finished without
  success, and still as started. When it is interrupted it stays started and its other marks are the
  ones before. The marks of the other resources do not change.\<close>

theorem autoload_marks:
  assumes "i < length (resource_objs w)" and "ResourceHandler_autoload svc i w = (r, w')"
  shows "length (resource_objs w') = length (resource_objs w) \<and>
    (\<forall>j < length (resource_objs w). j \<noteq> i \<longrightarrow>
       autoload_flags (resource_objs w' ! j) = autoload_flags (resource_objs w ! j)) \<and>
    (let old = resource_objs w ! i; new = resource_objs w' ! i
     in case r of
          Inr _ \<Rightarrow> rh_is_autoload_success new = Some True \<and> rh_autoload_finished new \<and> \<not> rh_autoload_started new
        | Inl e \<Rightarrow>
            if is_Exception e
            then rh_is_autoload_success new = Some False \<and> rh_autoload_finished new \<and> rh_autoload_started new
            else rh_is_autoload_success new = rh_is_autoload_success old \<and>
                 rh_autoload_finished new = rh_autoload_finished old \<and> rh_autoload_started new)"
  using autoload_outcome [OF assms] by (intro conjI allI impI)

text \<open>A state with one resource of the example shell.\<close>

definition resource_example :: resource_handler where
  "resource_example = \<lparr>rh_conf = \<lparr>rc_name = ''Cisco'', rc_shell_name = ''Cisco'', rc_device_ip = Some ''192.168.2.1'',
     rc_attributes = [(''User'', ''admin'')], rc_children_attributes = [], rc_tests_conf = TestsConfig_default,
     rc_is_first_gen = False, rc_networking_app_name = None, rc_additional_ports = [\<lparr>ap_name = ''Eth1''\<rparr>],
     rc_setup_commands = [], rc_teardown_commands = []\<rparr>,
     rh_name = ''Cisco'', rh_attributes = [], rh_children_attributes = [], rh_cs_handler = do_example,
     rh_shell_handler = shell_example, rh_dependencies_are_broken = False, rh_sandbox_handler = Some app_sandbox,
     rh_family = None, rh_autoload_started = False, rh_autoload_finished = False, rh_is_autoload_success = None\<rparr>"

definition object_state :: objects where
  "object_state = \<lparr>hist = [], api_cached = [0], rest_cached = [0], next_oid = 2, smb_sessions = [1],
     resource_objs = [resource_example], service_objs = [], deployment_objs = []\<rparr>"

theorem autoload_marks_witness:
  "let w' = snd (ResourceHandler_autoload obliging_services 0 object_state)
   in rh_is_autoload_success (resource_objs w' ! 0) = Some True \<and> rh_autoload_finished (resource_objs w' ! 0)"
proof -
  obtain r w' where run: "ResourceHandler_autoload obliging_services 0 object_state = (r, w')"
    by (cases "ResourceHandler_autoload obliging_services 0 object_state")
  have "connected do_example object_state" by (simp add: connected_def object_state_def do_example_def)
  then have "r = Inr ()"
    using run
    by (auto simp: ResourceHandler_autoload_def ResourceHandler_autoload_inner_def run_simps object_state_def
        resource_example_def CloudShellHandler_resource_autoload_def ResourceHandler_add_additional_ports_def
        ResourceHandler_get_details_def CloudShellHandler_get_resource_details_def some_resource_info_def
        CloudShellHandler_create_resource_def connected_def do_example_def split: sum.splits)
  with autoload_marks [OF _ run] show ?thesis
    by (simp add: run Let_def) (simp add: object_state_def)
qed

lemma resource_autoload_run:
  assumes "connected cs w" and "a = Api (csh_host cs) (AutoLoad name)"
  shows "CloudShellHandler_resource_autoload svc cs name w =
    (case rep_unit svc (hist w) a of
       Inr _ \<Rightarrow> (Inr (), add_events [a] w)
     | Inl e \<Rightarrow> (Inl (translate_pypi_error e), add_events [a] w))"
  using assms by (auto simp: CloudShellHandler_resource_autoload_def run_simps translate_pypi_error_def split: sum.splits)

lemma no_driver_api_error: "no_driver e \<Longrightarrow> is_CloudShellAPIError e"
  by (cases e) simp_all

lemma autoload_inner_run:
  assumes "i < length (resource_objs w)" and "o' = resource_objs w ! i"
  shows "ResourceHandler_autoload_inner svc i w =
    (case CloudShellHandler_resource_autoload svc (rh_cs_handler o') (rh_name o') w of
       (Inr x, w1) \<Rightarrow> (Inr x, w1)
     | (Inl e, w1) \<Rightarrow>
         if no_driver e
         then andthen (CloudShellHandler_update_driver_for_the_resource svc (rh_cs_handler o') (rh_name o') (rh_model o'))
                (CloudShellHandler_resource_autoload svc (rh_cs_handler o') (rh_name o')) w1
         else if e = DependenciesBrokenError
         then (Inl e, w1\<lparr>resource_objs := (resource_objs w1)[i := (resource_objs w1 ! i)\<lparr>rh_dependencies_are_broken := True\<rparr>]\<rparr>)
         else (Inl e, w1))"
  unfolding ResourceHandler_autoload_inner_def assms(2)
  by (auto simp: bnd_run rh_run try_except_run andthen_run raise_run dest: no_driver_api_error
      split: sum.splits prod.splits)

lemma update_driver_and_autoload_run:
  assumes "connected cs w" and "a = Api (csh_host cs) (AutoLoad name)"
    and "u = Api (csh_host cs) (UpdateResourceDriver name model)"
  shows "andthen (CloudShellHandler_update_driver_for_the_resource svc cs name model)
      (CloudShellHandler_resource_autoload svc cs name) w =
    (case rep_unit svc (hist w) u of
       Inl e \<Rightarrow> (Inl e, add_events [u] w)
     | Inr _ \<Rightarrow> (case rep_unit svc (hist w @ [u]) a of
                   Inl e \<Rightarrow> (Inl (translate_pypi_error e), add_events [u, a] w)
                 | Inr _ \<Rightarrow> (Inr (), add_events [u, a] w)))"
proof -
  have "CloudShellHandler_update_driver_for_the_resource svc cs name model w =
      (rep_unit svc (hist w) u, add_events [u] w)"
    using assms(1,3) by (simp add: CloudShellHandler_update_driver_for_the_resource_def run_simps)
  then show ?thesis
    using resource_autoload_run [of cs "add_events [u] w" a name svc] assms(1,2)
    by (simp add: andthen_run split: sum.splits)
qed

text \<open>C20. Autoload and drivers, on an open session: the autoload is called; when it fails for a missing
  driver (error 129, or that message) the driver of the model is set and the autoload is called once
  more, and this outcome counts. The message of an unreachable PyPI server becomes
  \<^verbatim>\<open>DependenciesBrokenError\<close>; on the first call it also marks the resource as broken, on the
  second it does not. Every other error is raised.\<close>

theorem autoload_driver_course:
  assumes "i < length (resource_objs w)" and "o' = resource_objs w ! i" and "connected (rh_cs_handler o') w"
    and "a = Api (csh_host (rh_cs_handler o')) (AutoLoad (rh_name o'))"
    and "u = Api (csh_host (rh_cs_handler o')) (UpdateResourceDriver (rh_name o') (rh_model o'))"
  shows "ResourceHandler_autoload_inner svc i w =
    (case rep_unit svc (hist w) a of
       Inr _ \<Rightarrow> (Inr (), add_events [a] w)
     | Inl e \<Rightarrow>
         let e' = translate_pypi_error e
         in if no_driver e'
            then (case rep_unit svc (hist w @ [a]) u of
                    Inl e2 \<Rightarrow> (Inl e2, add_events [a, u] w)
                  | Inr _ \<Rightarrow> (case rep_unit svc (hist w @ [a, u]) a of
                                Inl e3 \<Rightarrow> (Inl (translate_pypi_error e3), add_events [a, u, a] w)
                              | Inr _ \<Rightarrow> (Inr (), add_events [a, u, a] w)))
            else if e' = DependenciesBrokenError
            then (Inl e', (add_events [a] w)\<lparr>resource_objs := (resource_objs w)[i := o'\<lparr>rh_dependencies_are_broken := True\<rparr>]\<rparr>)
            else (Inl e', add_events [a] w))"
proof (cases "rep_unit svc (hist w) a")
  case (Inr x)
  with resource_autoload_run [OF assms(3,4), of svc] show ?thesis by (simp add: autoload_inner_run [OF assms(1,2)])
next
  case (Inl e)
  with resource_autoload_run [OF assms(3,4), of svc]
  have first: "CloudShellHandler_resource_autoload svc (rh_cs_handler o') (rh_name o') w =
      (Inl (translate_pypi_error e), add_events [a] w)"
    by simp
  have "connected (rh_cs_handler o') (add_events [a] w)" using assms(3) by simp
  from update_driver_and_autoload_run [OF this assms(4,5), of svc] show ?thesis
    unfolding autoload_inner_run [OF assms(1,2)] first Inl
    by (simp add: Let_def assms(2) [symmetric] split: sum.splits)
qed

theorem autoload_driver_course_witness:
  "ResourceHandler_autoload_inner
     (obliging_services\<lparr>rep_unit := (\<lambda>h ev. if h = [] then Inl (CloudShellAPIError ''129'' [] []) else Inr ())\<rparr>)
     0 object_state =
   (Inr (), add_events [Api ''192.168.1.3'' (AutoLoad ''Cisco''),
      Api ''192.168.1.3'' (UpdateResourceDriver ''Cisco'' ''Cisco IOS''), Api ''192.168.1.3'' (AutoLoad ''Cisco'')] object_state)"
proof -
  have len: "0 < length (resource_objs object_state)" by (simp add: object_state_def)
  have o': "resource_example = resource_objs object_state ! 0" by (simp add: object_state_def)
  have c: "connected (rh_cs_handler resource_example) object_state"
    by (simp add: connected_def object_state_def resource_example_def do_example_def)
  have t: "translate_pypi_error (CloudShellAPIError ''129'' [] []) = CloudShellAPIError ''129'' [] []" by code_simp
  show ?thesis
    unfolding autoload_driver_course [OF len o' c refl refl]
    by (simp add: t Let_def object_state_def) (simp add: resource_example_def do_example_def shell_example_def)
qed

lemma child_namespace_skips:
  assumes "\<forall>p \<in> set infos. CHR ''.'' \<in> set (fst p) \<and> last (split_last (CHR ''.'') (fst p)) \<noteq> a"
  shows "child_namespace m (infos @ rest) a =
    child_namespace (if infos = [] then m else hd (split_last (CHR ''.'') (fst (last infos)))) rest a"
  using assms
proof (induction infos arbitrary: m)
  case Nil
  show ?case by simp
next
  case (Cons p infos)
  obtain n v where p: "p = (n, v)" by (cases p)
  with Cons.prems obtain b c where n: "n = b @ CHR ''.'' # c" "CHR ''.'' \<notin> set c"
    using split_list_last [of "CHR ''.''" n] by auto
  then have "split_last (CHR ''.'') n = [b, c]" by (simp add: split_last_at)
  with Cons p show ?case by auto
qed

text \<open>The attribute of a child resource, on an open session. When the child has an attribute with that
  name after its last dot, the value is set under the namespace of the first such attribute. When it
  has none the call is made all the same, under the namespace of the child's last attribute.\<close>

theorem set_child_attribute_namespace:
  assumes "cs = rh_cs_handler (resource_objs w ! i)" and "connected cs w"
    and "\<forall>p \<in> set pre. CHR ''.'' \<in> set (fst p) \<and> last (split_last (CHR ''.'') (fst p)) \<noteq> a"
    and "ri_ResourceAttributes child = pre @ rest"
    and "rest = (ns @ ''.'' @ a, v) # post \<and> CHR ''.'' \<notin> set a \<or>
         rest = [] \<and> pre \<noteq> [] \<and> ns = hd (split_last (CHR ''.'') (fst (last pre)))"
    and "ns \<noteq> []"
  shows "ResourceHandler_set_child_attribute svc i child a val w =
    (let ev = Api (csh_host cs) (SetAttributesValues (ri_Name child) [(ns @ ''.'' @ a, val)])
     in (rep_unit svc (hist w) ev, add_events [ev] w))"
proof -
  have "child_namespace (ri_ResourceModelName child) (ri_ResourceAttributes child) a = Inr ns"
    unfolding assms(4) child_namespace_skips [OF assms(3)] using assms(5)
    by (auto simp: split_last_at)
  with assms(1,2,6) show ?thesis
    by (simp add: ResourceHandler_set_child_attribute_def CloudShellHandler_set_resource_attributes_def run_simps Let_def)
qed

theorem set_child_attribute_namespace_witness:
  "let child = ResourceInfo ''Cisco/Eth1'' ''CS_Port'' ''IOS.Port'' [] [(''IOS.Port.Speed'', ''1''), (''IOS.Generic.MTU'', ''2'')] []
       (VmDetails [] [])
   in ResourceHandler_set_child_attribute obliging_services 0 child ''Speed'' ''10'' object_state =
        (Inr (), add_events [Api ''192.168.1.3'' (SetAttributesValues ''Cisco/Eth1'' [(''IOS.Port.Speed'', ''10'')])] object_state) \<and>
      ResourceHandler_set_child_attribute obliging_services 0 child ''Duplex'' ''x'' object_state =
        (Inr (), add_events [Api ''192.168.1.3'' (SetAttributesValues ''Cisco/Eth1'' [(''IOS.Generic.Duplex'', ''x'')])] object_state)"
proof -
  let ?child = "ResourceInfo ''Cisco/Eth1'' ''CS_Port'' ''IOS.Port'' [] [(''IOS.Port.Speed'', ''1''), (''IOS.Generic.MTU'', ''2'')] []
       (VmDetails [] [])"
  have cs: "do_example = rh_cs_handler (resource_objs object_state ! 0)" and c: "connected do_example object_state"
    and host: "csh_host do_example = ''192.168.1.3''"
    by (simp_all add: object_state_def resource_example_def connected_def do_example_def)
  have s: "split_last (CHR ''.'') ''IOS.Port.Speed'' = [''IOS.Port'', ''Speed'']"
    "split_last (CHR ''.'') ''IOS.Generic.MTU'' = [''IOS.Generic'', ''MTU'']"
    by code_simp+
  have "ResourceHandler_set_child_attribute obliging_services 0 ?child ''Speed'' ''10'' object_state =
        (Inr (), add_events [Api ''192.168.1.3'' (SetAttributesValues ''Cisco/Eth1'' [(''IOS.Port.Speed'', ''10'')])] object_state)"
    using set_child_attribute_namespace [OF cs c, of "[]" "''Speed''" ?child "[(''IOS.Port.Speed'', ''1''), (''IOS.Generic.MTU'', ''2'')]"
        "''IOS.Port''" "''1''" "[(''IOS.Generic.MTU'', ''2'')]" obliging_services "''10''"]
    by (simp add: Let_def host)
  moreover have "ResourceHandler_set_child_attribute obliging_services 0 ?child ''Duplex'' ''x'' object_state =
        (Inr (), add_events [Api ''192.168.1.3'' (SetAttributesValues ''Cisco/Eth1'' [(''IOS.Generic.Duplex'', ''x'')])] object_state)"
    using set_child_attribute_namespace [OF cs c, of "[(''IOS.Port.Speed'', ''1''), (''IOS.Generic.MTU'', ''2'')]" "''Duplex''" ?child "[]"
        "''IOS.Generic''" "''1''" "[]" obliging_services "''x''"]
    by (simp add: Let_def host s)
  ultimately show ?thesis unfolding Let_def by blast
qed

text \<open>A creation that succeeds or finds the name taken returns the name it was given.\<close>

definition created_or_exists :: "'e services_scheme \<Rightarrow> cs_handler \<Rightarrow> bool" where
  "created_or_exists svc cs \<longleftrightarrow>
     (\<forall>h f m n a p. case rep_unit svc h (Api (csh_host cs) (CreateResource f m n a p)) of
        Inl e \<Rightarrow> has_code ''114'' e | Inr _ \<Rightarrow> True)"

lemma create_resource_keeps_name:
  assumes "connected cs w" and "created_or_exists svc cs"
  shows "CloudShellHandler_create_resource (Suc 0) svc cs n m a f p False w =
    (Inr n, add_events [Api (csh_host cs) (CreateResource f m n a p)] w)"
proof -
  have "case rep_unit svc (hist w) (Api (csh_host cs) (CreateResource f m n a p)) of
      Inl e \<Rightarrow> has_code ''114'' e | Inr _ \<Rightarrow> True"
    using assms(2) by (auto simp: created_or_exists_def)
  with assms(1) show ?thesis
    by (auto simp: CloudShellHandler_create_resource_def run_simps split: sum.splits)
qed

lemma for_each_connected:
  assumes "connected cs w"
    and "\<And>x v. x \<in> set xs \<Longrightarrow> connected cs v \<Longrightarrow> body x v = (Inr (), add_events [f x] v)"
  shows "for_each xs body w = (Inr (), add_events (map f xs) w)"
  using assms by (induction xs arbitrary: w) (simp_all add: run_simps)

text \<open>C22. The additional ports of a resource, on an open session whose creations succeed or find the name
  taken: they go under the first chassis of the resource, or, if it has none, under a chassis that is
  created for it; they are created once each, in the configured order, with the addresses
  \<^verbatim>\<open>P1\<close>, \<^verbatim>\<open>P2\<close> and so on.\<close>

theorem additional_ports_created:
  assumes "o' = resource_objs w ! i" and "connected (rh_cs_handler o') w" and "created_or_exists svc (rh_cs_handler o')"
    and "rep_info svc (hist w) (Api (csh_host (rh_cs_handler o')) (GetResourceDetails (rh_name o'))) = Inr info"
    and "chassis = filter (\<lambda>c. ri_ResourceFamilyName c = ''CS_Chassis'') (ri_ChildResources info)"
  shows "ResourceHandler_add_additional_ports svc i ports w =
    (Inr (), add_events
       (map (Api (csh_host (rh_cs_handler o')))
          ([GetResourceDetails (rh_name o')] @
           (if chassis = []
            then [CreateResource ''CS_Chassis'' (ri_ResourceModelName info @ ''.GenericChassis'') ''Chassis 1'' ''CH1'' (ri_Name info)]
            else []) @
           map (\<lambda>k. CreateResource ''CS_Port'' (ri_ResourceModelName info @ ''.GenericPort'') (ap_name (ports ! k))
                  (''P'' @ str_of_nat (Suc k))
                  (if chassis = [] then ri_Name info @ ''/Chassis 1'' else ri_Name (hd chassis)))
             [0..<length ports])) w)"
proof -
  let ?cs = "rh_cs_handler o'"
  let ?d = "Api (csh_host ?cs) (GetResourceDetails (rh_name o'))"
  let ?c = "if chassis = [] then [Api (csh_host ?cs) (CreateResource ''CS_Chassis'' (ri_ResourceModelName info @ ''.GenericChassis'')
      ''Chassis 1'' ''CH1'' (ri_Name info))] else []"
  let ?n = "if chassis = [] then ri_Name info @ ''/Chassis 1'' else ri_Name (hd chassis)"
  let ?p = "\<lambda>(k, port). Api (csh_host ?cs) (CreateResource ''CS_Port'' (ri_ResourceModelName info @ ''.GenericPort'') (ap_name port)
      (''P'' @ str_of_nat k) ?n)"
  let ?w1 = "add_events (?d # ?c) w"
  have find: "find_chassis cl = (case filter (\<lambda>c. ri_ResourceFamilyName c = ''CS_Chassis'') cl of
      [] \<Rightarrow> None | c # _ \<Rightarrow> Some (ri_Name c))" for cl
    by (induction cl) auto
  have loop: "for_each (zip [1..<Suc (length ports)] ports) (\<lambda>(k, port_conf).
       bnd (CloudShellHandler_create_resource 1 svc ?cs (ap_name port_conf)
              (ri_ResourceModelName info @ ''.GenericPort'') (''P'' @ str_of_nat k) ''CS_Port'' ?n False)
         (\<lambda>_. ret ())) ?w1 = (Inr (), add_events (map ?p (zip [1..<Suc (length ports)] ports)) ?w1)"
    using assms(2,3)
    by (intro for_each_connected [where cs = ?cs])
       (auto simp: bnd_run ret_run create_resource_keeps_name split: prod.splits)
  have "map ?p (zip [1..<Suc (length ports)] ports) =
      map (\<lambda>k. Api (csh_host ?cs) (CreateResource ''CS_Port'' (ri_ResourceModelName info @ ''.GenericPort'') (ap_name (ports ! k))
                  (''P'' @ str_of_nat (Suc k)) ?n)) [0..<length ports]"
    by (rule nth_equalityI) (simp_all del: upt_Suc)
  then show ?thesis
    using assms(1-4) loop assms(5) [symmetric]
    by (cases chassis)
       (simp_all add: ResourceHandler_add_additional_ports_def ResourceHandler_get_details_def find
          CloudShellHandler_get_resource_details_def bnd_run rh_run api_call_connected create_resource_keeps_name ret_run comp_def)
qed

theorem additional_ports_created_witness:
  "ResourceHandler_add_additional_ports obliging_services 0 [\<lparr>ap_name = ''Eth1''\<rparr>, \<lparr>ap_name = ''Eth2''\<rparr>] object_state =
    (Inr (), add_events (map (Api ''192.168.1.3'') [GetResourceDetails ''Cisco'',
       CreateResource ''CS_Chassis'' ''Model.GenericChassis'' ''Chassis 1'' ''CH1'' ''res'',
       CreateResource ''CS_Port'' ''Model.GenericPort'' ''Eth1'' ''P1'' ''res/Chassis 1'',
       CreateResource ''CS_Port'' ''Model.GenericPort'' ''Eth2'' ''P2'' ''res/Chassis 1'']) object_state)"
proof -
  have o': "resource_example = resource_objs object_state ! 0" by (simp add: object_state_def)
  have c: "connected (rh_cs_handler resource_example) object_state"
    by (simp add: connected_def object_state_def resource_example_def do_example_def)
  have ce: "created_or_exists obliging_services (rh_cs_handler resource_example)" by (simp add: created_or_exists_def)
  have e: "rh_name resource_example = ''Cisco''" "csh_host (rh_cs_handler resource_example) = ''192.168.1.3''"
    by (simp_all add: resource_example_def do_example_def)
  have n: "str_of_nat (Suc 0) = ''1''" "str_of_nat (Suc (Suc 0)) = ''2''" by code_simp+
  show ?thesis
    using additional_ports_created [OF o' c ce, of some_resource_info "[]" "[\<lparr>ap_name = ''Eth1''\<rparr>, \<lparr>ap_name = ''Eth2''\<rparr>]"]
    by (simp add: e some_resource_info_def n)
qed

lemma execute_resource_command_objs:
  assumes "SandboxHandler_execute_resource_command svc sb n cmd kwargs v = (q, v')"
  shows "resource_objs v' = resource_objs v \<and> service_objs v' = service_objs v \<and> deployment_objs v' = deployment_objs v"
  using assms
  by (auto simp: SandboxHandler_execute_resource_command_def CloudShellHandler_execute_command_on_resource_def
      CloudShellHandler_execute_command_def api_call_def CloudShellHandler_api_def run_simps split: sum.splits if_splits)

text \<open>C21. Executing a command on a resource: without a sandbox nothing is called and
  \<^verbatim>\<open>BaseAutomationException\<close> is raised. With one, whatever the outcome, of the handlers only the mark of
  broken dependencies of this resource can change, and it is set afterwards exactly if it was
  before or \<^verbatim>\<open>DependenciesBrokenError\<close> is raised.\<close>

theorem execute_command_marks_broken:
  assumes "i < length (resource_objs w)" and "ResourceHandler_execute_command svc i cmd kwargs w = (r, w')"
  shows "(rh_sandbox_handler (resource_objs w ! i) = None \<longrightarrow>
      r = Inl (BaseAutomationException ''You have to add Sandbox Handler'') \<and> w' = w) \<and>
    resource_objs w' = (resource_objs w)[i := (resource_objs w ! i)\<lparr>rh_dependencies_are_broken :=
      rh_dependencies_are_broken (resource_objs w ! i) \<or> r = Inl DependenciesBrokenError\<rparr>] \<and>
    service_objs w' = service_objs w \<and> deployment_objs w' = deployment_objs w"
proof -
  have same: "(resource_objs w)[i := (resource_objs w ! i)\<lparr>rh_dependencies_are_broken := rh_dependencies_are_broken (resource_objs w ! i)\<rparr>] = resource_objs w"
    by simp
  show ?thesis
  proof (cases "rh_sandbox_handler (resource_objs w ! i)")
    case None
    with assms(2) same show ?thesis
      by (auto simp: ResourceHandler_execute_command_def ResourceHandler_sandbox_handler_def run_simps)
  next
    case (Some sb)
    obtain q v where q: "SandboxHandler_execute_resource_command svc sb (rh_name (resource_objs w ! i)) cmd kwargs w = (q, v)"
      by (cases "SandboxHandler_execute_resource_command svc sb (rh_name (resource_objs w ! i)) cmd kwargs w")
    from execute_resource_command_objs [OF q] q Some assms(2) same show ?thesis
      by (auto simp: ResourceHandler_execute_command_def ResourceHandler_sandbox_handler_def run_simps split: sum.splits if_splits)
  qed
qed

theorem execute_command_marks_broken_witness:
  "let w' = snd (ResourceHandler_execute_command
      (obliging_services\<lparr>rep_str := (\<lambda>h ev. Inl (CloudShellAPIError ''1'' pypi_down_msg pypi_down_msg))\<rparr>)
      0 ''save'' [] object_state)
   in rh_dependencies_are_broken (resource_objs w' ! 0)"
proof -
  let ?svc = "obliging_services\<lparr>rep_str := (\<lambda>h ev. Inl (CloudShellAPIError ''1'' pypi_down_msg pypi_down_msg))\<rparr>"
  obtain r w' where run: "ResourceHandler_execute_command ?svc 0 ''save'' [] object_state = (r, w')"
    by (cases "ResourceHandler_execute_command ?svc 0 ''save'' [] object_state")
  have "connected do_example object_state" by (simp add: connected_def object_state_def do_example_def)
  moreover have "translate_pypi_error (CloudShellAPIError ''1'' pypi_down_msg pypi_down_msg) = DependenciesBrokenError"
    by code_simp
  ultimately have "r = Inl DependenciesBrokenError"
    using run
    by (auto simp: ResourceHandler_execute_command_def ResourceHandler_sandbox_handler_def run_simps
        SandboxHandler_execute_resource_command_def CloudShellHandler_execute_command_on_resource_def
        CloudShellHandler_execute_command_def object_state_def resource_example_def app_sandbox_def)
  moreover have "0 < length (resource_objs object_state)" by (simp add: object_state_def)
  ultimately show ?thesis
    using execute_command_marks_broken [OF _ run] by (simp add: run)
qed

end
