(* ===== verification/Autoload_Protocol.thy ===== *)
theory Autoload_Protocol
  imports Resource_Handler
begin

text \<open>
  The autoload methods of \<^verbatim>\<open>ResourceHandler\<close> under threads: sandboxes are tested in parallel and can
  share a resource. A step is one access to the lock, to one of the two events or to the flag
  of success, in the order of the code; the calls to CloudShell between them are one step that
  ends in a return, an \<^verbatim>\<open>Exception\<close> or an interrupt. Any number of threads call
  \<^verbatim>\<open>autoload\<close> or \<^verbatim>\<open>autoload_if_needed\<close>, each any number of times. The lemmas show mutual exclusion,
  that a waiting thread is never left behind unless an autoload was interrupted, and that it is
  left behind after an interrupt.
\<close>

section \<open>States and steps\<close>

text \<open>Where a thread is: outside; in \<^verbatim>\<open>autoload_if_needed\<close> before the test of \<^verbatim>\<open>autoload_finished\<close>, before
  the test of \<^verbatim>\<open>_autoload_started\<close>, or waiting; in \<^verbatim>\<open>autoload\<close> before it sets
  \<^verbatim>\<open>_autoload_started\<close>, before the lock, under the lock in the body, in the \<^verbatim>\<open>except\<close> clause before
  its two assignments and before it raises, in the \<^verbatim>\<open>else\<close> clause likewise, unwinding from an
  interrupt, or after the lock before it clears \<^verbatim>\<open>_autoload_started\<close>.\<close>

datatype pc =
    Outside
  | AtFinished
  | AtStarted
  | AtWait
  | AtSetStarted
  | AtLock
  | InBody
  | InExcept
  | InExceptFinished
  | InExceptRaise
  | InElse
  | InElseFinished
  | InElseRelease
  | InUnwind
  | AtClear

record autoload_state =
  started :: bool
  finished :: bool
  success :: "bool option"
  lock :: "nat option"
  interrupted :: bool
  loads :: nat
  pcs :: "nat \<Rightarrow> pc"

definition at :: "autoload_state \<Rightarrow> nat \<Rightarrow> pc \<Rightarrow> autoload_state" where
  "at s t p = s\<lparr>pcs := (pcs s)(t := p)\<rparr>"

text \<open>\<open>interrupted\<close> and \<open>loads\<close> are observations: whether some body was left by an interrupt, and how
  many bodies ran.\<close>

inductive autoload_step :: "nat \<Rightarrow> autoload_state \<Rightarrow> autoload_state \<Rightarrow> bool" for t where
  call_if_needed: "pcs s t = Outside \<Longrightarrow> autoload_step t s (at s t AtFinished)"
| call_autoload: "pcs s t = Outside \<Longrightarrow> autoload_step t s (at s t AtSetStarted)"
| is_finished: "pcs s t = AtFinished \<Longrightarrow> finished s \<Longrightarrow> autoload_step t s (at s t Outside)"
| not_finished: "pcs s t = AtFinished \<Longrightarrow> \<not> finished s \<Longrightarrow> autoload_step t s (at s t AtStarted)"
| is_started: "pcs s t = AtStarted \<Longrightarrow> started s \<Longrightarrow> autoload_step t s (at s t AtWait)"
| not_started: "pcs s t = AtStarted \<Longrightarrow> \<not> started s \<Longrightarrow> autoload_step t s (at s t AtSetStarted)"
| wait_over: "pcs s t = AtWait \<Longrightarrow> finished s \<Longrightarrow> autoload_step t s (at s t Outside)"
| set_started: "pcs s t = AtSetStarted \<Longrightarrow> autoload_step t s (at (s\<lparr>started := True\<rparr>) t AtLock)"
| acquire: "pcs s t = AtLock \<Longrightarrow> lock s = None \<Longrightarrow> autoload_step t s (at (s\<lparr>lock := Some t\<rparr>) t InBody)"
| body_ok: "pcs s t = InBody \<Longrightarrow> autoload_step t s (at (s\<lparr>loads := Suc (loads s)\<rparr>) t InElse)"
| body_fails: "pcs s t = InBody \<Longrightarrow> autoload_step t s (at (s\<lparr>loads := Suc (loads s)\<rparr>) t InExcept)"
| body_interrupted:
    "pcs s t = InBody \<Longrightarrow> autoload_step t s (at (s\<lparr>loads := Suc (loads s), interrupted := True\<rparr>) t InUnwind)"
| except_success: "pcs s t = InExcept \<Longrightarrow> autoload_step t s (at (s\<lparr>success := Some False\<rparr>) t InExceptFinished)"
| except_finished: "pcs s t = InExceptFinished \<Longrightarrow> autoload_step t s (at (s\<lparr>finished := True\<rparr>) t InExceptRaise)"
| except_raise: "pcs s t = InExceptRaise \<Longrightarrow> autoload_step t s (at (s\<lparr>lock := None\<rparr>) t Outside)"
| else_success: "pcs s t = InElse \<Longrightarrow> autoload_step t s (at (s\<lparr>success := Some True\<rparr>) t InElseFinished)"
| else_finished: "pcs s t = InElseFinished \<Longrightarrow> autoload_step t s (at (s\<lparr>finished := True\<rparr>) t InElseRelease)"
| else_release: "pcs s t = InElseRelease \<Longrightarrow> autoload_step t s (at (s\<lparr>lock := None\<rparr>) t AtClear)"
| unwind: "pcs s t = InUnwind \<Longrightarrow> autoload_step t s (at (s\<lparr>lock := None\<rparr>) t Outside)"
| clear: "pcs s t = AtClear \<Longrightarrow> autoload_step t s (at (s\<lparr>started := False\<rparr>) t Outside)"

inductive_cases autoload_stepE: "autoload_step t s s'"

inductive_simps autoload_step_simps: "autoload_step t s s'"

definition autoload_init :: autoload_state where
  "autoload_init = \<lparr>started = False, finished = False, success = None, lock = None, interrupted = False,
     loads = 0, pcs = (\<lambda>_. Outside)\<rparr>"

inductive reachable :: "autoload_state \<Rightarrow> bool" where
  init: "reachable autoload_init"
| step: "reachable s \<Longrightarrow> autoload_step t s s' \<Longrightarrow> reachable s'"

section \<open>Invariants\<close>

fun critical :: "pc \<Rightarrow> bool" where
  "critical Outside = False"
| "critical AtFinished = False"
| "critical AtStarted = False"
| "critical AtWait = False"
| "critical AtSetStarted = False"
| "critical AtLock = False"
| "critical AtClear = False"
| "critical _ = True"

text \<open>Threads that will still finish the autoload, unless they are interrupted.\<close>

fun active :: "pc \<Rightarrow> bool" where
  "active AtLock = True"
| "active InBody = True"
| "active InExcept = True"
| "active InExceptFinished = True"
| "active InElse = True"
| "active InElseFinished = True"
| "active _ = False"

text \<open>The lock is held exactly by the thread in the critical section.\<close>

definition lock_inv :: "autoload_state \<Rightarrow> bool" where
  "lock_inv s \<longleftrightarrow> (\<forall>t. critical (pcs s t) = (lock s = Some t))"

text \<open>The flag of success is set before the event that tells of it, and a thread past that event leaves
  it set.\<close>

fun outcome_ok :: "autoload_state \<Rightarrow> pc \<Rightarrow> bool" where
  "outcome_ok s InExceptFinished = (success s = Some False)"
| "outcome_ok s InElseFinished = (success s = Some True)"
| "outcome_ok s InExceptRaise = (finished s \<and> success s = Some False)"
| "outcome_ok s InElseRelease = (finished s \<and> success s = Some True)"
| "outcome_ok s AtClear = finished s"
| "outcome_ok s _ = True"

definition outcome_inv :: "autoload_state \<Rightarrow> bool" where
  "outcome_inv s \<longleftrightarrow> (finished s \<longrightarrow> success s \<noteq> None) \<and> (\<forall>t. outcome_ok s (pcs s t))"

text \<open>Unless an autoload was interrupted: while it is started and not finished a thread is at it, and a
  thread that is at it or waits for it saw it started.\<close>

definition progress_inv :: "autoload_state \<Rightarrow> bool" where
  "progress_inv s \<longleftrightarrow>
     (\<not> interrupted s \<and> \<not> finished s \<longrightarrow>
        (started s \<longrightarrow> (\<exists>t. active (pcs s t))) \<and>
        (\<forall>t. active (pcs s t) \<or> pcs s t = AtWait \<longrightarrow> started s) \<and>
        (\<forall>t. pcs s t \<noteq> InUnwind))"

lemma at_simps [simp]:
  "started (at s t p) = started s" "finished (at s t p) = finished s" "success (at s t p) = success s"
  "lock (at s t p) = lock s" "interrupted (at s t p) = interrupted s" "loads (at s t p) = loads s"
  "pcs (at s t p) = (pcs s)(t := p)"
  by (simp_all add: at_def)

lemma lock_inv_step:
  assumes "autoload_step t s s'" and "lock_inv s"
  shows "lock_inv s'"
proof -
  have at: "critical (pcs s t) = (lock s = Some t)" and all: "\<And>u. critical (pcs s u) = (lock s = Some u)"
    using assms(2) by (simp_all add: lock_inv_def)
  from assms(1) show ?thesis
    using at by (cases rule: autoload_step.cases) (auto simp: lock_inv_def all)
qed

text \<open>Two threads are never past the lock together.\<close>

lemma alone_in_critical: "lock_inv s \<Longrightarrow> critical (pcs s t) \<Longrightarrow> critical (pcs s u) \<Longrightarrow> u = t"
  by (simp add: lock_inv_def)

lemma outcome_ok_frame:
  assumes "outcome_ok s p" and "finished s \<longrightarrow> finished s'" and "\<not> critical p \<or> success s' = success s"
  shows "outcome_ok s' p"
  using assms by (cases p) auto

lemma outcome_inv_step:
  assumes "autoload_step t s s'" and "lock_inv s" and "outcome_inv s"
  shows "outcome_inv s'"
proof -
  have other: "\<not> critical (pcs s u)" if "critical (pcs s t)" "u \<noteq> t" for u
    using alone_in_critical [OF assms(2)] that by blast
  have ok: "outcome_ok s (pcs s u)" for u using assms(3) by (simp add: outcome_inv_def)
  have others: "\<forall>u. u \<noteq> t \<longrightarrow> outcome_ok s' (pcs s' u)"
  proof (intro allI impI)
    fix u assume "u \<noteq> t"
    with assms(1) have "pcs s' u = pcs s u" and "finished s \<longrightarrow> finished s'"
      and "critical (pcs s t) \<or> success s' = success s"
      by (cases rule: autoload_step.cases; simp)+
    with ok [of u] other [OF _ \<open>u \<noteq> t\<close>] show "outcome_ok s' (pcs s' u)"
      by (auto intro: outcome_ok_frame)
  qed
  moreover have "outcome_ok s' (pcs s' t) \<and> (finished s' \<longrightarrow> success s' \<noteq> None)"
    using assms(1,3) ok [of t] by (cases rule: autoload_step.cases) (auto simp: outcome_inv_def)
  ultimately show ?thesis by (metis outcome_inv_def)
qed

lemma step_frame:
  assumes "autoload_step t s s'"
  shows "u \<noteq> t \<Longrightarrow> pcs s' u = pcs s u"
    and "finished s \<Longrightarrow> finished s'" and "interrupted s \<Longrightarrow> interrupted s'"
  using assms by (cases rule: autoload_step.cases; simp)+

lemma active_until_finished:
  assumes "autoload_step t s s'" and "\<not> finished s'" and "\<not> interrupted s'" and "active (pcs s t)"
  shows "active (pcs s' t)"
  using assms by (cases rule: autoload_step.cases) auto

lemma started_by:
  assumes "autoload_step t s s'" and "outcome_ok s (pcs s t)" and "\<not> finished s'" and "\<not> interrupted s'"
  shows "started s \<Longrightarrow> started s'" and "started s' \<Longrightarrow> started s \<or> active (pcs s' t)"
    and "active (pcs s' t) \<Longrightarrow> active (pcs s t) \<or> started s'"
    and "pcs s' t = AtWait \<Longrightarrow> started s"
    and "pcs s' t \<noteq> InUnwind"
  using assms by (cases rule: autoload_step.cases; auto)+

lemma progress_inv_step:
  assumes "autoload_step t s s'" and "outcome_inv s" and "progress_inv s"
  shows "progress_inv s'"
  unfolding progress_inv_def
proof (intro impI)
  assume now: "\<not> interrupted s' \<and> \<not> finished s'"
  then have before: "\<not> interrupted s" "\<not> finished s" using step_frame [OF assms(1)] by blast+
  have ok: "outcome_ok s (pcs s t)" using assms(2) by (simp add: outcome_inv_def)
  note frame = step_frame(1) [OF assms(1)] and upd = started_by [OF assms(1) ok] active_until_finished [OF assms(1)]
  have inv: "started s \<Longrightarrow> \<exists>u. active (pcs s u)" "\<And>u. active (pcs s u) \<or> pcs s u = AtWait \<Longrightarrow> started s"
    "\<And>u. pcs s u \<noteq> InUnwind"
    using assms(3) before by (auto simp: progress_inv_def)
  have "\<exists>u. active (pcs s' u)" if "started s'"
    using upd(2) upd(6) inv(1) frame now that by metis
  moreover have "started s'" if "active (pcs s' u) \<or> pcs s' u = AtWait" for u
    using upd(1,3,4) inv(2) frame now that by metis
  moreover have "pcs s' u \<noteq> InUnwind" for u
    using upd(5) inv(3) frame now by metis
  ultimately show "(started s' \<longrightarrow> (\<exists>t. active (pcs s' t))) \<and>
      (\<forall>t. active (pcs s' t) \<or> pcs s' t = AtWait \<longrightarrow> started s') \<and> (\<forall>t. pcs s' t \<noteq> InUnwind)"
    by blast
qed

lemma reachable_inv: "reachable s \<Longrightarrow> lock_inv s \<and> outcome_inv s \<and> progress_inv s"
proof (induction rule: reachable.induct)
  case init
  show ?case by (simp add: lock_inv_def outcome_inv_def progress_inv_def autoload_init_def)
next
  case (step s t s')
  then show ?case using lock_inv_step outcome_inv_step progress_inv_step by blast
qed

section \<open>Which threads can go on\<close>

definition enabled :: "nat \<Rightarrow> autoload_state \<Rightarrow> bool" where
  "enabled t s \<longleftrightarrow> (\<exists>s'. autoload_step t s s')"

lemma enabled_iff:
  "enabled t s \<longleftrightarrow>
     (pcs s t = AtWait \<longrightarrow> finished s) \<and> (pcs s t = AtLock \<longrightarrow> lock s = None)"
proof (cases "pcs s t")
  case AtFinished
  then show ?thesis by (cases "finished s") (auto simp: enabled_def intro: autoload_step.intros)
next
  case AtStarted
  then show ?thesis by (cases "started s") (auto simp: enabled_def intro: autoload_step.intros)
next
  case AtWait
  then show ?thesis by (auto simp: enabled_def elim: autoload_stepE intro: autoload_step.intros)
next
  case AtLock
  then show ?thesis by (auto simp: enabled_def elim: autoload_stepE intro: autoload_step.intros)
qed (auto simp: enabled_def intro: autoload_step.intros)

section \<open>A run with a waiting thread\<close>

text \<open>Thread 0 starts the autoload and takes the lock; thread 1 finds it started and waits.\<close>

definition loading :: autoload_state where
  "loading = (autoload_init\<lparr>started := True, lock := Some 0, pcs := (\<lambda>_. Outside)(0 := InBody)\<rparr>)"

lemma reachable_loading: "reachable loading"
proof -
  let ?s0 = autoload_init
  let ?s1 = "at ?s0 0 AtFinished" let ?s2 = "at ?s1 0 AtStarted" let ?s3 = "at ?s2 0 AtSetStarted"
  let ?s4 = "at (?s3\<lparr>started := True\<rparr>) 0 AtLock" let ?s5 = "at (?s4\<lparr>lock := Some 0\<rparr>) 0 InBody"
  have out: "pcs ?s0 0 = Outside" "\<not> finished ?s0" "\<not> started ?s0" "lock ?s0 = None"
    by (simp_all add: autoload_init_def)
  have "reachable ?s1" by (rule reachable.step [OF reachable.init call_if_needed]) (simp add: out)
  then have "reachable ?s2" by (rule reachable.step [OF _ not_finished]) (simp_all add: out)
  then have "reachable ?s3" by (rule reachable.step [OF _ not_started]) (simp_all add: out)
  then have "reachable ?s4" by (rule reachable.step [OF _ set_started]) simp
  then have "reachable ?s5" by (rule reachable.step [OF _ acquire]) (simp_all add: out)
  moreover have "?s5 = loading" by (simp add: at_def loading_def autoload_init_def fun_eq_iff)
  ultimately show ?thesis by simp
qed

lemma reachable_waiting:
  assumes "reachable s" and "pcs s 1 = Outside" and "\<not> finished s" and "started s"
  shows "reachable (at s 1 AtWait)"
proof -
  have "reachable (at s 1 AtFinished)" by (rule reachable.step [OF assms(1) call_if_needed]) (rule assms(2))
  then have "reachable (at (at s 1 AtFinished) 1 AtStarted)"
    by (rule reachable.step [OF _ not_finished]) (simp_all add: assms)
  then have "reachable (at (at (at s 1 AtFinished) 1 AtStarted) 1 AtWait)"
    by (rule reachable.step [OF _ is_started]) (simp_all add: assms)
  then show ?thesis by (simp add: at_def)
qed

section \<open>Properties\<close>

text \<open>C11. Autoloads of one resource exclude each other: in every reachable state of any number of threads
  at most one is between the acquisition of the lock and its release, and the lock is held exactly
  then. A finished autoload has an outcome, and the outcome that a thread tells of is the one it
  wrote itself.\<close>

theorem autoload_exclusion:
  assumes "reachable s"
  shows "(\<forall>t u. critical (pcs s t) \<and> critical (pcs s u) \<longrightarrow> t = u) \<and>
    (lock s = None \<longleftrightarrow> (\<forall>t. \<not> critical (pcs s t))) \<and>
    (finished s \<longrightarrow> success s \<noteq> None) \<and>
    (\<forall>t. pcs s t = InElseRelease \<longrightarrow> finished s \<and> success s = Some True) \<and>
    (\<forall>t. pcs s t = InExceptRaise \<longrightarrow> finished s \<and> success s = Some False)"
proof -
  have inv: "lock_inv s" "outcome_inv s" using reachable_inv [OF assms] by auto
  have ok: "outcome_ok s (pcs s t)" for t using inv(2) by (simp add: outcome_inv_def)
  have "pcs s t = InElseRelease \<longrightarrow> finished s \<and> success s = Some True"
    "pcs s t = InExceptRaise \<longrightarrow> finished s \<and> success s = Some False" for t
    using ok [of t] by auto
  with inv show ?thesis by (auto simp: lock_inv_def outcome_inv_def)
qed

theorem autoload_exclusion_witness:
  "lock autoload_init = None \<longleftrightarrow> (\<forall>t. \<not> critical (pcs autoload_init t))"
  using autoload_exclusion [OF reachable.init] by simp

text \<open>C5. No thread is left behind: in every reachable state in which no autoload was interrupted, if a
  thread waits for the autoload to finish, then either it has finished and the thread can go on, or
  a thread other than the waiting ones is at the autoload and some thread at it can take a step.\<close>

theorem autoload_no_deadlock:
  assumes "reachable s" and "\<not> interrupted s" and "pcs s t = AtWait"
  shows "finished s \<and> enabled t s \<or> (\<exists>u. active (pcs s u) \<and> enabled u s)"
proof (cases "finished s")
  case True
  with assms(3) show ?thesis by (simp add: enabled_iff)
next
  case False
  have inv: "lock_inv s" "progress_inv s" using reachable_inv [OF assms(1)] by auto
  with False assms(2,3) obtain u where u: "active (pcs s u)" by (auto simp: progress_inv_def)
  show ?thesis
  proof (cases "lock s")
    case None
    with u have "enabled u s" by (auto simp: enabled_iff)
    with u show ?thesis by blast
  next
    case (Some v)
    then have crit: "critical (pcs s v)" using inv(1) by (simp add: lock_inv_def)
    then have "active (pcs s v)"
      using inv False reachable_inv [OF assms(1)] assms(2)
      by (cases "pcs s v") (auto simp: progress_inv_def outcome_inv_def dest: spec [of _ v])
    moreover have "enabled v s" using crit by (auto simp: enabled_iff)
    ultimately show ?thesis by blast
  qed
qed

theorem autoload_no_deadlock_witness:
  "\<exists>u. active (pcs (at loading 1 AtWait) u) \<and> enabled u (at loading 1 AtWait)"
proof -
  have "reachable (at loading 1 AtWait)"
    by (rule reachable_waiting [OF reachable_loading]) (simp_all add: loading_def autoload_init_def)
  from autoload_no_deadlock [OF this, of 1] show ?thesis
    by (simp add: loading_def autoload_init_def)
qed

section \<open>After an interrupt\<close>

text \<open>A step that is not a direct call of \<^verbatim>\<open>autoload\<close>.\<close>

definition if_needed_step :: "autoload_state \<Rightarrow> autoload_state \<Rightarrow> bool" where
  "if_needed_step s s' \<longleftrightarrow> (\<exists>t. autoload_step t s s' \<and> \<not> (pcs s t = Outside \<and> pcs s' t = AtSetStarted))"

text \<open>An autoload that was started and not finished, with no thread at it.\<close>

fun idle :: "pc \<Rightarrow> bool" where
  "idle Outside = True"
| "idle AtFinished = True"
| "idle AtStarted = True"
| "idle AtWait = True"
| "idle _ = False"

definition abandoned :: "autoload_state \<Rightarrow> bool" where
  "abandoned s \<longleftrightarrow> started s \<and> \<not> finished s \<and> (\<forall>t. idle (pcs s t))"

lemma abandoned_step:
  assumes "abandoned s" and "if_needed_step s s'"
  shows "abandoned s' \<and> loads s' = loads s \<and> (\<forall>u. pcs s u = AtWait \<longrightarrow> pcs s' u = AtWait)"
proof -
  obtain t where t: "autoload_step t s s'" and direct: "\<not> (pcs s t = Outside \<and> pcs s' t = AtSetStarted)"
    using assms(2) by (auto simp: if_needed_step_def)
  have s: "started s" "\<not> finished s" and all: "\<And>u. idle (pcs s u)"
    using assms(1) by (auto simp: abandoned_def)
  from t direct show ?thesis
    using s all [of t] by (cases rule: autoload_step.cases) (auto simp: abandoned_def all)
qed

lemma abandoned_run:
  assumes "if_needed_step\<^sup>*\<^sup>* s s'" and "abandoned s"
  shows "abandoned s' \<and> loads s' = loads s \<and> (\<forall>u. pcs s u = AtWait \<longrightarrow> pcs s' u = AtWait)"
  using assms(1)
proof (induction rule: rtranclp_induct)
  case base
  show ?case using assms(2) by simp
next
  case (step y z)
  then show ?case using abandoned_step [of y z] by auto
qed

text \<open>C40. An interrupt leaves waiting threads behind. In every reachable state in which an autoload was started, none
  finished and no thread is at it any more, one was interrupted; and from there on, in every
  continuation in which no thread calls \<^verbatim>\<open>autoload\<close> itself, the resource is never loaded again, nothing is marked as
  finished, and every thread that waits goes on waiting, with no step of its own possible. A thread that
  calls \<^verbatim>\<open>autoload_if_needed\<close> in such a state can only come to wait as well.\<close>

theorem autoload_interrupt_strands:
  assumes "reachable s" and "abandoned s" and "if_needed_step\<^sup>*\<^sup>* s s'"
  shows "interrupted s \<and> \<not> finished s' \<and> loads s' = loads s \<and>
    (\<forall>u. pcs s u = AtWait \<longrightarrow> pcs s' u = AtWait \<and> \<not> enabled u s') \<and>
    (\<forall>u. pcs s' u \<in> {Outside, AtFinished, AtStarted, AtWait})"
proof -
  note later = abandoned_run [OF assms(3,2)]
  have "progress_inv s" using reachable_inv [OF assms(1)] by simp
  moreover have "\<not> active p" if "idle p" for p using that by (cases p) simp_all
  ultimately have "interrupted s" using assms(2) by (auto simp: progress_inv_def abandoned_def)
  moreover have "p \<in> {Outside, AtFinished, AtStarted, AtWait}" if "idle p" for p using that by (cases p) simp_all
  ultimately show ?thesis using later by (auto simp: abandoned_def enabled_iff)
qed

text \<open>Thread 1 waits, the autoload of thread 0 is interrupted, and thread 2 calls \<^verbatim>\<open>autoload_if_needed\<close>.\<close>

definition stranded :: autoload_state where
  "stranded = loading\<lparr>loads := 1, interrupted := True, lock := None, pcs := (\<lambda>_. Outside)(1 := AtWait)\<rparr>"

lemma reachable_stranded: "reachable stranded"
proof -
  let ?s0 = "at loading 1 AtWait"
  let ?s1 = "at (?s0\<lparr>loads := Suc (loads ?s0), interrupted := True\<rparr>) 0 InUnwind"
  let ?s2 = "at (?s1\<lparr>lock := None\<rparr>) 0 Outside"
  have at: "pcs loading 1 = Outside" "\<not> finished loading" "started loading" "pcs loading 0 = InBody"
    "\<And>t. t \<noteq> 0 \<Longrightarrow> pcs loading t = Outside"
    by (simp_all add: loading_def autoload_init_def)
  have "reachable ?s0" by (rule reachable_waiting [OF reachable_loading]) (simp_all add: at)
  then have "reachable ?s1" by (rule reachable.step [OF _ body_interrupted]) (simp add: at)
  then have "reachable ?s2" by (rule reachable.step [OF _ unwind]) simp
  moreover have "?s2 = stranded"
    by (simp add: stranded_def at_def loading_def autoload_init_def fun_eq_iff)
  ultimately show ?thesis by simp
qed

lemma stranded_joined: "if_needed_step\<^sup>*\<^sup>* stranded (at stranded 2 AtWait)"
proof -
  have s: "pcs stranded 2 = Outside" "\<not> finished stranded" "started stranded"
    by (simp_all add: stranded_def loading_def autoload_init_def)
  have "if_needed_step stranded (at stranded 2 AtFinished)"
    unfolding if_needed_step_def using call_if_needed [OF s(1)] by (intro exI [of _ 2]) simp
  moreover have "if_needed_step (at stranded 2 AtFinished) (at (at stranded 2 AtFinished) 2 AtStarted)"
    unfolding if_needed_step_def using s(2) by (intro exI [of _ 2] conjI not_finished) simp_all
  moreover have "if_needed_step (at (at stranded 2 AtFinished) 2 AtStarted)
      (at (at (at stranded 2 AtFinished) 2 AtStarted) 2 AtWait)"
    unfolding if_needed_step_def using s(3) by (intro exI [of _ 2] conjI is_started) simp_all
  moreover have "at (at (at stranded 2 AtFinished) 2 AtStarted) 2 AtWait = at stranded 2 AtWait"
    by (simp add: at_def)
  ultimately show ?thesis by (metis converse_rtranclp_into_rtranclp rtranclp.rtrancl_refl)
qed

theorem autoload_interrupt_strands_witness:
  "interrupted stranded \<and> pcs (at stranded 2 AtWait) 1 = AtWait \<and> \<not> enabled 1 (at stranded 2 AtWait) \<and>
     loads (at stranded 2 AtWait) = 1"
proof -
  have "abandoned stranded"
    by (simp add: abandoned_def stranded_def loading_def autoload_init_def)
  from autoload_interrupt_strands [OF reachable_stranded this stranded_joined]
  show ?thesis by (simp add: stranded_def)
qed

section \<open>The methods follow the steps\<close>

definition marks_of :: "resource_handler \<Rightarrow> bool \<times> bool \<times> bool option" where
  "marks_of o' = (rh_autoload_started o', rh_autoload_finished o', rh_is_autoload_success o')"

definition marks_of_state :: "autoload_state \<Rightarrow> bool \<times> bool \<times> bool option" where
  "marks_of_state s = (started s, finished s, success s)"

text \<open>A thread from the call of \<^verbatim>\<open>autoload\<close> to the end of its body, and on to each of the three ends.\<close>

lemma run_to_body:
  assumes "pcs s t = Outside" and "lock s = None"
  shows "(autoload_step t)\<^sup>*\<^sup>* s (at (s\<lparr>started := True, lock := Some t\<rparr>) t InBody)"
proof -
  let ?s1 = "at s t AtSetStarted" let ?s2 = "at (?s1\<lparr>started := True\<rparr>) t AtLock"
  have "autoload_step t s ?s1" by (rule call_autoload) (rule assms)
  moreover have "autoload_step t ?s1 ?s2" by (rule set_started) simp
  moreover have "autoload_step t ?s2 (at (?s2\<lparr>lock := Some t\<rparr>) t InBody)" by (rule acquire) (simp_all add: assms)
  moreover have "at (?s2\<lparr>lock := Some t\<rparr>) t InBody = at (s\<lparr>started := True, lock := Some t\<rparr>) t InBody"
    by (simp add: at_def)
  ultimately show ?thesis by (metis converse_rtranclp_into_rtranclp rtranclp.rtrancl_refl)
qed

lemma run_returns:
  assumes "pcs s t = InBody"
  shows "(autoload_step t)\<^sup>*\<^sup>* s (at (s\<lparr>loads := Suc (loads s), success := Some True, finished := True,
    lock := None, started := False\<rparr>) t Outside)"
proof -
  let ?s1 = "at (s\<lparr>loads := Suc (loads s)\<rparr>) t InElse" let ?s2 = "at (?s1\<lparr>success := Some True\<rparr>) t InElseFinished"
  let ?s3 = "at (?s2\<lparr>finished := True\<rparr>) t InElseRelease" let ?s4 = "at (?s3\<lparr>lock := None\<rparr>) t AtClear"
  let ?s5 = "at (?s4\<lparr>started := False\<rparr>) t Outside"
  have "autoload_step t s ?s1" by (rule body_ok) (rule assms)
  moreover have "autoload_step t ?s1 ?s2" by (rule else_success) simp
  moreover have "autoload_step t ?s2 ?s3" by (rule else_finished) simp
  moreover have "autoload_step t ?s3 ?s4" by (rule else_release) simp
  moreover have "autoload_step t ?s4 ?s5" by (rule clear) simp
  ultimately have "(autoload_step t)\<^sup>*\<^sup>* s ?s5"
    by (meson converse_rtranclp_into_rtranclp rtranclp.rtrancl_refl)
  then show ?thesis by (simp add: at_def)
qed

lemma run_raises:
  assumes "pcs s t = InBody"
  shows "(autoload_step t)\<^sup>*\<^sup>* s (at (s\<lparr>loads := Suc (loads s), success := Some False, finished := True,
    lock := None\<rparr>) t Outside)"
proof -
  let ?s1 = "at (s\<lparr>loads := Suc (loads s)\<rparr>) t InExcept" let ?s2 = "at (?s1\<lparr>success := Some False\<rparr>) t InExceptFinished"
  let ?s3 = "at (?s2\<lparr>finished := True\<rparr>) t InExceptRaise" let ?s4 = "at (?s3\<lparr>lock := None\<rparr>) t Outside"
  have "autoload_step t s ?s1" by (rule body_fails) (rule assms)
  moreover have "autoload_step t ?s1 ?s2" by (rule except_success) simp
  moreover have "autoload_step t ?s2 ?s3" by (rule except_finished) simp
  moreover have "autoload_step t ?s3 ?s4" by (rule except_raise) simp
  ultimately have "(autoload_step t)\<^sup>*\<^sup>* s ?s4"
    by (meson converse_rtranclp_into_rtranclp rtranclp.rtrancl_refl)
  then show ?thesis by (simp add: at_def)
qed

lemma run_interrupted:
  assumes "pcs s t = InBody"
  shows "(autoload_step t)\<^sup>*\<^sup>* s (at (s\<lparr>loads := Suc (loads s), interrupted := True, lock := None\<rparr>) t Outside)"
proof -
  let ?s1 = "at (s\<lparr>loads := Suc (loads s), interrupted := True\<rparr>) t InUnwind"
  let ?s2 = "at (?s1\<lparr>lock := None\<rparr>) t Outside"
  have "autoload_step t s ?s1" by (rule body_interrupted) (rule assms)
  moreover have "autoload_step t ?s1 ?s2" by (rule unwind) simp
  ultimately have "(autoload_step t)\<^sup>*\<^sup>* s ?s2"
    by (meson converse_rtranclp_into_rtranclp rtranclp.rtrancl_refl)
  then show ?thesis by (simp add: at_def)
qed

text \<open>C6. The method \<^verbatim>\<open>autoload\<close> refines the steps of a thread: from a state with the marks of the resource
  and a free lock the thread has a run that ends outside with the lock free and the marks that the
  method leaves, whether it returns, raises an exception or is interrupted.\<close>

theorem autoload_refines_steps:
  assumes "i < length (resource_objs w)" and "marks_of (resource_objs w ! i) = marks_of_state s"
    and "pcs s t = Outside" and "lock s = None"
    and "ResourceHandler_autoload svc i w = (r, w')" and "r \<noteq> Inl NoReturn"
  shows "\<exists>s'. (autoload_step t)\<^sup>*\<^sup>* s s' \<and> pcs s' t = Outside \<and> lock s' = None \<and>
    marks_of (resource_objs w' ! i) = marks_of_state s' \<and> loads s' = Suc (loads s) \<and>
    (interrupted s' \<longleftrightarrow> interrupted s \<or> (\<exists>e. r = Inl e \<and> \<not> is_Exception e))"
proof -
  let ?b = "at (s\<lparr>started := True, lock := Some t\<rparr>) t InBody"
  have start: "(autoload_step t)\<^sup>*\<^sup>* s ?b" using assms(3,4) by (rule run_to_body)
  have b: "pcs ?b t = InBody" by simp
  note marks = autoload_outcome(3) [OF assms(1,5)] assms(2)
  consider (returns) x where "r = Inr x" | (raises) e where "r = Inl e" "is_Exception e"
    | (stops) e where "r = Inl e" "\<not> is_Exception e"
    by (cases r) auto
  then show ?thesis
  proof cases
    case returns
    show ?thesis
      by (rule exI, rule conjI, rule rtranclp_trans [OF start run_returns [OF b]])
         (use marks returns in \<open>auto simp: marks_of_def marks_of_state_def Let_def\<close>)
  next
    case raises
    show ?thesis
      by (rule exI, rule conjI, rule rtranclp_trans [OF start run_raises [OF b]])
         (use marks raises in \<open>auto simp: marks_of_def marks_of_state_def Let_def\<close>)
  next
    case stops
    show ?thesis
      by (rule exI, rule conjI, rule rtranclp_trans [OF start run_interrupted [OF b]])
         (use marks stops in \<open>auto simp: marks_of_def marks_of_state_def Let_def\<close>)
  qed
qed

theorem autoload_refines_steps_witness:
  "\<exists>s'. (autoload_step 7)\<^sup>*\<^sup>* autoload_init s' \<and>
     marks_of (resource_objs (snd (ResourceHandler_autoload obliging_services 0 object_state)) ! 0) = marks_of_state s'"
proof -
  obtain r w' where run: "ResourceHandler_autoload obliging_services 0 object_state = (r, w')"
    by (cases "ResourceHandler_autoload obliging_services 0 object_state")
  have "connected do_example object_state" by (simp add: connected_def object_state_def do_example_def)
  then have "r = Inr ()"
    using run
    by (auto simp: ResourceHandler_autoload_def ResourceHandler_autoload_inner_def run_simps object_state_def
        resource_example_def CloudShellHandler_resource_autoload_def ResourceHandler_add_additional_ports_def
        ResourceHandler_get_details_def CloudShellHandler_get_resource_details_def some_resource_info_def
        CloudShellHandler_create_resource_def connected_def do_example_def split: sum.splits)
  then have "r \<noteq> Inl NoReturn" by simp
  moreover have "0 < length (resource_objs object_state)"
    "marks_of (resource_objs object_state ! 0) = marks_of_state autoload_init"
    "pcs autoload_init 7 = Outside" "lock autoload_init = None"
    by (simp_all add: object_state_def resource_example_def marks_of_def marks_of_state_def autoload_init_def)
  ultimately show ?thesis
    using autoload_refines_steps [OF _ _ _ _ run, of autoload_init 7] by (auto simp: run)
qed

end
