(* ===== verification/Remote_Files.thy ===== *)
theory Remote_Files
  imports Resource_Handler
begin

text \<open>
  The handlers of the file servers, \<^verbatim>\<open>abc_remote_file_handler.py\<close>, \<^verbatim>\<open>ftp_handler.py\<close>, \<^verbatim>\<open>scp_handler.py\<close>
  and \<^verbatim>\<open>tftp_handler.py\<close>, and of vCenter, \<^verbatim>\<open>vcenter_handler.py\<close>, all under \<^verbatim>\<open>shell_tests/handlers\<close>. The
  mutable part of a handler object is whether it holds a session; the state records it by the
  identity of the object. The lemmas give the calls a session costs, the course of the attempts of
  a read and a deletion for the three file servers through one interface, and what the end of a run
  leaves of a vCenter session.
\<close>

section \<open>State\<close>

record remote_world = objects +
  ftp_sessions :: "nat list"
  scp_sessions :: "nat list"
  tftp_sessions :: "nat list"
  vcenter_sessions :: "nat list"

type_synonym ('x, 'a) rio = "('x remote_world_scheme, 'a) pym"

section \<open>Paths\<close>

definition AbcRemoteFileHandler_get_file_path :: "'a host_config_scheme \<Rightarrow> string \<Rightarrow> string" where
  "AbcRemoteFileHandler_get_file_path conf file_name =
     (if HostConfig_path conf \<noteq> [] then HostConfig_path conf @ ''/'' @ file_name else file_name)"

text \<open>\<^verbatim>\<open>read_file\<close> and \<^verbatim>\<open>delete_file\<close> of the base class, over the method of the subclass.\<close>

definition AbcRemoteFileHandler_read_file ::
  "'a host_config_scheme \<Rightarrow> (string \<Rightarrow> ('s, string) pym) \<Rightarrow> string \<Rightarrow> ('s, string) pym" where
  "AbcRemoteFileHandler_read_file conf read_path file_name =
     read_path (AbcRemoteFileHandler_get_file_path conf file_name)"

definition AbcRemoteFileHandler_delete_file ::
  "'a host_config_scheme \<Rightarrow> (string \<Rightarrow> ('s, unit) pym) \<Rightarrow> string \<Rightarrow> ('s, unit) pym" where
  "AbcRemoteFileHandler_delete_file conf delete_path file_name =
     delete_path (AbcRemoteFileHandler_get_file_path conf file_name)"

section \<open>FTP\<close>

record ftp_handler =
  ftph_conf :: host_with_user_config
  ftph_oid :: nat

definition FTPHandler_new :: "host_with_user_config \<Rightarrow> ('x, ftp_handler) rio" where
  "FTPHandler_new conf = bnd new_oid (\<lambda>i. ret \<lparr>ftph_conf = conf, ftph_oid = i\<rparr>)"

fun ftp_retry_on_file_not_found :: "exn \<Rightarrow> bool" where
  "ftp_retry_on_file_not_found (FtpFileNotFoundError _) = True"
| "ftp_retry_on_file_not_found _ = False"

fun is_ftplib_error :: "exn \<Rightarrow> bool" where
  "is_ftplib_error (FtplibError _) = True"
| "is_ftplib_error _ = False"

definition FTPHandler_RETRY_STOP_MAX_ATTEMPT_NUM :: nat where
  "FTPHandler_RETRY_STOP_MAX_ATTEMPT_NUM = 10"

definition is_session_alive :: "'e services_scheme \<Rightarrow> ftp_handler \<Rightarrow> ('x, bool) rio" where
  "is_session_alive svc h =
     try_except_else (ask (rep_unit svc) (Ftp (hc_host (ftph_conf h)) FileList))
       (\<lambda>e. if is_ftplib_error e \<or> is_OSError e then ret False else raise_exn e)
       (\<lambda>_. ret True)"

text \<open>\<^verbatim>\<open>ftplib.FTP(host)\<close> connects; the attribute is assigned before the login.\<close>

definition ftp_connect :: "'e services_scheme \<Rightarrow> ftp_handler \<Rightarrow> ('x, unit) rio" where
  "ftp_connect svc h =
     andthen (ask (rep_unit svc) (Ftp (hc_host (ftph_conf h)) FileConnect))
    (andthen (modify (\<lambda>w. w\<lparr>ftp_sessions := List.insert (ftph_oid h) (ftp_sessions w)\<rparr>))
       (if opt_truthy (hc_user (ftph_conf h)) \<and> opt_truthy (hc_password (ftph_conf h))
        then ask (rep_unit svc) (Ftp (hc_host (ftph_conf h))
               (FileLogin (hc_user (ftph_conf h)) (hc_password (ftph_conf h))))
        else ret ()))"

definition FTPHandler_session :: "'e services_scheme \<Rightarrow> ftp_handler \<Rightarrow> ('x, unit) rio" where
  "FTPHandler_session svc h =
     bnd (get_state (\<lambda>w. ftph_oid h \<in> set (ftp_sessions w))) (\<lambda>has.
     bnd (if \<not> has then ret True else bnd (is_session_alive svc h) (\<lambda>alive. ret (\<not> alive))) (\<lambda>stale.
     if stale then ftp_connect svc h else ret ()))"

definition ftp_error :: "string \<Rightarrow> exn \<Rightarrow> ('x, 'a) rio" where
  "ftp_error file_path e =
     (if is_ftplib_error e \<and> prefix ''550 No such file'' (exn_str e)
      then raise_exn (FtpFileNotFoundError file_path) else raise_exn e)"

definition ftp_read_once :: "'e services_scheme \<Rightarrow> ftp_handler \<Rightarrow> string \<Rightarrow> ('x, string) rio" where
  "ftp_read_once svc h file_path =
     try_except
       (andthen (FTPHandler_session svc h)
          (ask (rep_str svc) (Ftp (hc_host (ftph_conf h)) (FileRead file_path))))
       (ftp_error file_path)"

definition FTPHandler_read_path ::
  "('x remote_world_scheme, string) retry_decorator \<Rightarrow> 'e services_scheme \<Rightarrow> ftp_handler \<Rightarrow> string \<Rightarrow>
   ('x, string) rio" where
  "FTPHandler_read_path rt svc h file_path =
     rt FTPHandler_RETRY_STOP_MAX_ATTEMPT_NUM ftp_retry_on_file_not_found (ftp_read_once svc h file_path)"

definition ftp_delete_once :: "'e services_scheme \<Rightarrow> ftp_handler \<Rightarrow> string \<Rightarrow> ('x, unit) rio" where
  "ftp_delete_once svc h file_path =
     try_except
       (andthen (FTPHandler_session svc h)
          (ask (rep_unit svc) (Ftp (hc_host (ftph_conf h)) (FileDelete file_path))))
       (ftp_error file_path)"

definition FTPHandler_delete_path ::
  "('x remote_world_scheme, unit) retry_decorator \<Rightarrow> 'e services_scheme \<Rightarrow> ftp_handler \<Rightarrow> string \<Rightarrow>
   ('x, unit) rio" where
  "FTPHandler_delete_path rt svc h file_path =
     rt FTPHandler_RETRY_STOP_MAX_ATTEMPT_NUM ftp_retry_on_file_not_found (ftp_delete_once svc h file_path)"

definition FTPHandler_read_file where
  "FTPHandler_read_file rt svc h =
     AbcRemoteFileHandler_read_file (ftph_conf h) (FTPHandler_read_path rt svc h)"

definition FTPHandler_delete_file where
  "FTPHandler_delete_file rt svc h =
     AbcRemoteFileHandler_delete_file (ftph_conf h) (FTPHandler_delete_path rt svc h)"

section \<open>SCP\<close>

record scp_handler =
  scph_conf :: host_with_user_config
  scph_oid :: nat

definition SCPHandler_new :: "host_with_user_config \<Rightarrow> ('x, scp_handler) rio" where
  "SCPHandler_new conf = bnd new_oid (\<lambda>i. ret \<lparr>scph_conf = conf, scph_oid = i\<rparr>)"

fun scp_retry_on_file_not_found :: "exn \<Rightarrow> bool" where
  "scp_retry_on_file_not_found (ScpFileNotFoundError _) = True"
| "scp_retry_on_file_not_found _ = False"

definition SCPHandler_RETRY_STOP_MAX_ATTEMPT_NUM :: nat where
  "SCPHandler_RETRY_STOP_MAX_ATTEMPT_NUM = 10"

text \<open>The cached property: transport, authentication, channel; it is stored when all succeed.\<close>

definition SCPHandler_session :: "'e services_scheme \<Rightarrow> scp_handler \<Rightarrow> ('x, unit) rio" where
  "SCPHandler_session svc h =
     bnd (get_state (\<lambda>w. scph_oid h \<in> set (scp_sessions w))) (\<lambda>cached.
       if cached then ret ()
       else
         andthen (ask (rep_unit svc) (Scp (HostConfig_netloc (scph_conf h)) FileConnect))
        (andthen (ask (rep_unit svc) (Scp (HostConfig_netloc (scph_conf h))
                    (FileLogin (hc_user (scph_conf h)) (hc_password (scph_conf h)))))
        (andthen (ask (rep_unit svc) (Scp (HostConfig_netloc (scph_conf h)) FileChannel))
           (modify (\<lambda>w. w\<lparr>scp_sessions := scph_oid h # scp_sessions w\<rparr>)))))"

fun is_FileNotFoundError :: "exn \<Rightarrow> bool" where
  "is_FileNotFoundError (FileNotFoundError _) = True"
| "is_FileNotFoundError _ = False"

definition scp_error :: "string \<Rightarrow> exn \<Rightarrow> ('x, 'a) rio" where
  "scp_error file_path e =
     (if is_FileNotFoundError e then raise_exn (ScpFileNotFoundError file_path)
      else if is_Exception e \<and> contains ''No such file'' (exn_str e)
      then raise_exn (ScpFileNotFoundError file_path)
      else raise_exn e)"

definition scp_read_once :: "'e services_scheme \<Rightarrow> scp_handler \<Rightarrow> string \<Rightarrow> ('x, string) rio" where
  "scp_read_once svc h file_path =
     try_except
       (andthen (SCPHandler_session svc h)
       (andthen (ask (rep_unit svc) (Scp (HostConfig_netloc (scph_conf h)) (FileOpen file_path)))
          (ask (rep_str svc) (Scp (HostConfig_netloc (scph_conf h)) (FileRead file_path)))))
       (scp_error file_path)"

definition SCPHandler_read_path ::
  "('x remote_world_scheme, string) retry_decorator \<Rightarrow> 'e services_scheme \<Rightarrow> scp_handler \<Rightarrow> string \<Rightarrow>
   ('x, string) rio" where
  "SCPHandler_read_path rt svc h file_path =
     rt SCPHandler_RETRY_STOP_MAX_ATTEMPT_NUM scp_retry_on_file_not_found (scp_read_once svc h file_path)"

definition scp_delete_once :: "'e services_scheme \<Rightarrow> scp_handler \<Rightarrow> string \<Rightarrow> ('x, unit) rio" where
  "scp_delete_once svc h file_path =
     try_except
       (andthen (SCPHandler_session svc h)
          (ask (rep_unit svc) (Scp (HostConfig_netloc (scph_conf h)) (FileDelete file_path))))
       (scp_error file_path)"

definition SCPHandler_delete_path ::
  "('x remote_world_scheme, unit) retry_decorator \<Rightarrow> 'e services_scheme \<Rightarrow> scp_handler \<Rightarrow> string \<Rightarrow>
   ('x, unit) rio" where
  "SCPHandler_delete_path rt svc h file_path =
     rt SCPHandler_RETRY_STOP_MAX_ATTEMPT_NUM scp_retry_on_file_not_found (scp_delete_once svc h file_path)"

definition SCPHandler_read_file where
  "SCPHandler_read_file rt svc h =
     AbcRemoteFileHandler_read_file (scph_conf h) (SCPHandler_read_path rt svc h)"

definition SCPHandler_delete_file where
  "SCPHandler_delete_file rt svc h =
     AbcRemoteFileHandler_delete_file (scph_conf h) (SCPHandler_delete_path rt svc h)"

section \<open>TFTP\<close>

record tftp_handler =
  tftph_conf :: host_config
  tftph_oid :: nat

definition TFTPHandler_new :: "host_config \<Rightarrow> ('x, tftp_handler) rio" where
  "TFTPHandler_new conf = bnd new_oid (\<lambda>i. ret \<lparr>tftph_conf = conf, tftph_oid = i\<rparr>)"

fun tftp_retry_on_file_not_found :: "exn \<Rightarrow> bool" where
  "tftp_retry_on_file_not_found (TftpFileNotFoundError _) = True"
| "tftp_retry_on_file_not_found _ = False"

definition TFTPHandler_RETRY_STOP_MAX_ATTEMPT_NUM :: nat where
  "TFTPHandler_RETRY_STOP_MAX_ATTEMPT_NUM = 10"

definition TFTPHandler_session :: "'e services_scheme \<Rightarrow> tftp_handler \<Rightarrow> ('x, unit) rio" where
  "TFTPHandler_session svc h =
     bnd (get_state (\<lambda>w. tftph_oid h \<in> set (tftp_sessions w))) (\<lambda>cached.
       if cached then ret ()
       else
         andthen (ask (rep_unit svc) (Tftp (hc_host (tftph_conf h)) FileConnect))
           (modify (\<lambda>w. w\<lparr>tftp_sessions := tftph_oid h # tftp_sessions w\<rparr>)))"

definition tftp_read_once :: "'e services_scheme \<Rightarrow> tftp_handler \<Rightarrow> string \<Rightarrow> ('x, string) rio" where
  "tftp_read_once svc h file_path =
     try_except
       (andthen (TFTPHandler_session svc h)
          (ask (rep_str svc) (Tftp (hc_host (tftph_conf h)) (FileRead file_path))))
       (\<lambda>e. if is_Exception e \<and> prefix ''No such file'' (exn_str e)
            then raise_exn (TftpFileNotFoundError file_path) else raise_exn e)"

definition TFTPHandler_read_path ::
  "('x remote_world_scheme, string) retry_decorator \<Rightarrow> 'e services_scheme \<Rightarrow> tftp_handler \<Rightarrow> string \<Rightarrow>
   ('x, string) rio" where
  "TFTPHandler_read_path rt svc h file_path =
     rt TFTPHandler_RETRY_STOP_MAX_ATTEMPT_NUM tftp_retry_on_file_not_found (tftp_read_once svc h file_path)"

text \<open>The deletion only writes a warning.\<close>

definition TFTPHandler_delete_path ::
  "('x remote_world_scheme, unit) retry_decorator \<Rightarrow> 'e services_scheme \<Rightarrow> tftp_handler \<Rightarrow> string \<Rightarrow>
   ('x, unit) rio" where
  "TFTPHandler_delete_path rt svc h file_path =
     rt TFTPHandler_RETRY_STOP_MAX_ATTEMPT_NUM tftp_retry_on_file_not_found (ret ())"

definition TFTPHandler_read_file where
  "TFTPHandler_read_file rt svc h =
     AbcRemoteFileHandler_read_file (tftph_conf h) (TFTPHandler_read_path rt svc h)"

definition TFTPHandler_delete_file where
  "TFTPHandler_delete_file rt svc h =
     AbcRemoteFileHandler_delete_file (tftph_conf h) (TFTPHandler_delete_path rt svc h)"

section \<open>vCenter\<close>

record vcenter_handler =
  vch_conf :: vcenter_config
  vch_oid :: nat

definition VcenterHandler_new :: "vcenter_config \<Rightarrow> ('x, vcenter_handler) rio" where
  "VcenterHandler_new conf = bnd new_oid (\<lambda>i. ret \<lparr>vch_conf = conf, vch_oid = i\<rparr>)"

text \<open>The second connection does not verify the certificate.\<close>

definition VcenterHandler_si :: "'e services_scheme \<Rightarrow> vcenter_handler \<Rightarrow> ('x, unit) rio" where
  "VcenterHandler_si svc h =
     bnd (get_state (\<lambda>w. vch_oid h \<in> set (vcenter_sessions w))) (\<lambda>cached.
       if cached then ret ()
       else
         andthen
           (try_except (ask (rep_unit svc) (VcenterConnect (vc_host (vch_conf h)) False))
              (\<lambda>e. case e of
                     SSLError _ \<Rightarrow> ask (rep_unit svc) (VcenterConnect (vc_host (vch_conf h)) True)
                   | _ \<Rightarrow> raise_exn e))
           (modify (\<lambda>w. w\<lparr>vcenter_sessions := vch_oid h # vcenter_sessions w\<rparr>)))"

definition VcenterHandler_logout :: "'e services_scheme \<Rightarrow> vcenter_handler \<Rightarrow> ('x, unit) rio" where
  "VcenterHandler_logout svc h =
     andthen (VcenterHandler_si svc h)
    (andthen (ask (rep_unit svc) (VcenterDisconnect (vc_host (vch_conf h))))
       (modify (\<lambda>w. w\<lparr>vcenter_sessions := removeAll (vch_oid h) (vcenter_sessions w)\<rparr>)))"

text \<open>The virtual machine found is represented by its name.\<close>

definition VcenterHandler_get_vm_by_uuid ::
  "'e services_scheme \<Rightarrow> vcenter_handler \<Rightarrow> string \<Rightarrow> ('x, string) rio" where
  "VcenterHandler_get_vm_by_uuid svc h vm_uuid =
     andthen (VcenterHandler_si svc h)
       (ask (rep_str svc) (VcenterFindByUuid (vc_host (vch_conf h)) vm_uuid))"

definition VcenterHandler_finish :: "'e services_scheme \<Rightarrow> vcenter_handler \<Rightarrow> ('x, unit) rio" where
  "VcenterHandler_finish svc h = VcenterHandler_logout svc h"

section \<open>Laws\<close>

subsection \<open>Sessions that are opened once\<close>

text \<open>The interface of a cached session: a client that holds one makes no further call for it, and
  what it holds after a success it did not hold after a failure.\<close>

locale cached_session =
  fixes has :: "'s \<Rightarrow> bool" and session :: "('s, unit) pym"
  assumes cached: "has s \<Longrightarrow> session s = (Inr (), s)"
    and opened: "session s = (Inr (), s') \<Longrightarrow> has s'"
    and not_opened: "session s = (Inl e, s') \<Longrightarrow> \<not> has s'"
begin

lemma opened_once: "session s = (Inr (), s') \<Longrightarrow> session s' = (Inr (), s')"
  by (rule cached) (rule opened)

lemma andthen_cached: "has s \<Longrightarrow> andthen session m s = m s"
  by (simp add: run_simps cached)

lemma andthen_twice: "andthen session (andthen session m) = andthen session m"
proof (rule ext)
  fix s
  show "andthen session (andthen session m) s = andthen session m s"
    using opened_once [of s] by (auto simp: run_simps split: prod.splits sum.splits)
qed

lemma holds_iff: "session s = (r, s') \<Longrightarrow> has s' \<longleftrightarrow> r = Inr ()"
  using opened [of s s'] not_opened [of s _ s'] by (cases r) auto

end

interpretation scp: cached_session
  "\<lambda>w :: 'x remote_world_scheme. scph_oid h \<in> set (scp_sessions w)" "SCPHandler_session svc h" for svc h
  by unfold_locales
    (auto simp: SCPHandler_session_def run_simps split: sum.splits if_splits)

interpretation tftp: cached_session
  "\<lambda>w :: 'x remote_world_scheme. tftph_oid h \<in> set (tftp_sessions w)" "TFTPHandler_session svc h" for svc h
  by unfold_locales
    (auto simp: TFTPHandler_session_def run_simps split: sum.splits if_splits)

interpretation vcenter: cached_session
  "\<lambda>w :: 'x remote_world_scheme. vch_oid h \<in> set (vcenter_sessions w)" "VcenterHandler_si svc h" for svc h
  by unfold_locales
    (auto simp: VcenterHandler_si_def run_simps split: sum.splits if_splits exn.splits)

lemma scp_read_with_session:
  assumes "scph_oid h \<in> set (scp_sessions w)"
  shows "scp_read_once svc h path w =
    try_except
      (andthen (ask (rep_unit svc) (Scp (HostConfig_netloc (scph_conf h)) (FileOpen path)))
        (ask (rep_str svc) (Scp (HostConfig_netloc (scph_conf h)) (FileRead path))))
      (scp_error path) w"
  using assms by (simp add: scp_read_once_def try_except_run scp.andthen_cached)

subsection \<open>The session of the FTP handler\<close>

text \<open>The calls of one access to the session: none is made twice.\<close>

definition ftp_session_calls :: "ftp_handler \<Rightarrow> bool \<Rightarrow> bool \<Rightarrow> file_call list" where
  "ftp_session_calls h had alive =
     (if had then [FileList] else []) @
     (if had \<and> alive then []
      else FileConnect #
        (if opt_truthy (hc_user (ftph_conf h)) \<and> opt_truthy (hc_password (ftph_conf h))
         then [FileLogin (hc_user (ftph_conf h)) (hc_password (ftph_conf h))] else []))"

lemma ftp_connect_ok:
  assumes "ftp_connect svc h w = (Inr (), w')"
  shows "ftph_oid h \<in> set (ftp_sessions w') \<and>
    hist w' = hist w @ map (Ftp (hc_host (ftph_conf h))) (ftp_session_calls h False False)"
  using assms
  by (simp add: ftp_connect_def ftp_session_calls_def run_simps split: sum.splits if_splits)
    (auto split: sum.splits if_splits)

lemma is_session_alive_ok:
  assumes "is_session_alive svc h w = (r, w')"
  shows "ftp_sessions w' = ftp_sessions w \<and> hist w' = hist w @ [Ftp (hc_host (ftph_conf h)) FileList]"
  using assms by (auto simp: is_session_alive_def run_simps split: sum.splits if_splits)

lemma ftp_session_ok:
  assumes "FTPHandler_session svc h w = (Inr (), w')"
  shows "ftph_oid h \<in> set (ftp_sessions w') \<and>
    (\<exists>alive. hist w' = hist w @
      map (Ftp (hc_host (ftph_conf h))) (ftp_session_calls h (ftph_oid h \<in> set (ftp_sessions w)) alive))"
proof (cases "ftph_oid h \<in> set (ftp_sessions w)")
  case False
  with assms have "ftp_connect svc h w = (Inr (), w')" by (simp add: FTPHandler_session_def run_simps)
  with False show ?thesis by (auto dest: ftp_connect_ok intro: exI [of _ False])
next
  case True
  obtain r w1 where al: "is_session_alive svc h w = (r, w1)" by (cases "is_session_alive svc h w")
  note 1 = is_session_alive_ok [OF al]
  show ?thesis
  proof (cases "r = Inr True")
    case alive: True
    with assms True al have "w' = w1" by (simp add: FTPHandler_session_def run_simps)
    with 1 True show ?thesis by (auto simp: ftp_session_calls_def intro: exI [of _ True])
  next
    case False
    with assms True al have "ftp_connect svc h w1 = (Inr (), w')"
      by (auto simp: FTPHandler_session_def run_simps split: sum.splits)
    from ftp_connect_ok [OF this] 1 True show ?thesis
      by (auto simp: ftp_session_calls_def intro: exI [of _ False])
  qed
qed

subsection \<open>Attempts\<close>

text \<open>A loop that repeats a call at most \<open>n\<close> times after its first attempt, as long as it fails with an exception
  the predicate accepts, and ends with the outcome of the last attempt made.\<close>

definition follows_attempts :: "nat \<Rightarrow> (exn \<Rightarrow> bool) \<Rightarrow> ('s, 'a) pym \<Rightarrow> ('s, 'a) pym \<Rightarrow> bool" where
  "follows_attempts n p once loop \<longleftrightarrow>
     (\<forall>s. \<exists>k \<le> n. (\<forall>j < k. \<exists>e. fst (once (attempt_state once s j)) = Inl e \<and> p e) \<and>
        loop s = once (attempt_state once s k) \<and>
        (k < n \<longrightarrow> (\<forall>e. fst (once (attempt_state once s k)) = Inl e \<longrightarrow> \<not> p e)))"

lemma follows_attemptsI: "retrying_law rt \<Longrightarrow> follows_attempts n p m (rt (Suc n) p m)"
  by (simp add: follows_attempts_def retrying.course retrying.intro)

text \<open>An operation that succeeds at one of the attempts succeeds.\<close>

lemma follows_attempts_success:
  assumes "follows_attempts n p once loop" and k: "k \<le> n"
    and early: "\<And>j. j < k \<Longrightarrow> \<exists>e. fst (once (attempt_state once s j)) = Inl e \<and> p e"
    and ok: "once (attempt_state once s k) = (Inr x, s')"
  shows "loop s = (Inr x, s')"
proof -
  from assms(1) obtain i where i: "i \<le> n"
    "\<forall>j < i. \<exists>e. fst (once (attempt_state once s j)) = Inl e \<and> p e"
    "loop s = once (attempt_state once s i)"
    "i < n \<longrightarrow> (\<forall>e. fst (once (attempt_state once s i)) = Inl e \<longrightarrow> \<not> p e)"
    unfolding follows_attempts_def by blast
  have "\<not> k < i" using i(2) ok by force
  moreover have "\<not> i < k" using i(4) early [of i] k by auto
  ultimately show ?thesis using i(3) ok by simp
qed

lemmas attempt_numbers =
  FTPHandler_RETRY_STOP_MAX_ATTEMPT_NUM_def SCPHandler_RETRY_STOP_MAX_ATTEMPT_NUM_def
  TFTPHandler_RETRY_STOP_MAX_ATTEMPT_NUM_def

lemmas file_methods =
  FTPHandler_read_file_def FTPHandler_delete_file_def SCPHandler_read_file_def SCPHandler_delete_file_def
  TFTPHandler_read_file_def TFTPHandler_delete_file_def
  AbcRemoteFileHandler_read_file_def AbcRemoteFileHandler_delete_file_def
  FTPHandler_read_path_def FTPHandler_delete_path_def SCPHandler_read_path_def SCPHandler_delete_path_def
  TFTPHandler_read_path_def TFTPHandler_delete_path_def

lemma ten: "(10 :: nat) = Suc 9"
  by simp

subsection \<open>Courses on an open session\<close>

text \<open>An attempt makes the calls \<open>calls h\<close> after the history \<open>h\<close>, and \<open>reply h\<close> is what the server answers it.\<close>

primrec attempt_hist :: "(event list \<Rightarrow> event list) \<Rightarrow> event list \<Rightarrow> nat \<Rightarrow> event list" where
  "attempt_hist calls h 0 = h"
| "attempt_hist calls h (Suc j) = attempt_hist calls h j @ calls (attempt_hist calls h j)"

text \<open>The operation makes attempts as long as the server answers that the file is missing, ten at most. The last one
  decides: what it read is returned, the missing file is reported under its path, and every other exception is
  raised as it is.\<close>

definition tried ::
  "(event list \<Rightarrow> event list) \<Rightarrow> (event list \<Rightarrow> exn + 'a) \<Rightarrow> (exn \<Rightarrow> bool) \<Rightarrow> (exn \<Rightarrow> bool) \<Rightarrow> exn \<Rightarrow>
   ('x, 'a) rio \<Rightarrow> 'x remote_world_scheme \<Rightarrow> bool" where
  "tried calls reply missing own not_found m w \<longleftrightarrow>
     (\<forall>k \<le> 9. let at = attempt_hist calls (hist w) in
        (\<forall>j < k. \<exists>e. reply (at j) = Inl e \<and> missing e) \<and>
        (k < 9 \<longrightarrow> (\<forall>e. reply (at k) = Inl e \<longrightarrow> \<not> missing e \<and> \<not> own e)) \<longrightarrow>
        m w = (case reply (at k) of Inr x \<Rightarrow> Inr x | Inl e \<Rightarrow> Inl (if missing e then not_found else e),
               w\<lparr>hist := at (Suc k)\<rparr>))"

lemma triedI:
  assumes law: "retrying_law rt" and nf: "own not_found"
    and once: "\<And>h. once (w\<lparr>hist := h\<rparr>) =
      (case reply h of Inr x \<Rightarrow> Inr x | Inl e \<Rightarrow> Inl (if missing e then not_found else e), w\<lparr>hist := h @ calls h\<rparr>)"
  shows "tried calls reply missing own not_found (rt 10 own once) w"
proof -
  let ?at = "attempt_hist calls (hist w)"
  have state: "attempt_state once w j = w\<lparr>hist := ?at j\<rparr>" for j
    by (induction j) (simp_all add: once)
  have "rt 10 own once w = (case reply (?at k) of Inr x \<Rightarrow> Inr x | Inl e \<Rightarrow> Inl (if missing e then not_found else e),
        w\<lparr>hist := ?at (Suc k)\<rparr>)"
    if "k \<le> 9" and early: "\<forall>j < k. \<exists>e. reply (?at j) = Inl e \<and> missing e"
      and last: "k < 9 \<longrightarrow> (\<forall>e. reply (?at k) = Inl e \<longrightarrow> \<not> missing e \<and> \<not> own e)" for k
  proof -
    obtain i where i: "i \<le> 9" "\<forall>j < i. \<exists>e. fst (once (attempt_state once w j)) = Inl e \<and> own e"
      "rt 10 own once w = once (attempt_state once w i)"
      "i < 9 \<longrightarrow> (\<forall>e. fst (once (attempt_state once w i)) = Inl e \<longrightarrow> \<not> own e)"
      using follows_attemptsI [OF law, of 9 own once] unfolding follows_attempts_def ten by blast
    have "\<not> k < i"
    proof
      assume less: "k < i"
      then obtain e where "fst (once (w\<lparr>hist := ?at k\<rparr>)) = Inl e" "own e" using i(2) state by auto
      with last less i(1) show False by (auto simp: once split: sum.splits if_splits)
    qed
    moreover have "\<not> i < k"
    proof
      assume less: "i < k"
      then obtain e where "reply (?at i) = Inl e" "missing e" using early by blast
      then have "fst (once (attempt_state once w i)) = Inl not_found" by (simp add: state once)
      with i(4) less that(1) nf show False by auto
    qed
    ultimately show ?thesis using i(3) by (simp add: state once)
  qed
  then show ?thesis by (simp add: tried_def Let_def)
qed

text \<open>What the servers answer for a missing file.\<close>

definition ftp_missing :: "exn \<Rightarrow> bool" where
  "ftp_missing e \<longleftrightarrow> (\<exists>text. e = FtplibError text \<and> prefix ''550 No such file'' text)"

definition scp_missing :: "exn \<Rightarrow> bool" where
  "scp_missing e \<longleftrightarrow> (\<exists>text. e = FileNotFoundError text) \<or> is_Exception e \<and> contains ''No such file'' (exn_str e)"

definition tftp_missing :: "exn \<Rightarrow> bool" where
  "tftp_missing e \<longleftrightarrow> is_Exception e \<and> prefix ''No such file'' (exn_str e)"

lemma is_ftplib_error_iff: "is_ftplib_error e \<longleftrightarrow> (\<exists>text. e = FtplibError text)"
  by (cases e) simp_all

lemma is_FileNotFoundError_iff: "is_FileNotFoundError e \<longleftrightarrow> (\<exists>text. e = FileNotFoundError text)"
  by (cases e) simp_all

lemma never_missing [simp]:
  "\<not> ftp_missing NoReturn" "\<not> scp_missing NoReturn" "\<not> tftp_missing NoReturn"
  by (simp_all add: ftp_missing_def scp_missing_def tftp_missing_def)

lemma error_runs:
  "ftp_error path e s = (Inl (if ftp_missing e then FtpFileNotFoundError path else e), s)"
  "scp_error path e s = (Inl (if scp_missing e then ScpFileNotFoundError path else e), s)"
  by (auto simp: ftp_error_def scp_error_def ftp_missing_def scp_missing_def is_ftplib_error_iff is_FileNotFoundError_iff
      run_simps)

text \<open>The two calls of a read over SCP, of which the second is only made when the file was opened.\<close>

definition scp_read_calls :: "'e services_scheme \<Rightarrow> string \<Rightarrow> string \<Rightarrow> event list \<Rightarrow> event list" where
  "scp_read_calls svc host path h =
     Scp host (FileOpen path) #
       (case rep_unit svc h (Scp host (FileOpen path)) of Inl _ \<Rightarrow> [] | Inr _ \<Rightarrow> [Scp host (FileRead path)])"

definition scp_read_reply :: "'e services_scheme \<Rightarrow> string \<Rightarrow> string \<Rightarrow> event list \<Rightarrow> exn + string" where
  "scp_read_reply svc host path h =
     (case rep_unit svc h (Scp host (FileOpen path)) of
        Inl e \<Rightarrow> Inl e
      | Inr _ \<Rightarrow> rep_str svc (h @ [Scp host (FileOpen path)]) (Scp host (FileRead path)))"

text \<open>C26. The file operations of the three file servers on an open session, which for FTP is alive. Each addresses the file under
  the path of the configured host and repeats its calls as long as the server answers that the file is missing:
  over FTP an error of \<^verbatim>\<open>ftplib\<close> whose text starts with 550 No such file, after each check that the session is alive; over SCP
  \<^verbatim>\<open>FileNotFoundError\<close> or any \<^verbatim>\<open>Exception\<close> whose text has No such file; over TFTP one whose text
  starts with it. There are ten attempts at most; the outcome is that of the last, a missing file as the error of the
  handler with the path, another exception as it was raised. The deletion of the TFTP handler does nothing.\<close>

theorem remote_operations_course:
  fixes w :: "'x remote_world_scheme"
  assumes "retrying_law rt" and "retrying_law ru"
    and "ftph_oid fh \<in> set (ftp_sessions w)" and "scph_oid sh \<in> set (scp_sessions w)" and "tftph_oid th \<in> set (tftp_sessions w)"
    and "\<And>h. rep_unit svc h (Ftp (hc_host (ftph_conf fh)) FileList) = Inr ()"
    and "ftp = Ftp (hc_host (ftph_conf fh))" and "fp = AbcRemoteFileHandler_get_file_path (ftph_conf fh) name"
    and "scp = HostConfig_netloc (scph_conf sh)" and "sp = AbcRemoteFileHandler_get_file_path (scph_conf sh) name"
    and "tftp = Tftp (hc_host (tftph_conf th))" and "tp = AbcRemoteFileHandler_get_file_path (tftph_conf th) name"
  shows "tried (\<lambda>h. [ftp FileList, ftp (FileRead fp)]) (\<lambda>h. rep_str svc (h @ [ftp FileList]) (ftp (FileRead fp)))
      ftp_missing ftp_retry_on_file_not_found (FtpFileNotFoundError fp) (FTPHandler_read_file rt svc fh name) w
    \<and> tried (\<lambda>h. [ftp FileList, ftp (FileDelete fp)]) (\<lambda>h. rep_unit svc (h @ [ftp FileList]) (ftp (FileDelete fp)))
      ftp_missing ftp_retry_on_file_not_found (FtpFileNotFoundError fp) (FTPHandler_delete_file ru svc fh name) w
    \<and> tried (scp_read_calls svc scp sp) (scp_read_reply svc scp sp)
      scp_missing scp_retry_on_file_not_found (ScpFileNotFoundError sp) (SCPHandler_read_file rt svc sh name) w
    \<and> tried (\<lambda>h. [Scp scp (FileDelete sp)]) (\<lambda>h. rep_unit svc h (Scp scp (FileDelete sp)))
      scp_missing scp_retry_on_file_not_found (ScpFileNotFoundError sp) (SCPHandler_delete_file ru svc sh name) w
    \<and> tried (\<lambda>h. [tftp (FileRead tp)]) (\<lambda>h. rep_str svc h (tftp (FileRead tp)))
      tftp_missing tftp_retry_on_file_not_found (TftpFileNotFoundError tp) (TFTPHandler_read_file rt svc th name) w
    \<and> TFTPHandler_delete_file ru svc th name w = (Inr (), w)"
proof -
  have ftp: "FTPHandler_session svc fh (w\<lparr>hist := h\<rparr>) = (Inr (), w\<lparr>hist := h @ [ftp FileList]\<rparr>)" for h
    using assms(3,6,7) by (simp add: FTPHandler_session_def is_session_alive_def run_simps)
  have scp: "SCPHandler_session svc sh (w\<lparr>hist := h\<rparr>) = (Inr (), w\<lparr>hist := h\<rparr>)" for h
    using assms(4) by (simp add: scp.cached)
  have tftp: "TFTPHandler_session svc th (w\<lparr>hist := h\<rparr>) = (Inr (), w\<lparr>hist := h\<rparr>)" for h
    using assms(5) by (simp add: tftp.cached)
  note once = try_except_run andthen_run ask_run error_runs raise_run
  show ?thesis
    unfolding file_methods attempt_numbers assms(8,10,12) [symmetric]
  proof (intro conjI)
    show "tried (\<lambda>h. [ftp FileList, ftp (FileRead fp)]) (\<lambda>h. rep_str svc (h @ [ftp FileList]) (ftp (FileRead fp)))
        ftp_missing ftp_retry_on_file_not_found (FtpFileNotFoundError fp)
        (rt 10 ftp_retry_on_file_not_found (ftp_read_once svc fh fp)) w"
      by (rule triedI [OF assms(1)]) (auto simp: ftp_read_once_def once ftp assms(7) split: sum.splits)
    show "tried (\<lambda>h. [ftp FileList, ftp (FileDelete fp)]) (\<lambda>h. rep_unit svc (h @ [ftp FileList]) (ftp (FileDelete fp)))
        ftp_missing ftp_retry_on_file_not_found (FtpFileNotFoundError fp)
        (ru 10 ftp_retry_on_file_not_found (ftp_delete_once svc fh fp)) w"
      by (rule triedI [OF assms(2)]) (auto simp: ftp_delete_once_def once ftp assms(7) split: sum.splits)
    show "tried (scp_read_calls svc scp sp) (scp_read_reply svc scp sp)
        scp_missing scp_retry_on_file_not_found (ScpFileNotFoundError sp)
        (rt 10 scp_retry_on_file_not_found (scp_read_once svc sh sp)) w"
      by (rule triedI [OF assms(1)])
         (auto simp: scp_read_once_def scp_read_calls_def scp_read_reply_def once scp assms(9) split: sum.splits)
    show "tried (\<lambda>h. [Scp scp (FileDelete sp)]) (\<lambda>h. rep_unit svc h (Scp scp (FileDelete sp)))
        scp_missing scp_retry_on_file_not_found (ScpFileNotFoundError sp)
        (ru 10 scp_retry_on_file_not_found (scp_delete_once svc sh sp)) w"
      by (rule triedI [OF assms(2)]) (auto simp: scp_delete_once_def once scp assms(9) split: sum.splits)
    show "tried (\<lambda>h. [tftp (FileRead tp)]) (\<lambda>h. rep_str svc h (tftp (FileRead tp)))
        tftp_missing tftp_retry_on_file_not_found (TftpFileNotFoundError tp)
        (rt 10 tftp_retry_on_file_not_found (tftp_read_once svc th tp)) w"
      by (rule triedI [OF assms(1)])
         (auto simp: tftp_read_once_def tftp_missing_def once tftp assms(11) split: sum.splits)
    show "ru 10 tftp_retry_on_file_not_found (ret ()) w = (Inr (), w)"
      unfolding ten by (intro retrying.success_at_once [OF retrying.intro [OF assms(2)]] ret_run)
  qed
qed

definition example_host :: host_with_user_config where
  "example_host = \<lparr>hc_host = ''192.168.42.102/dir'', hc_user = Some ''user'', hc_password = None\<rparr>"

text \<open>A server on which the file appears after the third call.\<close>

definition late_services :: services where
  "late_services = obliging_services\<lparr>rep_str := (\<lambda>h ev.
     if length h < 4 then Inl (FtplibError ''550 No such file or directory'') else Inr ''hostname r1'')\<rparr>"

definition remote_state :: remote_world where
  "remote_state = objects.extend (objects.truncate (object_state\<lparr>hist := []\<rparr>)) (remote_world.fields [0] [0] [0] [])"

theorem remote_operations_course_witness:
  "FTPHandler_read_file retry_ref late_services \<lparr>ftph_conf = example_host, ftph_oid = 0\<rparr> ''cfg'' remote_state =
     (Inr ''hostname r1'', remote_state\<lparr>hist := concat (replicate 3
        [Ftp ''192.168.42.102/dir'' FileList, Ftp ''192.168.42.102/dir'' (FileRead ''//dir/cfg'')])\<rparr>)"
proof -
  let ?h = "\<lparr>ftph_conf = example_host, ftph_oid = 0\<rparr>" and ?ftp = "Ftp ''192.168.42.102/dir''"
  have path: "AbcRemoteFileHandler_get_file_path example_host ''cfg'' = ''//dir/cfg''" by code_simp
  have conf: "hc_host example_host = ''192.168.42.102/dir''" by (simp add: example_host_def)
  have state: "hist remote_state = []" "0 \<in> set (ftp_sessions remote_state)" "0 \<in> set (scp_sessions remote_state)"
      "0 \<in> set (tftp_sessions remote_state)"
    by (simp_all add: remote_state_def objects.defs remote_world.defs)
  have alive: "rep_unit late_services h (Ftp (hc_host (ftph_conf ?h)) FileList) = Inr ()" for h
    by (simp add: late_services_def)
  have "tried (\<lambda>h. [?ftp FileList, ?ftp (FileRead ''//dir/cfg'')])
      (\<lambda>h. rep_str late_services (h @ [?ftp FileList]) (?ftp (FileRead ''//dir/cfg'')))
      ftp_missing ftp_retry_on_file_not_found (FtpFileNotFoundError ''//dir/cfg'')
      (FTPHandler_read_file retry_ref late_services ?h ''cfg'') remote_state"
    using remote_operations_course [OF retry_ref_law retry_ref_law _ _ _ alive refl refl refl refl refl refl,
        of remote_state "\<lparr>scph_conf = example_host, scph_oid = 0\<rparr>" "\<lparr>tftph_conf = host_config.truncate example_host, tftph_oid = 0\<rparr>" "''cfg''"]
    by (simp add: state path conf)
  moreover have "\<exists>e. rep_str late_services (attempt_hist (\<lambda>h. [?ftp FileList, ?ftp (FileRead ''//dir/cfg'')]) [] j @ [?ftp FileList])
      (?ftp (FileRead ''//dir/cfg'')) = Inl e \<and> ftp_missing e" if "j < 2" for j
    using that by (auto simp: late_services_def ftp_missing_def less_Suc_eq numeral_2_eq_2)
  ultimately show ?thesis
    unfolding tried_def Let_def by (auto dest!: spec [of _ 2] simp: state late_services_def numeral_eq_Suc)
qed

subsection \<open>vCenter at the end of a run\<close>

text \<open>Logging out needs a session: a handler that never connected connects first.\<close>

lemma vcenter_si_calls:
  assumes "VcenterHandler_si svc h w = (Inr (), w')"
  shows "\<exists>connects. set connects \<subseteq> {VcenterConnect (vc_host (vch_conf h)) False,
             VcenterConnect (vc_host (vch_conf h)) True} \<and>
           (connects = [] \<longleftrightarrow> vch_oid h \<in> set (vcenter_sessions w)) \<and> length connects \<le> 2 \<and>
           hist w' = hist w @ connects"
proof (cases "vch_oid h \<in> set (vcenter_sessions w)")
  case True
  with assms show ?thesis by (simp add: vcenter.cached)
next
  case False
  let ?c = "VcenterConnect (vc_host (vch_conf h))"
  from False assms have "hist w' = hist w @ [?c False] \<or> hist w' = hist w @ [?c False, ?c True]"
    by (auto simp: VcenterHandler_si_def run_simps split: sum.splits if_splits exn.splits)
  with False show ?thesis by (auto intro: exI [of _ "[?c False]"] exI [of _ "[?c False, ?c True]"])
qed

lemma vcenter_finish_calls:
  assumes "VcenterHandler_finish svc h w = (Inr (), w')"
  shows "vch_oid h \<notin> set (vcenter_sessions w')"
    and "\<exists>connects. set connects \<subseteq> {VcenterConnect (vc_host (vch_conf h)) False,
             VcenterConnect (vc_host (vch_conf h)) True} \<and>
           (connects = [] \<longleftrightarrow> vch_oid h \<in> set (vcenter_sessions w)) \<and> length connects \<le> 2 \<and>
           hist w' = hist w @ connects @ [VcenterDisconnect (vc_host (vch_conf h))]"
proof -
  let ?d = "VcenterDisconnect (vc_host (vch_conf h))"
  obtain w1 where si: "VcenterHandler_si svc h w = (Inr (), w1)"
    and w': "w' = w1\<lparr>hist := hist w1 @ [?d], vcenter_sessions := removeAll (vch_oid h) (vcenter_sessions w1)\<rparr>"
    using assms
    by (auto simp: VcenterHandler_finish_def VcenterHandler_logout_def run_simps
        split: prod.splits sum.splits)
  from w' show "vch_oid h \<notin> set (vcenter_sessions w')" by simp
  from vcenter_si_calls [OF si] w'
  show "\<exists>connects. set connects \<subseteq> {VcenterConnect (vc_host (vch_conf h)) False,
             VcenterConnect (vc_host (vch_conf h)) True} \<and>
           (connects = [] \<longleftrightarrow> vch_oid h \<in> set (vcenter_sessions w)) \<and> length connects \<le> 2 \<and>
           hist w' = hist w @ connects @ [?d]"
    by auto
qed

end
