(* ===== verification/Do_Handler.thy ===== *)
theory Do_Handler
  imports Remote_Files "HOL-Library.List_Lexorder" "HOL-Library.Char_ord"
begin

text \<open>
  \<^verbatim>\<open>shell_tests/handlers/do_handler.py\<close>: the CloudShell server and the networking apps that are started
  as sandboxes on another CloudShell. The configuration object is shared and changed by
  \<^verbatim>\<open>DoHandler\<close>, so it is part of the state, with the sandboxes the two helper classes remember. The
  tasks of the thread pool are atomic and the results are read when all have run. The lemmas show
  which topology is taken for a name, that every sandbox the preparation starts is remembered or was
  asked to end, that ending the handler asks every remembered sandbox to end and nothing more, how
  often the creation of a server is attempted, and which entry of the configuration an app updates.
\<close>

section \<open>State\<close>

record do_world = remote_world +
  main_conf :: main_config
  cs_on_do_sandbox :: "sandbox_handler option"
  app_sandboxes :: "sandbox_handler list"

type_synonym ('x, 'a) dio = "('x do_world_scheme, 'a) pym"

section \<open>Topologies\<close>

text \<open>The search both classes make: the first of the sorted names whose part after the first slash is
  the wanted one.\<close>

definition topology_matches :: "string \<Rightarrow> string \<Rightarrow> bool" where
  "topology_matches name topology_name \<longleftrightarrow> last (split_first (CHR ''/'') topology_name) = name"

definition find_topology :: "string \<Rightarrow> string list \<Rightarrow> string option" where
  "find_topology name names = find (topology_matches name) (sort names)"

section \<open>CloudShell on Do\<close>

definition CSCreator_find_topology_name_for_cloudshell ::
  "'e services_scheme \<Rightarrow> cs_handler \<Rightarrow> cs_on_do_config \<Rightarrow> ('x, string) dio" where
  "CSCreator_find_topology_name_for_cloudshell svc do_h conf =
     bnd (CloudShellHandler_get_topologies_by_category svc do_h []) (\<lambda>names.
       case find_topology (cs_version conf) names of
         Some topology_name \<Rightarrow> ret topology_name
       | None \<Rightarrow> raise_exn (BaseAutomationException
           (''CloudShell version '' @ cs_version conf @ '' isn'' @ [quote] @ ''t exists'')))"

definition cs_sandbox_config :: "cs_on_do_config \<Rightarrow> string \<Rightarrow> sandbox_config" where
  "cs_sandbox_config conf topology_name =
     \<lparr>sc_name = topology_name, sc_resource_names = [], sc_deployment_resource_names = [],
      sc_service_names = [], sc_blueprint_name = Some topology_name,
      sc_specific_version = Some (cs_specific_version conf), sc_tests_conf = None\<rparr>"

definition CSCreator_start_cs_sandbox ::
  "'e services_scheme \<Rightarrow> cs_handler \<Rightarrow> cs_on_do_config \<Rightarrow> ('x, sandbox_handler) dio" where
  "CSCreator_start_cs_sandbox svc do_h conf =
     bnd (CSCreator_find_topology_name_for_cloudshell svc do_h conf) (\<lambda>topology_name.
     SandboxHandler_create svc (cs_sandbox_config conf topology_name) do_h (2 * 60))"

definition deployment_config :: "string \<Rightarrow> string \<Rightarrow> deployment_resource_config" where
  "deployment_config name blueprint_name =
     \<lparr>drc_name = name, drc_is_first_gen = False, drc_attributes = [], drc_children_attributes = [],
      drc_blueprint_name = blueprint_name, drc_tests_conf = TestsConfig_default\<rparr>"

definition CSCreator_get_cs_resource ::
  "'e services_scheme \<Rightarrow> cs_on_do_config \<Rightarrow> sandbox_handler \<Rightarrow> ('x, nat) dio" where
  "CSCreator_get_cs_resource svc conf sb =
     DeploymentResourceHandler_create_resource svc (deployment_config ''CloudShell'' (cs_version conf)) sb"

definition dict_item :: "(string, string) dict \<Rightarrow> string \<Rightarrow> exn + string" where
  "dict_item d k = (case dict_get d k of None \<Rightarrow> Inl (KeyError (repr_str k)) | Some v \<Rightarrow> Inr v)"

definition CSCreator_get_cs_config ::
  "'e services_scheme \<Rightarrow> cs_on_do_config \<Rightarrow> sandbox_handler \<Rightarrow> ('x, cloudshell_config) dio" where
  "CSCreator_get_cs_config svc conf sb =
     bnd (CSCreator_get_cs_resource svc conf sb) (\<lambda>i.
     bnd (DeploymentResourceHandler_get_details svc i) (\<lambda>info.
     let attrs = dict_of (ri_ResourceAttributes info)
     in bnd (of_result (dict_item attrs ''OS Login'')) (\<lambda>os_user.
        bnd (of_result (dict_item attrs ''OS Password'')) (\<lambda>os_password.
        ret \<lparr>csc_host = ri_Address info, csc_user = ''admin'', csc_password = ''admin'',
             csc_os_user = os_user, csc_os_password = os_password, csc_domain = ''Global''\<rparr>))))"

definition CSCreator_finish :: "'e services_scheme \<Rightarrow> ('x, unit) dio" where
  "CSCreator_finish svc =
     bnd (get_state cs_on_do_sandbox) (\<lambda>s.
       case s of None \<Rightarrow> ret () | Some sb \<Rightarrow> SandboxHandler_end_reservation svc sb False)"

definition create_cloudshell_once ::
  "'e services_scheme \<Rightarrow> cs_handler \<Rightarrow> cs_on_do_config \<Rightarrow> ('x, cloudshell_config) dio" where
  "create_cloudshell_once svc do_h conf =
     bnd (CSCreator_start_cs_sandbox svc do_h conf) (\<lambda>sb.
     andthen (modify (\<lambda>w. w\<lparr>cs_on_do_sandbox := Some sb\<rparr>))
       (try_except
          (bnd (CSCreator_get_cs_config svc conf sb) (\<lambda>cs_conf.
           bnd (CloudShellHandler_new cs_conf) (\<lambda>cs.
           andthen (CloudShellHandler_wait_for_cs_is_started svc cs) (ret cs_conf))))
          (\<lambda>e. if e = CSIsNotAliveError
               then andthen (CSCreator_finish svc) (raise_exn e) else raise_exn e)))"

definition CSCreator_create_cloudshell ::
  "('x do_world_scheme, cloudshell_config) retry_decorator \<Rightarrow> 'e services_scheme \<Rightarrow> cs_handler \<Rightarrow>
   cs_on_do_config \<Rightarrow> ('x, cloudshell_config) dio" where
  "CSCreator_create_cloudshell rt svc do_h conf =
     rt 5 (\<lambda>e. e = CSIsNotAliveError) (create_cloudshell_once svc do_h conf)"

section \<open>Networking apps\<close>

definition NetworkingAppsHandler_find_topology_name_for_app ::
  "'e services_scheme \<Rightarrow> cs_handler \<Rightarrow> string \<Rightarrow> ('x, string) dio" where
  "NetworkingAppsHandler_find_topology_name_for_app svc do_h name =
     bnd (CloudShellHandler_get_topologies_by_category svc do_h ''Networking Apps'') (\<lambda>names.
       case find_topology name names of
         Some topology_name \<Rightarrow> ret topology_name
       | None \<Rightarrow> raise_exn (BaseAutomationException
           (''Networking App '' @ name @ '' isn'' @ [quote] @ ''t exists'')))"

definition app_sandbox_config :: "string \<Rightarrow> string \<Rightarrow> sandbox_config" where
  "app_sandbox_config name topology_name =
     \<lparr>sc_name = ''Networking App '' @ name, sc_resource_names = [], sc_deployment_resource_names = [],
      sc_service_names = [], sc_blueprint_name = Some topology_name, sc_specific_version = None,
      sc_tests_conf = None\<rparr>"

definition NetworkingAppsHandler_start_app_sandbox ::
  "'e services_scheme \<Rightarrow> cs_handler \<Rightarrow> string \<Rightarrow> ('x, sandbox_handler) dio" where
  "NetworkingAppsHandler_start_app_sandbox svc do_h name =
     bnd (NetworkingAppsHandler_find_topology_name_for_app svc do_h name) (\<lambda>topology_name.
     SandboxHandler_create svc (app_sandbox_config name topology_name) do_h (2 * 60))"

definition NetworkingAppsHandler_get_app_resource ::
  "'e services_scheme \<Rightarrow> sandbox_handler \<Rightarrow> networking_app_conf \<Rightarrow> ('x, nat) dio" where
  "NetworkingAppsHandler_get_app_resource svc sb app_conf =
     DeploymentResourceHandler_create_resource svc
       (deployment_config (nac_name app_conf) (nac_blueprint_name app_conf)) sb"

definition NetworkingAppsHandler_create_app ::
  "'e services_scheme \<Rightarrow> cs_handler \<Rightarrow> networking_app_conf \<Rightarrow> ('x, nat) dio" where
  "NetworkingAppsHandler_create_app svc do_h app_conf =
     bnd (NetworkingAppsHandler_start_app_sandbox svc do_h (nac_blueprint_name app_conf)) (\<lambda>sb.
     andthen (modify (\<lambda>w. w\<lparr>app_sandboxes := app_sandboxes w @ [sb]\<rparr>))
       (NetworkingAppsHandler_get_app_resource svc sb app_conf))"

text \<open>The set of sandboxes is iterated in the order of the services.\<close>

definition NetworkingAppsHandler_finish :: "'e services_scheme \<Rightarrow> ('x, unit) dio" where
  "NetworkingAppsHandler_finish svc =
     bnd (get_state (\<lambda>w. permute (set_order svc (hist w) (length (app_sandboxes w))) (app_sandboxes w)))
       (\<lambda>sbs. for_each sbs (\<lambda>sb. SandboxHandler_end_reservation svc sb False))"

section \<open>The handler\<close>

text \<open>A task of the pool never raises in the pool: its future holds the outcome, if it returns.\<close>

definition future :: "('s, 'a) pym \<Rightarrow> ('s, exn + 'a) pym" where
  "future m s =
     (case m s of (r, s') \<Rightarrow> (if r = Inl NoReturn then Inl NoReturn else Inr r, s'))"

definition DoHandler_new :: "do_config \<Rightarrow> ('x, cs_handler) dio" where
  "DoHandler_new conf = CloudShellHandler_new (cloudshell_config.truncate conf)"

text \<open>The first matching entry of the resources, which exists, gets the address and the default
  credentials.\<close>

definition with_device :: "string \<Rightarrow> resource_config \<Rightarrow> resource_config" where
  "with_device ip conf =
     (let conf' = conf\<lparr>rc_device_ip := Some ip\<rparr>
      in if \<not> opt_truthy (dict_get (rc_attributes conf') ''User'')
         then conf'\<lparr>rc_attributes := dict_update (rc_attributes conf')
                [(''User'', ''admin''), (''Password'', ''admin''), (''Enable Password'', ''admin'')]\<rparr>
         else conf')"

primrec update_first :: "('a \<Rightarrow> bool) \<Rightarrow> ('a \<Rightarrow> 'a) \<Rightarrow> 'a list \<Rightarrow> 'a list" where
  "update_first P f [] = []"
| "update_first P f (x # xs) = (if P x then f x # xs else x # update_first P f xs)"

definition DoHandler_update_resource_conf_from_deployment_resource ::
  "'e services_scheme \<Rightarrow> nat \<Rightarrow> ('x, unit) dio" where
  "DoHandler_update_resource_conf_from_deployment_resource svc i =
     bnd (dh_get i (\<lambda>o'. drc_name (dh_conf o'))) (\<lambda>name.
     bnd (get_state (\<lambda>w. find (\<lambda>c. rc_networking_app_name c = Some name) (resources_conf (main_conf w))))
       (\<lambda>found.
       case found of
         None \<Rightarrow> raise_exn (BaseAutomationException
           (''Resource '' @ name @ '' is not present in resources config''))
       | Some _ \<Rightarrow> bnd (DeploymentResourceHandler_device_ip svc i) (\<lambda>ip.
           modify (\<lambda>w. w\<lparr>main_conf := main_conf w\<lparr>resources_conf :=
             update_first (\<lambda>c. rc_networking_app_name c = Some name) (with_device ip)
               (resources_conf (main_conf w))\<rparr>\<rparr>))))"

definition do_tasks ::
  "('x do_world_scheme, cloudshell_config) retry_decorator \<Rightarrow> 'e services_scheme \<Rightarrow> cs_handler \<Rightarrow>
   do_config \<Rightarrow> ('x, (exn + cloudshell_config) + (exn + nat)) dio list" where
  "do_tasks rt svc do_h conf =
     (case cs_on_do_conf conf of
        None \<Rightarrow> []
      | Some c \<Rightarrow> [bnd (future (CSCreator_create_cloudshell rt svc do_h c)) (\<lambda>r. ret (Inl r))]) @
     map (\<lambda>a. bnd (future (NetworkingAppsHandler_create_app svc do_h a)) (\<lambda>r. ret (Inr r)))
       (networking_apps conf)"

definition DoHandler_prepare_inner ::
  "('x do_world_scheme, cloudshell_config) retry_decorator \<Rightarrow> 'e services_scheme \<Rightarrow> cs_handler \<Rightarrow>
   do_config \<Rightarrow> ('x, unit) dio" where
  "DoHandler_prepare_inner rt svc do_h conf =
     bnd (executor svc (do_tasks rt svc do_h conf)) (\<lambda>rs.
     andthen
       (for_each [r. Inr (Inr r) \<leftarrow> rs] (\<lambda>r.
          bnd (of_result r) (DoHandler_update_resource_conf_from_deployment_resource svc)))
       (for_each [r. Inr (Inl r) \<leftarrow> rs] (\<lambda>r.
          bnd (of_result r) (\<lambda>cs_conf'.
            modify (\<lambda>w. w\<lparr>main_conf := main_conf w\<lparr>cs_conf := Some cs_conf'\<rparr>\<rparr>)))))"

definition none_host_error :: exn where
  "none_host_error =
     AttributeError (repr_str ''NoneType'' @ '' object has no attribute '' @ repr_str ''host'')"

definition DoHandler_finish :: "'e services_scheme \<Rightarrow> do_config \<Rightarrow> ('x, unit) dio" where
  "DoHandler_finish svc conf =
     andthen
       (case cs_on_do_conf conf of
          None \<Rightarrow> ret ()
        | Some c \<Rightarrow>
            if delete_cs c then CSCreator_finish svc
            else bnd (get_state (\<lambda>w. cs_conf (main_conf w))) (\<lambda>cc.
                   if cc = None then raise_exn none_host_error else ret ()))
       (NetworkingAppsHandler_finish svc)"

definition DoHandler_prepare ::
  "('x do_world_scheme, cloudshell_config) retry_decorator \<Rightarrow> 'e services_scheme \<Rightarrow> cs_handler \<Rightarrow>
   do_config \<Rightarrow> ('x, unit) dio" where
  "DoHandler_prepare rt svc do_h conf =
     try_except (DoHandler_prepare_inner rt svc do_h conf)
       (\<lambda>e. if is_Exception e then andthen (DoHandler_finish svc conf) (raise_exn e) else raise_exn e)"

text \<open>\<^verbatim>\<open>with DoHandler(conf): body\<close>\<close>

definition with_DoHandler ::
  "('x do_world_scheme, cloudshell_config) retry_decorator \<Rightarrow> 'e services_scheme \<Rightarrow> do_config \<Rightarrow>
   ('x, 'a) dio \<Rightarrow> ('x, 'a) dio" where
  "with_DoHandler rt svc conf body =
     bnd (DoHandler_new conf) (\<lambda>do_h.
     andthen (DoHandler_prepare rt svc do_h conf)
       (try_finally body (DoHandler_finish svc conf)))"

section \<open>Which topology is taken\<close>

lemma find_sorted:
  fixes xs :: "'a::linorder list"
  shows "find P (sort xs) = (if \<exists>x \<in> set xs. P x then Some (Min {x \<in> set xs. P x}) else None)"
proof -
  have "find P ys = (if \<exists>x \<in> set ys. P x then Some (Min {x \<in> set ys. P x}) else None)"
    if "sorted ys" for ys :: "'a list"
    using that
  proof (induction ys)
    case Nil
    show ?case by simp
  next
    case (Cons y ys)
    have "Min {x \<in> set (y # ys). P x} = y" if "P y"
      using Cons.prems that by (intro Min_eqI) auto
    moreover have "{x \<in> set (y # ys). P x} = {x \<in> set ys. P x}" if "\<not> P y"
      using that by auto
    ultimately show ?case using Cons by auto
  qed
  from this [of "sort xs"] show ?thesis by simp
qed

text \<open>C27. The blueprint started for a server version or an app: on an open session whose server lists
  the topologies, it is the least of the listed names, in the order of code points, that is the
  wanted name after the first slash (or has no slash and is the wanted name); without one
  \<^verbatim>\<open>BaseAutomationException\<close> is raised. Nothing but the listing is called.\<close>

theorem topology_is_least_match:
  assumes "connected do_h w"
    and "rep_strs svc (hist w) (Api (csh_host do_h) (GetTopologiesByCategory category)) = Inr names"
  shows "(category = ''Networking Apps'' \<longrightarrow>
      NetworkingAppsHandler_find_topology_name_for_app svc do_h name w =
        (if \<exists>t \<in> set names. topology_matches name t
         then Inr (Min {t \<in> set names. topology_matches name t})
         else Inl (BaseAutomationException (''Networking App '' @ name @ '' isn'' @ [quote] @ ''t exists'')),
         add_events [Api (csh_host do_h) (GetTopologiesByCategory category)] w))
    \<and> (category = [] \<longrightarrow>
      CSCreator_find_topology_name_for_cloudshell svc do_h conf w =
        (if \<exists>t \<in> set names. topology_matches (cs_version conf) t
         then Inr (Min {t \<in> set names. topology_matches (cs_version conf) t})
         else Inl (BaseAutomationException
           (''CloudShell version '' @ cs_version conf @ '' isn'' @ [quote] @ ''t exists'')),
         add_events [Api (csh_host do_h) (GetTopologiesByCategory category)] w))"
  using assms
  by (intro conjI impI)
     (auto simp: NetworkingAppsHandler_find_topology_name_for_app_def find_topology_def find_sorted
      CSCreator_find_topology_name_for_cloudshell_def CloudShellHandler_get_topologies_by_category_def run_simps)

definition topology_services :: services where
  "topology_services = obliging_services\<lparr>rep_strs := (\<lambda>h ev. Inr
     [''Environments/Cisco IOSv Switch'', ''Archive/Cisco IOSv Switch'', ''Environments/Cisco NXOS''])\<rparr>"

text \<open>A state with open sessions and nothing created.\<close>

definition do_state :: do_world where
  "do_state = \<lparr>hist = [], api_cached = [0], rest_cached = [0], next_oid = 1, smb_sessions = [],
     resource_objs = [], service_objs = [], deployment_objs = [], ftp_sessions = [], scp_sessions = [],
     tftp_sessions = [], vcenter_sessions = [], main_conf = test_config_yaml, cs_on_do_sandbox = None,
     app_sandboxes = []\<rparr>"

lemma connected_do_state [simp]: "connected do_example do_state"
  by (simp add: connected_def do_example_def do_state_def)

theorem topology_is_least_match_witness:
  "fst (NetworkingAppsHandler_find_topology_name_for_app topology_services do_example
     ''Cisco IOSv Switch'' do_state) = Inr ''Archive/Cisco IOSv Switch''"
proof -
  let ?names = "[''Environments/Cisco IOSv Switch'', ''Archive/Cisco IOSv Switch'', ''Environments/Cisco NXOS'']"
  have "rep_strs topology_services h ev = Inr ?names" for h ev by (simp add: topology_services_def)
  note run = topology_is_least_match [OF connected_do_state this, THEN conjunct1, rule_format, OF refl]
  have m: "topology_matches ''Cisco IOSv Switch'' ''Environments/Cisco IOSv Switch''"
    "topology_matches ''Cisco IOSv Switch'' ''Archive/Cisco IOSv Switch''"
    "\<not> topology_matches ''Cisco IOSv Switch'' ''Environments/Cisco NXOS''"
    by (code_simp, code_simp, code_simp)
  then have "{t \<in> set ?names. topology_matches ''Cisco IOSv Switch'' t} =
      {''Environments/Cisco IOSv Switch'', ''Archive/Cisco IOSv Switch''}"
    unfolding set_simps by blast
  moreover have "min ''Environments/Cisco IOSv Switch'' ''Archive/Cisco IOSv Switch'' =
      ''Archive/Cisco IOSv Switch''"
    by code_simp
  moreover have "Min {a, b} = min a b" for a b :: string by simp
  moreover have "\<exists>t \<in> set ?names. topology_matches ''Cisco IOSv Switch'' t" using m(1) by force
  ultimately show ?thesis by (simp only: run if_True fst_conv)
qed

section \<open>Sandboxes that are remembered\<close>

definition known_sandboxes :: "'x do_world_scheme \<Rightarrow> sandbox_handler list" where
  "known_sandboxes w =
     (case cs_on_do_sandbox w of None \<Rightarrow> [] | Some sb \<Rightarrow> [sb]) @ app_sandboxes w"

text \<open>All are of the one handler, whose session is open when there is one.\<close>

definition owned :: "cs_handler \<Rightarrow> 'x do_world_scheme \<Rightarrow> bool" where
  "owned do_h w \<longleftrightarrow> (\<forall>sb \<in> set (known_sandboxes w). sbh_cs_handler sb = do_h \<and> connected do_h w)"

definition keeps_owned :: "cs_handler \<Rightarrow> 'x do_world_scheme \<Rightarrow> 'x do_world_scheme \<Rightarrow> bool" where
  "keeps_owned do_h w w' \<longleftrightarrow> sessions_stay w w' \<and> (owned do_h w \<longrightarrow> owned do_h w')"

interpretation owning: state_preorder "keeps_owned do_h" for do_h
  by unfold_locales (auto simp: keeps_owned_def sessions_stay_def)

lemma keeps_owned_same:
  assumes "\<And>w. set (api_cached w) \<subseteq> set (api_cached (snd (m w)))"
    and "\<And>w. cs_on_do_sandbox (snd (m w)) = cs_on_do_sandbox w"
    and "\<And>w. app_sandboxes (snd (m w)) = app_sandboxes w"
  shows "keeps (keeps_owned do_h) m"
  using assms
  by (intro keepsI) (fastforce simp: keeps_owned_def sessions_stay_def owned_def known_sandboxes_def connected_def)

lemma keeps_owned_ask: "keeps (keeps_owned do_h) (ask rep ev)"
  by (rule keeps_owned_same) (simp_all add: run_simps)

lemma keeps_owned_sleep: "keeps (keeps_owned do_h) (sleep n)"
  by (rule keeps_owned_same) (simp_all add: run_simps)

lemma keeps_owned_new_oid: "keeps (keeps_owned do_h) new_oid"
  by (rule keeps_owned_same) (simp_all add: run_simps)

lemma keeps_owned_dh_get: "keeps (keeps_owned do_h) (dh_get i f)"
  by (rule keeps_owned_same) (simp_all add: run_simps)

lemma keeps_owned_dh_upd: "keeps (keeps_owned do_h) (dh_upd i f)"
  by (rule keeps_owned_same) (simp_all add: run_simps)

lemma keeps_owned_api: "keeps (keeps_owned do_h) (CloudShellHandler_api svc cs)"
  by (rule keeps_owned_same) (auto simp: CloudShellHandler_api_def run_simps split: sum.splits)

lemma keeps_owned_api_call: "keeps (keeps_owned do_h) (api_call svc rep cs c)"
  unfolding api_call_def by (intro owning.keeps_andthen keeps_owned_api keeps_owned_ask)

lemmas owns = owning.keeps_ret owning.keeps_raise owning.keeps_of_result owning.keeps_get_state
  owning.keeps_bnd owning.keeps_andthen owning.keeps_if owning.keeps_map_m owning.keeps_for_each
  owning.keeps_try_except owning.keeps_try_except_else
  keeps_owned_ask keeps_owned_sleep keeps_owned_new_oid keeps_owned_dh_get keeps_owned_dh_upd
  keeps_owned_api keeps_owned_api_call

lemma keeps_owned_wait_started:
  "keeps (keeps_owned do_h) (CloudShellHandler_wait_reservation_is_started svc cs rid)"
proof -
  have "keeps (keeps_owned do_h) (wait_started_loop n svc cs rid)" for n
    by (induction n)
       (auto simp: CloudShellHandler_get_reservation_status_def CloudShellHandler_get_reservation_errors_def
          get_reservation_errors_def get_activity_def Let_def intro!: owns)
  then show ?thesis by (simp add: CloudShellHandler_wait_reservation_is_started_def)
qed

lemma keeps_owned_wait_for_cs:
  "keeps (keeps_owned do_h) (CloudShellHandler_wait_for_cs_is_started svc cs)"
proof -
  have "keeps (keeps_owned do_h) (wait_for_cs_loop n svc cs)" for n
    by (induction n) (auto intro!: owns)
  then show ?thesis by (simp add: CloudShellHandler_wait_for_cs_is_started_def)
qed

lemma keeps_owned_end: "keeps (keeps_owned do_h) (CloudShellHandler_end_reservation svc cs rid False)"
  unfolding CloudShellHandler_end_reservation_def by (auto intro!: owns)

lemma keeps_owned_create:
  "keeps (keeps_owned do_h) (SandboxHandler_create svc conf cs duration)"
  unfolding SandboxHandler_create_def create_reservation_call
  by (intro owns keeps_owned_wait_started keeps_owned_end)

lemma keeps_owned_create_resource:
  "keeps (keeps_owned do_h) (DeploymentResourceHandler_create_resource svc conf sb)"
proof -
  have "keeps (keeps_owned do_h) (DeploymentResourceHandler_new conf vm sb)" for vm
    by (rule keeps_owned_same) (simp_all add: DeploymentResourceHandler_new_def run_simps)
  moreover have "keeps (keeps_owned do_h) (DeploymentResourceHandler_model svc i)" for i
    unfolding DeploymentResourceHandler_model_def DeploymentResourceHandler_get_details_def
      CloudShellHandler_get_resource_details_def
    by (auto split: option.splits intro!: owns)
  ultimately show ?thesis
    unfolding DeploymentResourceHandler_create_resource_def DeploymentResourceHandler_set_attributes_def
      SandboxHandler_get_deployment_resource_name_def CloudShellHandler_set_resource_attributes_def
      CloudShellHandler_get_topology_details_def CloudShellHandler_get_resources_names_in_reservation_def Let_def
    by (intro owns)
qed

text \<open>A statement that remembers a sandbox after it was created with the handler.\<close>

lemma keeps_owned_remember:
  assumes start: "keeps (keeps_owned do_h) start"
    and mine: "\<And>w sb w'. start w = (Inr sb, w') \<Longrightarrow> sbh_cs_handler sb = do_h \<and> connected do_h w'"
    and upd: "\<And>sb w. set (known_sandboxes (f sb w)) \<subseteq> insert sb (set (known_sandboxes w))"
      "\<And>sb w. api_cached (f sb w) = api_cached w"
    and rest: "\<And>sb. keeps (keeps_owned do_h) (rest sb)"
  shows "keeps (keeps_owned do_h) (bnd start (\<lambda>sb. andthen (modify (f sb)) (rest sb)))"
proof (rule keepsI)
  fix w
  obtain r w1 where st: "start w = (r, w1)" by (cases "start w")
  from start st have 1: "keeps_owned do_h w w1" by (rule keepsD)
  show "keeps_owned do_h w (snd (bnd start (\<lambda>sb. andthen (modify (f sb)) (rest sb)) w))"
  proof (cases r)
    case (Inl e)
    with st 1 show ?thesis by (simp add: run_simps)
  next
    case (Inr sb)
    have "keeps_owned do_h w1 (f sb w1)"
      using mine [of w sb w1] st Inr upd [of sb w1]
      by (fastforce simp: keeps_owned_def owned_def sessions_stay_def connected_def)
    moreover have "keeps_owned do_h (f sb w1) (snd (rest sb (f sb w1)))"
      using rest [of sb] by (simp add: keeps_def)
    ultimately have "keeps_owned do_h w (snd (rest sb (f sb w1)))"
      using 1 by (blast intro: owning.R_trans)
    with st Inr show ?thesis by (simp add: run_simps)
  qed
qed

lemma create_is_mine:
  assumes "SandboxHandler_create svc conf cs duration w = (Inr sb, w')"
  shows "sbh_cs_handler sb = cs \<and> connected cs w'"
proof -
  obtain rid w1 where c: "api_call svc (rep_str svc) cs (create_call svc conf cs duration) w = (Inr rid, w1)"
    and w: "CloudShellHandler_wait_reservation_is_started svc cs rid w1 = (Inr (), w')"
    and sb: "sbh_cs_handler sb = cs"
    using assms unfolding SandboxHandler_create_def create_reservation_call
    by (auto simp: run_simps split: prod.splits sum.splits if_splits)
  from connected_stay [OF sessions_stay_wait_started
      w [unfolded CloudShellHandler_wait_reservation_is_started_def] api_call_connects [OF c]] sb
  show ?thesis by simp
qed

lemma keeps_owned_create_app: "keeps (keeps_owned do_h) (NetworkingAppsHandler_create_app svc do_h app_conf)"
  unfolding NetworkingAppsHandler_create_app_def NetworkingAppsHandler_get_app_resource_def
proof (rule keeps_owned_remember)
  show "keeps (keeps_owned do_h) (NetworkingAppsHandler_start_app_sandbox svc do_h (nac_blueprint_name app_conf))"
    unfolding NetworkingAppsHandler_start_app_sandbox_def NetworkingAppsHandler_find_topology_name_for_app_def
      CloudShellHandler_get_topologies_by_category_def
    by (auto split: option.splits intro!: owns keeps_owned_create)
qed (auto simp: NetworkingAppsHandler_start_app_sandbox_def bnd_eq_Inr known_sandboxes_def
      intro: keeps_owned_create_resource dest: create_is_mine split: option.splits)

lemma keeps_owned_finish_cs: "keeps (keeps_owned do_h) (CSCreator_finish svc)"
  unfolding CSCreator_finish_def SandboxHandler_end_reservation_def
  by (intro owns) (auto split: option.splits intro!: owns keeps_owned_end)

lemma keeps_owned_create_once: "keeps (keeps_owned do_h) (create_cloudshell_once svc do_h conf)"
  unfolding create_cloudshell_once_def
proof (rule keeps_owned_remember)
  show "keeps (keeps_owned do_h) (CSCreator_start_cs_sandbox svc do_h conf)"
    unfolding CSCreator_start_cs_sandbox_def CSCreator_find_topology_name_for_cloudshell_def
      CloudShellHandler_get_topologies_by_category_def
    by (auto split: option.splits intro!: owns keeps_owned_create)
  show "keeps (keeps_owned do_h)
     (try_except
        (bnd (CSCreator_get_cs_config svc conf sb) (\<lambda>cs_conf. bnd (CloudShellHandler_new cs_conf) (\<lambda>cs.
           andthen (CloudShellHandler_wait_for_cs_is_started svc cs) (ret cs_conf))))
        (\<lambda>e. if e = CSIsNotAliveError then andthen (CSCreator_finish svc) (raise_exn e) else raise_exn e))"
    for sb
    unfolding CSCreator_get_cs_config_def CSCreator_get_cs_resource_def CloudShellHandler_new_def
      DeploymentResourceHandler_get_details_def CloudShellHandler_get_resource_details_def Let_def
    by (intro owns keeps_owned_create_resource keeps_owned_wait_for_cs keeps_owned_finish_cs)
qed (auto simp: CSCreator_start_cs_sandbox_def bnd_eq_Inr known_sandboxes_def dest: create_is_mine
      split: option.splits)

lemma keeps_owned_create_cloudshell:
  assumes "retrying_law rt"
  shows "keeps (keeps_owned do_h) (CSCreator_create_cloudshell rt svc do_h conf)"
proof (rule keepsI)
  fix w
  have "keeps_owned do_h w (snd (rt (Suc 4) (\<lambda>e. e = CSIsNotAliveError) (create_cloudshell_once svc do_h conf) w))"
    by (rule retrying.attempts_keep [OF retrying.intro [OF assms]])
       (auto intro: owning.R_refl owning.R_trans dest: keepsD [OF keeps_owned_create_once])
  then show "keeps_owned do_h w (snd (CSCreator_create_cloudshell rt svc do_h conf w))"
    by (simp add: CSCreator_create_cloudshell_def)
qed

lemma keeps_owned_future: "keeps (keeps_owned do_h) m \<Longrightarrow> keeps (keeps_owned do_h) (future m)"
  by (intro keepsI) (auto simp: future_def split: prod.splits dest: keepsD)

lemma keeps_owned_tasks:
  assumes "retrying_law rt" and "m \<in> set (do_tasks rt svc do_h conf)"
  shows "keeps (keeps_owned do_h) m"
  using assms
  by (auto simp: do_tasks_def split: option.splits
      intro!: owns keeps_owned_future keeps_owned_create_cloudshell keeps_owned_create_app)

lemma keeps_owned_executor:
  fixes ms :: "('x, 'a) dio list"
  assumes "orders_ok svc" and "\<And>m. m \<in> set ms \<Longrightarrow> keeps (keeps_owned do_h) m"
  shows "keeps (keeps_owned do_h) (executor svc ms)"
proof (rule keepsI)
  fix w :: "'x do_world_scheme"
  have "set (permute (set_order svc (hist w) (length ms)) ms) = set ms"
    by (intro set_permute orders_ok_D(2) assms(1))
  then have "keeps_owned do_h w (snd (run_all (permute (set_order svc (hist w) (length ms)) ms) w))"
    by (intro owning.run_all_keeps assms(2)) auto
  then show "keeps_owned do_h w (snd (executor svc ms w))"
    by (simp add: executor_def executor_outcomes_def case_prod_beta)
qed

lemma keeps_owned_prepare_inner:
  assumes "retrying_law rt" and "orders_ok svc"
  shows "keeps (keeps_owned do_h) (DoHandler_prepare_inner rt svc do_h conf)"
proof -
  have conf: "keeps (keeps_owned do_h) (modify (\<lambda>w. w\<lparr>main_conf := f w\<rparr>))" for f
    by (rule keeps_owned_same) (simp_all add: run_simps)
  have "keeps (keeps_owned do_h) (DeploymentResourceHandler_device_ip svc i)" for i
    unfolding DeploymentResourceHandler_device_ip_def DeploymentResourceHandler_get_details_def
      CloudShellHandler_get_resource_details_def
    by (auto split: option.splits intro!: owns)
  then have "keeps (keeps_owned do_h) (DoHandler_update_resource_conf_from_deployment_resource svc i)" for i
    unfolding DoHandler_update_resource_conf_from_deployment_resource_def
    by (auto split: option.splits intro!: owns conf)
  then show ?thesis
    unfolding DoHandler_prepare_inner_def using assms
    by (intro owns conf keeps_owned_executor keeps_owned_tasks)
qed

section \<open>Reservations that are not asked to end\<close>

fun creates :: "api_call \<Rightarrow> bool" where
  "creates (CreateImmediateReservation _ _ _) = True"
| "creates (CreateImmediateTopologyReservation _ _ _ _ _) = True"
| "creates _ = False"

definition starts :: "string \<Rightarrow> event \<Rightarrow> bool" where
  "starts host ev \<longleftrightarrow> (\<exists>c. ev = Api host c \<and> creates c)"

text \<open>The ids of the reservations that a server was asked to create in a history, from the call at
  \<open>n\<close> on, and that it was not asked to end after that.\<close>

definition unended :: "'e services_scheme \<Rightarrow> string \<Rightarrow> nat \<Rightarrow> event list \<Rightarrow> string set" where
  "unended svc host n hs =
     {rid. \<exists>i. n \<le> i \<and> i < length hs \<and> starts host (hs ! i) \<and> rep_str svc (take i hs) (hs ! i) = Inr rid \<and>
        Api host (EndReservation rid) \<notin> set (drop (Suc i) hs)}"

lemma unended_snoc:
  "unended svc host n (hs @ [ev]) =
     (unended svc host n hs - {rid. ev = Api host (EndReservation rid)}) \<union>
     {rid. n \<le> length hs \<and> starts host ev \<and> rep_str svc hs ev = Inr rid}"
proof (rule set_eqI)
  fix rid
  let ?open = "\<lambda>hs i. starts host (hs ! i) \<and> rep_str svc (take i hs) (hs ! i) = Inr rid \<and>
    Api host (EndReservation rid) \<notin> set (drop (Suc i) hs)"
  have before: "?open (hs @ [ev]) i \<longleftrightarrow> ?open hs i \<and> ev \<noteq> Api host (EndReservation rid)" if "i < length hs" for i
    using that by (auto simp: nth_append)
  have at: "?open (hs @ [ev]) (length hs) \<longleftrightarrow> starts host ev \<and> rep_str svc hs ev = Inr rid" by simp
  have "rid \<in> unended svc host n (hs @ [ev]) \<longleftrightarrow>
      (\<exists>i. n \<le> i \<and> i < length hs \<and> ?open (hs @ [ev]) i) \<or> n \<le> length hs \<and> ?open (hs @ [ev]) (length hs)"
    unfolding unended_def mem_Collect_eq length_append_singleton less_Suc_eq by blast
  also have "\<dots> \<longleftrightarrow> (\<exists>i. n \<le> i \<and> i < length hs \<and> ?open hs i) \<and> ev \<noteq> Api host (EndReservation rid) \<or>
      n \<le> length hs \<and> starts host ev \<and> rep_str svc hs ev = Inr rid"
    using before at by blast
  finally show "rid \<in> unended svc host n (hs @ [ev]) \<longleftrightarrow>
      rid \<in> (unended svc host n hs - {rid. ev = Api host (EndReservation rid)}) \<union>
        {rid. n \<le> length hs \<and> starts host ev \<and> rep_str svc hs ev = Inr rid}"
    unfolding unended_def by blast
qed

lemma unended_start: "unended svc host (length hs) hs = {}"
  by (simp add: unended_def)

text \<open>Statements that start no sandbox and remember none.\<close>

definition quiet ::
  "'e services_scheme \<Rightarrow> string \<Rightarrow> nat \<Rightarrow> 'x do_world_scheme \<Rightarrow> 'x do_world_scheme \<Rightarrow> bool" where
  "quiet svc host n w w' \<longleftrightarrow> cs_on_do_sandbox w' = cs_on_do_sandbox w \<and> app_sandboxes w' = app_sandboxes w \<and>
     unended svc host n (hist w') \<subseteq> unended svc host n (hist w)"

interpretation quieting: state_preorder "quiet svc host n" for svc host n
  by unfold_locales (auto simp: quiet_def)

lemma quiet_same:
  assumes "\<And>w. hist (snd (m w)) = hist w"
    and "\<And>w. cs_on_do_sandbox (snd (m w)) = cs_on_do_sandbox w"
    and "\<And>w. app_sandboxes (snd (m w)) = app_sandboxes w"
  shows "keeps (quiet svc host n) m"
  using assms by (intro keepsI) (simp add: quiet_def)

lemma quiet_ask: "\<not> starts host ev \<Longrightarrow> keeps (quiet svc host n) (ask rep ev)"
  by (intro keepsI) (auto simp: quiet_def run_simps unended_snoc)

lemma quiet_sleep: "keeps (quiet svc host n) (sleep t)"
  by (intro keepsI) (auto simp: quiet_def run_simps unended_snoc starts_def)

lemma quiet_new_oid: "keeps (quiet svc host n) new_oid"
  by (rule quiet_same) (simp_all add: run_simps)

lemma quiet_dh_get: "keeps (quiet svc host n) (dh_get i f)"
  by (rule quiet_same) (simp_all add: run_simps)

lemma quiet_dh_upd: "keeps (quiet svc host n) (dh_upd i f)"
  by (rule quiet_same) (simp_all add: run_simps)

lemma quiet_cached: "keeps (quiet svc host n) (modify (\<lambda>w. w\<lparr>api_cached := f w\<rparr>))"
  by (rule quiet_same) (simp_all add: run_simps)

lemma quiet_main_conf: "keeps (quiet svc host n) (modify (\<lambda>w. w\<lparr>main_conf := f w\<rparr>))"
  by (rule quiet_same) (simp_all add: run_simps)

lemma quiet_api: "keeps (quiet svc host n) (CloudShellHandler_api svc cs)"
  unfolding CloudShellHandler_api_def
  by (intro quieting.keeps_bnd quieting.keeps_get_state quieting.keeps_if quieting.keeps_andthen
      quieting.keeps_ret quiet_ask quiet_cached) (simp add: starts_def)

lemma quiet_api_call: "\<not> creates c \<Longrightarrow> keeps (quiet svc host n) (api_call svc rep cs c)"
  unfolding api_call_def by (intro quieting.keeps_andthen quiet_api quiet_ask) (simp add: starts_def)

lemmas quiets = quieting.keeps_ret quieting.keeps_raise quieting.keeps_of_result quieting.keeps_get_state
  quieting.keeps_bnd quieting.keeps_andthen quieting.keeps_if quieting.keeps_map_m quieting.keeps_for_each
  quieting.keeps_try_except quieting.keeps_try_except_else
  quiet_ask quiet_sleep quiet_new_oid quiet_dh_get quiet_dh_upd quiet_main_conf quiet_api quiet_api_call

lemma quiet_wait_started:
  "keeps (quiet svc host n) (CloudShellHandler_wait_reservation_is_started svc cs rid)"
proof -
  have "keeps (quiet svc host n) (wait_started_loop k svc cs rid)" for k
    by (induction k)
       (auto simp: CloudShellHandler_get_reservation_status_def CloudShellHandler_get_reservation_errors_def
          get_reservation_errors_def get_activity_def Let_def starts_def intro!: quiets)
  then show ?thesis by (simp add: CloudShellHandler_wait_reservation_is_started_def)
qed

lemma quiet_wait_for_cs: "keeps (quiet svc host n) (CloudShellHandler_wait_for_cs_is_started svc cs)"
proof -
  have "keeps (quiet svc host n) (wait_for_cs_loop k svc cs)" for k
    by (induction k) (auto intro!: quiets)
  then show ?thesis by (simp add: CloudShellHandler_wait_for_cs_is_started_def)
qed

lemma quiet_details: "keeps (quiet svc host n) (DeploymentResourceHandler_get_details svc i)"
  unfolding DeploymentResourceHandler_get_details_def CloudShellHandler_get_resource_details_def
  by (auto split: option.splits intro!: quiets)

lemma quiet_create_resource:
  "keeps (quiet svc host n) (DeploymentResourceHandler_create_resource svc conf sb)"
proof -
  have "keeps (quiet svc host n) (DeploymentResourceHandler_new conf vm sb)" for vm
    by (rule quiet_same) (simp_all add: DeploymentResourceHandler_new_def run_simps)
  moreover have "keeps (quiet svc host n) (DeploymentResourceHandler_model svc i)" for i
    unfolding DeploymentResourceHandler_model_def by (auto split: option.splits intro!: quiets quiet_details)
  ultimately show ?thesis
    unfolding DeploymentResourceHandler_create_resource_def DeploymentResourceHandler_set_attributes_def
      SandboxHandler_get_deployment_resource_name_def CloudShellHandler_set_resource_attributes_def
      CloudShellHandler_get_topology_details_def CloudShellHandler_get_resources_names_in_reservation_def Let_def
    by (intro quiets) auto
qed

text \<open>Every reservation that was not asked to end is of a remembered sandbox of an app, or in \<open>K\<close>.\<close>

definition covered ::
  "'e services_scheme \<Rightarrow> string \<Rightarrow> nat \<Rightarrow> string set \<Rightarrow> 'x do_world_scheme \<Rightarrow> bool" where
  "covered svc host n K w \<longleftrightarrow>
     unended svc host n (hist w) \<subseteq> K \<union> sbh_reservation_id ` set (app_sandboxes w)"

lemma covered_mono: "covered svc host n K w \<Longrightarrow> K \<subseteq> L \<Longrightarrow> covered svc host n L w"
  by (auto simp: covered_def)

lemma covered_quiet:
  assumes "keeps (quiet svc host n) m" and "m w = (r, w')" and "covered svc host n K w"
  shows "covered svc host n K w'" and "cs_on_do_sandbox w' = cs_on_do_sandbox w"
  using keepsD [OF assms(1,2)] assms(3) by (auto simp: covered_def quiet_def)

lemma covered_end:
  assumes "covered svc host n (insert rid K) w"
  shows "covered svc host n K (add_events [Api host (EndReservation rid)] w)"
  using assms by (auto simp: covered_def unended_snoc starts_def)

text \<open>A sandbox that is created is returned, or its reservation was asked to end.\<close>

lemma create_call_covered:
  assumes "api_call svc (rep_str svc) do_h c w = (q, w')" and "covered svc (csh_host do_h) n K w"
  shows "covered svc (csh_host do_h) n ({rid. q = Inr rid} \<union> K) w'"
    and "cs_on_do_sandbox w' = cs_on_do_sandbox w"
proof -
  obtain p w0 where api: "CloudShellHandler_api svc do_h w = (p, w0)" by (cases "CloudShellHandler_api svc do_h w")
  note 0 = covered_quiet [OF quiet_api api assms(2)]
  have "covered svc (csh_host do_h) n ({rid. q = Inr rid} \<union> K) w' \<and> cs_on_do_sandbox w' = cs_on_do_sandbox w"
    using assms(1) api 0
    by (cases p) (auto simp: api_call_def run_simps covered_def unended_snoc)
  then show "covered svc (csh_host do_h) n ({rid. q = Inr rid} \<union> K) w'"
    and "cs_on_do_sandbox w' = cs_on_do_sandbox w" by auto
qed

lemma sandbox_create_covered:
  assumes "SandboxHandler_create svc conf do_h d w = (r, w')" and "r \<noteq> Inl NoReturn"
    and "covered svc (csh_host do_h) n K w"
  shows "covered svc (csh_host do_h) n ({sbh_reservation_id sb |sb. r = Inr sb} \<union> K) w'"
    and "cs_on_do_sandbox w' = cs_on_do_sandbox w"
proof -
  let ?host = "csh_host do_h" and ?wait = "CloudShellHandler_wait_reservation_is_started svc do_h"
  obtain q w1 where call: "api_call svc (rep_str svc) do_h (create_call svc conf do_h d) w = (q, w1)"
    by (cases "api_call svc (rep_str svc) do_h (create_call svc conf do_h d) w")
  note 1 = create_call_covered [OF call assms(3)]
  have run: "SandboxHandler_create svc conf do_h d w =
      bnd (\<lambda>_. (q, w1)) (\<lambda>rid. andthen
        (try_except (?wait rid)
          (\<lambda>e. andthen (CloudShellHandler_end_reservation svc do_h rid False) (raise_exn e)))
        (ret \<lparr>sbh_conf = conf, sbh_reservation_id = rid, sbh_cs_handler = do_h\<rparr>)) w"
    unfolding SandboxHandler_create_def create_reservation_call using call by (simp add: bnd_run)
  have "covered svc ?host n ({sbh_reservation_id sb |sb. r = Inr sb} \<union> K) w' \<and>
    cs_on_do_sandbox w' = cs_on_do_sandbox w"
  proof (cases q)
    case (Inl e)
    with run assms(1) 1 show ?thesis by (auto simp: bnd_run)
  next
    case (Inr rid)
    obtain p w2 where wait: "?wait rid w1 = (p, w2)" by (cases "?wait rid w1")
    have "covered svc ?host n (insert rid K) w1" using 1(1) Inr by simp
    note 2 = covered_quiet [OF quiet_wait_started wait this]
    have "connected do_h w2"
      using connected_stay [OF sessions_stay_wait_started wait
        [unfolded CloudShellHandler_wait_reservation_is_started_def]] api_call_connects [OF call [unfolded Inr]] .
    with run assms(1,2) 1(2) 2 covered_end [OF 2(1)] show ?thesis
      using Inr wait
      by (cases p) (auto simp: run_simps end_without_waiting split: sum.splits if_splits)
  qed
  then show "covered svc ?host n ({sbh_reservation_id sb |sb. r = Inr sb} \<union> K) w'"
    and "cs_on_do_sandbox w' = cs_on_do_sandbox w" by auto
qed

lemma search_then_create_covered:
  assumes "bnd search (\<lambda>t. SandboxHandler_create svc (conf t) do_h d) w = (r, w')" and "r \<noteq> Inl NoReturn"
    and "keeps (quiet svc (csh_host do_h) n) search" and "covered svc (csh_host do_h) n K w"
  shows "covered svc (csh_host do_h) n ({sbh_reservation_id sb |sb. r = Inr sb} \<union> K) w'"
    and "cs_on_do_sandbox w' = cs_on_do_sandbox w"
proof -
  obtain p w1 where s: "search w = (p, w1)" by (cases "search w")
  note 1 = covered_quiet [OF assms(3) s assms(4)]
  have "covered svc (csh_host do_h) n ({sbh_reservation_id sb |sb. r = Inr sb} \<union> K) w' \<and>
    cs_on_do_sandbox w' = cs_on_do_sandbox w"
  proof (cases p)
    case (Inl e)
    with s assms(1) 1 show ?thesis by (auto simp: bnd_run)
  next
    case (Inr t)
    with s assms(1) have "SandboxHandler_create svc (conf t) do_h d w1 = (r, w')" by (simp add: bnd_run)
    from sandbox_create_covered [OF this assms(2) 1(1)] 1(2) show ?thesis by simp
  qed
  then show "covered svc (csh_host do_h) n ({sbh_reservation_id sb |sb. r = Inr sb} \<union> K) w'"
    and "cs_on_do_sandbox w' = cs_on_do_sandbox w" by auto
qed

text \<open>A task of the pool that remembers what it starts, and the tasks of the apps.\<close>

definition remembers :: "'e services_scheme \<Rightarrow> cs_handler \<Rightarrow> nat \<Rightarrow> ('x, 'a) dio \<Rightarrow> bool" where
  "remembers svc do_h n m \<longleftrightarrow>
     (\<forall>K w r w'. m w = (r, w') \<and> r \<noteq> Inl NoReturn \<and> covered svc (csh_host do_h) n K w \<longrightarrow>
        covered svc (csh_host do_h) n K w' \<and> cs_on_do_sandbox w' = cs_on_do_sandbox w)"

lemma create_app_remembers: "remembers svc do_h n (NetworkingAppsHandler_create_app svc do_h app_conf)"
  unfolding remembers_def
proof (intro allI impI, elim conjE)
  fix K and w w' :: "'x do_world_scheme" and r
  let ?host = "csh_host do_h" and ?name = "nac_blueprint_name app_conf"
  assume run: "NetworkingAppsHandler_create_app svc do_h app_conf w = (r, w')" and ret: "r \<noteq> Inl NoReturn"
    and cov: "covered svc ?host n K w"
  obtain p w1 where st: "NetworkingAppsHandler_start_app_sandbox svc do_h ?name w = (p, w1)"
    by (cases "NetworkingAppsHandler_start_app_sandbox svc do_h ?name w")
  have search: "keeps (quiet svc ?host n) (NetworkingAppsHandler_find_topology_name_for_app svc do_h ?name)"
    unfolding NetworkingAppsHandler_find_topology_name_for_app_def CloudShellHandler_get_topologies_by_category_def
    by (auto split: option.splits intro!: quiets)
  have "p \<noteq> Inl NoReturn" using run st ret by (auto simp: NetworkingAppsHandler_create_app_def run_simps)
  note 1 = search_then_create_covered [OF st [unfolded NetworkingAppsHandler_start_app_sandbox_def] this search cov]
  show "covered svc ?host n K w' \<and> cs_on_do_sandbox w' = cs_on_do_sandbox w"
  proof (cases p)
    case (Inl e)
    with run st 1 show ?thesis by (auto simp: NetworkingAppsHandler_create_app_def run_simps)
  next
    case (Inr sb)
    let ?w2 = "w1\<lparr>app_sandboxes := app_sandboxes w1 @ [sb]\<rparr>"
    have "covered svc ?host n K ?w2" using 1(1) Inr by (auto simp: covered_def)
    moreover have "NetworkingAppsHandler_get_app_resource svc sb app_conf ?w2 = (r, w')"
      using run st Inr by (simp add: NetworkingAppsHandler_create_app_def run_simps)
    ultimately show ?thesis
      using covered_quiet [OF quiet_create_resource] 1(2)
      unfolding NetworkingAppsHandler_get_app_resource_def by fastforce
  qed
qed

text \<open>The reservation of the server sandbox that is remembered.\<close>

definition cs_rids :: "'x do_world_scheme \<Rightarrow> string set" where
  "cs_rids w = {sbh_reservation_id sb |sb. cs_on_do_sandbox w = Some sb}"

lemma create_once_covered:
  assumes run: "create_cloudshell_once svc do_h conf w = (r, w')" and ret: "r \<noteq> Inl NoReturn"
    and cov: "covered svc (csh_host do_h) n {} w"
  shows "covered svc (csh_host do_h) n (cs_rids w') w'"
    and "r = Inl CSIsNotAliveError \<Longrightarrow> covered svc (csh_host do_h) n {} w'"
proof -
  let ?host = "csh_host do_h"
  let ?start = "CSCreator_start_cs_sandbox svc do_h conf"
  obtain p w1 where st: "?start w = (p, w1)" by (cases "?start w")
  have search: "keeps (quiet svc ?host n) (CSCreator_find_topology_name_for_cloudshell svc do_h conf)"
    unfolding CSCreator_find_topology_name_for_cloudshell_def CloudShellHandler_get_topologies_by_category_def
    by (auto split: option.splits intro!: quiets)
  have "p \<noteq> Inl NoReturn" using run st ret by (auto simp: create_cloudshell_once_def run_simps)
  note 1 = search_then_create_covered [OF st [unfolded CSCreator_start_cs_sandbox_def] this search cov]
  have "covered svc ?host n (cs_rids w') w' \<and> (r = Inl CSIsNotAliveError \<longrightarrow> covered svc ?host n {} w')"
  proof (cases p)
    case (Inl e)
    with run st 1 show ?thesis
      by (auto simp: create_cloudshell_once_def run_simps intro: covered_mono)
  next
    case (Inr sb)
    let ?body = "bnd (CSCreator_get_cs_config svc conf sb) (\<lambda>cs_conf. bnd (CloudShellHandler_new cs_conf) (\<lambda>cs.
      andthen (CloudShellHandler_wait_for_cs_is_started svc cs) (ret cs_conf)))"
    let ?w2 = "w1\<lparr>cs_on_do_sandbox := Some sb\<rparr>"
    obtain q w3 where body: "?body ?w2 = (q, w3)" by (cases "?body ?w2")
    have mine: "sbh_cs_handler sb = do_h" "connected do_h w1"
      using st Inr by (auto simp: CSCreator_start_cs_sandbox_def bnd_eq_Inr dest: create_is_mine)
    have quiet_body: "keeps (quiet svc ?host n) ?body"
      unfolding CSCreator_get_cs_config_def CSCreator_get_cs_resource_def CloudShellHandler_new_def Let_def
      by (intro quiets quiet_create_resource quiet_wait_for_cs quiet_details)
    have "covered svc ?host n {sbh_reservation_id sb} ?w2"
      using 1(1) Inr by (auto simp: covered_def)
    then have 3: "covered svc ?host n {sbh_reservation_id sb} w3" "cs_on_do_sandbox w3 = Some sb"
      using covered_quiet [where m = ?body and w = ?w2 and w' = w3, OF quiet_body body] by simp_all
    have "keeps (keeps_owned do_h) ?body"
      unfolding CSCreator_get_cs_config_def CSCreator_get_cs_resource_def CloudShellHandler_new_def
        DeploymentResourceHandler_get_details_def CloudShellHandler_get_resource_details_def Let_def
      by (intro owns keeps_owned_create_resource keeps_owned_wait_for_cs)
    from keepsD [OF this body] mine(2) have conn: "connected do_h w3"
      by (auto simp: keeps_owned_def sessions_stay_def connected_def)
    have "CSCreator_finish svc w3 =
        (rep_unit svc (hist w3) (Api ?host (EndReservation (sbh_reservation_id sb))),
         add_events [Api ?host (EndReservation (sbh_reservation_id sb))] w3)"
      using 3(2) mine(1) conn
      by (simp add: CSCreator_finish_def SandboxHandler_end_reservation_def run_simps end_without_waiting)
    moreover have "covered svc ?host n {} (add_events [Api ?host (EndReservation (sbh_reservation_id sb))] w3)"
      using covered_end 3(1) by blast
    ultimately show ?thesis
      using run st Inr body ret 3
      by (auto simp: create_cloudshell_once_def run_simps cs_rids_def split: sum.splits if_splits
          intro: covered_mono)
  qed
  then show "covered svc (csh_host do_h) n (cs_rids w') w'"
    and "r = Inl CSIsNotAliveError \<Longrightarrow> covered svc (csh_host do_h) n {} w'" by auto
qed

text \<open>What every attempt establishes, if a retried failure leaves the condition of the next attempt.\<close>

context retrying begin

lemma attempts_end:
  assumes "I s" and "rt (Suc n) p m s = (r, s')"
    and "\<And>s r s'. I s \<Longrightarrow> m s = (r, s') \<Longrightarrow> Q r s' \<and> (\<forall>e. r = Inl e \<and> p e \<longrightarrow> I s')"
  shows "Q r s'"
  using assms(1,2)
proof (induction n arbitrary: s)
  case 0
  with assms(3) show ?case by (simp add: once)
next
  case (Suc n)
  obtain q t where ms: "m s = (q, t)" by (cases "m s")
  with assms(3) [OF Suc.prems(1) ms] Suc.prems(2) Suc.IH [of t] show ?case
    by (auto simp: again split: sum.splits if_splits)
qed

end

lemma create_cloudshell_covered:
  assumes "retrying_law rt"
    and "CSCreator_create_cloudshell rt svc do_h conf w = (r, w')" and "r \<noteq> Inl NoReturn"
    and "covered svc (csh_host do_h) n {} w"
  shows "covered svc (csh_host do_h) n (cs_rids w') w'"
proof -
  have "rt (Suc 4) (\<lambda>e. e = CSIsNotAliveError) (create_cloudshell_once svc do_h conf) w = (r, w')"
    using assms(2) by (simp add: CSCreator_create_cloudshell_def)
  from retrying.attempts_end [OF retrying.intro [OF assms(1)], where I = "covered svc (csh_host do_h) n {}"
      and Q = "\<lambda>r w'. r \<noteq> Inl NoReturn \<longrightarrow> covered svc (csh_host do_h) n (cs_rids w') w'", OF assms(4) this]
  show ?thesis using assms(3) create_once_covered by blast
qed

text \<open>The pool: at most one task creates the server, the others create apps.\<close>

lemma run_all_append:
  "run_all (xs @ ys) s =
     (case run_all xs s of (rs, s') \<Rightarrow> case run_all ys s' of (qs, s'') \<Rightarrow> (rs @ qs, s''))"
  by (induction xs arbitrary: s) (simp_all split: prod.splits)

lemma run_all_remember:
  assumes "\<forall>m \<in> set ms. remembers svc do_h n m" and "run_all ms w = (rs, w')" and "Inl NoReturn \<notin> set rs"
    and "covered svc (csh_host do_h) n K w"
  shows "covered svc (csh_host do_h) n K w' \<and> cs_on_do_sandbox w' = cs_on_do_sandbox w"
  using assms
proof (induction ms arbitrary: w rs)
  case Nil
  then show ?case by simp
next
  case (Cons m ms)
  obtain r w1 where m: "m w = (r, w1)" by (cases "m w")
  obtain qs w2 where ms: "run_all ms w1 = (qs, w2)" by (cases "run_all ms w1")
  have rs: "rs = r # qs" "w2 = w'" using Cons.prems(2) m ms by simp_all
  have "remembers svc do_h n m" using Cons.prems(1) by simp
  then have 1: "covered svc (csh_host do_h) n K w1" "cs_on_do_sandbox w1 = cs_on_do_sandbox w"
    using m rs Cons.prems(3,4) unfolding remembers_def by (metis list.set_intros(1))+
  from Cons.IH [of w1 qs] Cons.prems(1,3) ms rs 1 show ?case by simp
qed

lemma task_outcome:
  assumes "bnd (future m) (\<lambda>r. ret (f r)) w = (q, w')"
  obtains r where "m w = (r, w')" and "r = Inl NoReturn \<longrightarrow> q = Inl NoReturn"
  using assms by (cases "m w") (auto simp: future_def run_simps split: if_splits)

lemma app_task_remembers:
  "remembers svc do_h n
     (bnd (future (NetworkingAppsHandler_create_app svc do_h a)) (\<lambda>r. ret (f r)))"
  unfolding remembers_def
proof (intro allI impI, elim conjE)
  fix K and w w' :: "'x do_world_scheme" and q
  assume run: "bnd (future (NetworkingAppsHandler_create_app svc do_h a)) (\<lambda>r. ret (f r)) w = (q, w')"
    and "q \<noteq> Inl NoReturn" and cov: "covered svc (csh_host do_h) n K w"
  from run obtain r where "NetworkingAppsHandler_create_app svc do_h a w = (r, w')"
    and "r = Inl NoReturn \<longrightarrow> q = Inl NoReturn" by (rule task_outcome)
  with create_app_remembers [of svc do_h n a] cov \<open>q \<noteq> Inl NoReturn\<close>
  show "covered svc (csh_host do_h) n K w' \<and> cs_on_do_sandbox w' = cs_on_do_sandbox w"
    unfolding remembers_def by blast
qed

lemma do_tasks_covered:
  assumes "retrying_law rt" and "mset ms = mset (do_tasks rt svc do_h conf)"
    and "run_all ms w = (rs, w')" and "Inl NoReturn \<notin> set rs"
    and "covered svc (csh_host do_h) n {} w"
  shows "covered svc (csh_host do_h) n (cs_rids w') w' \<and>
    (cs_on_do_conf conf = None \<longrightarrow> cs_on_do_sandbox w' = cs_on_do_sandbox w)"
proof -
  let ?app = "\<lambda>a. bnd (future (NetworkingAppsHandler_create_app svc do_h a)) (\<lambda>r. ret (Inr r))"
  have apps: "\<forall>m \<in> set (map ?app (networking_apps conf)). remembers svc do_h n m"
    by (auto intro: app_task_remembers)
  show ?thesis
  proof (cases "cs_on_do_conf conf")
    case None
    then have "mset ms = mset (map ?app (networking_apps conf))"
      using assms(2) by (simp add: do_tasks_def)
    then have "set ms = set (map ?app (networking_apps conf))" by (rule mset_eq_setD)
    with run_all_remember [OF _ assms(3,4,5)] apps show ?thesis by (auto intro: covered_mono)
  next
    case (Some c)
    let ?cs = "bnd (future (CSCreator_create_cloudshell rt svc do_h c))
      (\<lambda>r. ret (Inl r :: (exn + cloudshell_config) + (exn + nat)))"
    have perm: "mset ms = add_mset ?cs (mset (map ?app (networking_apps conf)))"
      using assms(2) Some by (simp add: do_tasks_def)
    then have "?cs \<in> set ms" by (metis set_mset_mset union_single_eq_member)
    then obtain before after where ms: "ms = before @ ?cs # after" by (auto simp: in_set_conv_decomp)
    with perm have "mset (before @ after) = mset (map ?app (networking_apps conf))" by simp
    then have "set (before @ after) = set (map ?app (networking_apps conf))" by (rule mset_eq_setD)
    with apps have "\<forall>m \<in> set (before @ after). remembers svc do_h n m" by (simp only:)
    then have bef: "\<forall>m \<in> set before. remembers svc do_h n m" and aft: "\<forall>m \<in> set after. remembers svc do_h n m"
      by auto
    obtain rs1 w1 where r1: "run_all before w = (rs1, w1)" by (cases "run_all before w")
    obtain q w2 where r2: "?cs w1 = (q, w2)" by (cases "?cs w1")
    obtain rs2 w3 where r3: "run_all after w2 = (rs2, w3)" by (cases "run_all after w2")
    have rs: "rs = rs1 @ q # rs2" "w3 = w'"
      using assms(3) ms r1 r2 r3 by (simp_all add: run_all_append)
    from r2 obtain r where r: "CSCreator_create_cloudshell rt svc do_h c w1 = (r, w2)"
      and "r = Inl NoReturn \<longrightarrow> q = Inl NoReturn" by (rule task_outcome)
    then have "r \<noteq> Inl NoReturn" using rs assms(4) by auto
    have "covered svc (csh_host do_h) n {} w1"
      using run_all_remember [OF bef r1 _ assms(5)] rs assms(4) by simp
    from create_cloudshell_covered [OF assms(1) r \<open>r \<noteq> Inl NoReturn\<close> this]
    have "covered svc (csh_host do_h) n (cs_rids w2) w2" .
    from run_all_remember [OF aft r3 _ this] rs assms(4)
    have "covered svc (csh_host do_h) n (cs_rids w2) w'" "cs_on_do_sandbox w' = cs_on_do_sandbox w2" by auto
    with Some show ?thesis by (simp add: cs_rids_def)
  qed
qed

lemma prepare_inner_covered:
  assumes "retrying_law rt" and "orders_ok svc"
    and "DoHandler_prepare_inner rt svc do_h conf w = (r, w')" and "r \<noteq> Inl NoReturn"
    and "covered svc (csh_host do_h) n {} w"
  shows "covered svc (csh_host do_h) n (cs_rids w') w'"
    and "cs_on_do_conf conf = None \<Longrightarrow> cs_on_do_sandbox w' = cs_on_do_sandbox w"
proof -
  let ?host = "csh_host do_h" and ?tasks = "do_tasks rt svc do_h conf"
  obtain p w1 where ex: "executor svc ?tasks w = (p, w1)" by (cases "executor svc ?tasks w")
  let ?ms = "permute (set_order svc (hist w) (length ?tasks)) ?tasks"
  obtain rs w2 where all: "run_all ?ms w = (rs, w2)" by (cases "run_all ?ms w")
  have perm: "mset ?ms = mset ?tasks" by (intro mset_permute orders_ok_D assms(2))
  have len: "length rs = length ?tasks"
    using run_all_length [of ?ms w] orders_ok_D(3) [OF assms(2)] all by simp
  have outcomes: "set (permute (set_order svc (hist w2) (length ?tasks)) rs) = set rs"
    using len orders_ok_D(2) [OF assms(2)] by (intro set_permute) simp
  have exr: "p \<noteq> Inl NoReturn \<Longrightarrow> Inl NoReturn \<notin> set rs" "w1 = w2"
    using ex all outcomes by (auto simp: executor_def executor_outcomes_def split: if_splits)
  have "p \<noteq> Inl NoReturn"
    using assms(3,4) ex by (auto simp: DoHandler_prepare_inner_def run_simps)
  note 1 = do_tasks_covered [OF assms(1) perm all exr(1) [OF this] assms(5)]
  let ?rest = "\<lambda>rs. andthen
       (for_each [r. Inr (Inr r) \<leftarrow> rs] (\<lambda>r.
          bnd (of_result r) (DoHandler_update_resource_conf_from_deployment_resource svc)))
       (for_each [r. Inr (Inl r) \<leftarrow> rs] (\<lambda>r.
          bnd (of_result r) (\<lambda>cs_conf'.
            modify (\<lambda>w. w\<lparr>main_conf := main_conf w\<lparr>cs_conf := Some cs_conf'\<rparr>\<rparr>))))"
  have "keeps (quiet svc ?host n) (DeploymentResourceHandler_device_ip svc i)" for i
    unfolding DeploymentResourceHandler_device_ip_def by (auto split: option.splits intro!: quiets quiet_details)
  then have "keeps (quiet svc ?host n) (DoHandler_update_resource_conf_from_deployment_resource svc i)" for i
    unfolding DoHandler_update_resource_conf_from_deployment_resource_def
    by (auto split: option.splits intro!: quiets)
  then have rest: "keeps (quiet svc ?host n) (?rest qs)" for qs by (intro quiets)
  have "covered svc ?host n (cs_rids w') w' \<and> (cs_on_do_conf conf = None \<longrightarrow> cs_on_do_sandbox w' = cs_on_do_sandbox w)"
  proof (cases p)
    case (Inl e)
    with assms(3) ex 1 exr(2) show ?thesis by (auto simp: DoHandler_prepare_inner_def run_simps)
  next
    case (Inr qs)
    with assms(3) ex have "?rest qs w1 = (r, w')" by (simp add: DoHandler_prepare_inner_def bnd_run)
    from covered_quiet [OF rest this] 1 exr(2) show ?thesis by (auto simp: cs_rids_def)
  qed
  then show "covered svc ?host n (cs_rids w') w'"
    and "cs_on_do_conf conf = None \<Longrightarrow> cs_on_do_sandbox w' = cs_on_do_sandbox w" by auto
qed

section \<open>The end of the handler\<close>

definition end_event :: "sandbox_handler \<Rightarrow> event" where
  "end_event sb = Api (csh_host (sbh_cs_handler sb)) (EndReservation (sbh_reservation_id sb))"

definition ends_accepted :: "'e services_scheme \<Rightarrow> bool" where
  "ends_accepted svc \<longleftrightarrow> (\<forall>h host rid. rep_unit svc h (Api host (EndReservation rid)) = Inr ())"

lemma end_sandbox:
  assumes "ends_accepted svc" and "connected (sbh_cs_handler sb) w"
  shows "SandboxHandler_end_reservation svc sb False w = (Inr (), add_events [end_event sb] w)"
  using assms
  by (simp add: SandboxHandler_end_reservation_def end_without_waiting ends_accepted_def end_event_def)

lemma end_sandboxes:
  assumes "ends_accepted svc" and "\<And>sb. sb \<in> set sbs \<Longrightarrow> connected (sbh_cs_handler sb) w"
  shows "for_each sbs (\<lambda>sb. SandboxHandler_end_reservation svc sb False) w =
    (Inr (), add_events (map end_event sbs) w)"
  using assms(2)
proof (induction sbs arbitrary: w)
  case Nil
  show ?case by (simp add: run_simps)
next
  case (Cons sb sbs)
  from Cons.IH [of "add_events [end_event sb] w"] Cons.prems show ?case
    by (simp add: run_simps end_sandbox assms(1))
qed

lemma do_finish_ends:
  assumes "ends_accepted svc" and "orders_ok svc" and "owned do_h w"
    and "case cs_on_do_conf conf of None \<Rightarrow> cs_on_do_sandbox w = None | Some c \<Rightarrow> delete_cs c"
  shows "\<exists>es. DoHandler_finish svc conf w = (Inr (), add_events es w) \<and>
    mset es = mset (map end_event (known_sandboxes w))"
proof -
  let ?cs = "case cs_on_do_sandbox w of None \<Rightarrow> [] | Some sb \<Rightarrow> [sb]"
  let ?apps = "permute (set_order svc (hist w @ map end_event ?cs) (length (app_sandboxes w))) (app_sandboxes w)"
  have apps: "mset ?apps = mset (app_sandboxes w)"
    by (intro mset_permute orders_ok_D assms(2))
  have conn: "connected (sbh_cs_handler sb) w" if "sb \<in> set (known_sandboxes w)" for sb
    using assms(3) that by (auto simp: owned_def)
  have 1: "(case cs_on_do_conf conf of None \<Rightarrow> ret ()
        | Some c \<Rightarrow> if delete_cs c then CSCreator_finish svc
            else bnd (get_state (\<lambda>w. cs_conf (main_conf w))) (\<lambda>cc.
                   if cc = None then raise_exn none_host_error else ret ())) w =
      (Inr (), add_events (map end_event ?cs) w)"
    using assms(1,4) conn
    by (auto simp: CSCreator_finish_def run_simps end_sandbox known_sandboxes_def split: option.splits)
  have "set ?apps = set (app_sandboxes w)" using apps by (metis set_mset_mset)
  then have 2: "NetworkingAppsHandler_finish svc (add_events (map end_event ?cs) w) =
      (Inr (), add_events (map end_event ?apps) (add_events (map end_event ?cs) w))"
    using assms(1) conn
    by (simp add: NetworkingAppsHandler_finish_def run_simps known_sandboxes_def)
       (subst end_sandboxes, auto)
  have "DoHandler_finish svc conf w = (Inr (), add_events (map end_event ?cs @ map end_event ?apps) w)"
    unfolding DoHandler_finish_def andthen_run 1 using 2 by simp
  moreover have "mset (map end_event ?cs @ map end_event ?apps) = mset (map end_event (known_sandboxes w))"
    using apps by (simp add: known_sandboxes_def)
  ultimately show ?thesis by blast
qed

lemma unended_ends:
  "\<forall>ev \<in> set es. \<exists>rid. ev = Api host (EndReservation rid) \<Longrightarrow>
   unended svc host n (hs @ es) = unended svc host n hs - {rid. Api host (EndReservation rid) \<in> set es}"
proof (induction es rule: rev_induct)
  case Nil
  show ?case by simp
next
  case (snoc ev es)
  then show ?case
    unfolding append_assoc [symmetric] unended_snoc by (auto simp: starts_def)
qed

text \<open>C9. No sandbox on Do is leaked by a failed preparation. Where the services accept the end of a
  reservation and the server, if there is one on Do, is to be deleted, a preparation that fails with an
  \<^verbatim>\<open>Exception\<close> raises that exception. After the failure exactly the remembered sandboxes, those of the
  networking apps and the last of the server, are asked to end, each once, on the session that created
  them; and no reservation is forgotten: each one that the handler's server was asked for since the
  preparation began, and whose id it answered, is asked to end later (one whose CloudShell did not come
  alive both at once and, if it is the last, again at the end).\<close>

theorem do_prepare_cleans_up:
  assumes "retrying_law rt" and "orders_ok svc" and "ends_accepted svc"
    and "case cs_on_do_conf conf of None \<Rightarrow> True | Some c \<Rightarrow> delete_cs c"
    and "known_sandboxes w = []"
    and "DoHandler_prepare_inner rt svc do_h conf w = (Inl e, w1)" and "is_Exception e"
  shows "\<exists>es. DoHandler_prepare rt svc do_h conf w = (Inl e, add_events es w1) \<and>
    mset es = mset (map end_event (known_sandboxes w1)) \<and>
    (\<forall>sb \<in> set (known_sandboxes w1). sbh_cs_handler sb = do_h) \<and>
    (\<forall>before c after rid. hist w1 @ es = before @ c # after \<and> length (hist w) \<le> length before \<and>
       starts (csh_host do_h) c \<and> rep_str svc before c = Inr rid \<longrightarrow>
       Api (csh_host do_h) (EndReservation rid) \<in> set after)"
proof -
  let ?host = "csh_host do_h" and ?n = "length (hist w)"
  have ret: "e \<noteq> NoReturn" using assms(7) by auto
  have "owned do_h w" using assms(5) by (simp add: owned_def)
  with keepsD [OF keeps_owned_prepare_inner [OF assms(1,2)] assms(6)]
  have own: "owned do_h w1" by (simp add: keeps_owned_def)
  have "covered svc ?host ?n {} w" by (simp add: covered_def unended_start)
  note cov = prepare_inner_covered [OF assms(1,2,6) _ this, simplified, OF ret]
  have "case cs_on_do_conf conf of None \<Rightarrow> cs_on_do_sandbox w1 = None | Some c \<Rightarrow> delete_cs c"
    using assms(4,5) cov(2) by (auto simp: known_sandboxes_def split: option.splits)
  from do_finish_ends [OF assms(3,2) own this]
  obtain es where fin: "DoHandler_finish svc conf w1 = (Inr (), add_events es w1)"
    and es: "mset es = mset (map end_event (known_sandboxes w1))" by blast
  have mine: "\<forall>sb \<in> set (known_sandboxes w1). sbh_cs_handler sb = do_h" using own by (simp add: owned_def)
  have set_es: "set es = end_event ` set (known_sandboxes w1)"
    using mset_eq_setD [OF es] by simp
  then have "unended svc ?host ?n (hist w1 @ es) =
      unended svc ?host ?n (hist w1) - {rid. Api ?host (EndReservation rid) \<in> set es}"
    using mine by (intro unended_ends) (auto simp: end_event_def)
  moreover have "unended svc ?host ?n (hist w1) \<subseteq> {rid. Api ?host (EndReservation rid) \<in> set es}"
    using cov(1) mine unfolding set_es
    by (fastforce simp: covered_def cs_rids_def known_sandboxes_def end_event_def image_iff split: option.splits)
  ultimately have none: "unended svc ?host ?n (hist w1 @ es) = {}" by blast
  have "Api ?host (EndReservation rid) \<in> set after"
    if "hist w1 @ es = before @ c # after" "?n \<le> length before" "starts ?host c" "rep_str svc before c = Inr rid"
    for before c after rid
  proof (rule ccontr)
    assume "Api ?host (EndReservation rid) \<notin> set after"
    with that have "rid \<in> unended svc ?host ?n (hist w1 @ es)"
      unfolding unended_def by (intro CollectI exI [of _ "length before"]) simp
    with none show False by simp
  qed
  moreover have "DoHandler_prepare rt svc do_h conf w = (Inl e, add_events es w1)"
    using assms(6,7) ret fin by (simp add: DoHandler_prepare_def run_simps)
  ultimately show ?thesis using es mine by blast
qed

text \<open>A server version that is not offered, and an app whose sandbox starts but has three apps.\<close>

definition do_conf_example :: do_config where
  "do_conf_example = cloudshell_config.extend (csh_conf do_example)
     (do_config.fields
        (Some \<lparr>cs_version = ''CloudShell 9.3'', delete_cs = True, cs_specific_version = []\<rparr>)
        [\<lparr>nac_name = ''sw'', nac_blueprint_name = ''Cisco NXOS''\<rparr>])"

lemma prepare_example:
  "fst (DoHandler_prepare_inner retry_ref topology_services do_example do_conf_example do_state) =
     Inl (AssertionError ''Supported only 1 app in the reservation'')"
  "map sbh_reservation_id (known_sandboxes
     (snd (DoHandler_prepare_inner retry_ref topology_services do_example do_conf_example do_state))) =
     [''f91adb5c'']"
  by (code_simp, code_simp)

lemma topology_services_simps [simp]:
  "rep_unit topology_services h ev = Inr ()" "set_order topology_services h n = [0..<n]"
  by (simp_all add: topology_services_def)

theorem do_prepare_cleans_up_witness:
  "\<exists>es. fst (DoHandler_prepare retry_ref topology_services do_example do_conf_example do_state) =
       Inl (AssertionError ''Supported only 1 app in the reservation'') \<and>
     mset es = {#Api ''192.168.1.3'' (EndReservation ''f91adb5c'')#} \<and>
     snd (DoHandler_prepare retry_ref topology_services do_example do_conf_example do_state) =
       add_events es (snd (DoHandler_prepare_inner retry_ref topology_services do_example do_conf_example do_state))"
proof -
  let ?w1 = "snd (DoHandler_prepare_inner retry_ref topology_services do_example do_conf_example do_state)"
  have run: "DoHandler_prepare_inner retry_ref topology_services do_example do_conf_example do_state =
      (Inl (AssertionError ''Supported only 1 app in the reservation''), ?w1)"
    using prepare_example(1) by (simp add: prod_eq_iff)
  have "orders_ok topology_services" and "ends_accepted topology_services"
    by (simp_all add: orders_ok_def ends_accepted_def)
  moreover have "case cs_on_do_conf do_conf_example of None \<Rightarrow> True | Some c \<Rightarrow> delete_cs c"
    by (simp add: do_conf_example_def cloudshell_config.defs do_config.defs)
  moreover have "known_sandboxes do_state = []"
    by (simp add: known_sandboxes_def do_state_def)
  ultimately obtain es where es:
    "DoHandler_prepare retry_ref topology_services do_example do_conf_example do_state =
      (Inl (AssertionError ''Supported only 1 app in the reservation''), add_events es ?w1)"
    "mset es = mset (map end_event (known_sandboxes ?w1))"
    "\<forall>sb \<in> set (known_sandboxes ?w1). sbh_cs_handler sb = do_example"
    using do_prepare_cleans_up [OF retry_ref_law _ _ _ _ run] by auto
  obtain sb where sb: "known_sandboxes ?w1 = [sb]" "sbh_reservation_id sb = ''f91adb5c''"
    using prepare_example(2) by (auto simp: map_eq_Cons_conv)
  with es have "mset es = {#Api ''192.168.1.3'' (EndReservation ''f91adb5c'')#}"
    by (simp add: end_event_def do_example_def)
  with es(1) show ?thesis by auto
qed

section \<open>Attempts and updates\<close>

lemma create_cloudshell_attempts:
  assumes "retrying_law rt"
  shows "follows_attempts 4 (\<lambda>e. e = CSIsNotAliveError) (create_cloudshell_once svc do_h conf)
    (CSCreator_create_cloudshell rt svc do_h conf)"
  using follows_attemptsI [OF assms, of 4] by (simp add: CSCreator_create_cloudshell_def)

lemma update_first_found:
  "find P xs = Some x \<Longrightarrow> \<exists>before after. xs = before @ [x] @ after \<and> P x \<and> (\<forall>y \<in> set before. \<not> P y) \<and>
     update_first P f xs = before @ [f x] @ after"
proof (induction xs)
  case Nil
  then show ?case by simp
next
  case (Cons y xs)
  show ?case
  proof (cases "P y")
    case True
    with Cons.prems show ?thesis by (intro exI [of _ "[]"] exI [of _ xs]) simp
  next
    case False
    with Cons obtain b a where "xs = b @ [x] @ a" "P x" "\<forall>y \<in> set b. \<not> P y"
      "update_first P f xs = b @ [f x] @ a" by auto
    with False show ?thesis by (intro exI [of _ "y # b"] exI [of _ a]) simp
  qed
qed

lemma with_device_keeps_credentials:
  "opt_truthy (dict_get (rc_attributes conf) ''User'') \<Longrightarrow> rc_attributes (with_device ip conf) = rc_attributes conf"
  by (simp add: with_device_def Let_def)

lemma with_device_is_real:
  assumes "ip \<noteq> []" and "\<not> contains ''SHELL_FROM_TEMPLATE'' (rc_name conf)"
  shows "ResourceHandler_device_type (with_device ip conf) = REAL_DEVICE"
  using assms
  by (auto simp: ResourceHandler_device_type_def with_device_def Let_def opt_truthy_def dict_get_update
      dict_ok_def split: option.splits) (simp_all add: dict_get_def)

end
