(* ===== verification/Handler_Storage.thy ===== *)
theory Handler_Storage
  imports Do_Handler
begin

text \<open>
  \<^verbatim>\<open>shell_tests/helpers/handler_storage.py\<close>: the handlers of a run, created when they are first asked for.
  The three lists are created by a pool of tasks; every task runs, the outcomes are read in the order
  of the set of futures, and an exception is kept until all are read. The lists are assigned before
  the tasks run, so an access after a failure returns what was created. The lemmas give, through one
  interface for the three lists, the outcome of the first access and of the later ones, and what the
  end of the storage calls.
\<close>

section \<open>State\<close>

record storage = do_world +
  st_cs_handler :: cs_handler
  st_cs_smb_handler :: "cs_smb_handler option"
  st_ftp_handler :: "ftp_handler option"
  st_scp_handler :: "scp_handler option"
  st_tftp_handler :: "tftp_handler option"
  st_vcenter_handler :: "vcenter_handler option"
  st_shell_handlers :: "shell_handler list option"
  st_resource_handlers :: "nat list option"
  st_sandbox_handlers :: "sandbox_handler list option"

type_synonym ('x, 'a) sio = "('x storage_scheme, 'a) pym"

definition HandlerStorage_new :: "cs_handler \<Rightarrow> ('x, unit) sio" where
  "HandlerStorage_new cs = modify (\<lambda>w. w\<lparr>st_cs_handler := cs, st_cs_smb_handler := None,
     st_ftp_handler := None, st_scp_handler := None, st_tftp_handler := None, st_vcenter_handler := None,
     st_shell_handlers := None, st_resource_handlers := None, st_sandbox_handlers := None\<rparr>)"

section \<open>Single handlers\<close>

text \<open>A property that creates its handler once, if the configuration has what it needs.\<close>

definition lazy_handler ::
  "('s \<Rightarrow> 'h option) \<Rightarrow> ('h option \<Rightarrow> 's \<Rightarrow> 's) \<Rightarrow> ('s, 'h option) pym \<Rightarrow> ('s, 'h option) pym" where
  "lazy_handler fget fput creation =
     bnd (get_state fget) (\<lambda>cur.
       case cur of
         Some h \<Rightarrow> ret (Some h)
       | None \<Rightarrow> bnd creation (\<lambda>new.
           case new of None \<Rightarrow> ret None | Some h \<Rightarrow> andthen (modify (fput (Some h))) (ret (Some h))))"

text \<open>The fields are read one after the other, each on a configuration that may be absent.\<close>

definition cs_conf_attr :: "string \<Rightarrow> (cloudshell_config \<Rightarrow> 'a) \<Rightarrow> ('x, 'a) sio" where
  "cs_conf_attr name f =
     bnd (get_state (\<lambda>w. cs_conf (main_conf w))) (\<lambda>c.
       case c of
         None \<Rightarrow> raise_exn (AttributeError
           (repr_str ''NoneType'' @ '' object has no attribute '' @ repr_str name))
       | Some conf \<Rightarrow> ret (f conf))"

definition HandlerStorage_cs_smb_handler :: "('x, cs_smb_handler option) sio" where
  "HandlerStorage_cs_smb_handler =
     lazy_handler st_cs_smb_handler (\<lambda>h w. w\<lparr>st_cs_smb_handler := h\<rparr>)
       (bnd (cs_conf_attr ''os_user'' csc_os_user) (\<lambda>user.
        bnd (cs_conf_attr ''os_password'' csc_os_password) (\<lambda>password.
        if user \<noteq> [] \<and> password \<noteq> []
        then bnd (cs_conf_attr ''cs_conf'' id) (\<lambda>conf. bnd (CloudShellSmbHandler_new conf) (\<lambda>h. ret (Some h)))
        else ret None)))"

definition HandlerStorage_ftp_handler :: "('x, ftp_handler option) sio" where
  "HandlerStorage_ftp_handler =
     lazy_handler st_ftp_handler (\<lambda>h w. w\<lparr>st_ftp_handler := h\<rparr>)
       (bnd (get_state (\<lambda>w. ftp_conf (main_conf w))) (\<lambda>c.
          case c of None \<Rightarrow> ret None | Some conf \<Rightarrow> bnd (FTPHandler_new conf) (\<lambda>h. ret (Some h))))"

definition HandlerStorage_scp_handler :: "('x, scp_handler option) sio" where
  "HandlerStorage_scp_handler =
     lazy_handler st_scp_handler (\<lambda>h w. w\<lparr>st_scp_handler := h\<rparr>)
       (bnd (get_state (\<lambda>w. scp_conf (main_conf w))) (\<lambda>c.
          case c of None \<Rightarrow> ret None | Some conf \<Rightarrow> bnd (SCPHandler_new conf) (\<lambda>h. ret (Some h))))"

definition HandlerStorage_tftp_handler :: "('x, tftp_handler option) sio" where
  "HandlerStorage_tftp_handler =
     lazy_handler st_tftp_handler (\<lambda>h w. w\<lparr>st_tftp_handler := h\<rparr>)
       (bnd (get_state (\<lambda>w. tftp_conf (main_conf w))) (\<lambda>c.
          case c of None \<Rightarrow> ret None | Some conf \<Rightarrow> bnd (TFTPHandler_new conf) (\<lambda>h. ret (Some h))))"

definition HandlerStorage_vcenter_handler :: "('x, vcenter_handler option) sio" where
  "HandlerStorage_vcenter_handler =
     lazy_handler st_vcenter_handler (\<lambda>h w. w\<lparr>st_vcenter_handler := h\<rparr>)
       (bnd (get_state (\<lambda>w. vcenter_conf (main_conf w))) (\<lambda>c.
          case c of None \<Rightarrow> ret None | Some conf \<Rightarrow> bnd (VcenterHandler_new conf) (\<lambda>h. ret (Some h))))"

section \<open>The end of the storage\<close>

text \<open>\<^verbatim>\<open>for h in handlers: h.finish()\<close> where the list exists. The single handler of vCenter exists here,
  so its property returns it.\<close>

definition finish_list :: "('s \<Rightarrow> 'h list option) \<Rightarrow> ('h \<Rightarrow> ('s, unit) pym) \<Rightarrow> ('s, unit) pym" where
  "finish_list fget fin =
     bnd (get_state fget) (\<lambda>cur. case cur of None \<Rightarrow> ret () | Some hs \<Rightarrow> for_each hs fin)"

definition HandlerStorage_finish ::
  "'x storage_scheme retriers \<Rightarrow> 'e services_scheme \<Rightarrow> ('x, unit) sio" where
  "HandlerStorage_finish rts svc =
     andthen (finish_list st_sandbox_handlers (\<lambda>sb. SandboxHandler_finish svc sb True))
    (andthen (finish_list st_resource_handlers (ResourceHandler_finish svc))
    (andthen (finish_list st_shell_handlers (ShellHandler_finish rts svc))
       (bnd (get_state st_vcenter_handler) (\<lambda>v.
          case v of None \<Rightarrow> ret () | Some h \<Rightarrow> VcenterHandler_finish svc h))))"

section \<open>Lists of handlers\<close>

text \<open>The arguments of the tasks are evaluated one after the other, up to the first that raises.\<close>

primrec submit :: "('c \<Rightarrow> ('s, 'p) pym) \<Rightarrow> 'c list \<Rightarrow> ('s, 'p list \<times> exn option) pym" where
  "submit arg [] = ret ([], None)"
| "submit arg (c # cs) =
     try_except_else (arg c) (\<lambda>e. ret ([], Some e))
       (\<lambda>p. bnd (submit arg cs) (\<lambda>(ps, e). ret (p # ps, e)))"

definition create_all ::
  "'e services_scheme \<Rightarrow> ('c \<Rightarrow> ('x, 'p) io) \<Rightarrow> ('c \<Rightarrow> 'p \<Rightarrow> ('x, 'h) io) \<Rightarrow> 'c list \<Rightarrow>
   ('x, (exn + 'h) list) io" where
  "create_all svc arg create confs =
     bnd (submit arg confs) (\<lambda>(ps, failed).
     bnd (executor svc (map2 create confs ps)) (\<lambda>rs.
     case failed of None \<Rightarrow> ret rs | Some e \<Rightarrow> raise_exn e))"

definition results :: "(exn + 'h) list \<Rightarrow> 'h list" where
  "results rs = [h. Inr h \<leftarrow> rs]"

text \<open>The exception that the loop over the futures stores last.\<close>

primrec last_exn :: "(exn + 'h) list \<Rightarrow> exn option" where
  "last_exn [] = None"
| "last_exn (r # rs) =
     (case last_exn rs of
        Some e \<Rightarrow> Some e
      | None \<Rightarrow> (case r of Inl e \<Rightarrow> Some e | Inr _ \<Rightarrow> None))"

text \<open>The body the three properties share.\<close>

definition lazy_handlers ::
  "('s \<Rightarrow> 'h list option) \<Rightarrow> ('h list option \<Rightarrow> 's \<Rightarrow> 's) \<Rightarrow> ('s, (exn + 'h) list) pym \<Rightarrow>
   ('s, unit) pym \<Rightarrow> ('s, 'h list) pym" where
  "lazy_handlers fget fput creation fin =
     bnd (get_state fget) (\<lambda>cur.
       case cur of
         Some hs \<Rightarrow> ret hs
       | None \<Rightarrow>
           andthen (modify (fput (Some [])))
          (bnd creation (\<lambda>rs.
           andthen (modify (fput (Some (results rs))))
             (case last_exn rs of
                None \<Rightarrow> ret (results rs)
              | Some e \<Rightarrow> andthen fin (raise_exn e)))))"

definition HandlerStorage_shell_handlers ::
  "nat \<Rightarrow> 'x storage_scheme retriers \<Rightarrow> 'e services_scheme \<Rightarrow> ('x, shell_handler list) sio" where
  "HandlerStorage_shell_handlers depth rts svc =
     lazy_handlers st_shell_handlers (\<lambda>hs w. w\<lparr>st_shell_handlers := hs\<rparr>)
       (bnd (get_state (\<lambda>w. (shells_conf (main_conf w), st_cs_handler w))) (\<lambda>(confs, cs).
        create_all svc (\<lambda>conf. HandlerStorage_cs_smb_handler)
          (\<lambda>conf smb. ShellHandler_create depth rts svc conf cs smb) confs))
       (HandlerStorage_finish rts svc)"

text \<open>\<^verbatim>\<open>_get_handlers_dict\<close>: of handlers with one name the last is found.\<close>

definition get_handlers_dict :: "('h \<Rightarrow> string) \<Rightarrow> 'h list \<Rightarrow> (string, 'h) dict" where
  "get_handlers_dict name hs = dict_of (map (\<lambda>h. (name h, h)) hs)"

definition HandlerStorage_shell_handlers_dict ::
  "nat \<Rightarrow> 'x storage_scheme retriers \<Rightarrow> 'e services_scheme \<Rightarrow> ('x, (string, shell_handler) dict) sio" where
  "HandlerStorage_shell_handlers_dict depth rts svc =
     bnd (HandlerStorage_shell_handlers depth rts svc) (\<lambda>hs.
     ret (get_handlers_dict (\<lambda>h. shc_name (shh_conf h)) hs))"

definition item :: "(string, 'h) dict \<Rightarrow> string \<Rightarrow> ('s, 'h) pym" where
  "item d k = (case dict_get d k of None \<Rightarrow> raise_exn (KeyError (repr_str k)) | Some h \<Rightarrow> ret h)"

definition HandlerStorage_resource_handlers ::
  "nat \<Rightarrow> 'x storage_scheme retriers \<Rightarrow> 'e services_scheme \<Rightarrow> ('x, nat list) sio" where
  "HandlerStorage_resource_handlers depth rts svc =
     lazy_handlers st_resource_handlers (\<lambda>hs w. w\<lparr>st_resource_handlers := hs\<rparr>)
       (bnd (get_state (\<lambda>w. (resources_conf (main_conf w), st_cs_handler w))) (\<lambda>(confs, cs).
        create_all svc
          (\<lambda>conf. bnd (HandlerStorage_shell_handlers_dict depth rts svc) (\<lambda>d. item d (rc_shell_name conf)))
          (\<lambda>conf sh. ResourceHandler_create svc conf cs sh) confs))
       (HandlerStorage_finish rts svc)"

definition HandlerStorage_resource_handlers_dict ::
  "nat \<Rightarrow> 'x storage_scheme retriers \<Rightarrow> 'e services_scheme \<Rightarrow> ('x, (string, nat) dict) sio" where
  "HandlerStorage_resource_handlers_dict depth rts svc =
     bnd (HandlerStorage_resource_handlers depth rts svc) (\<lambda>hs.
     bnd (get_state resource_objs) (\<lambda>objs.
     ret (get_handlers_dict (\<lambda>i. rc_name (rh_conf (objs ! i))) hs)))"

definition HandlerStorage_sandbox_handlers ::
  "'x storage_scheme retriers \<Rightarrow> 'e services_scheme \<Rightarrow> ('x, sandbox_handler list) sio" where
  "HandlerStorage_sandbox_handlers rts svc =
     lazy_handlers st_sandbox_handlers (\<lambda>hs w. w\<lparr>st_sandbox_handlers := hs\<rparr>)
       (bnd (get_state (\<lambda>w. (sandboxes_conf (main_conf w), st_cs_handler w))) (\<lambda>(confs, cs).
        create_all svc (\<lambda>conf. ret ())
          (\<lambda>conf _. SandboxHandler_create svc conf cs (2 * 60)) confs))
       (HandlerStorage_finish rts svc)"

definition HandlerStorage_sandbox_handler_dict ::
  "'x storage_scheme retriers \<Rightarrow> 'e services_scheme \<Rightarrow> ('x, (string, sandbox_handler) dict) sio" where
  "HandlerStorage_sandbox_handler_dict rts svc =
     bnd (HandlerStorage_sandbox_handlers rts svc) (\<lambda>hs.
     ret (get_handlers_dict (\<lambda>h. sc_name (sbh_conf h)) hs))"

section \<open>Outcomes of a pool\<close>

lemma results_simps [simp]:
  "results [] = []" "results (Inr h # rs) = h # results rs" "results (Inl e # rs) = results rs"
  by (simp_all add: results_def)

lemma results_filter: "results rs = map projr (filter (\<lambda>r. \<not> isl r) rs)"
proof (induction rs)
  case (Cons r rs)
  then show ?case by (cases r) simp_all
qed simp

lemma mset_results: "mset rs = mset rs' \<Longrightarrow> mset (results rs) = mset (results rs')"
  by (simp add: results_filter)

lemma last_exn_None: "last_exn rs = None \<longleftrightarrow> (\<forall>r \<in> set rs. \<exists>h. r = Inr h)"
  by (induction rs) (auto split: option.splits sum.splits)

lemma last_exn_raised: "last_exn rs = Some e \<Longrightarrow> Inl e \<in> set rs"
  by (induction rs) (auto split: option.splits sum.splits)

lemma length_results: "length (results rs) \<le> length rs \<and> (length (results rs) = length rs \<longleftrightarrow> last_exn rs = None)"
proof (induction rs)
  case Nil
  show ?case by (simp add: last_exn_None)
next
  case (Cons r rs)
  then show ?case by (cases r) (auto split: option.splits)
qed

text \<open>Tasks whose results carry their key: of each key at most one result, and one if none failed.\<close>

lemma run_all_keys:
  assumes "list_all2 (\<lambda>k m. \<forall>s h s'. m s = (Inr h, s') \<longrightarrow> key h = k) ks ms"
  shows "mset (map key (results (fst (run_all ms s)))) \<subseteq># mset ks"
  using assms
proof (induction arbitrary: s rule: list_all2_induct)
  case Nil
  show ?case by simp
next
  case (Cons k ks m ms)
  obtain r s' where m: "m s = (r, s')" by (cases "m s")
  show ?case
  proof (cases r)
    case (Inl e)
    with m have "results (fst (run_all (m # ms) s)) = results (fst (run_all ms s'))"
      by (simp add: case_prod_beta Let_def)
    with Cons.IH [of s'] show ?thesis
      by (simp add: subset_mset.order_trans [OF _ multi_psub_of_add_self [THEN subset_mset.less_imp_le]])
  next
    case (Inr h)
    with m Cons.hyps(1) have "key h = k" by blast
    with m Inr Cons.IH [of s'] show ?thesis by (simp add: case_prod_beta Let_def)
  qed
qed

lemma list_all2_permute:
  assumes "list_all2 P ks ms" and "set is = {0..<length ms}"
  shows "list_all2 P (permute is ks) (permute is ms)"
  using assms by (auto simp: permute_def list_all2_conv_all_nth) (metis atLeastLessThan_iff nth_mem)

lemma executor_keys:
  fixes ms :: "('x, 'h) io list"
  assumes "orders_ok svc"
    and keys: "list_all2 (\<lambda>k m. \<forall>s h s'. m s = (Inr h, s') \<longrightarrow> key h = k) ks ms"
    and run: "executor svc ms w = (Inr rs, w')"
  shows "length rs = length ms" and "mset (map key (results rs)) \<subseteq># mset ks"
    and "last_exn rs = None \<Longrightarrow> mset (map key (results rs)) = mset ks"
    and "last_exn rs \<noteq> None \<Longrightarrow> mset (map key (results rs)) \<subset># mset ks"
proof -
  note len = list_all2_lengthD [OF keys]
  let ?is = "set_order svc (hist w) (length ms)"
  obtain qs w1 where qs: "run_all (permute ?is ms) w = (qs, w1)" by (cases "run_all (permute ?is ms) w")
  let ?js = "set_order svc (hist w1) (length ms)"
  have rs: "rs = permute ?js qs"
    using run qs by (auto simp: executor_def executor_outcomes_def split: if_splits)
  have lenq: "length qs = length ms"
    using run_all_length [of "permute ?is ms" w] qs orders_ok_D(3) [OF assms(1)] by simp
  show l: "length rs = length ms" unfolding rs using orders_ok_D(3) [OF assms(1)] by simp
  have "mset rs = mset qs"
    unfolding rs using orders_ok_D [OF assms(1)] lenq by (intro mset_permute) simp_all
  then have m: "mset (results rs) = mset (results qs)" by (rule mset_results)
  have "mset (permute ?is ks) = mset ks"
    using orders_ok_D [OF assms(1)] len by (intro mset_permute) simp_all
  moreover have "mset (map key (results qs)) \<subseteq># mset (permute ?is ks)"
    using run_all_keys [OF list_all2_permute [OF keys orders_ok_D(2) [OF assms(1), of "hist w"]], where s = w] qs by simp
  ultimately show sub: "mset (map key (results rs)) \<subseteq># mset ks" using m by simp
  have sz: "size (mset (map key (results rs))) = length (results rs)" by simp
  show "mset (map key (results rs)) = mset ks" if "last_exn rs = None"
  proof -
    have "size (mset (map key (results rs))) = size (mset ks)"
      using that length_results [of rs] l len by simp
    with sub show ?thesis using mset_subset_size by (metis nless_le subset_mset.nless_le)
  qed
  show "mset (map key (results rs)) \<subset># mset ks" if "last_exn rs \<noteq> None"
  proof -
    have "size (mset (map key (results rs))) \<noteq> size (mset ks)"
      using that length_results [of rs] l len by simp
    with sub show ?thesis by (metis subset_mset.nless_le)
  qed
qed

section \<open>Lists that are created once\<close>

text \<open>The interface of an attribute that holds a list of handlers, and what its clients rely on.\<close>

locale handler_list =
  fixes fget :: "'s \<Rightarrow> 'h list option" and fput :: "'h list option \<Rightarrow> 's \<Rightarrow> 's"
  assumes get_put: "fget (fput v s) = v"
begin

lemma later_access: "fget s = Some hs \<Longrightarrow> lazy_handlers fget fput creation fin s = (Inr hs, s)"
  by (simp add: lazy_handlers_def run_simps)

lemma first_access:
  assumes "fget s = None" and "creation (fput (Some []) s) = (Inr rs, s1)"
  shows "lazy_handlers fget fput creation fin s =
    (case last_exn rs of
       None \<Rightarrow> (Inr (results rs), fput (Some (results rs)) s1)
     | Some e \<Rightarrow> andthen fin (raise_exn e) (fput (Some (results rs)) s1))"
  using assms by (simp add: lazy_handlers_def run_simps split: option.splits)

lemma first_access_fails:
  assumes "fget s = None" and "creation (fput (Some []) s) = (Inl e, s1)"
  shows "lazy_handlers fget fput creation fin s = (Inl e, s1)"
  using assms by (simp add: lazy_handlers_def run_simps)

lemma value_is_stored:
  assumes "lazy_handlers fget fput creation fin s = (Inr hs, s')"
  shows "fget s' = Some hs"
proof (cases "fget s")
  case (Some hs')
  with assms show ?thesis by (simp add: later_access)
next
  case None
  obtain r s1 where c: "creation (fput (Some []) s) = (r, s1)" by (cases "creation (fput (Some []) s)")
  with None assms show ?thesis
    by (cases r)
       (auto simp: first_access first_access_fails get_put run_simps split: option.splits prod.splits sum.splits)
qed

lemma accessed_twice:
  assumes "lazy_handlers fget fput creation fin s = (Inr hs, s')"
  shows "lazy_handlers fget fput creation' fin' s' = (Inr hs, s')"
  using assms by (intro later_access value_is_stored)

end

interpretation shells: handler_list st_shell_handlers "\<lambda>hs w. w\<lparr>st_shell_handlers := hs\<rparr>"
  by unfold_locales simp

interpretation resources: handler_list st_resource_handlers "\<lambda>hs w. w\<lparr>st_resource_handlers := hs\<rparr>"
  by unfold_locales simp

interpretation sandboxes: handler_list st_sandbox_handlers "\<lambda>hs w. w\<lparr>st_sandbox_handlers := hs\<rparr>"
  by unfold_locales simp

lemma submit_units: "submit (\<lambda>c. ret ()) cs = ret (replicate (length cs) (), None)"
  by (induction cs) (simp_all add: try_except_else_def fun_eq_iff run_simps)

lemma map2_units: "map2 (\<lambda>c _. f c) cs (replicate (length cs) ()) = map f cs"
  by (rule nth_equalityI) simp_all

lemma create_sandboxes:
  "create_all svc (\<lambda>conf. ret ()) (\<lambda>conf _. SandboxHandler_create svc conf cs d) confs =
     executor svc (map (\<lambda>conf. SandboxHandler_create svc conf cs d) confs)"
  by (simp add: create_all_def submit_units map2_units)

lemma create_conf: "SandboxHandler_create svc conf cs d w = (Inr sb, w') \<Longrightarrow> sbh_conf sb = conf"
  unfolding SandboxHandler_create_def create_reservation_call
  by (auto simp: run_simps split: prod.splits sum.splits if_splits)

abbreviation sandbox_tasks where
  "sandbox_tasks svc w \<equiv>
     map (\<lambda>conf. SandboxHandler_create svc conf (st_cs_handler w) (2 * 60)) (sandboxes_conf (main_conf w))"

lemma sandbox_handlers_run:
  assumes "st_sandbox_handlers w = None" and ex: "executor svc (sandbox_tasks svc w) (w\<lparr>st_sandbox_handlers := Some []\<rparr>) = (p, w1)"
  shows "HandlerStorage_sandbox_handlers rts svc w =
    (case p of
       Inl e \<Rightarrow> (Inl e, w1)
     | Inr rs \<Rightarrow>
         (case last_exn rs of
            None \<Rightarrow> (Inr (results rs), w1\<lparr>st_sandbox_handlers := Some (results rs)\<rparr>)
          | Some e \<Rightarrow> andthen (HandlerStorage_finish rts svc) (raise_exn e)
              (w1\<lparr>st_sandbox_handlers := Some (results rs)\<rparr>)))"
proof -
  have "bnd (get_state (\<lambda>w. (sandboxes_conf (main_conf w), st_cs_handler w))) (\<lambda>(confs, cs).
        create_all svc (\<lambda>conf. ret ()) (\<lambda>conf _. SandboxHandler_create svc conf cs (2 * 60)) confs)
      (w\<lparr>st_sandbox_handlers := Some []\<rparr>) = (p, w1)"
    unfolding create_sandboxes using ex by (simp add: run_simps)
  with assms(1) show ?thesis
    unfolding HandlerStorage_sandbox_handlers_def
    by (cases p) (simp_all add: sandboxes.first_access sandboxes.first_access_fails)
qed


text \<open>A configuration with a sandbox and an FTP server, and the state in which a run creates its storage.\<close>

definition run_config :: main_config where
  "run_config = test_config_yaml\<lparr>sandboxes_conf := [sbh_conf app_sandbox], ftp_conf := Some example_host\<rparr>"

definition storage_state :: storage where
  "storage_state = do_world.extend (do_world.truncate (do_state\<lparr>main_conf := run_config\<rparr>))
     (storage.fields do_example None None None None None None None None)"

lemma storage_example: "isl (fst (HandlerStorage_sandbox_handlers retriers_ref obliging_services storage_state)) = False"
  by code_simp


section \<open>The end of the storage\<close>

text \<open>Finishing stops at the first handler that fails: when a sandbox cannot be ended, its exception
  is raised and no later sandbox, no resource, no shell and no session is finished.\<close>

lemma storage_finish_stops:
  assumes "st_sandbox_handlers w = Some (before @ sb # after)"
    and "for_each before (\<lambda>sb. SandboxHandler_finish svc sb True) w = (Inr (), w1)"
    and "SandboxHandler_finish svc sb True w1 = (Inl e, w2)"
  shows "HandlerStorage_finish rts svc w = (Inl e, w2)"
  using assms
  by (simp add: HandlerStorage_finish_def finish_list_def for_each_append run_simps)

end
