(* ===== verification/Download_Files.thy ===== *)
theory Download_Files
  imports Smb_Handler
begin

text \<open>
  \<^verbatim>\<open>shell_tests/helpers/download_files_helper.py\<close>: the paths of the configuration that may be URLs. A
  \<^verbatim>\<open>DownloadFile\<close> object is its text and its identity; the cached properties and the list of downloaded
  files are part of the state. Of \<^verbatim>\<open>urllib.parse\<close> the scheme and the path of a URL are modelled. The
  lemmas show that the removal at the end of the process unlinks the files that were downloaded and nothing
  else.
\<close>

section \<open>URLs\<close>

definition is_scheme_char :: "char \<Rightarrow> bool" where
  "is_scheme_char c \<longleftrightarrow>
     (let n = of_char c :: nat
      in 97 \<le> n \<and> n \<le> 122 \<or> 65 \<le> n \<and> n \<le> 90 \<or> is_digit c \<or> c \<in> {CHR ''+'', CHR ''-'', CHR ''.''})"

definition is_ascii_alpha :: "char \<Rightarrow> bool" where
  "is_ascii_alpha c \<longleftrightarrow> (let n = of_char c :: nat in 97 \<le> n \<and> n \<le> 122 \<or> 65 \<le> n \<and> n \<le> 90)"

text \<open>\<^verbatim>\<open>urlsplit\<close> drops leading control characters and blanks, and tabs and line breaks everywhere.\<close>

definition clean_url :: "string \<Rightarrow> string" where
  "clean_url url =
     filter (\<lambda>c. of_char c \<notin> {9, 10, 13 :: nat}) (dropWhile (\<lambda>c. of_char c \<le> (32 :: nat)) url)"

definition url_scheme_rest :: "string \<Rightarrow> string \<times> string" where
  "url_scheme_rest url =
     (let u = clean_url url; s = takeWhile (\<lambda>c. c \<noteq> CHR '':'') u
      in if s \<noteq> [] \<and> s \<noteq> u \<and> is_ascii_alpha (hd u) \<and> list_all is_scheme_char s
         then (lower s, drop (Suc (length s)) u)
         else ([], u))"

definition url_scheme :: "string \<Rightarrow> string" where
  "url_scheme url = fst (url_scheme_rest url)"

text \<open>The schemes whose last path segment may carry parameters, \<^verbatim>\<open>uses_params\<close>.\<close>

definition uses_params :: "string list" where
  "uses_params = [[], ''ftp'', ''hdl'', ''prospero'', ''http'', ''imap'', ''https'', ''shttp'', ''rtsp'', ''rtsps'',
     ''rtspu'', ''sip'', ''sips'', ''mms'', ''sftp'', ''tel'']"

definition without_netloc :: "string \<Rightarrow> string" where
  "without_netloc u =
     (if prefix ''//'' u
      then dropWhile (\<lambda>c. c \<notin> {CHR ''/'', CHR ''?'', CHR ''#''}) (drop 2 u)
      else u)"

definition without_params :: "string \<Rightarrow> string" where
  "without_params u =
     (let segment = rev (takeWhile (\<lambda>c. c \<noteq> CHR ''/'') (rev u));
          before = take (length u - length segment) u
      in before @ takeWhile (\<lambda>c. c \<noteq> CHR '';'') segment)"

definition url_path :: "string \<Rightarrow> string" where
  "url_path url =
     (let (scheme, rest) = url_scheme_rest url;
          u = takeWhile (\<lambda>c. c \<noteq> CHR ''?'') (takeWhile (\<lambda>c. c \<noteq> CHR ''#'') (without_netloc rest))
      in if scheme \<in> set uses_params then without_params u else u)"

definition get_file_name :: "string \<Rightarrow> string" where
  "get_file_name url = path_name (url_path url)"

section \<open>Files\<close>

record download_file =
  df_original_path :: string
  df_oid :: nat

record download_world = world +
  tmp_dirs_cached :: "nat list"
  paths_cached :: "(nat, string) dict"
  downloaded_files :: "nat list"

type_synonym ('x, 'a) dlio = "('x download_world_scheme, 'a) pym"

definition DownloadFile_new :: "string \<Rightarrow> ('x, download_file) dlio" where
  "DownloadFile_new path_str = bnd new_oid (\<lambda>i. ret \<lparr>df_original_path = path_str, df_oid = i\<rparr>)"

definition path_join :: "string \<Rightarrow> string \<Rightarrow> string" where
  "path_join p name = (if name = [] then p else p @ ''/'' @ name)"

text \<open>The text of \<^verbatim>\<open>Path(path)\<close>: empty parts and single dots are left out, a root of one or exactly two slashes is kept.\<close>

definition path_str :: "string \<Rightarrow> string" where
  "path_str path =
     (let parts = filter (\<lambda>part. part \<notin> {[], ''.''}) (split_on (CHR ''/'') path);
          root = (if prefix ''//'' path \<and> \<not> prefix ''///'' path then ''//''
                  else if prefix ''/'' path then ''/'' else [])
      in if root = [] \<and> parts = [] then ''.'' else root @ join_with ''/'' parts)"

text \<open>\<open>tmp\<close> is \<^verbatim>\<open>tempfile.gettempdir()\<close>.\<close>

definition DownloadFile_tmp_dir :: "string \<Rightarrow> 'e services_scheme \<Rightarrow> download_file \<Rightarrow> ('x, string) dlio" where
  "DownloadFile_tmp_dir tmp svc f =
     (let path = path_join tmp ''shell_tests''
      in bnd (get_state (\<lambda>w. df_oid f \<in> set (tmp_dirs_cached w))) (\<lambda>cached.
           if cached then ret path
           else
             andthen (ask (rep_unit svc) (Host (MkDir path)))
            (andthen (modify (\<lambda>w. w\<lparr>tmp_dirs_cached := df_oid f # tmp_dirs_cached w\<rparr>)) (ret path))))"

definition DownloadFile_is_url :: "string \<Rightarrow> bool" where
  "DownloadFile_is_url url \<longleftrightarrow> url_scheme url \<in> {''http'', ''https'', ''ftp'', ''ftps'', ''tftp''}"

definition DownloadFile_path :: "string \<Rightarrow> 'e services_scheme \<Rightarrow> download_file \<Rightarrow> ('x, string) dlio" where
  "DownloadFile_path tmp svc f =
     bnd (get_state (\<lambda>w. dict_get (paths_cached w) (df_oid f))) (\<lambda>cached.
       case cached of
         Some path \<Rightarrow> ret path
       | None \<Rightarrow>
           bnd (if \<not> DownloadFile_is_url (df_original_path f) then ret (path_str (df_original_path f))
                else
                  bnd (DownloadFile_tmp_dir tmp svc f) (\<lambda>dir.
                  let path = path_join dir (get_file_name (df_original_path f))
                  in andthen (ask (rep_unit svc) (Host (UrlRetrieve (df_original_path f) path)))
                    (andthen (modify (\<lambda>w. w\<lparr>downloaded_files := downloaded_files w @ [df_oid f]\<rparr>))
                       (ret path)))) (\<lambda>path.
           andthen (modify (\<lambda>w. w\<lparr>paths_cached := dict_set (df_oid f) path (paths_cached w)\<rparr>))
             (ret path)))"

text \<open>The path of a downloaded file is cached when the process ends, so reading it calls nothing.\<close>

definition remove_downloaded_files :: "'e services_scheme \<Rightarrow> ('x, unit) dlio" where
  "remove_downloaded_files svc =
     bnd (get_state (\<lambda>w. map (\<lambda>i. dict_get (paths_cached w) i) (downloaded_files w))) (\<lambda>paths.
     for_each paths (\<lambda>path.
       try_except (ask (rep_unit svc) (Host (Unlink (case path of None \<Rightarrow> [] | Some p \<Rightarrow> p))))
         (\<lambda>e. case e of PermissionError _ \<Rightarrow> ret () | _ \<Rightarrow> raise_exn e)))"

section \<open>Properties\<close>

text \<open>What was downloaded: the URL and the target of every retrieval that was answered.\<close>

fun retrieved :: "'e services_scheme \<Rightarrow> event list \<Rightarrow> event list \<Rightarrow> (string \<times> string) list" where
  "retrieved svc h [] = []"
| "retrieved svc h (ev # es) =
     (case ev of
        Host (UrlRetrieve u p) \<Rightarrow> (case rep_unit svc h ev of Inr _ \<Rightarrow> [(u, p)] | Inl _ \<Rightarrow> [])
      | _ \<Rightarrow> []) @ retrieved svc (h @ [ev]) es"

lemma retrieved_append: "retrieved svc h (es @ fs) = retrieved svc h es @ retrieved svc (h @ es) fs"
  by (induction es arbitrary: h) simp_all

text \<open>The files that the process remembers are those that were downloaded since the history \<open>h\<close>, each from one
  of the URLs \<open>us\<close> to its own name in the directory for downloads.\<close>

definition tracks :: "'e services_scheme \<Rightarrow> string \<Rightarrow> string set \<Rightarrow> event list \<Rightarrow> 'x download_world_scheme \<Rightarrow> bool" where
  "tracks svc tmp us h w \<longleftrightarrow>
     (\<exists>es. hist w = h @ es \<and>
        map (dict_get (paths_cached w)) (downloaded_files w) = map (\<lambda>(u, p). Some p) (retrieved svc h es) \<and>
        (\<forall>(u, p) \<in> set (retrieved svc h es). u \<in> us \<and> DownloadFile_is_url u \<and>
           p = path_join (path_join tmp ''shell_tests'') (get_file_name u)))"

lemma tracks_same:
  assumes "tracks svc tmp us h w" and "downloaded_files w' = downloaded_files w" and "paths_cached w' = paths_cached w"
    and "hist w' = hist w @ fs" and "retrieved svc (hist w) fs = []"
  shows "tracks svc tmp us h w'"
proof -
  from assms(1) obtain es where es: "hist w = h @ es"
      "map (dict_get (paths_cached w)) (downloaded_files w) = map (\<lambda>(u, p). Some p) (retrieved svc h es)"
      "\<forall>(u, p) \<in> set (retrieved svc h es). u \<in> us \<and> DownloadFile_is_url u \<and>
         p = path_join (path_join tmp ''shell_tests'') (get_file_name u)"
    by (auto simp: tracks_def)
  then show ?thesis
    using assms(2-5) unfolding tracks_def
    by (intro exI [of _ "es @ fs"]) (simp add: retrieved_append)
qed

lemma tracked_paths: "tracks svc tmp us h w \<Longrightarrow> i \<in> set (downloaded_files w) \<Longrightarrow> dict_get (paths_cached w) i \<noteq> None"
proof -
  assume "tracks svc tmp us h w" and i: "i \<in> set (downloaded_files w)"
  then obtain qs :: "(string \<times> string) list" where qs: "map (dict_get (paths_cached w)) (downloaded_files w) = map (\<lambda>(u, p). Some p) qs"
    unfolding tracks_def by (elim exE conjE) (rule that)
  have "dict_get (paths_cached w) i \<in> set (map (dict_get (paths_cached w)) (downloaded_files w))" using i by simp
  then show ?thesis unfolding qs by auto
qed

lemma tracks_cache:
  assumes "tracks svc tmp us h w" and "dict_get (paths_cached w) i = None"
  shows "tracks svc tmp us h (w\<lparr>paths_cached := dict_set i p (paths_cached w)\<rparr>)"
proof -
  have "dict_get (dict_set i p (paths_cached w)) j = dict_get (paths_cached w) j" if "j \<in> set (downloaded_files w)" for j
    using tracked_paths [OF assms(1) that] assms(2) by auto
  then have "map (dict_get (dict_set i p (paths_cached w))) (downloaded_files w) =
      map (dict_get (paths_cached w)) (downloaded_files w)" by simp
  then show ?thesis using assms(1) by (simp add: tracks_def del: map_eq_conv)
qed

lemma tracks_retrieved:
  assumes "tracks svc tmp us h w" and "dict_get (paths_cached w) i = None" and "u \<in> us" and "DownloadFile_is_url u"
    and "p = path_join (path_join tmp ''shell_tests'') (get_file_name u)"
    and "rep_unit svc (hist w) (Host (UrlRetrieve u p)) = Inr ()"
  shows "tracks svc tmp us h (w\<lparr>hist := hist w @ [Host (UrlRetrieve u p)], downloaded_files := downloaded_files w @ [i],
    paths_cached := dict_set i p (paths_cached w)\<rparr>)"
proof -
  have "tracks svc tmp us h (w\<lparr>paths_cached := dict_set i p (paths_cached w)\<rparr>)" by (rule tracks_cache [OF assms(1,2)])
  then obtain es where es: "hist w = h @ es"
      "map (dict_get (dict_set i p (paths_cached w))) (downloaded_files w) = map (\<lambda>(u, p). Some p) (retrieved svc h es)"
      "\<forall>(u, p) \<in> set (retrieved svc h es). u \<in> us \<and> DownloadFile_is_url u \<and>
         p = path_join (path_join tmp ''shell_tests'') (get_file_name u)"
    by (auto simp: tracks_def)
  then show ?thesis
    using assms(3-6) unfolding tracks_def
    by (intro exI [of _ "es @ [Host (UrlRetrieve u p)]"]) (simp add: retrieved_append)
qed

lemma tracks_path:
  assumes "tracks svc tmp us h w" and "DownloadFile_path tmp svc f w = (r, w')" and "df_original_path f \<in> us"
  shows "tracks svc tmp us h w'"
proof (cases "dict_get (paths_cached w) (df_oid f)")
  case (Some path)
  with assms show ?thesis by (simp add: DownloadFile_path_def run_simps)
next
  case None
  let ?u = "df_original_path f" and ?dir = "path_join tmp ''shell_tests''"
  let ?p = "path_join ?dir (get_file_name ?u)"
  show ?thesis
  proof (cases "DownloadFile_is_url ?u")
    case False
    with assms None show ?thesis by (auto simp: DownloadFile_path_def run_simps intro: tracks_cache)
  next
    case True
    obtain d w1 where dir: "DownloadFile_tmp_dir tmp svc f w = (d, w1)" by (cases "DownloadFile_tmp_dir tmp svc f w")
    then have w1: "downloaded_files w1 = downloaded_files w" "paths_cached w1 = paths_cached w"
        "\<exists>fs. hist w1 = hist w @ fs \<and> retrieved svc (hist w) fs = []" "\<And>x. d = Inr x \<Longrightarrow> x = ?dir"
      by (auto simp: DownloadFile_tmp_dir_def Let_def run_simps split: if_splits sum.splits)
    then have t1: "tracks svc tmp us h w1" using assms(1) by (auto intro: tracks_same)
    have path: "DownloadFile_path tmp svc f w =
        (case d of Inl e \<Rightarrow> (Inl e, w1) | Inr x \<Rightarrow>
          (case rep_unit svc (hist w1) (Host (UrlRetrieve ?u ?p)) of
             Inl e \<Rightarrow> (Inl e, add_events [Host (UrlRetrieve ?u ?p)] w1)
           | Inr _ \<Rightarrow> (Inr ?p, w1\<lparr>hist := hist w1 @ [Host (UrlRetrieve ?u ?p)],
               downloaded_files := downloaded_files w1 @ [df_oid f], paths_cached := dict_set (df_oid f) ?p (paths_cached w1)\<rparr>)))"
      unfolding DownloadFile_path_def bnd_run [of "get_state _"] get_state_run prod.case sum.case None option.case
      using True dir w1(4) by (cases d) (simp_all add: run_simps Let_def split: sum.splits)
    show ?thesis
    proof (cases d)
      case (Inl e)
      with path assms(2) t1 show ?thesis by simp
    next
      case (Inr x)
      note tracks = tracks_retrieved [OF t1 _ assms(3) True refl, of "df_oid f"]
      show ?thesis
      proof (cases "rep_unit svc (hist w1) (Host (UrlRetrieve ?u ?p))")
        case (Inl e)
        with Inr path assms(2) have "w' = add_events [Host (UrlRetrieve ?u ?p)] w1" by simp
        with t1 Inl show ?thesis by (auto intro: tracks_same [where fs = "[Host (UrlRetrieve ?u ?p)]"])
      next
        case ok: (Inr y)
        with Inr path assms(2) have "w' = w1\<lparr>hist := hist w1 @ [Host (UrlRetrieve ?u ?p)],
            downloaded_files := downloaded_files w1 @ [df_oid f],
            paths_cached := dict_set (df_oid f) ?p (paths_cached w1)\<rparr>" by simp
        with tracks ok None w1(2) show ?thesis by simp
      qed
    qed
  qed
qed

lemma tracks_paths:
  assumes "tracks svc tmp us h w" and "map_m (DownloadFile_path tmp svc) fs w = (r, w')" and "df_original_path ` set fs \<subseteq> us"
  shows "tracks svc tmp us h w'"
  using assms
proof (induction fs arbitrary: w r w')
  case Nil
  then show ?case by (simp add: run_simps)
next
  case (Cons f fs)
  obtain q w1 where f: "DownloadFile_path tmp svc f w = (q, w1)" by (cases "DownloadFile_path tmp svc f w")
  have ok: "tracks svc tmp us h w1" using tracks_path [OF Cons.prems(1) f] Cons.prems(3) by simp
  obtain q2 w2 where fs: "map_m (DownloadFile_path tmp svc) fs w1 = (q2, w2)"
    by (cases "map_m (DownloadFile_path tmp svc) fs w1")
  from Cons.IH [OF ok fs] ok Cons.prems(2,3) f fs show ?case
    by (auto simp: run_simps split: sum.splits)
qed

abbreviation unlink_path where
  "unlink_path svc path \<equiv>
     try_except (ask (rep_unit svc) (Host (Unlink (case path of None \<Rightarrow> [] | Some p \<Rightarrow> p))))
       (\<lambda>e. case e of PermissionError _ \<Rightarrow> ret () | _ \<Rightarrow> raise_exn e)"

lemma unlink_run:
  "try_except (ask (rep_unit svc) (Host (Unlink p))) (\<lambda>e. case e of PermissionError _ \<Rightarrow> ret () | _ \<Rightarrow> raise_exn e) w =
     (case rep_unit svc (hist w) (Host (Unlink p)) of
        Inl e \<Rightarrow> if \<exists>m. e = PermissionError m then Inr () else Inl e
      | Inr _ \<Rightarrow> Inr (), add_events [Host (Unlink p)] w)"
  by (auto simp: run_simps split: sum.splits exn.splits)

lemma remove_unlinks:
  "\<exists>r qs. for_each (map Some ps) (unlink_path svc) w = (r, add_events (map (\<lambda>p. Host (Unlink p)) qs) w) \<and>
     prefix qs ps \<and> (r = Inr () \<longrightarrow> qs = ps) \<and> (\<forall>e m. r = Inl e \<longrightarrow> e \<noteq> PermissionError m)"
proof (induction ps arbitrary: w)
  case Nil
  show ?case by (simp add: run_simps)
next
  case (Cons p ps)
  let ?w1 = "add_events [Host (Unlink p)] w"
  obtain r1 where one: "unlink_path svc (Some p) w = (r1, ?w1)" and r1: "\<forall>e m. r1 = Inl e \<longrightarrow> e \<noteq> PermissionError m"
    by (auto simp: unlink_run split: sum.splits)
  show ?case
  proof (cases r1)
    case (Inl e)
    with one r1 show ?thesis
      by (intro exI [of _ "Inl e"] exI [of _ "[p]"]) (simp add: andthen_run)
  next
    case (Inr u)
    obtain r qs where rest: "for_each (map Some ps) (unlink_path svc) ?w1 = (r, add_events (map (\<lambda>p. Host (Unlink p)) qs) ?w1)"
      "prefix qs ps" "r = Inr () \<longrightarrow> qs = ps" "\<forall>e m. r = Inl e \<longrightarrow> e \<noteq> PermissionError m"
      using Cons.IH [of ?w1] by blast
    with one Inr show ?thesis
      by (intro exI [of _ r] exI [of _ "p # qs"]) (simp add: andthen_run)
  qed
qed


definition download_state :: download_world where
  "download_state = \<lparr>hist = [], api_cached = [], rest_cached = [], next_oid = 2, tmp_dirs_cached = [],
     paths_cached = [], downloaded_files = []\<rparr>"

definition download_examples :: "download_file list" where
  "download_examples = [\<lparr>df_original_path = ''/home/shell.zip'', df_oid = 0\<rparr>,
     \<lparr>df_original_path = ''http://192.168.1.5/dist/deps.zip?v=2'', df_oid = 1\<rparr>]"

lemma download_example:
  "case map_m (DownloadFile_path ''/tmp'' obliging_services) download_examples download_state of
     (r, w1) \<Rightarrow> r = Inr [''/home/shell.zip'', ''/tmp/shell_tests/deps.zip''] \<and>
       hist w1 = [Host (MkDir ''/tmp/shell_tests''),
         Host (UrlRetrieve ''http://192.168.1.5/dist/deps.zip?v=2'' ''/tmp/shell_tests/deps.zip'')]"
  by code_simp

lemma obliging_removes: "for_each ps (unlink_path obliging_services) w = (r, w') \<Longrightarrow> r = Inr ()"
  by (induction ps arbitrary: w) (auto simp: run_simps)


end
