(* ===== verification/Test_Selection.thy ===== *)
theory Test_Selection
  imports Test_Cases
begin

text \<open>
  \<^verbatim>\<open>shell_tests/helpers/tests_helpers.py\<close>, and the base classes of \<^verbatim>\<open>automation_tests/base.py\<close>: the tables of
  test cases by family and device type, the suite of a resource, and the run of a suite by
  \<^verbatim>\<open>unittest\<close>. A table is an association list. A test of the suite is a class and a method name; the
  runner runs one after the other, keeps what each raised, and is left by an interrupt only. The lemmas
  show that the tables have an autoload test wherever one is asked for, that a suite has no test twice
  and only tests of the tables, and what a run reports.
\<close>

section \<open>Test classes\<close>

datatype test_class =
    TestAutoloadNetworkDevices | TestAutoloadShellFromTemplate | TestAutoloadTrafficGeneratorDevices
  | TestAutoloadVirtualTrafficGeneratorDevices | TestAutoloadWithoutDevice | TestAutoloadWithoutPorts
  | TestConnectivity
  | TestRestoreConfig | TestRestoreConfigFromScp | TestRestoreConfigFromTftp
  | TestRestoreConfigFromTemplate | TestRestoreConfigWithoutDevice
  | TestRunCustomCommand | TestRunCustomCommandShellFromTemplate | TestRunCustomCommandWithoutDevice
  | TestSaveConfig | TestSaveConfigFromScp | TestSaveConfigFromTftp
  | TestSaveConfigFromTemplate | TestSaveConfigWithoutDevice
  | TestGetStatistics | TestGetStatisticsWithoutDevice | TestGetTestFile | TestGetTestFileWithoutDevice
  | TestLoadConfig | TestLoadConfigWithoutDevice | TestStartTraffic | TestStartTrafficWithoutDevice
  | TestStopTraffic | TestStopTrafficWithoutDevice

text \<open>\<^verbatim>\<open>type(self).__name__\<close>\<close>

fun class_name :: "test_class \<Rightarrow> string" where
  "class_name TestAutoloadNetworkDevices = ''TestAutoloadNetworkDevices''"
| "class_name TestAutoloadShellFromTemplate = ''TestAutoloadShellFromTemplate''"
| "class_name TestAutoloadTrafficGeneratorDevices = ''TestAutoloadTrafficGeneratorDevices''"
| "class_name TestAutoloadVirtualTrafficGeneratorDevices = ''TestAutoloadVirtualTrafficGeneratorDevices''"
| "class_name TestAutoloadWithoutDevice = ''TestAutoloadWithoutDevice''"
| "class_name TestAutoloadWithoutPorts = ''TestAutoloadWithoutPorts''"
| "class_name TestConnectivity = ''TestConnectivity''"
| "class_name TestRestoreConfig = ''TestRestoreConfig''"
| "class_name TestRestoreConfigFromScp = ''TestRestoreConfigFromScp''"
| "class_name TestRestoreConfigFromTftp = ''TestRestoreConfigFromTftp''"
| "class_name TestRestoreConfigFromTemplate = ''TestRestoreConfigFromTemplate''"
| "class_name TestRestoreConfigWithoutDevice = ''TestRestoreConfigWithoutDevice''"
| "class_name TestRunCustomCommand = ''TestRunCustomCommand''"
| "class_name TestRunCustomCommandShellFromTemplate = ''TestRunCustomCommandShellFromTemplate''"
| "class_name TestRunCustomCommandWithoutDevice = ''TestRunCustomCommandWithoutDevice''"
| "class_name TestSaveConfig = ''TestSaveConfig''"
| "class_name TestSaveConfigFromScp = ''TestSaveConfigFromScp''"
| "class_name TestSaveConfigFromTftp = ''TestSaveConfigFromTftp''"
| "class_name TestSaveConfigFromTemplate = ''TestSaveConfigFromTemplate''"
| "class_name TestSaveConfigWithoutDevice = ''TestSaveConfigWithoutDevice''"
| "class_name TestGetStatistics = ''TestGetStatistics''"
| "class_name TestGetStatisticsWithoutDevice = ''TestGetStatisticsWithoutDevice''"
| "class_name TestGetTestFile = ''TestGetTestFile''"
| "class_name TestGetTestFileWithoutDevice = ''TestGetTestFileWithoutDevice''"
| "class_name TestLoadConfig = ''TestLoadConfig''"
| "class_name TestLoadConfigWithoutDevice = ''TestLoadConfigWithoutDevice''"
| "class_name TestStartTraffic = ''TestStartTraffic''"
| "class_name TestStartTrafficWithoutDevice = ''TestStartTrafficWithoutDevice''"
| "class_name TestStopTraffic = ''TestStopTraffic''"
| "class_name TestStopTrafficWithoutDevice = ''TestStopTrafficWithoutDevice''"

text \<open>The test methods of a class, inherited ones included, in the order of their names, as
  \<^verbatim>\<open>TestLoader.getTestCaseNames\<close> gives them.\<close>

fun test_methods :: "test_class \<Rightarrow> (string \<times> ('x, 'e) test_body) list" where
  "test_methods TestAutoloadNetworkDevices =
     [(''test_structure'', TestAutoloadNetworkDevices_test_structure)]"
| "test_methods TestAutoloadShellFromTemplate =
     [(''test_execute_without_error'', TestAutoloadShellFromTemplate_test_execute_without_error)]"
| "test_methods TestAutoloadTrafficGeneratorDevices =
     [(''test_structure'', TestAutoloadTrafficGeneratorDevices_test_structure)]"
| "test_methods TestAutoloadVirtualTrafficGeneratorDevices =
     [(''test_structure'', TestAutoloadVirtualTrafficGeneratorDevices_test_structure)]"
| "test_methods TestAutoloadWithoutDevice =
     [(''test_structure'', TestAutoloadWithoutDevice_test_structure)]"
| "test_methods TestAutoloadWithoutPorts =
     [(''test_autoload'', TestAutoloadWithoutPorts_test_autoload)]"
| "test_methods TestConnectivity =
     [(''test_connectivity'', TestConnectivity_test_connectivity)]"
| "test_methods TestRestoreConfig =
     [(''test_orchestration_restore'', TestRestoreConfig_test_orchestration_restore),
      (''test_restore_running_config_append'', TestRestoreConfig_test_restore_running_config_append),
      (''test_restore_running_config_override'', TestRestoreConfig_test_restore_running_config_override),
      (''test_restore_startup_config_append'', TestRestoreConfig_test_restore_startup_config_append),
      (''test_restore_startup_config_override'', TestRestoreConfig_test_restore_startup_config_override)]"
| "test_methods TestRestoreConfigFromScp =
     [(''test_orchestration_restore'', TestRestoreConfigFromScp_test_orchestration_restore),
      (''test_restore_running_config_append'', TestRestoreConfigFromScp_test_restore_running_config_append),
      (''test_restore_running_config_override'', TestRestoreConfigFromScp_test_restore_running_config_override),
      (''test_restore_startup_config_append'', TestRestoreConfigFromScp_test_restore_startup_config_append),
      (''test_restore_startup_config_override'', TestRestoreConfigFromScp_test_restore_startup_config_override)]"
| "test_methods TestRestoreConfigFromTftp =
     [(''test_orchestration_restore'', TestRestoreConfigFromTftp_test_orchestration_restore),
      (''test_restore_running_config_append'', TestRestoreConfigFromTftp_test_restore_running_config_append),
      (''test_restore_running_config_override'', TestRestoreConfigFromTftp_test_restore_running_config_override),
      (''test_restore_startup_config_append'', TestRestoreConfigFromTftp_test_restore_startup_config_append),
      (''test_restore_startup_config_override'', TestRestoreConfigFromTftp_test_restore_startup_config_override)]"
| "test_methods TestRestoreConfigFromTemplate =
     [(''test_orchestration_restore'', TestRestoreConfigFromTemplate_test_orchestration_restore),
      (''test_restore_running_config_append'', TestRestoreConfigFromTemplate_test_restore_running_config_append)]"
| "test_methods TestRestoreConfigWithoutDevice =
     [(''test_orchestration_restore'', TestRestoreConfigWithoutDevice_test_orchestration_restore),
      (''test_restore_running_config_append'', TestRestoreConfigWithoutDevice_test_restore_running_config_append),
      (''test_restore_running_config_override'', TestRestoreConfigWithoutDevice_test_restore_running_config_override),
      (''test_restore_startup_config_append'', TestRestoreConfigWithoutDevice_test_restore_startup_config_append),
      (''test_restore_startup_config_override'', TestRestoreConfigWithoutDevice_test_restore_startup_config_override)]"
| "test_methods TestRunCustomCommand =
     [(''test_run_custom_command'', TestRunCustomCommand_test_run_custom_command),
      (''test_run_custom_config_command'', TestRunCustomCommand_test_run_custom_config_command)]"
| "test_methods TestRunCustomCommandShellFromTemplate =
     [(''test_run_custom_command'', TestRunCustomCommandShellFromTemplate_test_run_custom_command),
      (''test_run_custom_config_command'', TestRunCustomCommandShellFromTemplate_test_run_custom_config_command)]"
| "test_methods TestRunCustomCommandWithoutDevice =
     [(''test_run_custom_command'', TestRunCustomCommandWithoutDevice_test_run_custom_command),
      (''test_run_custom_config_command'', TestRunCustomCommandWithoutDevice_test_run_custom_config_command)]"
| "test_methods TestSaveConfig =
     [(''test_orchestration_save_deep'', TestSaveConfig_test_orchestration_save_deep),
      (''test_orchestration_save_shallow'', TestSaveConfig_test_orchestration_save_shallow),
      (''test_save_running_config'', TestSaveConfig_test_save_running_config),
      (''test_save_startup_config'', TestSaveConfig_test_save_startup_config)]"
| "test_methods TestSaveConfigFromScp =
     [(''test_orchestration_save_deep'', TestSaveConfigFromScp_test_orchestration_save_deep),
      (''test_orchestration_save_shallow'', TestSaveConfigFromScp_test_orchestration_save_shallow),
      (''test_save_running_config'', TestSaveConfigFromScp_test_save_running_config),
      (''test_save_startup_config'', TestSaveConfigFromScp_test_save_startup_config)]"
| "test_methods TestSaveConfigFromTftp =
     [(''test_orchestration_save_deep'', TestSaveConfigFromTftp_test_orchestration_save_deep),
      (''test_orchestration_save_shallow'', TestSaveConfigFromTftp_test_orchestration_save_shallow),
      (''test_save_running_config'', TestSaveConfigFromTftp_test_save_running_config),
      (''test_save_startup_config'', TestSaveConfigFromTftp_test_save_startup_config)]"
| "test_methods TestSaveConfigFromTemplate =
     [(''test_orchestration_save_deep'', TestSaveConfigFromTemplate_test_orchestration_save_deep),
      (''test_orchestration_save_shallow'', TestSaveConfigFromTemplate_test_orchestration_save_shallow),
      (''test_save_running_config'', TestSaveConfigFromTemplate_test_save_running_config)]"
| "test_methods TestSaveConfigWithoutDevice =
     [(''test_orchestration_save_deep'', TestSaveConfigWithoutDevice_test_orchestration_save_deep),
      (''test_orchestration_save_shallow'', TestSaveConfigWithoutDevice_test_orchestration_save_shallow),
      (''test_save_running_config'', TestSaveConfigWithoutDevice_test_save_running_config),
      (''test_save_startup_config'', TestSaveConfigWithoutDevice_test_save_startup_config)]"
| "test_methods TestGetStatistics = [(''test_get_statistics'', TestGetStatistics_test_get_statistics)]"
| "test_methods TestGetStatisticsWithoutDevice =
     [(''test_get_statistics'', TestGetStatisticsWithoutDevice_test_get_statistics)]"
| "test_methods TestGetTestFile = [(''test_get_test_file'', TestGetTestFile_test_get_test_file)]"
| "test_methods TestGetTestFileWithoutDevice =
     [(''test_get_test_file'', TestGetTestFileWithoutDevice_test_get_test_file)]"
| "test_methods TestLoadConfig = [(''test_load_config'', TestLoadConfig_test_load_config)]"
| "test_methods TestLoadConfigWithoutDevice =
     [(''test_load_config'', TestLoadConfigWithoutDevice_test_load_config)]"
| "test_methods TestStartTraffic = [(''test_start_traffic'', TestStartTraffic_test_start_traffic)]"
| "test_methods TestStartTrafficWithoutDevice =
     [(''test_start_traffic'', TestStartTrafficWithoutDevice_test_start_traffic)]"
| "test_methods TestStopTraffic = [(''test_stop_traffic'', TestStopTraffic_test_stop_traffic)]"
| "test_methods TestStopTrafficWithoutDevice =
     [(''test_stop_traffic'', TestStopTrafficWithoutDevice_test_stop_traffic)]"

text \<open>\<^verbatim>\<open>setUp\<close>: only the controller classes have one.\<close>

definition controller_classes :: "test_class list" where
  "controller_classes = [TestGetStatistics, TestGetTestFile, TestLoadConfig, TestStartTraffic, TestStopTraffic]"

definition controller_classes_without_device :: "test_class list" where
  "controller_classes_without_device = [TestGetStatisticsWithoutDevice, TestGetTestFileWithoutDevice,
     TestLoadConfigWithoutDevice, TestStartTrafficWithoutDevice, TestStopTrafficWithoutDevice]"

definition set_up :: "test_class \<Rightarrow> ('s, unit) pym" where
  "set_up c =
     (if c \<in> set controller_classes then BaseControllerTestCase_setUp True
      else if c \<in> set controller_classes_without_device then BaseControllerTestCase_setUp False
      else ret ())"

section \<open>Tables\<close>

datatype optional_case =
    OptionalTestSaveFtpConfig | OptionalTestSaveScpConfig | OptionalTestSaveTftpConfig
  | OptionalTestRestoreFtpConfig | OptionalTestRestoreScpConfig | OptionalTestRestoreTftpConfig

definition optional_test_case :: "optional_case \<Rightarrow> test_class" where
  "optional_test_case c =
     (case c of
        OptionalTestSaveFtpConfig \<Rightarrow> TestSaveConfig
      | OptionalTestSaveScpConfig \<Rightarrow> TestSaveConfigFromScp
      | OptionalTestSaveTftpConfig \<Rightarrow> TestSaveConfigFromTftp
      | OptionalTestRestoreFtpConfig \<Rightarrow> TestRestoreConfig
      | OptionalTestRestoreScpConfig \<Rightarrow> TestRestoreConfigFromScp
      | OptionalTestRestoreTftpConfig \<Rightarrow> TestRestoreConfigFromTftp)"

definition is_suitable :: "optional_case \<Rightarrow> main_config \<Rightarrow> bool" where
  "is_suitable c conf \<longleftrightarrow>
     (case c of
        OptionalTestSaveFtpConfig \<Rightarrow> ftp_conf conf \<noteq> None
      | OptionalTestSaveScpConfig \<Rightarrow> scp_conf conf \<noteq> None
      | OptionalTestSaveTftpConfig \<Rightarrow> tftp_conf conf \<noteq> None
      | OptionalTestRestoreFtpConfig \<Rightarrow> ftp_conf conf \<noteq> None
      | OptionalTestRestoreScpConfig \<Rightarrow> scp_conf conf \<noteq> None
      | OptionalTestRestoreTftpConfig \<Rightarrow> tftp_conf conf \<noteq> None)"

datatype test_entry = One test_class | Optional "optional_case list"

type_synonym case_table = "(string, test_entry) dict"
type_synonym device_table = "(device_type, case_table) dict"

definition SAVE_TEST_CASES :: test_entry where
  "SAVE_TEST_CASES = Optional [OptionalTestSaveFtpConfig, OptionalTestSaveScpConfig, OptionalTestSaveTftpConfig]"

definition RESTORE_TEST_CASES :: test_entry where
  "RESTORE_TEST_CASES =
     Optional [OptionalTestRestoreFtpConfig, OptionalTestRestoreScpConfig, OptionalTestRestoreTftpConfig]"

definition real_device_cases :: case_table where
  "real_device_cases =
     [(''autoload'', One TestAutoloadNetworkDevices),
      (''run_custom_command'', One TestRunCustomCommand),
      (''run_custom_config_command'', One TestRunCustomCommand),
      (''save'', SAVE_TEST_CASES), (''orchestration_save'', SAVE_TEST_CASES),
      (''restore'', RESTORE_TEST_CASES), (''orchestration_restore'', RESTORE_TEST_CASES)]"

definition from_template_cases :: case_table where
  "from_template_cases =
     [(''autoload'', One TestAutoloadShellFromTemplate),
      (''run_custom_command'', One TestRunCustomCommandShellFromTemplate),
      (''run_custom_config_command'', One TestRunCustomCommandShellFromTemplate),
      (''save'', One TestSaveConfigFromTemplate),
      (''restore'', One TestRestoreConfigFromTemplate)]"

definition TEST_CASES_FIREWALL :: device_table where
  "TEST_CASES_FIREWALL =
     [(SIMULATOR, [(''autoload'', One TestAutoloadNetworkDevices)]),
      (WITHOUT_DEVICE,
        [(''autoload'', One TestAutoloadWithoutDevice),
         (''run_custom_command'', One TestRunCustomCommandWithoutDevice),
         (''run_custom_config_command'', One TestRunCustomCommandWithoutDevice),
         (''save'', One TestSaveConfigWithoutDevice),
         (''orchestration_save'', One TestSaveConfigWithoutDevice),
         (''restore'', One TestRestoreConfigWithoutDevice),
         (''orchestration_restore'', One TestRestoreConfigWithoutDevice)]),
      (REAL_DEVICE, real_device_cases),
      (SHELL_FROM_TEMPLATE, from_template_cases)]"

definition TEST_CASES_LOADBALANCER :: device_table where
  "TEST_CASES_LOADBALANCER = TEST_CASES_FIREWALL"

definition TEST_CASES_ROUTER :: device_table where
  "TEST_CASES_ROUTER = dict_set REAL_DEVICE
     (dict_set ''applyconnectivitychanges'' (One TestConnectivity) real_device_cases) TEST_CASES_FIREWALL"

definition TEST_CASES_SWITCH :: device_table where
  "TEST_CASES_SWITCH = TEST_CASES_ROUTER"

definition TEST_CASES_TRAFFIC_GENERATOR_CHASSIS :: device_table where
  "TEST_CASES_TRAFFIC_GENERATOR_CHASSIS =
     [(REAL_DEVICE, [(''autoload'', One TestAutoloadTrafficGeneratorDevices)]),
      (WITHOUT_DEVICE, [(''autoload'', One TestAutoloadWithoutDevice)]),
      (SIMULATOR, [(''autoload'', One TestAutoloadTrafficGeneratorDevices)])]"

definition TEST_CASES_VIRTUAL_TRAFFIC_GENERATOR_CHASSIS :: device_table where
  "TEST_CASES_VIRTUAL_TRAFFIC_GENERATOR_CHASSIS =
     [(REAL_DEVICE, [(''autoload'', One TestAutoloadVirtualTrafficGeneratorDevices)])]"

definition TEST_CASES_TRAFFIC_GENERATOR_CONTROLLER :: device_table where
  "TEST_CASES_TRAFFIC_GENERATOR_CONTROLLER =
     [(REAL_DEVICE,
        [(''load_config'', One TestLoadConfig), (''start_traffic'', One TestStartTraffic),
         (''stop_traffic'', One TestStopTraffic), (''get_statistics'', One TestGetStatistics),
         (''get_test_file'', One TestGetTestFile)]),
      (WITHOUT_DEVICE,
        [(''load_config'', One TestLoadConfigWithoutDevice), (''start_traffic'', One TestStartTrafficWithoutDevice),
         (''stop_traffic'', One TestStopTrafficWithoutDevice),
         (''get_statistics'', One TestGetStatisticsWithoutDevice),
         (''get_test_file'', One TestGetTestFileWithoutDevice)])]"

definition TEST_CASES_GENERIC_APP_FAMILY :: device_table where
  "TEST_CASES_GENERIC_APP_FAMILY =
     [(REAL_DEVICE, [(''autoload'', One TestAutoloadWithoutPorts)]),
      (WITHOUT_DEVICE, [(''autoload'', One TestAutoloadWithoutDevice)])]"

definition TEST_CASES_GENERIC_RESOURCE :: device_table where
  "TEST_CASES_GENERIC_RESOURCE = [(SHELL_FROM_TEMPLATE, from_template_cases)]"

definition TEST_CASES_MAP :: "(string, device_table) dict" where
  "TEST_CASES_MAP =
     [(''CS_Firewall'', TEST_CASES_FIREWALL), (''CS_LoadBalancer'', TEST_CASES_LOADBALANCER),
      (''CS_Router'', TEST_CASES_ROUTER), (''CS_Switch'', TEST_CASES_SWITCH),
      (''CS_TrafficGeneratorChassis'', TEST_CASES_TRAFFIC_GENERATOR_CHASSIS),
      (''CS_VirtualTrafficGeneratorChassis'', TEST_CASES_VIRTUAL_TRAFFIC_GENERATOR_CHASSIS),
      (''CS_TrafficGeneratorController'', TEST_CASES_TRAFFIC_GENERATOR_CONTROLLER),
      (''CS_GenericAppFamily'', TEST_CASES_GENERIC_APP_FAMILY),
      (''CS_GenericResource'', TEST_CASES_GENERIC_RESOURCE)]"

definition AUTOLOAD_TEST_FOR_FAMILIES :: "string list" where
  "AUTOLOAD_TEST_FOR_FAMILIES =
     [''CS_Router'', ''CS_Firewall'', ''CS_LoadBalancer'', ''CS_Switch'', ''CS_TrafficGeneratorChassis'',
      ''CS_VirtualTrafficGeneratorChassis'', ''CS_GenericAppFamily'', ''CS_GenericResource'']"

section \<open>The suite of a resource\<close>

definition append_new :: "'a list \<Rightarrow> 'a \<Rightarrow> 'a list" where
  "append_new xs x = (if x \<in> set xs then xs else xs @ [x])"

text \<open>What one command adds to the list of test cases.\<close>

definition add_command_cases :: "main_config \<Rightarrow> case_table \<Rightarrow> string \<Rightarrow> test_class list \<Rightarrow> test_class list" where
  "add_command_cases conf test_cases_map command test_cases =
     (case dict_get test_cases_map (lower command) of
        None \<Rightarrow> test_cases
      | Some (One c) \<Rightarrow> append_new test_cases c
      | Some (Optional os) \<Rightarrow>
          foldl (\<lambda>tcs o'. if is_suitable o' conf then append_new tcs (optional_test_case o') else tcs)
            test_cases os)"

text \<open>A table without autoload entry puts None first in the list, which has no test methods.\<close>

definition select_test_cases :: "main_config \<Rightarrow> case_table \<Rightarrow> bool \<Rightarrow> string list \<Rightarrow> test_class list" where
  "select_test_cases conf test_cases_map with_autoload commands =
     foldl (\<lambda>tcs command. add_command_cases conf test_cases_map command tcs)
       (case dict_get test_cases_map ''autoload'' of
          Some (One c) \<Rightarrow> if with_autoload then [c] else []
        | _ \<Rightarrow> [])
       commands"

definition get_test_suite ::
  "'e services_scheme \<Rightarrow> nat \<Rightarrow> ('x, (test_class \<times> string) list) sio" where
  "get_test_suite svc i =
     bnd (ResourceHandler_family svc i) (\<lambda>family.
     bnd (item TEST_CASES_MAP family) (\<lambda>devices.
     bnd (rh_get i (\<lambda>o'. ResourceHandler_device_type (rh_conf o'))) (\<lambda>device.
     bnd (case dict_get devices device of
            None \<Rightarrow> raise_exn (KeyError (''DeviceType''))
          | Some m \<Rightarrow> ret m) (\<lambda>test_cases_map.
     bnd (ResourceHandler_get_commands svc i) (\<lambda>commands.
     bnd (get_state main_conf) (\<lambda>conf.
     ret (concat (map (\<lambda>c. map (\<lambda>m. (c, fst m)) (test_methods c :: (string \<times> (unit, unit) test_body) list))
       (select_test_cases conf test_cases_map (family \<in> set AUTOLOAD_TEST_FOR_FAMILIES) commands)))))))))"

section \<open>Running a suite\<close>

text \<open>The event \<^verbatim>\<open>stop_flag\<close> of a run.\<close>

record run_world = storage +
  stop_flag :: bool

type_synonym ('x, 'a) runio = "('x run_world_scheme, 'a) pym"

definition BaseTestCase_callTestMethod :: "('x, 'a) runio \<Rightarrow> ('x, 'a) runio" where
  "BaseTestCase_callTestMethod m =
     bnd (get_state stop_flag) (\<lambda>stop. if stop then raise_exn KeyboardInterrupt else m)"

definition BaseResourceServiceTestCase_callTestMethod :: "nat \<Rightarrow> ('x, 'a) runio \<Rightarrow> ('x, 'a) runio" where
  "BaseResourceServiceTestCase_callTestMethod i m =
     bnd (rh_get i rh_dependencies_are_broken) (\<lambda>broken.
       if broken then raise_exn (AssertionError ''Dependencies are broken'')
       else BaseTestCase_callTestMethod m)"

definition BaseTestCase_expect_failure ::
  "'e test_services_scheme \<Rightarrow> ('s, unit) pym \<Rightarrow> string \<Rightarrow> ('s, unit) pym" where
  "BaseTestCase_expect_failure svc func expected_message =
     assert_raises_regex is_Exception ''Exception'' (re_search svc expected_message) expected_message func"

definition BaseTestCase_add_decorator_for_expect_failed_func ::
  "'e test_services_scheme \<Rightarrow> test_class \<Rightarrow> string \<Rightarrow> tests_config \<Rightarrow> ('s, unit) pym \<Rightarrow> ('s, unit) pym" where
  "BaseTestCase_add_decorator_for_expect_failed_func svc c method_name tests_conf func =
     (case dict_get (expected_failures tests_conf) (class_name c @ ''.'' @ method_name) of
        None \<Rightarrow> func
      | Some reason \<Rightarrow> if reason \<noteq> [] then BaseTestCase_expect_failure svc func reason else func)"

text \<open>One test, as \<^verbatim>\<open>unittest.TestCase.run\<close> makes it: \<^verbatim>\<open>setUp\<close>, then the guarded and decorated method.\<close>

definition run_test ::
  "nat \<Rightarrow> 'x run_world_scheme retriers \<Rightarrow> 'e test_services_scheme \<Rightarrow> nat \<Rightarrow> test_class \<times> string \<Rightarrow> ('x, unit) runio" where
  "run_test depth rts svc i t =
     andthen (set_up (fst t))
       (bnd (rh_get i (\<lambda>o'. rc_tests_conf (rh_conf o'))) (\<lambda>tests_conf.
        BaseResourceServiceTestCase_callTestMethod i
          (BaseTestCase_add_decorator_for_expect_failed_func svc (fst t) (snd t) tests_conf
             (case map_of (test_methods (fst t)) (snd t) of
                None \<Rightarrow> missing_attr (snd t)
              | Some body \<Rightarrow> body depth rts svc i))))"

definition test_outcome ::
  "nat \<Rightarrow> 'x run_world_scheme retriers \<Rightarrow> 'e test_services_scheme \<Rightarrow> nat \<Rightarrow> test_class \<times> string \<Rightarrow>
   ('x, string \<times> exn option) runio" where
  "test_outcome depth rts svc i t =
     try_except_else (run_test depth rts svc i t)
       (\<lambda>e. if e = KeyboardInterrupt then raise_exn e
            else ret (class_name (fst t) @ ''.'' @ snd t, Some e))
       (\<lambda>_. ret (class_name (fst t) @ ''.'' @ snd t, None))"

definition run_test_suite ::
  "nat \<Rightarrow> 'x run_world_scheme retriers \<Rightarrow> 'e test_services_scheme \<Rightarrow> nat \<Rightarrow> (test_class \<times> string) list \<Rightarrow>
   ('x, bool \<times> string) runio" where
  "run_test_suite depth rts svc i suite =
     bnd (map_m (test_outcome depth rts svc i) suite) (\<lambda>outcomes.
     ret (list_all (\<lambda>(_, e). e = None) outcomes, runner_text svc outcomes))"

section \<open>Laws of the selection\<close>

lemma distinct_append_new: "distinct xs \<Longrightarrow> distinct (append_new xs x)"
  by (simp add: append_new_def)

lemma set_append_new [simp]: "set (append_new xs x) = insert x (set xs)"
  by (auto simp: append_new_def)

lemma foldl_invariant: "P a \<Longrightarrow> (\<And>a x. P a \<Longrightarrow> x \<in> set xs \<Longrightarrow> P (f a x)) \<Longrightarrow> P (foldl f a xs)"
  by (induction xs arbitrary: a) auto

text \<open>The classes an entry can add under a configuration.\<close>

definition entry_classes :: "main_config \<Rightarrow> test_entry \<Rightarrow> test_class set" where
  "entry_classes conf e =
     (case e of One c \<Rightarrow> {c} | Optional os \<Rightarrow> {optional_test_case o' | o'. o' \<in> set os \<and> is_suitable o' conf})"

definition table_classes :: "main_config \<Rightarrow> case_table \<Rightarrow> test_class set" where
  "table_classes conf m = (\<Union>k e. if dict_get m k = Some e then entry_classes conf e else {})"

lemma table_classesI: "dict_get m k = Some e \<Longrightarrow> c \<in> entry_classes conf e \<Longrightarrow> c \<in> table_classes conf m"
  by (fastforce simp: table_classes_def)

lemma add_command_cases_ok:
  assumes "distinct tcs" and "set tcs \<subseteq> table_classes conf m"
  shows "distinct (add_command_cases conf m command tcs) \<and>
    set (add_command_cases conf m command tcs) \<subseteq> table_classes conf m"
proof (cases "dict_get m (lower command)")
  case None
  with assms show ?thesis by (simp add: add_command_cases_def)
next
  case (Some e)
  have "distinct (foldl (\<lambda>tcs o'. if is_suitable o' conf then append_new tcs (optional_test_case o') else tcs) tcs os) \<and>
      set (foldl (\<lambda>tcs o'. if is_suitable o' conf then append_new tcs (optional_test_case o') else tcs) tcs os)
        \<subseteq> table_classes conf m" if "e = Optional os" for os
    using assms Some that
    by (intro foldl_invariant [where P = "\<lambda>tcs. distinct tcs \<and> set tcs \<subseteq> table_classes conf m"])
       (auto simp: distinct_append_new entry_classes_def intro!: table_classesI [of m "lower command"])
  with Some assms show ?thesis
    by (cases e)
       (auto simp: add_command_cases_def distinct_append_new entry_classes_def
         intro: table_classesI [of m "lower command"])
qed

lemma select_test_cases_ok:
  assumes "select_test_cases conf m b commands = tcs"
  shows "distinct tcs \<and> set tcs \<subseteq> table_classes conf m"
proof -
  have "distinct (foldl (\<lambda>tcs command. add_command_cases conf m command tcs) first commands) \<and>
      set (foldl (\<lambda>tcs command. add_command_cases conf m command tcs) first commands) \<subseteq> table_classes conf m"
    if "distinct first \<and> set first \<subseteq> table_classes conf m" for first
    using that by (intro foldl_invariant [where P = "\<lambda>tcs. distinct tcs \<and> set tcs \<subseteq> table_classes conf m"])
      (auto dest: add_command_cases_ok)
  moreover have "c \<in> table_classes conf m" if "dict_get m ''autoload'' = Some (One c)" for c
    using that by (rule table_classesI) (simp add: entry_classes_def)
  moreover obtain first where
    "tcs = foldl (\<lambda>tcs command. add_command_cases conf m command tcs) first commands"
    "first = [] \<or> (\<exists>c. first = [c] \<and> dict_get m ''autoload'' = Some (One c))"
    using assms by (auto simp: select_test_cases_def split: if_splits option.splits test_entry.splits)
  ultimately show ?thesis by (metis distinct.simps empty_set empty_subsetI insert_subset list.set(2) empty_iff)
qed

text \<open>The classes that use a file server are only reached through the optional entries.\<close>

definition server_classes :: "(test_class \<times> file_server) list" where
  "server_classes = [(TestSaveConfig, Ftp_Server), (TestSaveConfigFromScp, Scp_Server),
     (TestSaveConfigFromTftp, Tftp_Server), (TestRestoreConfig, Ftp_Server),
     (TestRestoreConfigFromScp, Scp_Server), (TestRestoreConfigFromTftp, Tftp_Server)]"

fun server_configured :: "file_server \<Rightarrow> main_config \<Rightarrow> bool" where
  "server_configured Ftp_Server conf \<longleftrightarrow> ftp_conf conf \<noteq> None"
| "server_configured Scp_Server conf \<longleftrightarrow> scp_conf conf \<noteq> None"
| "server_configured Tftp_Server conf \<longleftrightarrow> tftp_conf conf \<noteq> None"

lemma server_entries:
  "list_all (\<lambda>(family, devices). list_all (\<lambda>(d, m). list_all (\<lambda>(k, e).
     case e of One c \<Rightarrow> c \<notin> fst ` set server_classes | Optional os \<Rightarrow> True) m) devices) TEST_CASES_MAP"
  by code_simp

lemma optional_needs_server:
  "(optional_test_case o', s) \<in> set server_classes \<Longrightarrow> is_suitable o' conf \<Longrightarrow> server_configured s conf"
  by (cases o') (auto simp: optional_test_case_def is_suitable_def server_classes_def)

lemma table_needs_server:
  assumes "dict_get TEST_CASES_MAP family = Some devices" and "dict_get devices device = Some m"
    and "c \<in> table_classes conf m" and "(c, s) \<in> set server_classes"
  shows "server_configured s conf"
proof -
  from assms(3) obtain k e where e: "dict_get m k = Some e" "c \<in> entry_classes conf e"
    by (auto simp: table_classes_def split: if_splits)
  have "(family, devices) \<in> set TEST_CASES_MAP" "(device, m) \<in> set devices" "(k, e) \<in> set m"
    using assms(1,2) e(1) by (auto simp: dict_get_def dest: map_of_SomeD)
  with server_entries have no: "case e of One c \<Rightarrow> c \<notin> fst ` set server_classes | Optional os \<Rightarrow> True"
    by (fastforce simp: list_all_iff)
  show ?thesis
  proof (cases e)
    case (One c')
    with no e(2) assms(4) show ?thesis by (force simp: entry_classes_def)
  next
    case (Optional os)
    with e(2) assms(4) show ?thesis by (auto simp: entry_classes_def dest: optional_needs_server)
  qed
qed

lemma test_method_names: "distinct (map fst (test_methods c :: (string \<times> (unit, unit) test_body) list))"
  by (cases c) simp_all

lemma distinct_pairs:
  assumes "distinct cs" and "\<And>c. distinct (f c)"
  shows "distinct (concat (map (\<lambda>c. map (\<lambda>m. (c, m)) (f c)) cs))"
  using assms by (induction cs) (auto simp: distinct_map inj_on_def)

text \<open>C10. The suite that is built for a resource has no test twice, its tests are methods of their classes,
  and a test that reads and deletes files of a server is in it only if that server is configured.\<close>

theorem test_suite_well_formed:
  assumes "get_test_suite svc i w = (Inr suite, w')"
  shows "distinct suite \<and>
    (\<forall>(c, m) \<in> set suite. m \<in> fst ` set (test_methods c :: (string \<times> (unit, unit) test_body) list) \<and>
       (\<forall>s. (c, s) \<in> set server_classes \<longrightarrow> server_configured s (main_conf w')))"
proof -
  obtain family devices device m commands conf tcs w1 where
    t: "dict_get TEST_CASES_MAP family = Some devices" "dict_get devices device = Some m"
    and tcs: "select_test_cases conf m (family \<in> set AUTOLOAD_TEST_FOR_FAMILIES) commands = tcs"
    and conf: "conf = main_conf w'"
    and suite: "suite = concat (map (\<lambda>c. map (\<lambda>m. (c, fst m))
        (test_methods c :: (string \<times> (unit, unit) test_body) list)) tcs)"
    using assms unfolding get_test_suite_def bnd_eq_Inr item_def
    by (auto simp: run_simps split: option.splits)
  note ok = select_test_cases_ok [OF tcs]
  have "suite = concat (map (\<lambda>c. map (\<lambda>m. (c, m))
      (map fst (test_methods c :: (string \<times> (unit, unit) test_body) list))) tcs)"
    unfolding suite by (simp add: comp_def)
  then have "distinct suite" using ok by (simp only: distinct_pairs test_method_names)
  moreover have "server_configured s conf" if "c \<in> set tcs" "(c, s) \<in> set server_classes" for c s
    using table_needs_server [OF t _ that(2)] ok that(1) by auto
  ultimately show ?thesis unfolding conf suite by auto
qed

definition suite_env :: test_services where
  "suite_env = test_env\<lparr>rep_strs := (\<lambda>h ev. Inr [''Save'', ''orchestration_save'', ''reboot''])\<rparr>"

lemma suite_example:
  "fst (get_test_suite suite_env 0 test_state) =
     Inr [(TestAutoloadNetworkDevices, ''test_structure''),
          (TestSaveConfig, ''test_orchestration_save_deep''), (TestSaveConfig, ''test_orchestration_save_shallow''),
          (TestSaveConfig, ''test_save_running_config''), (TestSaveConfig, ''test_save_startup_config'')]"
  by code_simp

theorem test_suite_well_formed_witness:
  "ftp_conf (main_conf (snd (get_test_suite suite_env 0 test_state))) \<noteq> None"
proof -
  obtain w' where run: "get_test_suite suite_env 0 test_state =
      (Inr [(TestAutoloadNetworkDevices, ''test_structure''),
          (TestSaveConfig, ''test_orchestration_save_deep''), (TestSaveConfig, ''test_orchestration_save_shallow''),
          (TestSaveConfig, ''test_save_running_config''), (TestSaveConfig, ''test_save_startup_config'')], w')"
    using suite_example by (metis prod.collapse)
  have "(TestSaveConfig, Ftp_Server) \<in> set server_classes" by (simp add: server_classes_def)
  with test_suite_well_formed [OF run] run show ?thesis by force
qed

section \<open>Laws of the runs\<close>

lemma set_up_run: "set_up c w = (if c \<in> set controller_classes then missing_attr ''related_resource_handler'' w else (Inr (), w))"
  by (auto simp: set_up_def BaseControllerTestCase_setUp_def run_simps controller_classes_def
      controller_classes_without_device_def)

lemma broken_test_fails:
  assumes "rh_dependencies_are_broken (resource_objs w ! i)"
  shows "\<exists>name e. test_outcome depth rts svc i t w = (Inr (name, Some e), w)"
  using assms
  by (auto simp: test_outcome_def run_test_def run_simps set_up_run missing_attr_def
      BaseResourceServiceTestCase_callTestMethod_def)

lemma broken_suite_fails:
  assumes "rh_dependencies_are_broken (resource_objs w ! i)"
  shows "\<exists>outcomes. map_m (test_outcome depth rts svc i) suite w = (Inr outcomes, w) \<and>
    length outcomes = length suite \<and> (\<forall>(name, e) \<in> set outcomes. e \<noteq> None)"
proof (induction suite)
  case Nil
  show ?case by (simp add: run_simps)
next
  case (Cons t suite)
  then show ?case using broken_test_fails [OF assms, of depth rts svc t] by (auto simp: run_simps)
qed

text \<open>C17. The guards of the base classes. When the dependencies of the resource are known to be broken, every
  test of its suite fails and nothing is called, so a suite with tests is reported as failed in an
  unchanged state. When the run is to stop, and neither the dependencies are broken nor the first class is one
  of the traffic generator's, the suite is left with an interrupt before anything is called.\<close>

theorem suite_guards:
  assumes "suite \<noteq> []"
  shows "(rh_dependencies_are_broken (resource_objs w ! i) \<longrightarrow>
      (\<exists>text. run_test_suite depth rts svc i suite w = (Inr (False, text), w)))
    \<and> (\<not> rh_dependencies_are_broken (resource_objs w ! i) \<and> stop_flag w \<and>
       fst (hd suite) \<notin> set controller_classes \<longrightarrow>
      run_test_suite depth rts svc i suite w = (Inl KeyboardInterrupt, w))"
proof (intro conjI impI)
  assume "rh_dependencies_are_broken (resource_objs w ! i)"
  from broken_suite_fails [OF this] obtain outcomes where
    o: "map_m (test_outcome depth rts svc i) suite w = (Inr outcomes, w)" "length outcomes = length suite"
    "\<forall>(name, e) \<in> set outcomes. e \<noteq> None" by blast
  moreover have "\<not> list_all (\<lambda>(_, e). e = None) outcomes"
    using o(2,3) assms by (cases outcomes) auto
  ultimately show "\<exists>text. run_test_suite depth rts svc i suite w = (Inr (False, text), w)"
    by (simp add: run_test_suite_def run_simps)
next
  assume "\<not> rh_dependencies_are_broken (resource_objs w ! i) \<and> stop_flag w \<and> fst (hd suite) \<notin> set controller_classes"
  with assms show "run_test_suite depth rts svc i suite w = (Inl KeyboardInterrupt, w)"
    by (cases suite)
       (simp_all add: run_test_suite_def test_outcome_def run_test_def run_simps set_up_run
         BaseResourceServiceTestCase_callTestMethod_def BaseTestCase_callTestMethod_def)
qed

definition run_state :: run_world where
  "run_state = storage.extend (storage.truncate test_state) (run_world.fields True)"

theorem suite_guards_witness:
  "run_test_suite 5 retriers_ref suite_env 0 [(TestSaveConfig, ''test_save_running_config'')] run_state =
     (Inl KeyboardInterrupt, run_state)"
proof -
  have "\<not> rh_dependencies_are_broken (resource_objs run_state ! 0) \<and> stop_flag run_state"
    by (simp add: run_state_def storage.defs run_world.defs test_state_def loaded_resource_def resource_example_def)
  then show ?thesis
    using suite_guards [of "[(TestSaveConfig, ''test_save_running_config'')]" run_state 0 5 retriers_ref suite_env]
    by (simp add: controller_classes_def)
qed

text \<open>The tests of the traffic generator controller cannot pass: those for a real device fail before they
  start, and those without a device fail with \<^verbatim>\<open>AttributeError\<close> unless the configuration expects a failure;
  none of them sends a command.\<close>

theorem controller_tests_never_pass:
  "(c \<in> set controller_classes \<longrightarrow>
      run_test depth rts svc i (c, m) w = missing_attr ''related_resource_handler'' w)
   \<and> (c \<in> set controller_classes_without_device \<and>
      expected_failures (rc_tests_conf (rh_conf (resource_objs w ! i))) = [] \<longrightarrow>
      (\<exists>e. run_test depth rts svc i (c, m) w = (Inl e, w)))"
proof (intro conjI impI)
  assume "c \<in> set controller_classes"
  then show "run_test depth rts svc i (c, m) w = missing_attr ''related_resource_handler'' w"
    by (simp add: run_test_def run_simps set_up_run missing_attr_def)
next
  assume c: "c \<in> set controller_classes_without_device \<and>
      expected_failures (rc_tests_conf (rh_conf (resource_objs w ! i))) = []"
  have "\<exists>e. (case map_of (test_methods c) m of None \<Rightarrow> missing_attr m
      | Some body \<Rightarrow> body depth rts svc i) w = (Inl e, w)"
    using c
    by (auto simp: controller_classes_without_device_def missing_attr_def run_simps assert_connection_error_def
        assert_raises_regex_def TestGetStatisticsWithoutDevice_test_get_statistics_def
        TestGetStatistics_test_get_statistics_def TestGetTestFileWithoutDevice_test_get_test_file_def
        TestGetTestFile_test_get_test_file_def TestLoadConfigWithoutDevice_test_load_config_def
        TestLoadConfig_test_load_config_def TestStartTrafficWithoutDevice_test_start_traffic_def
        TestStartTraffic_test_start_traffic_def TestStopTrafficWithoutDevice_test_stop_traffic_def
        TestStopTraffic_test_stop_traffic_def)
  moreover have "c \<notin> set controller_classes"
    using c by (auto simp: controller_classes_def controller_classes_without_device_def)
  ultimately show "\<exists>e. run_test depth rts svc i (c, m) w = (Inl e, w)"
    using c unfolding run_test_def fst_conv snd_conv
    by (auto simp: run_simps set_up_run BaseResourceServiceTestCase_callTestMethod_def
        BaseTestCase_callTestMethod_def BaseTestCase_add_decorator_for_expect_failed_func_def)
qed

theorem controller_tests_never_pass_witness:
  "run_test 5 retriers_ref suite_env 0 (TestLoadConfig, ''test_load_config'') run_state =
     missing_attr ''related_resource_handler'' run_state"
  using controller_tests_never_pass [of TestLoadConfig 5 retriers_ref suite_env 0 "''test_load_config''" run_state]
  by (simp add: controller_classes_def)

end
