(* ===== verification/Report_Result.thy ===== *)
theory Report_Result
  imports Resource_Handler
begin

text \<open>
  \<^verbatim>\<open>shell_tests/report_result.py\<close>: the reports of a run as values, their verdicts and their text. The
  lemmas show that the verdict can be read off the text, and what a failing part does to it.
\<close>

section \<open>Reports\<close>

definition success_str :: "bool \<Rightarrow> string" where
  "success_str is_success = (if is_success then ''successful'' else ''unsuccessful'')"

text \<open>\<^verbatim>\<open>str\<close> of a member of \<^verbatim>\<open>DeviceType\<close> and of an optional string.\<close>

definition device_type_str :: "device_type \<Rightarrow> string" where
  "device_type_str t = ''DeviceType.'' @
     (case t of REAL_DEVICE \<Rightarrow> ''REAL_DEVICE'' | SIMULATOR \<Rightarrow> ''SIMULATOR''
      | WITHOUT_DEVICE \<Rightarrow> ''WITHOUT_DEVICE'' | SHELL_FROM_TEMPLATE \<Rightarrow> ''SHELL_FROM_TEMPLATE'')"

definition opt_str :: "string option \<Rightarrow> string" where
  "opt_str o' = (case o' of None \<Rightarrow> ''None'' | Some s \<Rightarrow> s)"

record resource_report =
  rr_name :: string
  rr_ip :: "string option"
  rr_device_type :: device_type
  rr_family :: string
  rr_is_success :: bool
  rr_test_result :: string

record service_report =
  sr_name :: string
  sr_device_type :: string
  sr_family :: string
  sr_is_success :: bool
  sr_test_result :: string

record sandbox_report =
  sbr_name :: string
  sbr_sandbox_is_success :: bool
  sbr_test_result :: string
  sbr_resources_reports :: "resource_report list"
  sbr_deployment_resources_reports :: "resource_report list"
  sbr_services_reports :: "service_report list"

record reporting =
  sandboxes_reports :: "sandbox_report list"

definition SandboxReport_new :: "string \<Rightarrow> bool \<Rightarrow> string \<Rightarrow> sandbox_report" where
  "SandboxReport_new sandbox_name is_success test_result =
     \<lparr>sbr_name = sandbox_name, sbr_sandbox_is_success = is_success, sbr_test_result = test_result,
      sbr_resources_reports = [], sbr_deployment_resources_reports = [], sbr_services_reports = []\<rparr>"

definition Reporting_new :: reporting where
  "Reporting_new = \<lparr>sandboxes_reports = []\<rparr>"

section \<open>Verdicts\<close>

definition SandboxReport_is_success :: "sandbox_report \<Rightarrow> bool" where
  "SandboxReport_is_success r =
     (let children_success =
            (list_all rr_is_success (sbr_resources_reports r) \<and> list_all sr_is_success (sbr_services_reports r))
      in if length (sbr_resources_reports r) = 0 \<and> length (sbr_services_reports r) = 0 then False
         else children_success \<and> sbr_sandbox_is_success r)"

definition Reporting_is_success :: "reporting \<Rightarrow> bool" where
  "Reporting_is_success r \<longleftrightarrow> list_all SandboxReport_is_success (sandboxes_reports r)"

section \<open>Texts\<close>

definition ResourceReport_str :: "resource_report \<Rightarrow> string" where
  "ResourceReport_str r =
     ''Resource name: '' @ rr_name r @ '', IP: '' @ opt_str (rr_ip r) @ '', Type: '' @
     device_type_str (rr_device_type r) @ '', Family: '' @ rr_family r @ [newline] @
     ''Test for the device was '' @ success_str (rr_is_success r) @ [newline] @ rr_test_result r"

definition DeploymentResourceReport_str :: "resource_report \<Rightarrow> string" where
  "DeploymentResourceReport_str r =
     replace_all ''Resource name'' ''Deployment Resource name'' (ResourceReport_str r)"

definition ServiceReport_str :: "service_report \<Rightarrow> string" where
  "ServiceReport_str r =
     ''Service name: '' @ sr_name r @ '', Type: '' @ sr_device_type r @ '', Family: '' @ sr_family r @
     [newline] @ ''Test for the service was '' @ success_str (sr_is_success r) @ [newline] @ sr_test_result r"

definition SandboxReport_str :: "sandbox_report \<Rightarrow> string" where
  "SandboxReport_str r =
     (let sandbox_tests_result =
            (if sbr_test_result r \<noteq> []
             then ''Sandbox name: '' @ sbr_name r @ [newline] @ ''Tests for sandbox was '' @
                  success_str (SandboxReport_is_success r) @ [newline] @ sbr_test_result r @ [newline, newline]
             else []);
          resources_tests_result =
            join_with [newline, newline] (map ResourceReport_str (sbr_resources_reports r));
          deployment_resources_tests_result =
            join_with [newline, newline] (map DeploymentResourceReport_str (sbr_deployment_resources_reports r));
          services_tests_result =
            join_with [newline, newline] (map ServiceReport_str (sbr_services_reports r))
      in ''Sandbox name: '' @ sbr_name r @ [newline] @ ''Tests for sandbox, resources and services was '' @
         success_str (SandboxReport_is_success r) @ [newline, newline] @
         sandbox_tests_result @ resources_tests_result @ deployment_resources_tests_result @ services_tests_result)"

definition Reporting_str :: "reporting \<Rightarrow> string" where
  "Reporting_str r =
     (let join_str = [newline, newline] @ replicate 100 (CHR ''-'') @ [newline, newline]
      in ''Tests was '' @ success_str (Reporting_is_success r) @ [newline, newline] @
         join_with join_str (map SandboxReport_str (sandboxes_reports r)))"

section \<open>Properties\<close>

text \<open>C18. The first words of the printed report are the verdict: the text starts with
  \<^verbatim>\<open>Tests was successful\<close> exactly if every sandbox of the report has a resource or a service that was
  reported, none of these failed and the sandbox itself succeeded. The reports of deployment resources
  do not count, and a report without sandboxes is successful.\<close>

theorem report_text_gives_verdict:
  "prefix ''Tests was successful'' (Reporting_str r) \<longleftrightarrow>
     (\<forall>sb \<in> set (sandboxes_reports r).
        sbr_sandbox_is_success sb \<and>
        (sbr_resources_reports sb \<noteq> [] \<or> sbr_services_reports sb \<noteq> []) \<and>
        (\<forall>rr \<in> set (sbr_resources_reports sb). rr_is_success rr) \<and>
        (\<forall>sr \<in> set (sbr_services_reports sb). sr_is_success sr))"
proof -
  have "prefix ''Tests was successful'' (Reporting_str r) \<longleftrightarrow> Reporting_is_success r"
    by (simp add: Reporting_str_def success_str_def Let_def)
  then show ?thesis
    by (auto simp: Reporting_is_success_def SandboxReport_is_success_def Let_def list_all_iff)
qed

definition report_example :: reporting where
  "report_example = \<lparr>sandboxes_reports =
     [(SandboxReport_new ''sandbox'' True [])\<lparr>sbr_resources_reports :=
        [\<lparr>rr_name = ''res'', rr_ip = Some ''192.168.1.2'', rr_device_type = REAL_DEVICE,
          rr_family = ''CS_Router'', rr_is_success = True, rr_test_result = ''OK''\<rparr>],
        sbr_deployment_resources_reports :=
        [\<lparr>rr_name = ''vm'', rr_ip = None, rr_device_type = REAL_DEVICE,
          rr_family = ''CS_Router'', rr_is_success = False, rr_test_result = ''FAILED''\<rparr>]\<rparr>]\<rparr>"

theorem report_text_gives_verdict_witness:
  "prefix ''Tests was successful'' (Reporting_str report_example)"
  unfolding report_text_gives_verdict by (simp add: report_example_def SandboxReport_new_def)

text \<open>A failing resource of any sandbox makes the run fail, and adding reports never repairs a failure.\<close>

lemma failure_is_final:
  assumes "\<not> Reporting_is_success r"
  shows "\<not> Reporting_is_success (r\<lparr>sandboxes_reports := sandboxes_reports r @ later\<rparr>)"
  using assms by (simp add: Reporting_is_success_def)

end
