(* ===== verification/Run_Frame.thy ===== *)
theory Run_Frame
  imports Run_Tests
begin

text \<open>
  What a run does not change. Two preorders on states: whatever is done for a sandbox keeps the configuration,
  the list of sandboxes, those on Do, the reports that were made and the calls that were recorded; what a test does
  keeps moreover the open report, the resources and their configurations, once the resources are
  created. Both are kept statement by statement.
\<close>

section \<open>The preorders\<close>

named_theorems framed \<open>statements that stay in the frame of a test\<close>
named_theorems steady \<open>statements that stay in the frame of a sandbox\<close>

definition stable :: "'x report_world_scheme \<Rightarrow> 'x report_world_scheme \<Rightarrow> bool" where
  "stable w w' \<longleftrightarrow>
     main_conf w' = main_conf w \<and> reports w' = reports w \<and> st_sandbox_handlers w' = st_sandbox_handlers w \<and>
     sbr_name (open_report w') = sbr_name (open_report w) \<and>
     cs_on_do_sandbox w' = cs_on_do_sandbox w \<and> app_sandboxes w' = app_sandboxes w \<and>
     set (api_cached w) \<subseteq> set (api_cached w') \<and> (\<exists>es. hist w' = hist w @ es)"

definition frame :: "'x report_world_scheme \<Rightarrow> 'x report_world_scheme \<Rightarrow> bool" where
  "frame w w' \<longleftrightarrow> stable w w' \<and>
     (st_resource_handlers w \<noteq> None \<longrightarrow>
        st_resource_handlers w' = st_resource_handlers w \<and>
        map rh_conf (resource_objs w') = map rh_conf (resource_objs w) \<and>
        open_report w' = open_report w \<and> stop_flag w' = stop_flag w)"

interpretation stability: state_preorder stable
  by unfold_locales (auto simp: stable_def)

interpretation framing: state_preorder frame
  by unfold_locales (auto simp: frame_def stable_def)

lemmas framing_rules [framed] = framing.keeps_ret framing.keeps_raise framing.keeps_of_result
  framing.keeps_get_state framing.keeps_bnd framing.keeps_andthen framing.keeps_if framing.keeps_map_m
  framing.keeps_for_each framing.keeps_try_except framing.keeps_try_except_else framing.keeps_try_finally

lemmas stability_rules [steady] = stability.keeps_ret stability.keeps_raise stability.keeps_of_result
  stability.keeps_get_state stability.keeps_bnd stability.keeps_andthen stability.keeps_if stability.keeps_map_m
  stability.keeps_for_each stability.keeps_try_except stability.keeps_try_except_else stability.keeps_try_finally

lemma stable_of_frame: "keeps frame m \<Longrightarrow> keeps stable m"
  by (simp add: keeps_def frame_def)

lemma stable_same:
  assumes "\<And>w. main_conf (snd (m w)) = main_conf w" and "\<And>w. reports (snd (m w)) = reports w"
    and "\<And>w. sbr_name (open_report (snd (m w))) = sbr_name (open_report w)"
    and "\<And>w. st_sandbox_handlers (snd (m w)) = st_sandbox_handlers w"
    and "\<And>w. cs_on_do_sandbox (snd (m w)) = cs_on_do_sandbox w" and "\<And>w. app_sandboxes (snd (m w)) = app_sandboxes w"
    and "\<And>w. set (api_cached w) \<subseteq> set (api_cached (snd (m w)))"
    and "\<And>w. \<exists>es. hist (snd (m w)) = hist w @ es"
  shows "keeps stable m"
  by (rule keepsI) (simp add: stable_def assms)

lemma frame_same:
  assumes "\<And>w. st_resource_handlers (snd (m w)) = st_resource_handlers w"
    and "\<And>w. map rh_conf (resource_objs (snd (m w))) = map rh_conf (resource_objs w)"
    and "\<And>w. main_conf (snd (m w)) = main_conf w" and "\<And>w. reports (snd (m w)) = reports w"
    and "\<And>w. open_report (snd (m w)) = open_report w"
    and "\<And>w. st_sandbox_handlers (snd (m w)) = st_sandbox_handlers w"
    and "\<And>w. stop_flag (snd (m w)) = stop_flag w"
    and "\<And>w. cs_on_do_sandbox (snd (m w)) = cs_on_do_sandbox w" and "\<And>w. app_sandboxes (snd (m w)) = app_sandboxes w"
    and "\<And>w. set (api_cached w) \<subseteq> set (api_cached (snd (m w)))"
    and "\<And>w. \<exists>es. hist (snd (m w)) = hist w @ es"
  shows "keeps frame m"
  by (rule keepsI) (simp add: frame_def stable_def assms)

section \<open>The frame of a test\<close>

subsection \<open>Statements\<close>

lemma frame_ask [framed]: "keeps frame (ask rep ev)"
  by (rule frame_same) (simp_all add: run_simps)

lemma frame_new_oid [framed]: "keeps frame new_oid"
  by (rule frame_same) (simp_all add: run_simps)

lemma frame_rh_get [framed]: "keeps frame (rh_get i f)"
  by (rule frame_same) (simp_all add: run_simps)

lemma frame_rh_upd:
  assumes "\<And>o'. rh_conf (g o') = rh_conf o'"
  shows "keeps frame (rh_upd i g)"
proof (rule frame_same)
  fix w
  show "map rh_conf (resource_objs (snd (rh_upd i g w))) = map rh_conf (resource_objs w)"
    by (cases "i < length (resource_objs w)")
       (simp_all add: run_simps map_update assms list_update_same_conv list_update_beyond)
qed (simp_all add: run_simps)

lemmas frame_rh_upds [framed] =
  frame_rh_upd [of "\<lambda>o'. o'\<lparr>rh_autoload_started := b\<rparr>" for b, simplified]
  frame_rh_upd [of "\<lambda>o'. o'\<lparr>rh_autoload_finished := b\<rparr>" for b, simplified]
  frame_rh_upd [of "\<lambda>o'. o'\<lparr>rh_is_autoload_success := b\<rparr>" for b, simplified]
  frame_rh_upd [of "\<lambda>o'. o'\<lparr>rh_dependencies_are_broken := b\<rparr>" for b, simplified]
  frame_rh_upd [of "\<lambda>o'. o'\<lparr>rh_sandbox_handler := b\<rparr>" for b, simplified]
  frame_rh_upd [of "\<lambda>o'. o'\<lparr>rh_family := b\<rparr>" for b, simplified]

lemma frame_api [framed]: "keeps frame (CloudShellHandler_api svc cs)"
  by (rule frame_same) (auto simp: CloudShellHandler_api_def run_simps split: sum.splits)

lemma frame_api_call [framed]: "keeps frame (api_call svc rep cs c)"
  unfolding api_call_def by (intro framed)

lemma frame_retry:
  assumes "retrying_law rt" and "keeps frame m"
  shows "keeps frame (rt (Suc n) p m)"
proof (rule keepsI)
  fix w
  show "frame w (snd (rt (Suc n) p m w))"
    by (rule retrying.attempts_keep [OF retrying.intro [OF assms(1)]])
       (auto intro: framing.R_refl framing.R_trans dest: keepsD [OF assms(2)])
qed

subsection \<open>Resources\<close>

lemma frame_get_details [framed]: "keeps frame (ResourceHandler_get_details svc i)"
  unfolding ResourceHandler_get_details_def CloudShellHandler_get_resource_details_def by (intro framed)

lemma frame_family [framed]: "keeps frame (ResourceHandler_family svc i)"
  unfolding ResourceHandler_family_def by (intro framed) (auto split: option.splits intro!: framed)

lemma frame_sandbox_handler [framed]: "keeps frame (ResourceHandler_sandbox_handler i)"
  unfolding ResourceHandler_sandbox_handler_def by (intro framed) (auto split: option.splits intro!: framed)

lemma frame_execute_command [framed]: "keeps frame (ResourceHandler_execute_command svc i c kw)"
  unfolding ResourceHandler_execute_command_def SandboxHandler_execute_resource_command_def
    CloudShellHandler_execute_command_on_resource_def CloudShellHandler_execute_command_def
  by (intro framed)

lemma frame_commands [framed]:
  "keeps frame (ResourceHandler_get_commands svc i)"
  "keeps frame (ResourceHandler_run_custom_command svc i c)"
  "keeps frame (ResourceHandler_run_custom_config_command svc i c)"
  "keeps frame (ResourceHandler_save svc i p t)"
  "keeps frame (ResourceHandler_orchestration_save svc i m cp)"
  "keeps frame (ResourceHandler_restore svc i p t m)"
  "keeps frame (ResourceHandler_orchestration_restore svc i a cp)"
  unfolding ResourceHandler_get_commands_def CloudShellHandler_get_resource_commands_def
    ResourceHandler_run_custom_command_def ResourceHandler_run_custom_config_command_def ResourceHandler_save_def
    ResourceHandler_orchestration_save_def ResourceHandler_restore_def ResourceHandler_orchestration_restore_def
  by (intro framed)+

lemma frame_run_commands [framed]: "keeps frame (ResourceHandler_run_resource_commands svc i cs)"
  unfolding ResourceHandler_run_resource_commands_def by (intro framed)

lemma frame_create_resource [framed]: "keeps frame (CloudShellHandler_create_resource fuel svc cs n m a f p b)"
proof -
  have "keeps frame (create_resource_loop fuel svc cs n m a f p b)"
    by (induction fuel arbitrary: n) (auto intro!: framed)
  then show ?thesis by (simp add: CloudShellHandler_create_resource_def)
qed

lemma frame_autoload_parts [framed]:
  "keeps frame (ResourceHandler_autoload_inner svc i)"
  "keeps frame (ResourceHandler_add_additional_ports svc i ports)"
  "keeps frame (ResourceHandler_set_children_attributes svc i cas)"
  unfolding ResourceHandler_autoload_inner_def CloudShellHandler_update_driver_for_the_resource_def
    CloudShellHandler_resource_autoload_def ResourceHandler_add_additional_ports_def
    ResourceHandler_set_children_attributes_def ResourceHandler_set_child_attribute_def
    CloudShellHandler_set_resource_attributes_def CloudShellHandler_get_resource_details_def Let_def
  by (auto split: option.splits prod.splits intro!: framed)

lemma frame_autoload [framed]: "keeps frame (ResourceHandler_autoload svc i)"
  unfolding ResourceHandler_autoload_def by (intro framed)

lemma frame_autoload_if_needed [framed]: "keeps frame (ResourceHandler_autoload_if_needed svc i)"
  unfolding ResourceHandler_autoload_if_needed_def by (intro framed)

subsection \<open>Creation and end of the handlers\<close>

lemmas steady_of_framed [steady] =
  frame_ask [THEN stable_of_frame] frame_new_oid [THEN stable_of_frame] frame_rh_get [THEN stable_of_frame]
  frame_api_call [THEN stable_of_frame] frame_create_resource [THEN stable_of_frame]

lemma stable_retry:
  assumes "retrying_law rt" and "keeps stable m"
  shows "keeps stable (rt (Suc n) p m)"
proof (rule keepsI)
  fix w
  show "stable w (snd (rt (Suc n) p m w))"
    by (rule retrying.attempts_keep [OF retrying.intro [OF assms(1)]])
       (auto intro: stability.R_refl stability.R_trans dest: keepsD [OF assms(2)])
qed

lemma stable_option_case:
  "keeps stable a \<Longrightarrow> (\<And>x. keeps stable (b x)) \<Longrightarrow> keeps stable (case o' of None \<Rightarrow> a | Some x \<Rightarrow> b x)"
  by (cases o') simp_all

lemma stable_modify [steady]:
  "keeps stable (modify (\<lambda>w. w\<lparr>smb_sessions := f1 w\<rparr>))"
  "keeps stable (modify (\<lambda>w. w\<lparr>rest_cached := f2 w\<rparr>))"
  "keeps stable (modify (\<lambda>w. w\<lparr>resource_objs := f3 w\<rparr>))"
  "keeps stable (modify (\<lambda>w. w\<lparr>vcenter_sessions := f4 w\<rparr>))"
  "keeps stable (modify (\<lambda>w. w\<lparr>st_cs_smb_handler := a\<rparr>))"
  "keeps stable (modify (\<lambda>w. w\<lparr>st_shell_handlers := b\<rparr>))"
  "keeps stable (modify (\<lambda>w. w\<lparr>st_resource_handlers := c\<rparr>))"
  by (rule stable_same; simp add: run_simps)+

lemma stable_read_env [steady]: "keeps stable (read_env rep p)"
  by (rule stable_same) (simp_all add: run_simps)

lemma stable_sleep [steady]: "keeps stable (sleep n)"
  by (rule stable_same) (simp_all add: run_simps)

lemma stable_rest_call [steady]: "keeps stable (rest_call svc rep cs c)"
  unfolding rest_call_def CloudShellHandler_rest_api_def by (intro steady)

lemma stable_smb_call [steady]: "keeps stable (smb_call svc rep h c)"
proof -
  have "keeps stable (smb_connect svc h b)" for b unfolding smb_connect_def by (intro steady)
  then show ?thesis
    unfolding smb_call_def SmbHandler_session_def
    by (intro steady) (auto split: exn.splits intro!: steady)
qed

lemma stable_smb:
  assumes "retriers_law rts"
  shows "keeps stable (SmbHandler_ls rts svc h p)"
    and "keeps stable (SmbHandler_create_dir depth rts svc h p b)"
    and "keeps stable (SmbHandler_put_file_obj depth rts svc h p d b)"
    and "keeps stable (SmbHandler_remove_file rts svc h p)"
    and "keeps stable (SmbHandler_download_r_file rts svc h p l)"
proof -
  have "retrying_law (rt_files rts)" "retrying_law (rt_str rts)" "retrying_law (rt_unit rts)"
    using assms by (simp_all add: retriers_law_def)
  note retried = this [THEN stable_retry]
  note ten = RETRY_STOP_MAX_ATTEMPT_NUM_def numeral_eq_Suc
  show "keeps stable (SmbHandler_ls rts svc h p)"
    unfolding SmbHandler_ls_def ten ls_once_def
    by (intro retried steady stable_option_case) (auto split: prod.splits intro!: steady)
  show dir: "keeps stable (SmbHandler_create_dir depth rts svc h p b)" for p b
  proof (induction depth arbitrary: p b)
    case (Suc depth)
    then show ?case
      unfolding SmbHandler_create_dir.simps ten
      by (intro retried steady stable_option_case) (auto split: prod.splits intro!: steady)
  qed (simp add: steady)
  show "keeps stable (SmbHandler_put_file_obj depth rts svc h p d b)"
    unfolding SmbHandler_put_file_obj_def ten put_file_obj_once_def
    by (intro retried steady stable_option_case) (auto split: prod.splits intro!: steady dir)
  show "keeps stable (SmbHandler_remove_file rts svc h p)"
    unfolding SmbHandler_remove_file_def ten by (intro retried steady)
  show "keeps stable (SmbHandler_download_r_file rts svc h p l)"
    unfolding SmbHandler_download_r_file_def SmbHandler_get_r_file_def ten by (intro steady retried)
qed

lemma stable_download_dir:
  assumes "retriers_law rts"
  shows "keeps stable (SmbHandler_download_r_dir depth rts svc h r l f)"
proof (induction depth arbitrary: r l f)
  case (Suc depth)
  then show ?case
    unfolding SmbHandler_download_r_dir.simps Let_def by (intro steady stable_smb [OF assms])
qed (simp add: steady)

lemma stable_cs_smb:
  assumes "retriers_law rts"
  shows "keeps stable (CloudShellSmbHandler_clear_offline_pypi rts svc c)"
    and "keeps stable (CloudShellSmbHandler_add_dependencies_to_offline_pypi depth rts svc c p)"
    and "keeps stable (CloudShellSmbHandler_add_extra_standards depth rts svc c ps)"
    and "keeps stable (CloudShellSmbHandler_download_logs depth rts svc c p t ids)"
proof -
  note smb = stable_smb [OF assms] stable_download_dir [OF assms]
  show "keeps stable (CloudShellSmbHandler_clear_offline_pypi rts svc c)"
    unfolding CloudShellSmbHandler_clear_offline_pypi_def CloudShellSmbHandler_get_file_names_from_offline_pypi_def
      CloudShellSmbHandler_remove_file_from_offline_pypi_def
    by (intro steady smb)
  show "keeps stable (CloudShellSmbHandler_add_dependencies_to_offline_pypi depth rts svc c p)"
    unfolding CloudShellSmbHandler_add_dependencies_to_offline_pypi_def
      CloudShellSmbHandler_add_file_obj_to_offline_pypi_def
    by (intro steady) (auto split: prod.splits intro!: smb)
  show "keeps stable (CloudShellSmbHandler_add_extra_standards depth rts svc c ps)"
    unfolding CloudShellSmbHandler_add_extra_standards_def CloudShellSmbHandler_get_tosca_standards_file_names_def
      CloudShellSmbHandler_add_cs_standard_file_path_def SmbHandler_put_file_path_def
    by (intro steady smb)
  show "keeps stable (CloudShellSmbHandler_download_logs depth rts svc c p t ids)"
    unfolding CloudShellSmbHandler_download_logs_def Let_def
    by (intro steady smb) (auto split: exn.splits intro!: steady)
qed

lemma stable_shell_finish:
  assumes "retriers_law rts"
  shows "keeps stable (ShellHandler_finish rts svc sh)"
  unfolding ShellHandler_finish_def CloudShellHandler_remove_shell_def
  by (intro steady) (auto split: exn.splits option.splits prod.splits intro!: steady stable_cs_smb [OF assms])

lemma stable_shell_create:
  assumes "retriers_law rts"
  shows "keeps stable (ShellHandler_create depth rts svc conf cs smb)"
proof -
  have "retrying_law (rt_unit rts)" using assms by (simp add: retriers_law_def)
  note retried = stable_retry [OF this]
  have "keeps stable (ShellHandler_install_shell rts svc sh)" for sh
    unfolding ShellHandler_install_shell_def CloudShellHandler_install_shell_def install_shell_once_def numeral_eq_Suc
    by (intro retried steady stable_option_case)
  moreover have "keeps stable (ShellHandler_store_extra_files depth rts svc sh)" for sh
    unfolding ShellHandler_store_extra_files_def
    by (intro steady) (auto split: option.splits prod.splits intro!: steady stable_cs_smb [OF assms])
  moreover have "keeps stable (ShellHandler_new svc conf cs smb)"
    unfolding ShellHandler_new_def get_resource_model_from_shell_definition_def get_shell_name_from_shell_definition_def
    by (intro steady) (auto split: list.splits json.splits intro!: steady)
  ultimately show ?thesis
    unfolding ShellHandler_create_def ShellHandler_prepare_def
    by (intro steady stable_shell_finish [OF assms])
qed

lemma stable_wait_ended: "keeps stable (wait_ended_loop n svc cs rid)"
  by (induction n) (simp_all add: CloudShellHandler_get_reservation_status_def steady)

lemma stable_end_reservation [steady]: "keeps stable (CloudShellHandler_end_reservation svc cs rid b)"
  unfolding CloudShellHandler_end_reservation_def by (intro steady stable_wait_ended)

lemma stable_reservation_errors [steady]: "keeps stable (CloudShellHandler_get_reservation_errors svc cs rid)"
  unfolding CloudShellHandler_get_reservation_errors_def get_reservation_errors_def get_activity_def Let_def
  by (intro steady)

lemma stable_sandbox_create: "keeps stable (SandboxHandler_create svc conf cs d)"
proof -
  have "keeps stable (wait_started_loop n svc cs rid)" for n rid
    by (induction n)
       (auto simp: CloudShellHandler_get_reservation_status_def intro!: steady)
  then show ?thesis
    unfolding SandboxHandler_create_def CloudShellHandler_wait_reservation_is_started_def
      CloudShellHandler_create_topology_reservation_def CloudShellHandler_create_reservation_def Let_def
    by (intro steady)
qed

lemma stable_resource_create: "keeps stable (ResourceHandler_create svc conf cs sh)"
  unfolding ResourceHandler_create_def ResourceHandler_new_def ResourceHandler_create_resource_def
    ResourceHandler_set_attributes_def CloudShellHandler_set_resource_attributes_def rh_upd_def Let_def
  by (intro steady)

lemma stable_finish_others:
  assumes "retriers_law rts"
  shows "keeps stable
    (andthen (finish_list st_resource_handlers (ResourceHandler_finish svc))
    (andthen (finish_list st_shell_handlers (ShellHandler_finish rts svc))
       (bnd (get_state st_vcenter_handler) (\<lambda>v. case v of None \<Rightarrow> ret () | Some h \<Rightarrow> VcenterHandler_finish svc h))))"
  unfolding finish_list_def ResourceHandler_finish_def CloudShellHandler_delete_resource_def VcenterHandler_finish_def
    VcenterHandler_logout_def VcenterHandler_si_def
  by (intro steady stable_option_case stable_shell_finish [OF assms]) (auto split: exn.splits intro!: steady)

lemma stable_storage_finish:
  assumes "retriers_law rts"
  shows "keeps stable (HandlerStorage_finish rts svc)"
  unfolding HandlerStorage_finish_def SandboxHandler_finish_def SandboxHandler_end_reservation_def
    finish_list_def [of st_sandbox_handlers]
  by (intro stability.keeps_andthen [OF _ stable_finish_others [OF assms]] steady stable_option_case)

lemma stable_executor:
  fixes ms :: "('x, 'a) repio list"
  assumes "orders_ok svc" and "\<And>m. m \<in> set ms \<Longrightarrow> keeps stable m"
  shows "keeps stable (executor svc ms)"
proof (rule keepsI)
  fix w :: "'x report_world_scheme"
  have "set (permute (set_order svc (hist w) (length ms)) ms) = set ms"
    by (intro set_permute orders_ok_D(2) assms(1))
  then have "stable w (snd (run_all (permute (set_order svc (hist w) (length ms)) ms) w))"
    by (intro stability.run_all_keeps assms(2)) auto
  then show "stable w (snd (executor svc ms w))"
    by (simp add: executor_def executor_outcomes_def case_prod_beta)
qed

lemma stable_create_all:
  assumes "orders_ok svc" and "\<And>c. keeps stable (arg c)" and "\<And>c p. keeps stable (create c p)"
  shows "keeps stable (create_all svc arg create confs)"
proof -
  have "keeps stable (submit arg confs)"
    by (induction confs) (auto intro!: steady assms(2) split: prod.splits)
  then show ?thesis
    unfolding create_all_def
    by (auto intro!: steady stable_executor assms(1,3) stable_option_case split: prod.splits)
qed

lemma stable_lazy_handlers:
  assumes "\<And>v. keeps stable (modify (fput v))" and "keeps stable creation" and "keeps stable fin"
  shows "keeps stable (lazy_handlers fget fput creation fin)"
  unfolding lazy_handlers_def by (intro steady stable_option_case assms)

lemma stable_cs_smb_handler [steady]: "keeps stable HandlerStorage_cs_smb_handler"
  unfolding HandlerStorage_cs_smb_handler_def lazy_handler_def cs_conf_attr_def CloudShellSmbHandler_new_def
    SmbHandler_new_def
  by (intro steady stable_option_case)

lemma stable_resource_handlers:
  assumes "orders_ok svc" and "retriers_law rts"
  shows "keeps stable (HandlerStorage_resource_handlers depth rts svc)"
proof -
  note creation = stable_storage_finish [OF assms(2)] stable_shell_create [OF assms(2)] stable_resource_create
    stable_create_all [OF assms(1)]
  have shells: "keeps stable (HandlerStorage_shell_handlers depth rts svc)"
    unfolding HandlerStorage_shell_handlers_def
    by (intro stable_lazy_handlers steady creation) (auto split: prod.splits intro!: steady creation)
  show ?thesis
    unfolding HandlerStorage_resource_handlers_def HandlerStorage_shell_handlers_dict_def item_def
    by (intro stable_lazy_handlers steady creation)
       (auto split: prod.splits intro!: steady creation shells stable_option_case)
qed

subsection \<open>File servers\<close>

lemma frame_sessions [framed]:
  "keeps frame (modify (\<lambda>w. w\<lparr>ftp_sessions := f w\<rparr>))"
  "keeps frame (modify (\<lambda>w. w\<lparr>scp_sessions := f w\<rparr>))"
  "keeps frame (modify (\<lambda>w. w\<lparr>tftp_sessions := f w\<rparr>))"
  "keeps frame (modify (\<lambda>w. w\<lparr>st_ftp_handler := g\<rparr>))"
  "keeps frame (modify (\<lambda>w. w\<lparr>st_scp_handler := h\<rparr>))"
  "keeps frame (modify (\<lambda>w. w\<lparr>st_tftp_handler := k\<rparr>))"
  by (rule frame_same; simp add: run_simps)+

lemma frame_attempts [framed]:
  "keeps frame (ftp_read_once svc fh p)" "keeps frame (ftp_delete_once svc fh p)"
  "keeps frame (scp_read_once svc sh p)" "keeps frame (scp_delete_once svc sh p)"
  "keeps frame (tftp_read_once svc th p)"
  unfolding ftp_read_once_def ftp_delete_once_def FTPHandler_session_def ftp_connect_def is_session_alive_def
    ftp_error_def scp_read_once_def scp_delete_once_def SCPHandler_session_def scp_error_def
    tftp_read_once_def TFTPHandler_session_def
  by (intro framed)+

lemma frame_file_methods:
  assumes "retriers_law rts"
  shows "keeps frame (FTPHandler_read_file (rt_str rts) svc fh p)"
    "keeps frame (FTPHandler_delete_file (rt_unit rts) svc fh p)"
    "keeps frame (SCPHandler_read_file (rt_str rts) svc sh p)"
    "keeps frame (SCPHandler_delete_file (rt_unit rts) svc sh p)"
    "keeps frame (TFTPHandler_read_file (rt_str rts) svc th p)"
    "keeps frame (TFTPHandler_delete_file (rt_unit rts) svc th p)"
proof -
  have "retrying_law (rt_str rts)" "retrying_law (rt_unit rts)"
    using assms by (simp_all add: retriers_law_def)
  note laws = this [THEN frame_retry]
  show "keeps frame (FTPHandler_read_file (rt_str rts) svc fh p)"
    "keeps frame (FTPHandler_delete_file (rt_unit rts) svc fh p)"
    "keeps frame (SCPHandler_read_file (rt_str rts) svc sh p)"
    "keeps frame (SCPHandler_delete_file (rt_unit rts) svc sh p)"
    "keeps frame (TFTPHandler_read_file (rt_str rts) svc th p)"
    "keeps frame (TFTPHandler_delete_file (rt_unit rts) svc th p)"
    unfolding file_methods attempt_numbers ten
    by (rule laws frame_attempts framing.keeps_ret)+
qed

lemma frame_option_case:
  "keeps frame a \<Longrightarrow> (\<And>x. keeps frame (b x)) \<Longrightarrow> keeps frame (case o' of None \<Rightarrow> a | Some x \<Rightarrow> b x)"
  by (cases o') simp_all

lemma frame_lazy_handler:
  assumes "keeps frame creation" and "\<And>h. keeps frame (modify (fput h))"
  shows "keeps frame (lazy_handler fget fput creation)"
  unfolding lazy_handler_def
  by (rule framing.keeps_bnd framing.keeps_get_state frame_option_case framing.keeps_ret framing.keeps_andthen assms)+

lemma frame_server_handlers [framed]:
  "keeps frame HandlerStorage_ftp_handler" "keeps frame HandlerStorage_scp_handler"
  "keeps frame HandlerStorage_tftp_handler"
  unfolding HandlerStorage_ftp_handler_def HandlerStorage_scp_handler_def HandlerStorage_tftp_handler_def
    FTPHandler_new_def SCPHandler_new_def TFTPHandler_new_def
  by (rule frame_lazy_handler; intro framed frame_option_case)+

lemma frame_server:
  assumes "retriers_law rts"
  shows "keeps frame (server_read_file s rts svc name)" "keeps frame (server_delete_file s rts svc name)"
  unfolding server_read_file_def server_delete_file_def
  by (cases s; simp; intro framed frame_option_case frame_file_methods [OF assms])+

lemma frame_server_path [framed]: "keeps frame (server_path s)"
  unfolding server_path_def by (auto split: file_server.splits option.splits intro!: framed)

lemma frame_artifact [framed]: "keeps frame (artifact_identifier svc info)"
  unfolding artifact_identifier_def by (intro framed) (auto split: json.splits intro!: framed)

subsection \<open>Tests\<close>

lemma frame_assertions [framed]:
  "keeps frame (assert_true shown b)" "keeps frame (assert_in a container)"
  "keeps frame m \<Longrightarrow> keeps frame (assert_raises_regex c n f p m)"
  "keeps frame m \<Longrightarrow> keeps frame (assert_session_error m)"
  "keeps frame m \<Longrightarrow> keeps frame (assert_connection_error m)"
  "keeps frame m \<Longrightarrow> keeps frame (ignore m)"
  "keeps frame (missing_attr name)"
  unfolding assert_true_def assert_in_def assert_raises_regex_def assert_session_error_def
    assert_connection_error_def ignore_def missing_attr_def
  by (intro framed; assumption?)+

lemma frame_known_resources:
  assumes "orders_ok svc" and "retriers_law rts"
  shows "keeps frame (HandlerStorage_resource_handlers depth rts svc)"
proof (rule keepsI)
  fix w
  show "frame w (snd (HandlerStorage_resource_handlers depth rts svc w))"
    using stable_resource_handlers [OF assms, of depth]
    by (cases "st_resource_handlers w")
       (simp_all add: frame_def keeps_def HandlerStorage_resource_handlers_def resources.later_access stability.R_refl)
qed

lemma frame_connectivity:
  assumes "orders_ok svc" and "retriers_law rts"
  shows "keeps frame (TestConnectivity_test_connectivity depth rts svc i)"
  unfolding TestConnectivity_test_connectivity_def TestConnectivity_connect_def check_autoloaded_def
    TestConnectivity_get_other_device_for_connectivity_def SandboxHandler_add_physical_connection_def
    SandboxHandler_connect_ports_with_connector_def SandboxHandler_remove_connector_def
    CloudShellHandler_add_physical_connection_def CloudShellHandler_connect_ports_with_connector_def
    CloudShellHandler_remove_connector_def SandboxHandler_add_resource_to_reservation_def
    SandboxHandler_remove_resource_from_reservation_def CloudShellHandler_add_resource_to_reservation_def
    CloudShellHandler_remove_resource_from_reservation_def ResourceHandler_set_sandbox_handler_def
  by (intro framed frame_known_resources [OF assms])
     (auto split: prod.splits list.splits intro!: framed frame_known_resources [OF assms])

lemma frame_generic_tests:
  assumes "retriers_law rts"
  shows "keeps frame (save_test s t depth rts svc i)" "keeps frame (orchestration_save_test s m depth rts svc i)"
    "keeps frame (restore_test s t r depth rts svc i)" "keeps frame (orchestration_restore_test s depth rts svc i)"
    "keeps frame (save_without_device_test t depth rts svc i)"
    "keeps frame (restore_without_device_test t r depth rts svc i)"
    "keeps frame (check_structure port svc i)"
  unfolding save_test_def orchestration_save_test_def restore_test_def orchestration_restore_test_def
    check_and_delete_def save_without_device_test_def restore_without_device_test_def check_structure_def
  by (intro framed frame_server [OF assms])+

lemma frame_load_config [framed]: "keeps frame (TestLoadConfig_test_load_config depth rts svc i)"
  unfolding TestLoadConfig_test_load_config_def
  by (intro framed) (auto split: exn.splits intro!: framed)

lemmas test_body_defs =
  TestAutoloadNetworkDevices_test_structure_def
  TestAutoloadWithoutPorts_test_autoload_def
  TestAutoloadTrafficGeneratorDevices_test_structure_def
  TestAutoloadWithoutDevice_test_structure_def
  TestAutoloadVirtualTrafficGeneratorDevices_test_structure_def
  TestAutoloadShellFromTemplate_test_execute_without_error_def
  TestRunCustomCommand_test_run_custom_command_def
  TestRunCustomCommand_test_run_custom_config_command_def
  TestRunCustomCommandWithoutDevice_test_run_custom_command_def
  TestRunCustomCommandWithoutDevice_test_run_custom_config_command_def
  TestRunCustomCommandShellFromTemplate_test_run_custom_config_command_def
  TestRunCustomCommandShellFromTemplate_test_run_custom_command_def
  TestSaveConfig_test_save_running_config_def
  TestSaveConfig_test_save_startup_config_def
  TestSaveConfig_test_orchestration_save_shallow_def
  TestSaveConfig_test_orchestration_save_deep_def
  TestSaveConfigFromScp_test_save_running_config_def
  TestSaveConfigFromScp_test_save_startup_config_def
  TestSaveConfigFromScp_test_orchestration_save_shallow_def
  TestSaveConfigFromScp_test_orchestration_save_deep_def
  TestSaveConfigFromTftp_test_save_running_config_def
  TestSaveConfigFromTftp_test_save_startup_config_def
  TestSaveConfigFromTftp_test_orchestration_save_shallow_def
  TestSaveConfigFromTftp_test_orchestration_save_deep_def
  TestSaveConfigWithoutDevice_test_save_running_config_def
  TestSaveConfigWithoutDevice_test_save_startup_config_def
  TestSaveConfigWithoutDevice_test_orchestration_save_shallow_def
  TestSaveConfigWithoutDevice_test_orchestration_save_deep_def
  TestSaveConfigFromTemplate_test_save_running_config_def
  TestSaveConfigFromTemplate_test_orchestration_save_deep_def
  TestSaveConfigFromTemplate_test_orchestration_save_shallow_def
  TestRestoreConfig_test_restore_running_config_append_def
  TestRestoreConfig_test_restore_startup_config_append_def
  TestRestoreConfig_test_restore_running_config_override_def
  TestRestoreConfig_test_restore_startup_config_override_def
  TestRestoreConfig_test_orchestration_restore_def
  TestRestoreConfigFromScp_test_restore_running_config_append_def
  TestRestoreConfigFromScp_test_restore_startup_config_append_def
  TestRestoreConfigFromScp_test_restore_running_config_override_def
  TestRestoreConfigFromScp_test_restore_startup_config_override_def
  TestRestoreConfigFromScp_test_orchestration_restore_def
  TestRestoreConfigFromTftp_test_restore_running_config_append_def
  TestRestoreConfigFromTftp_test_restore_startup_config_append_def
  TestRestoreConfigFromTftp_test_restore_running_config_override_def
  TestRestoreConfigFromTftp_test_restore_startup_config_override_def
  TestRestoreConfigFromTftp_test_orchestration_restore_def
  TestRestoreConfigWithoutDevice_test_restore_running_config_append_def
  TestRestoreConfigWithoutDevice_test_restore_startup_config_append_def
  TestRestoreConfigWithoutDevice_test_restore_running_config_override_def
  TestRestoreConfigWithoutDevice_test_restore_startup_config_override_def
  TestRestoreConfigWithoutDevice_test_orchestration_restore_def
  TestRestoreConfigFromTemplate_test_restore_running_config_append_def
  TestRestoreConfigFromTemplate_test_orchestration_restore_def
  TestStartTraffic_test_start_traffic_def
  TestStopTraffic_test_stop_traffic_def
  TestGetStatistics_test_get_statistics_def
  TestGetTestFile_test_get_test_file_def
  TestLoadConfigWithoutDevice_test_load_config_def
  TestStartTrafficWithoutDevice_test_start_traffic_def
  TestStopTrafficWithoutDevice_test_stop_traffic_def
  TestGetStatisticsWithoutDevice_test_get_statistics_def
  TestGetTestFileWithoutDevice_test_get_test_file_def

lemma frame_test_body:
  assumes "orders_ok svc" and "retriers_law rts" and "map_of (test_methods c) name = Some body"
  shows "keeps frame (body depth rts svc i)"
proof -
  have "list_all (\<lambda>(n, b). keeps frame (b depth rts svc i)) (test_methods c)"
    by (cases c; simp add: test_body_defs; intro conjI framed frame_generic_tests [OF assms(2)]
        frame_connectivity [OF assms(1,2)])
  with assms(3) show ?thesis by (auto simp: list_all_iff dest: map_of_SomeD)
qed

lemma frame_set_up [framed]: "keeps frame (set_up c)"
  unfolding set_up_def BaseControllerTestCase_setUp_def by (intro framed)

lemma frame_decorated:
  "keeps frame m \<Longrightarrow> keeps frame (BaseTestCase_add_decorator_for_expect_failed_func svc c n conf m)"
  unfolding BaseTestCase_add_decorator_for_expect_failed_func_def BaseTestCase_expect_failure_def
  by (intro framed frame_option_case)

lemma frame_run_test:
  assumes "orders_ok svc" and "retriers_law rts"
  shows "keeps frame (run_test depth rts svc i t)"
proof -
  have body: "keeps frame (case map_of (test_methods (fst t)) (snd t) of None \<Rightarrow> missing_attr (snd t)
      | Some body \<Rightarrow> body depth rts svc i)"
    using frame_test_body [OF assms, of "fst t" "snd t"] by (auto split: option.splits intro: framed)
  show ?thesis
    unfolding run_test_def BaseResourceServiceTestCase_callTestMethod_def BaseTestCase_callTestMethod_def
    by (intro framed frame_decorated body)
qed

lemma frame_run_test_suite:
  assumes "orders_ok svc" and "retriers_law rts"
  shows "keeps frame (run_test_suite depth rts svc i suite)"
  unfolding run_test_suite_def test_outcome_def by (intro framed frame_run_test [OF assms])

lemma frame_get_test_suite [framed]: "keeps frame (get_test_suite svc i)"
  unfolding get_test_suite_def item_def by (intro framed frame_option_case)

lemma frame_run_resource_tests:
  assumes "orders_ok svc" and "retriers_law rts"
  shows "keeps frame (RunTestsForSandbox_run_resource_tests depth rts svc h)"
  unfolding RunTestsForSandbox_run_resource_tests_def
  by (intro framed frame_run_test_suite [OF assms]) (auto split: prod.splits intro!: framed)

lemma frame_is_stop_set [framed]: "keeps frame RunTestsForSandbox_is_stop_set"
  unfolding RunTestsForSandbox_is_stop_set_def by (intro framed)

end
