(* ===== verification/Run_Laws.thy ===== *)
theory Run_Laws
  imports Run_Frame
begin

text \<open>
  What the run of one sandbox guarantees: every tested resource is in its report, and a host that does not
  answer stops the run before anything is created.
\<close>

section \<open>Reports of the resources\<close>

text \<open>What identifies a resource in a report, and the resources that are tested.\<close>

definition report_key :: "resource_report \<Rightarrow> string option \<times> device_type" where
  "report_key r = (rr_ip r, rr_device_type r)"

definition conf_key :: "resource_config \<Rightarrow> string option \<times> device_type" where
  "conf_key c = (rc_device_ip c, ResourceHandler_device_type c)"

definition tested :: "resource_config \<Rightarrow> bool" where
  "tested c \<longleftrightarrow> run_tests (rc_tests_conf c)"

definition with_reports :: "resource_report list \<Rightarrow> sandbox_report \<Rightarrow> sandbox_report" where
  "with_reports rs sr = sr\<lparr>sbr_resources_reports := sbr_resources_reports sr @ rs\<rparr>"

lemma with_reports_simps [simp]:
  "with_reports [] sr = sr" "with_reports rs (with_reports qs sr) = with_reports (qs @ rs) sr"
  "add_resource_report r sr = with_reports [r] sr"
  by (simp_all add: with_reports_def add_resource_report_def)

text \<open>A step that stays in the frame but for reports it adds.\<close>

definition adds_reports :: "resource_report list \<Rightarrow> 'x report_world_scheme \<Rightarrow> 'x report_world_scheme \<Rightarrow> bool" where
  "adds_reports rs w w' \<longleftrightarrow>
     frame w (w'\<lparr>open_report := open_report w\<rparr>) \<and> open_report w' = with_reports rs (open_report w)"

lemma adds_none: "st_resource_handlers w \<noteq> None \<Longrightarrow> frame w w' \<Longrightarrow> adds_reports [] w w'"
  by (auto simp: adds_reports_def frame_def stable_def)

lemma adds_trans:
  "st_resource_handlers w \<noteq> None \<Longrightarrow> adds_reports rs w w' \<Longrightarrow> adds_reports qs w' w'' \<Longrightarrow> adds_reports (rs @ qs) w w''"
  by (auto simp: adds_reports_def frame_def stable_def)

lemma adds_known: "adds_reports rs w w' \<Longrightarrow> st_resource_handlers w \<noteq> None \<Longrightarrow> st_resource_handlers w' \<noteq> None"
  by (auto simp: adds_reports_def frame_def stable_def)

lemma adds_confs: "adds_reports rs w w' \<Longrightarrow> st_resource_handlers w \<noteq> None \<Longrightarrow>
    map rh_conf (resource_objs w') = map rh_conf (resource_objs w)"
  by (auto simp: adds_reports_def frame_def stable_def)

lemma conf_of_same:
  assumes "map rh_conf (resource_objs w') = map rh_conf (resource_objs w)" and "h < length (resource_objs w)"
  shows "rh_conf (resource_objs w' ! h) = rh_conf (resource_objs w ! h)" "h < length (resource_objs w')"
proof -
  have len: "length (resource_objs w') = length (resource_objs w)"
    using assms(1) by (metis length_map)
  then show "h < length (resource_objs w')" using assms(2) by simp
  then show "rh_conf (resource_objs w' ! h) = rh_conf (resource_objs w ! h)"
    using assms by (metis nth_map)
qed

lemma run_resource_tests_report:
  assumes "orders_ok svc" and "retriers_law rts" and "st_resource_handlers w \<noteq> None" and "h < length (resource_objs w)"
    and "RunTestsForSandbox_run_resource_tests depth rts svc h w = (Inr r, w')"
  shows "report_key r = conf_key (rh_conf (resource_objs w ! h))"
proof -
  obtain suite w1 ok out w2 where
    s: "get_test_suite svc h w = (Inr suite, w1)"
    and t: "run_test_suite depth rts svc h suite w1 = (Inr (ok, out), w2)"
    and r: "report_key r = conf_key (rh_conf (resource_objs w2 ! h))"
    using assms(5) unfolding RunTestsForSandbox_run_resource_tests_def
    by (auto simp: bnd_eq_Inr rh_run ret_run report_key_def conf_key_def split: prod.splits)
  have "frame w w1" using frame_get_test_suite s by (rule keepsD)
  moreover have "frame w1 w2" using frame_run_test_suite [OF assms(1,2)] t by (rule keepsD)
  ultimately have "frame w w2" by (rule framing.R_trans)
  then have "map rh_conf (resource_objs w2) = map rh_conf (resource_objs w)"
    using assms(3) by (simp add: frame_def)
  from conf_of_same(1) [OF this assms(4)] show ?thesis using r by simp
qed

text \<open>The statement adds reports with the given keys if it returns, and some reports if it raises.\<close>

definition reports_of :: "(string option \<times> device_type) list \<Rightarrow> ('x, 'a) repio \<Rightarrow> 'x report_world_scheme \<Rightarrow> bool" where
  "reports_of ks m w \<longleftrightarrow>
     (\<forall>r w'. m w = (r, w') \<longrightarrow> (\<exists>rs. adds_reports rs w w' \<and> ((\<exists>x. r = Inr x) \<longrightarrow> map report_key rs = ks)))"

lemma reports_ofD:
  "reports_of ks m w \<Longrightarrow> m w = (r, w') \<Longrightarrow>
     \<exists>rs. adds_reports rs w w' \<and> ((\<exists>x. r = Inr x) \<longrightarrow> map report_key rs = ks)"
  by (simp add: reports_of_def)

lemma reports_of_frame: "keeps frame m \<Longrightarrow> st_resource_handlers w \<noteq> None \<Longrightarrow> reports_of [] m w"
  by (fastforce simp: reports_of_def dest: keepsD intro: adds_none)

lemma reports_of_add: "reports_of [report_key r] (modify (\<lambda>w. w\<lparr>open_report := add_resource_report r (open_report w)\<rparr>)) w"
  by (auto simp: reports_of_def run_simps adds_reports_def frame_def stable_def intro!: exI [of _ "[r]"])

lemma reports_of_bnd:
  assumes "reports_of js m w" and known: "st_resource_handlers w \<noteq> None"
    and "\<And>x w1 rs. m w = (Inr x, w1) \<Longrightarrow> adds_reports rs w w1 \<Longrightarrow> reports_of ks (k x) w1"
  shows "reports_of (js @ ks) (bnd m k) w"
  unfolding reports_of_def
proof (intro allI impI)
  fix r w'
  assume run: "bnd m k w = (r, w')"
  obtain q w1 where m: "m w = (q, w1)" by (cases "m w")
  from reports_ofD [OF assms(1) m] obtain rs where rs: "adds_reports rs w w1"
    "(\<exists>x. q = Inr x) \<longrightarrow> map report_key rs = js" by blast
  show "\<exists>rs. adds_reports rs w w' \<and> ((\<exists>x. r = Inr x) \<longrightarrow> map report_key rs = js @ ks)"
  proof (cases q)
    case (Inl e)
    with run m rs(1) show ?thesis by (auto simp: run_simps)
  next
    case (Inr x)
    with run m have "k x w1 = (r, w')" by (simp add: run_simps)
    from reports_ofD [OF assms(3) [OF m [unfolded Inr] rs(1)] this] obtain qs where
      "adds_reports qs w1 w'" "(\<exists>y. r = Inr y) \<longrightarrow> map report_key qs = ks" by blast
    with rs Inr known show ?thesis by (intro exI [of _ "rs @ qs"]) (auto intro: adds_trans)
  qed
qed

lemmas reports_of_andthen = reports_of_bnd [where k = "\<lambda>_. n" for n, folded andthen_def]

lemma reports_of_after:
  assumes "keeps frame m" and known: "st_resource_handlers w \<noteq> None"
    and "\<And>x w1. adds_reports [] w w1 \<Longrightarrow> reports_of ks (k x) w1"
  shows "reports_of ks (bnd m k) w"
proof -
  have "reports_of ([] @ ks) (bnd m k) w"
    using reports_of_frame [OF assms(1) known] known
  proof (rule reports_of_bnd)
    fix x w1
    assume "m w = (Inr x, w1)"
    with assms(1) have "frame w w1" by (rule keepsD)
    then show "reports_of ks (k x) w1" by (intro assms(3) adds_none known)
  qed
  then show ?thesis by simp
qed

lemmas reports_of_andthen_after = reports_of_after [where k = "\<lambda>_. n" for n, folded andthen_def]

lemma stop_run: "RunTestsForSandbox_is_stop_set w = (if stop_flag w then Inl KeyboardInterrupt else Inr (), w)"
  by (simp add: RunTestsForSandbox_is_stop_set_def run_simps)

abbreviation tests_then_teardown where
  "tests_then_teardown depth rts svc h conf \<equiv>
     bnd (RunTestsForSandbox_run_resource_tests depth rts svc h) (\<lambda>r.
       andthen (modify (\<lambda>w. w\<lparr>open_report := add_resource_report r (open_report w)\<rparr>))
         (andthen RunTestsForSandbox_is_stop_set
           (ResourceHandler_run_resource_commands svc h (rc_teardown_commands conf))))"

abbreviation tests_or_autoload where
  "tests_or_autoload depth rts svc h conf \<equiv>
     (if run_tests (rc_tests_conf conf) then tests_then_teardown depth rts svc h conf
      else try_except (ResourceHandler_autoload_if_needed svc h) (\<lambda>e. if is_Exception e then ret () else raise_exn e))"

lemma tests_then_teardown_reports:
  assumes laws: "orders_ok svc" "retriers_law rts" and known: "st_resource_handlers w \<noteq> None" and h: "h < length (resource_objs w)"
  shows "reports_of [conf_key (rh_conf (resource_objs w ! h))] (tests_then_teardown depth rts svc h conf) w"
proof -
  let ?key = "conf_key (rh_conf (resource_objs w ! h))"
  have "reports_of ([] @ [?key]) (tests_then_teardown depth rts svc h conf) w"
  proof (rule reports_of_bnd [OF reports_of_frame [OF frame_run_resource_tests [OF laws] known] known])
    fix r w2 rs
    assume run: "RunTestsForSandbox_run_resource_tests depth rts svc h w = (Inr r, w2)" and "adds_reports rs w w2"
    then have k2: "st_resource_handlers w2 \<noteq> None" using adds_known known by blast
    have "reports_of ([report_key r] @ []) (andthen (modify (\<lambda>w. w\<lparr>open_report := add_resource_report r (open_report w)\<rparr>))
        (andthen RunTestsForSandbox_is_stop_set
          (ResourceHandler_run_resource_commands svc h (rc_teardown_commands conf)))) w2"
      using reports_of_add [of r w2] k2
      by (intro reports_of_andthen reports_of_frame framed) (auto dest: adds_known)
    then show "reports_of [?key] (andthen (modify (\<lambda>w. w\<lparr>open_report := add_resource_report r (open_report w)\<rparr>))
        (andthen RunTestsForSandbox_is_stop_set
          (ResourceHandler_run_resource_commands svc h (rc_teardown_commands conf)))) w2"
      using run_resource_tests_report [OF laws known h run] by simp
  qed
  then show ?thesis by simp
qed

lemma tests_or_autoload_reports:
  assumes "orders_ok svc" and "retriers_law rts" and "st_resource_handlers w \<noteq> None" and "h < length (resource_objs w)"
    and "conf = rh_conf (resource_objs w ! h)"
  shows "reports_of (map conf_key (filter tested [conf])) (tests_or_autoload depth rts svc h conf) w"
  using tests_then_teardown_reports [OF assms(1-4), of depth conf] assms(3,5)
  by (auto simp: tested_def intro!: reports_of_frame framed)

lemma execute_resource_tests_run:
  "RunTestsForSandbox_execute_resource_tests depth rts svc h w =
     (if stop_flag w then (Inl KeyboardInterrupt, w)
      else andthen (ResourceHandler_run_resource_commands svc h (rc_setup_commands (rh_conf (resource_objs w ! h))))
        (andthen RunTestsForSandbox_is_stop_set (tests_or_autoload depth rts svc h (rh_conf (resource_objs w ! h)))) w)"
  by (simp add: RunTestsForSandbox_execute_resource_tests_def andthen_run [of RunTestsForSandbox_is_stop_set _ w]
      bnd_run [of "rh_get h rh_conf"] rh_run stop_run)

lemma execute_resource_tests_reports:
  assumes laws: "orders_ok svc" "retriers_law rts" and known: "st_resource_handlers w \<noteq> None" and h: "h < length (resource_objs w)"
  shows "reports_of (map conf_key (filter tested [rh_conf (resource_objs w ! h)]))
    (RunTestsForSandbox_execute_resource_tests depth rts svc h) w"
proof -
  let ?conf = "rh_conf (resource_objs w ! h)"
  have main: "reports_of (map conf_key (filter tested [?conf])) (tests_or_autoload depth rts svc h ?conf) w1"
    if "adds_reports [] w w1" for w1
    using conf_of_same [OF adds_confs [OF that known] h]
    by (intro tests_or_autoload_reports laws adds_known [OF that known]) simp_all
  have rest: "reports_of (map conf_key (filter tested [?conf]))
      (andthen (ResourceHandler_run_resource_commands svc h (rc_setup_commands ?conf))
        (andthen RunTestsForSandbox_is_stop_set (tests_or_autoload depth rts svc h ?conf))) w"
  proof (rule reports_of_andthen_after [OF frame_run_commands known])
    fix w1
    assume a1: "adds_reports [] w w1"
    show "reports_of (map conf_key (filter tested [?conf]))
        (andthen RunTestsForSandbox_is_stop_set (tests_or_autoload depth rts svc h ?conf)) w1"
    proof (rule reports_of_andthen_after [OF frame_is_stop_set adds_known [OF a1 known]])
      fix w2
      assume "adds_reports [] w1 w2"
      with adds_trans [OF known a1 this]
      show "reports_of (map conf_key (filter tested [?conf])) (tests_or_autoload depth rts svc h ?conf) w2"
        by (intro main) simp
    qed
  qed
  then show ?thesis
    using adds_none [OF known framing.R_refl] by (auto simp: reports_of_def execute_resource_tests_run)
qed

abbreviation conf_of :: "'x report_world_scheme \<Rightarrow> nat \<Rightarrow> resource_config" where
  "conf_of w h \<equiv> rh_conf (resource_objs w ! h)"

lemma run_all_reports:
  assumes "orders_ok svc" and "retriers_law rts" and "st_resource_handlers w \<noteq> None" and "\<forall>h \<in> set hs. h < length (resource_objs w)"
    and "run_all (map (RunTestsForSandbox_execute_resource_tests depth rts svc) hs) w = (qs, w')"
  shows "\<exists>rs. adds_reports rs w w' \<and> ((\<forall>q \<in> set qs. \<exists>x. q = Inr x) \<longrightarrow>
    map report_key rs = map conf_key (filter tested (map (conf_of w) hs)))"
  using assms(3-5)
proof (induction hs arbitrary: w qs)
  case Nil
  then show ?case by (intro exI [of _ "[]"]) (simp add: adds_none framing.R_refl)
next
  case (Cons h hs)
  obtain q w1 where m: "RunTestsForSandbox_execute_resource_tests depth rts svc h w = (q, w1)"
    by (cases "RunTestsForSandbox_execute_resource_tests depth rts svc h w")
  have "h < length (resource_objs w)" using Cons.prems(2) by simp
  from reports_ofD [OF execute_resource_tests_reports [OF assms(1,2) Cons.prems(1) this] m]
  obtain rs where rs: "adds_reports rs w w1"
    "(\<exists>x. q = Inr x) \<longrightarrow> map report_key rs = map conf_key (filter tested [conf_of w h])" by blast
  obtain qs' where qs': "run_all (map (RunTestsForSandbox_execute_resource_tests depth rts svc) hs) w1 = (qs', w')"
    and qs: "qs = q # qs'"
    using Cons.prems(3) m by (auto simp: Let_def split: prod.splits)
  note same = conf_of_same [OF adds_confs [OF rs(1) Cons.prems(1)]]
  have "\<forall>h \<in> set hs. h < length (resource_objs w1)" using same(2) Cons.prems(2) by simp
  from Cons.IH [OF adds_known [OF rs(1) Cons.prems(1)] this qs'] obtain rs' where rs': "adds_reports rs' w1 w'"
    "(\<forall>q \<in> set qs'. \<exists>x. q = Inr x) \<longrightarrow> map report_key rs' = map conf_key (filter tested (map (conf_of w1) hs))" by blast
  have "map (conf_of w1) hs = map (conf_of w) hs" using same(1) Cons.prems(2) by simp
  with rs rs' qs adds_trans [OF Cons.prems(1) rs(1) rs'(1)] show ?case
    by (intro exI [of _ "rs @ rs'"]) auto
qed

lemma dict_update_member:
  "dict_get (dict_update d ps) k = Some v \<Longrightarrow> (k, v) \<in> set ps \<or> dict_get d k = Some v"
proof (induction ps arbitrary: d)
  case Nil
  then show ?case by simp
next
  case (Cons p ps)
  from Cons.IH [of "dict_set (fst p) (snd p) d"] Cons.prems show ?case
    by (cases p) (auto simp: dict_update_def split: if_splits)
qed

lemma handlers_dict_member: "dict_get (get_handlers_dict name hs) k = Some h \<Longrightarrow> name h = k \<and> h \<in> set hs"
  using dict_update_member [of "[]" "map (\<lambda>h. (name h, h)) hs" k h] by (auto simp: get_handlers_dict_def dict_of_def)

lemma map_m_items:
  assumes "\<And>n. f n w = item d n w" and "map_m f names w = (Inr hs, w')"
  shows "w' = w \<and> list_all2 (\<lambda>n h. dict_get d n = Some h) names hs"
  using assms(2)
proof (induction names arbitrary: hs)
  case Nil
  then show ?case by (simp add: run_simps)
next
  case (Cons name names)
  have "f name w = (case dict_get d name of None \<Rightarrow> (Inl (KeyError (repr_str name)), w) | Some h \<Rightarrow> (Inr h, w))"
    by (simp add: assms(1) item_def run_simps split: option.splits)
  with Cons show ?case by (auto simp: run_simps split: option.splits prod.splits sum.splits)
qed

lemma resource_names_found:
  assumes "st_resource_handlers w = Some l"
    and "map_m (\<lambda>name. bnd (HandlerStorage_resource_handlers_dict depth rts svc) (\<lambda>d. item d name)) names w = (Inr hs, w')"
  shows "w' = w \<and> map (\<lambda>h. rc_name (conf_of w h)) hs = names \<and> set hs \<subseteq> set l"
proof -
  have one: "bnd (HandlerStorage_resource_handlers_dict depth rts svc) (\<lambda>d. item d name) w =
      item (get_handlers_dict (\<lambda>i. rc_name (conf_of w i)) l) name w" for name
    using assms(1)
    by (simp add: HandlerStorage_resource_handlers_dict_def HandlerStorage_resource_handlers_def
        resources.later_access run_simps)
  from map_m_items [OF one assms(2)] have w': "w' = w"
    and all: "list_all2 (\<lambda>n h. dict_get (get_handlers_dict (\<lambda>i. rc_name (conf_of w i)) l) n = Some h) names hs"
    by simp_all
  have "list_all2 (\<lambda>n h. rc_name (conf_of w h) = n \<and> h \<in> set l) names hs"
    using all by (rule list_all2_mono) (rule handlers_dict_member)
  then show ?thesis using w' by (induction rule: list_all2_induct) auto
qed

lemma for_each_results: "for_each rs of_result w = (r, w') \<Longrightarrow> w' = w \<and> (r = Inr () \<longrightarrow> (\<forall>q \<in> set rs. q = Inr ()))"
proof (induction rs)
  case Nil
  then show ?case by (simp add: run_simps)
next
  case (Cons q rs)
  then show ?case by (cases q) (auto simp: run_simps)
qed

lemma sandbox_resources:
  assumes "st_resource_handlers w = Some l"
    and "RunTestsForSandbox_resource_handlers depth rts svc sb w = (Inr hs, w')"
  shows "frame w w' \<and> map (\<lambda>h. rc_name (conf_of w h)) hs = sc_resource_names (sbh_conf sb) \<and> set hs \<subseteq> set l"
proof -
  let ?f = "\<lambda>name. bnd (HandlerStorage_resource_handlers_dict depth rts svc) (\<lambda>d. item d name)"
  let ?add = "\<lambda>h. bnd (rh_get h (\<lambda>o'. run_tests (rc_tests_conf (rh_conf o')))) (\<lambda>tested.
            if tested then SandboxHandler_add_resource_to_reservation svc sb h else ret ())"
  obtain w1 where m: "map_m ?f (sc_resource_names (sbh_conf sb)) w = (Inr hs, w1)"
    and add: "for_each hs ?add w1 = (Inr (), w')"
    using assms(2) unfolding RunTestsForSandbox_resource_handlers_def
    by (auto simp: bnd_eq_Inr andthen_def ret_run)
  have "keeps frame (for_each hs ?add)"
    unfolding SandboxHandler_add_resource_to_reservation_def CloudShellHandler_add_resource_to_reservation_def
      ResourceHandler_set_sandbox_handler_def
    by (intro framed)
  from keepsD [OF this add] resource_names_found [OF assms(1) m] show ?thesis by simp
qed

lemma executor_reports:
  assumes "retriers_law rts" and "orders_ok svc" and "st_resource_handlers w \<noteq> None"
    and "\<forall>h \<in> set hs. h < length (resource_objs w)"
    and "executor svc (map (RunTestsForSandbox_execute_resource_tests depth rts svc) hs) w = (Inr qs, w')"
    and "\<forall>q \<in> set qs. q = Inr ()"
  shows "\<exists>rs. adds_reports rs w w' \<and>
    mset (map report_key rs) = mset (map conf_key (filter tested (map (conf_of w) hs)))"
proof -
  let ?exec = "RunTestsForSandbox_execute_resource_tests depth rts svc"
  let ?is = "set_order svc (hist w) (length hs)"
  have mset_hs: "mset (permute ?is hs) = mset hs" by (intro mset_permute orders_ok_D assms(2))
  have perm: "permute ?is (map ?exec hs) = map ?exec (permute ?is hs)"
    using orders_ok_D(2) [OF assms(2), of "hist w" "length hs"] by (auto simp: permute_def)
  obtain ps where ps: "run_all (map ?exec (permute ?is hs)) w = (ps, w')"
    and qs: "qs = permute (set_order svc (hist w') (length hs)) ps"
    using assms(5) perm
    by (auto simp: executor_def executor_outcomes_def split: prod.splits if_splits)
  have "length ps = length hs"
    using run_all_length [of "map ?exec (permute ?is hs)" w] ps orders_ok_D(3) [OF assms(2)] by simp
  then have "set qs = set ps" unfolding qs using orders_ok_D(2) [OF assms(2)] by (intro set_permute) simp
  with assms(6) have ok: "\<forall>q \<in> set ps. \<exists>x. q = Inr x" by auto
  have "set (permute ?is hs) = set hs" using mset_hs by (metis set_mset_mset)
  with assms(4) have "\<forall>h \<in> set (permute ?is hs). h < length (resource_objs w)" by simp
  from run_all_reports [OF assms(2,1,3) this ps] ok obtain rs where rs: "adds_reports rs w w'"
    "map report_key rs = map conf_key (filter tested (map (conf_of w) (permute ?is hs)))" by blast
  from rs(2) mset_hs have "mset (map report_key rs) = mset (map conf_key (filter tested (map (conf_of w) hs)))"
    by simp
  with rs(1) show ?thesis by blast
qed

text \<open>C7. Every tested resource is reported. When the tests of a sandbox run through, on a storage that has its
  resources, exactly one report is added to the run; it bears the name of the sandbox, and its
  resource reports are, up to their order, one for each resource that the sandbox names and whose
  tests are not switched off, with the address and the type of device of the resource's configuration.\<close>

theorem every_tested_resource_is_reported:
  assumes "retriers_law rts" and "orders_ok svc"
    and "st_resource_handlers w = Some l" and "\<forall>h \<in> set l. h < length (resource_objs w)"
    and "RunTestsForSandbox_run depth rts svc sb w = (Inr (), w')"
  shows "\<exists>confs sr. map rc_name confs = sc_resource_names (sbh_conf sb) \<and>
    set confs \<subseteq> conf_of w ` set l \<and>
    sandboxes_reports (reports w') = sandboxes_reports (reports w) @ [sr] \<and>
    sbr_name sr = sc_name (sbh_conf sb) \<and>
    mset (map report_key (sbr_resources_reports sr)) = mset (map conf_key (filter tested confs))"
proof -
  let ?w0 = "w\<lparr>open_report := RunTestsForSandbox_run_sandbox_tests sb\<rparr>"
  obtain hs w1 qs w2 where hs: "RunTestsForSandbox_resource_handlers depth rts svc sb ?w0 = (Inr hs, w1)"
    and ex: "executor svc (map (RunTestsForSandbox_execute_resource_tests depth rts svc) hs) w1 = (Inr qs, w2)"
    and all: "\<forall>q \<in> set qs. q = Inr ()"
    and w': "w' = w2\<lparr>reports := (reports w2)\<lparr>sandboxes_reports := sandboxes_reports (reports w2) @ [open_report w2]\<rparr>\<rparr>"
    using assms(5) unfolding RunTestsForSandbox_run_def
    by (auto simp: bnd_eq_Inr andthen_def modify_run stop_run split: if_splits dest!: for_each_results)
  have l0: "st_resource_handlers ?w0 = Some l" using assms(3) by simp
  note res = sandbox_resources [OF l0 hs]
  then have f1: "adds_reports [] ?w0 w1" using l0 by (intro adds_none) auto
  have k0: "st_resource_handlers ?w0 \<noteq> None" using l0 by simp
  have bounds: "\<forall>h \<in> set hs. h < length (resource_objs ?w0)" using res assms(4) by auto
  note same = conf_of_same [OF adds_confs [OF f1 k0]]
  have b1: "\<forall>h \<in> set hs. h < length (resource_objs w1)" using same(2) bounds by blast
  from executor_reports [OF assms(1,2) adds_known [OF f1 k0] b1 ex all]
  obtain rs where rs: "adds_reports rs w1 w2"
    "mset (map report_key rs) = mset (map conf_key (filter tested (map (conf_of w1) hs)))" by blast
  have both: "adds_reports rs ?w0 w2" using adds_trans [OF k0 f1 rs(1)] by simp
  let ?confs = "map (conf_of w) hs"
  have "map (conf_of w1) hs = ?confs" using same(1) bounds by simp
  with rs(2) have "mset (map report_key rs) = mset (map conf_key (filter tested ?confs))" by (simp only:)
  moreover have "sbr_resources_reports (open_report w2) = rs" "sbr_name (open_report w2) = sc_name (sbh_conf sb)"
    using both
    by (simp_all add: adds_reports_def with_reports_def RunTestsForSandbox_run_sandbox_tests_def SandboxReport_new_def)
  moreover have "reports w2 = reports w" using both k0 by (simp add: adds_reports_def frame_def stable_def)
  moreover have "map rc_name ?confs = sc_resource_names (sbh_conf sb)" using res by (simp add: comp_def)
  moreover have "set ?confs \<subseteq> conf_of w ` set l" using res by auto
  ultimately show ?thesis
    using w' by (intro exI [of _ ?confs] exI [of _ "open_report w2"]) simp
qed

text \<open>The sandbox of the two autoloaded resources, of which the second is not tested.\<close>

definition report_state :: report_world where
  "report_state = run_world.extend
     (run_state\<lparr>stop_flag := False,
        resource_objs := [loaded_resource ''Cisco'', (loaded_resource ''Dut'')
          \<lparr>rh_conf := (rh_conf (loaded_resource ''Dut''))\<lparr>rc_tests_conf := (rc_tests_conf (rh_conf (loaded_resource ''Dut'')))\<lparr>run_tests := False\<rparr>\<rparr>\<rparr>]\<rparr>)
     (report_world.fields Reporting_new (SandboxReport_new [] True []))"

lemma report_example: "fst (RunTestsForSandbox_run 5 retriers_ref test_env two_sandbox report_state) = Inr ()"
  by code_simp

theorem every_tested_resource_is_reported_witness:
  "\<exists>sr. sandboxes_reports (reports (snd (RunTestsForSandbox_run 5 retriers_ref test_env two_sandbox report_state))) = [sr] \<and>
     sbr_name sr = sc_name (sbh_conf two_sandbox) \<and> mset (map report_key (sbr_resources_reports sr)) = {#conf_key (rh_conf (loaded_resource ''Cisco''))#}"
proof -
  obtain w' where run: "RunTestsForSandbox_run 5 retriers_ref test_env two_sandbox report_state = (Inr (), w')"
    using report_example by (metis prod.collapse)
  have orders: "orders_ok test_env"
    by (simp add: orders_ok_def test_env_def services.defs test_services.defs obliging_services_def)
  have state: "st_resource_handlers report_state = Some [0, 1]" "sandboxes_reports (reports report_state) = []"
    "length (resource_objs report_state) = 2"
    by (simp_all add: report_state_def run_state_def test_state_def run_world.defs report_world.defs storage.defs Reporting_new_def)
  have confs: "conf_of report_state 0 = rh_conf (loaded_resource ''Cisco'')" "\<not> tested (conf_of report_state 1)"
      "rc_name (conf_of report_state 1) = ''Dut''"
    by (simp_all add: report_state_def run_state_def run_world.defs report_world.defs storage.defs tested_def loaded_resource_def)
  have cisco: "tested (rh_conf (loaded_resource ''Cisco''))" "rc_name (rh_conf (loaded_resource ''Cisco'')) = ''Cisco''"
    by code_simp+
  have inside: "\<forall>h \<in> set [0, 1]. h < length (resource_objs report_state)" using state(3) by simp
  have names: "sc_resource_names (sbh_conf two_sandbox) = [''Cisco'', ''Dut'']" by (simp add: two_sandbox_def)
  from every_tested_resource_is_reported [OF retriers_ref_law orders state(1) inside run] obtain cs sr where
    cs: "map rc_name cs = [''Cisco'', ''Dut'']" "set cs \<subseteq> conf_of report_state ` set [0, 1]"
    and sr: "sandboxes_reports (reports w') = [sr]" "sbr_name sr = sc_name (sbh_conf two_sandbox)"
      "mset (map report_key (sbr_resources_reports sr)) = mset (map conf_key (filter tested cs))"
    unfolding names state(2) append_Nil by (elim exE conjE) (rule that)
  have "cs = [conf_of report_state 0, conf_of report_state 1]"
    using cs confs cisco by (auto simp: map_eq_Cons_conv)
  with confs cisco have "filter tested cs = [conf_of report_state 0]" by simp
  with sr run confs(1) show ?thesis by auto
qed

section \<open>Hosts that do not answer\<close>

text \<open>Hosts whose answer to a ping does not change during the check.\<close>

definition pings :: "'e services_scheme \<Rightarrow> (string \<Rightarrow> bool) \<Rightarrow> bool" where
  "pings svc alive \<longleftrightarrow>
     (\<forall>h host. rep_unit svc h (Host (Ping host)) = (if alive host then Inr () else Inl (CalledProcessError [])))"

lemma is_host_alive_run:
  assumes "pings svc alive"
  shows "is_host_alive svc host w = (Inr (alive host), w\<lparr>hist := hist w @ [Host (Ping host)]\<rparr>)"
  using assms by (simp add: pings_def is_host_alive_def run_simps)

lemma check_hosts_course:
  assumes "pings svc alive" and "\<not> alive host" and "\<forall>(n, h) \<in> set pre. alive h"
  shows "for_each (pre @ (name, host) # post) (\<lambda>(name, host). bnd (is_host_alive svc host) (\<lambda>ok.
      if \<not> ok then raise_exn (ResourceIsNotAliveError (name @ '' ('' @ host @ '') is not alive, check it'')) else ret ())) w =
    (Inl (ResourceIsNotAliveError (name @ '' ('' @ host @ '') is not alive, check it'')),
     w\<lparr>hist := hist w @ map (\<lambda>(n, h). Host (Ping h)) (pre @ [(name, host)])\<rparr>)"
  using assms(3)
proof (induction pre arbitrary: w)
  case Nil
  show ?case using assms(2) by (simp add: run_simps is_host_alive_run [OF assms(1)])
next
  case (Cons p pre)
  then show ?case by (cases p) (simp add: run_simps is_host_alive_run [OF assms(1)])
qed

text \<open>C16. A host that does not answer stops the run. The hosts of the resources, of the file servers and of
  CloudShell are pinged in order; at the first one that does not answer the run raises the error that names
  it, and the pings up to that one are all that has happened: nothing was created, and the state is the one
  before the run.\<close>

theorem dead_host_stops_run:
  assumes "pings svc alive" and "resources_to_check (main_conf w) = Inr (pre @ (name, host) # post)"
    and "\<forall>(n, h) \<in> set pre. alive h" and "\<not> alive host"
  shows "AutomatedTestsRunner_run rt depth rts svc w =
    (Inl (ResourceIsNotAliveError (name @ '' ('' @ host @ '') is not alive, check it'')),
     w\<lparr>hist := hist w @ map (\<lambda>(n, h). Host (Ping h)) (pre @ [(name, host)])\<rparr>)"
  using assms(2) check_hosts_course [OF assms(1,4,3), of name post w]
  by (simp add: AutomatedTestsRunner_run_def check_all_resources_is_alive_def run_simps)

text \<open>The FTP server of the configuration answers, the Do portal does not.\<close>

definition dead_env :: run_services where
  "dead_env = test_services.extend
     (test_env\<lparr>rep_unit := (\<lambda>h ev. case ev of Host (Ping a) \<Rightarrow>
        (if a \<noteq> ''192.168.1.3'' then Inr () else Inl (CalledProcessError [])) | _ \<Rightarrow> Inr ())\<rparr>)
     (run_services.fields (\<lambda>h. True) (\<lambda>es. []) 0 ''package_api'')"

definition portal_state :: report_world where
  "portal_state = report_state\<lparr>main_conf := run_config\<lparr>do_conf := Some do_conf_example\<rparr>\<rparr>"

lemma portal_hosts: "resources_to_check (run_config\<lparr>do_conf := Some do_conf_example\<rparr>) =
    Inr ([(''FTP'', ''192.168.42.102'')] @ (''Do'', ''192.168.1.3'') # [])"
  by code_simp

theorem dead_host_stops_run_witness:
  "AutomatedTestsRunner_run retry_ref 5 retriers_ref dead_env portal_state =
     (Inl (ResourceIsNotAliveError ''Do (192.168.1.3) is not alive, check it''),
      portal_state\<lparr>hist := hist portal_state @ [Host (Ping ''192.168.42.102''), Host (Ping ''192.168.1.3'')]\<rparr>)"
proof -
  have "pings dead_env (\<lambda>a. a \<noteq> ''192.168.1.3'')"
    by (simp add: pings_def dead_env_def test_services.defs run_services.defs)
  moreover have "resources_to_check (main_conf portal_state) =
      Inr ([(''FTP'', ''192.168.42.102'')] @ (''Do'', ''192.168.1.3'') # [])"
    using portal_hosts by (simp add: portal_state_def)
  ultimately show ?thesis
    using dead_host_stops_run [of dead_env "\<lambda>a. a \<noteq> ''192.168.1.3''" portal_state "[(''FTP'', ''192.168.42.102'')]"
        "''Do''" "''192.168.1.3''" "[]" retry_ref 5 retriers_ref]
    by simp
qed

end
