(* ===== verification/Run_Course.thy ===== *)
theory Run_Course
  imports Run_Laws
begin

text \<open>
  The course of a whole run: the sandboxes of the configuration are created, tested and reported, and ended. The
  stages are those of \<^verbatim>\<open>run_tests.py\<close>; each of them stays in the frame of a sandbox but for what it adds.
\<close>

section \<open>The tests of a sandbox\<close>

lemma stable_add_report: "keeps stable (modify (\<lambda>w. w\<lparr>open_report := add_resource_report r (open_report w)\<rparr>))"
  by (rule stable_same) (simp_all add: run_simps with_reports_def)

lemma stable_execute_resource_tests:
  assumes "orders_ok svc" and "retriers_law rts"
  shows "keeps stable (RunTestsForSandbox_execute_resource_tests depth rts svc h)"
proof -
  note tests = frame_is_stop_set [THEN stable_of_frame] frame_run_commands [THEN stable_of_frame]
    frame_run_resource_tests [OF assms, THEN stable_of_frame] frame_autoload_if_needed [THEN stable_of_frame]
  show ?thesis
    unfolding RunTestsForSandbox_execute_resource_tests_def by (intro steady tests stable_add_report)
qed

lemma stable_sandbox_resources:
  assumes "orders_ok svc" and "retriers_law rts"
  shows "keeps stable (RunTestsForSandbox_resource_handlers depth rts svc sb)"
proof -
  have "keeps stable (SandboxHandler_add_resource_to_reservation svc sb h)" for h
    unfolding SandboxHandler_add_resource_to_reservation_def CloudShellHandler_add_resource_to_reservation_def
      ResourceHandler_set_sandbox_handler_def rh_upd_def
    by (intro steady)
  then show ?thesis
    unfolding RunTestsForSandbox_resource_handlers_def HandlerStorage_resource_handlers_dict_def item_def
    by (intro steady stable_resource_handlers [OF assms] stable_option_case)
qed

text \<open>A step that adds reports of sandboxes with these names.\<close>

definition reported :: "string list \<Rightarrow> 'x report_world_scheme \<Rightarrow> 'x report_world_scheme \<Rightarrow> bool" where
  "reported names w w' \<longleftrightarrow>
     (\<exists>srs. map sbr_name srs = names \<and> sandboxes_reports (reports w') = sandboxes_reports (reports w) @ srs) \<and>
     st_sandbox_handlers w' = st_sandbox_handlers w \<and> (\<exists>es. hist w' = hist w @ es)"

lemma reported_none: "reported [] w w"
  by (simp add: reported_def)

lemma reported_trans: "reported xs w w1 \<Longrightarrow> reported ys w1 w2 \<Longrightarrow> reported (xs @ ys) w w2"
  unfolding reported_def by (metis append_assoc map_append)

lemma sandbox_run_reported:
  assumes "orders_ok svc" and "retriers_law rts" and "RunTestsForSandbox_run depth rts svc sb w = (Inr (), w')"
  shows "reported [sc_name (sbh_conf sb)] w w'"
proof -
  let ?w0 = "w\<lparr>open_report := RunTestsForSandbox_run_sandbox_tests sb\<rparr>"
  obtain hs w1 qs w2 where hs: "RunTestsForSandbox_resource_handlers depth rts svc sb ?w0 = (Inr hs, w1)"
    and ex: "executor svc (map (RunTestsForSandbox_execute_resource_tests depth rts svc) hs) w1 = (Inr qs, w2)"
    and w': "w' = w2\<lparr>reports := (reports w2)\<lparr>sandboxes_reports := sandboxes_reports (reports w2) @ [open_report w2]\<rparr>\<rparr>"
    using assms(3) unfolding RunTestsForSandbox_run_def
    by (auto simp: bnd_eq_Inr andthen_def modify_run stop_run split: if_splits dest!: for_each_results)
  have "stable ?w0 w1" using stable_sandbox_resources [OF assms(1,2)] hs by (rule keepsD)
  moreover have "stable w1 w2"
    by (rule keepsD [OF stable_executor [OF assms(1)] ex]) (auto intro: stable_execute_resource_tests [OF assms(1,2)])
  ultimately have "stable ?w0 w2" by (rule stability.R_trans)
  then show ?thesis
    unfolding w' by (auto simp: stable_def reported_def RunTestsForSandbox_run_sandbox_tests_def SandboxReport_new_def)
qed

lemma sandbox_tasks_reported:
  assumes "orders_ok svc" and "retriers_law rts"
    and "run_sandbox_tasks svc (map (RunTestsForSandbox_run depth rts svc) sbs) failed w = (Inr [], w')"
  shows "reported (map (\<lambda>sb. sc_name (sbh_conf sb)) sbs) w w'"
  using assms(3)
proof (induction sbs arbitrary: failed w)
  case Nil
  then show ?case by (simp add: run_simps reported_none)
next
  case (Cons sb sbs)
  let ?w0 = "if failed \<and> stop_seen svc (hist w) then w\<lparr>stop_flag := True\<rparr> else w"
  obtain w1 where run: "RunTestsForSandbox_run depth rts svc sb ?w0 = (Inr (), w1)"
    and rest: "run_sandbox_tasks svc (map (RunTestsForSandbox_run depth rts svc) sbs) failed w1 = (Inr [], w')"
    using Cons.prems
    by (auto simp: andthen_run modify_run try_except_else_run bnd_eq_Inr ret_run split: prod.splits sum.splits if_splits)
  have "reported [] w ?w0" by (simp add: reported_def)
  from reported_trans [OF this reported_trans [OF sandbox_run_reported [OF assms(1,2) run] Cons.IH [OF rest]]]
  show ?case by simp
qed

section \<open>Creation and end\<close>

lemma create_of: "SandboxHandler_create svc conf cs d w = (Inr sb, w') \<Longrightarrow> (sbh_conf sb, sbh_cs_handler sb) = (conf, cs)"
  unfolding SandboxHandler_create_def create_reservation_call
  by (auto simp: run_simps split: prod.splits sum.splits if_splits)

lemma sandboxes_created:
  assumes "orders_ok svc" and "st_sandbox_handlers w = None" and "HandlerStorage_sandbox_handlers rts svc w = (Inr sbs, w')"
  shows "mset (map (\<lambda>sb. (sbh_conf sb, sbh_cs_handler sb)) sbs) =
      mset (map (\<lambda>conf. (conf, st_cs_handler w)) (sandboxes_conf (main_conf w)))"
    and "st_sandbox_handlers w' = Some sbs" and "reports w' = reports w" and "\<exists>es. hist w' = hist w @ es"
proof -
  let ?confs = "sandboxes_conf (main_conf w)" and ?cs = "st_cs_handler w"
  let ?w0 = "w\<lparr>st_sandbox_handlers := Some []\<rparr>"
  obtain p w1 where ex: "executor svc (sandbox_tasks svc w) ?w0 = (p, w1)" by (cases "executor svc (sandbox_tasks svc w) ?w0")
  note run = sandbox_handlers_run [OF assms(2) ex, of rts]
  with assms(3) obtain rs where p: "p = Inr rs" by (cases p) simp_all
  have keys: "list_all2 (\<lambda>k m. \<forall>s h s'. m s = (Inr h, s') \<longrightarrow> (sbh_conf h, sbh_cs_handler h) = k)
      (map (\<lambda>conf. (conf, ?cs)) ?confs) (sandbox_tasks svc w)"
    by (auto simp: list_all2_conv_all_nth dest: create_of)
  from run assms(3) have "(case last_exn rs of
         None \<Rightarrow> (Inr (results rs), w1\<lparr>st_sandbox_handlers := Some (results rs)\<rparr>)
       | Some e \<Rightarrow> andthen (HandlerStorage_finish rts svc) (raise_exn e)
           (w1\<lparr>st_sandbox_handlers := Some (results rs)\<rparr>)) = (Inr sbs, w')"
    by (simp add: p)
  then have none: "last_exn rs = None" and sbs: "sbs = results rs" and w': "w' = w1\<lparr>st_sandbox_handlers := Some sbs\<rparr>"
    by (auto simp: andthen_run raise_run split: option.splits prod.splits sum.splits)
  show "mset (map (\<lambda>sb. (sbh_conf sb, sbh_cs_handler sb)) sbs) = mset (map (\<lambda>conf. (conf, ?cs)) ?confs)"
    using executor_keys(3) [OF assms(1) keys ex [unfolded p]] none sbs by simp
  show "st_sandbox_handlers w' = Some sbs" by (simp add: w')
  have "stable ?w0 w1" by (rule keepsD [OF stable_executor [OF assms(1)] ex]) (auto intro: stable_sandbox_create)
  then show "reports w' = reports w" "\<exists>es. hist w' = hist w @ es" by (simp_all add: w' stable_def)
qed

lemma api_call_asked:
  "api_call svc rep cs c w = (Inr x, w') \<Longrightarrow> \<exists>es. hist w' = hist w @ es \<and> Api (csh_host cs) c \<in> set es"
  by (auto simp: api_call_def CloudShellHandler_api_def andthen_def bnd_eq_Inr run_simps
      split: if_splits sum.splits)

lemma end_reservation_asked:
  fixes w :: "'x report_world_scheme"
  assumes "CloudShellHandler_end_reservation svc cs rid b w = (Inr x, w')"
  shows "\<exists>es. hist w' = hist w @ es \<and> Api (csh_host cs) (EndReservation rid) \<in> set es"
proof -
  obtain y w1 where c: "api_call svc (rep_unit svc) cs (EndReservation rid) w = (Inr y, w1)"
    and l: "(if b then wait_ended_loop 30 svc cs rid else ret ()) w1 = (Inr x, w')"
    using assms by (auto simp: CloudShellHandler_end_reservation_def andthen_def bnd_eq_Inr)
  have "keeps stable (if b then wait_ended_loop 30 svc cs rid else ret ())"
    by (intro steady stable_wait_ended)
  from keepsD [OF this l] api_call_asked [OF c] show ?thesis by (auto simp: stable_def)
qed

lemma for_each_asked:
  fixes w :: "'x report_world_scheme"
  assumes "for_each xs m w = (Inr y, w')"
    and "\<And>x v v'. x \<in> set xs \<Longrightarrow> m x v = (Inr (), v') \<Longrightarrow> \<exists>es. hist v' = hist v @ es \<and> ev x \<in> set es"
  shows "\<exists>es. hist w' = hist w @ es \<and> ev ` set xs \<subseteq> set es"
  using assms
proof (induction xs arbitrary: w)
  case Nil
  then show ?case by (simp add: run_simps)
next
  case (Cons x xs)
  obtain w1 where m: "m x w = (Inr (), w1)" and rest: "for_each xs m w1 = (Inr y, w')"
    using Cons.prems(1) by (auto simp: andthen_def bnd_eq_Inr)
  obtain es fs where "hist w1 = hist w @ es" "ev x \<in> set es" "hist w' = hist w1 @ fs" "ev ` set xs \<subseteq> set fs"
    using Cons.prems(2) [OF _ m] Cons.IH [OF rest Cons.prems(2)] by fastforce
  then show ?case by (intro exI [of _ "es @ fs"]) auto
qed

lemma finish_asked:
  fixes w :: "'x report_world_scheme"
  assumes "retriers_law rts" and "st_sandbox_handlers w = Some sbs" and "HandlerStorage_finish rts svc w = (Inr x, w')"
  shows "\<exists>es. hist w' = hist w @ es \<and>
    (\<forall>sb \<in> set sbs. Api (csh_host (sbh_cs_handler sb)) (EndReservation (sbh_reservation_id sb)) \<in> set es)"
proof -
  let ?ev = "\<lambda>sb. Api (csh_host (sbh_cs_handler sb)) (EndReservation (sbh_reservation_id sb))"
  let ?rest = "andthen (finish_list st_resource_handlers (ResourceHandler_finish svc))
    (andthen (finish_list st_shell_handlers (ShellHandler_finish rts svc))
       (bnd (get_state st_vcenter_handler) (\<lambda>v. case v of None \<Rightarrow> ret () | Some h \<Rightarrow> VcenterHandler_finish svc h)))"
  obtain y w1 where ends: "for_each sbs (\<lambda>sb. SandboxHandler_finish svc sb True) w = (Inr y, w1)"
    and rest: "?rest w1 = (Inr x, w')"
    using assms(2,3) unfolding HandlerStorage_finish_def finish_list_def
    by (auto simp: andthen_run bnd_run [of "get_state st_sandbox_handlers"] get_state_run split: prod.splits sum.splits)
  have "\<exists>es. hist w1 = hist w @ es \<and> ?ev ` set sbs \<subseteq> set es"
    by (rule for_each_asked [OF ends])
       (auto simp: SandboxHandler_finish_def SandboxHandler_end_reservation_def dest: end_reservation_asked)
  moreover have "\<exists>es. hist w' = hist w1 @ es"
    using keepsD [OF stable_finish_others [OF assms(1)] rest] by (simp add: stable_def)
  ultimately show ?thesis by (fastforce simp: image_subset_iff)
qed

section \<open>A whole run\<close>

lemma download_logs_stable:
  assumes "retriers_law rts" and "st_sandbox_handlers w = Some sbs"
    and "AutomatedTestsRunner_download_logs depth rts svc in_flight w = (r, w')"
  shows "stable w w'"
proof -
  obtain q w1 where smb: "HandlerStorage_cs_smb_handler w = (q, w1)" by (cases "HandlerStorage_cs_smb_handler w")
  have st: "stable w w1" using stable_cs_smb_handler smb by (rule keepsD)
  then have "st_sandbox_handlers w1 = Some sbs" using assms(2) by (simp add: stable_def)
  then have later: "HandlerStorage_sandbox_handlers rts svc w1 = (Inr sbs, w1)"
    by (simp add: HandlerStorage_sandbox_handlers_def sandboxes.later_access)
  have "w' = w1 \<or> (\<exists>c. CloudShellSmbHandler_download_logs depth rts svc c ''cs_logs'' (start_time svc)
      (remdups (map sbh_reservation_id sbs)) w1 = (r, w'))"
    using assms(3) smb later unfolding AutomatedTestsRunner_download_logs_def
    by (auto simp: bnd_run ret_run split: sum.splits option.splits if_splits)
  then have "stable w1 w'" by (auto intro: stability.R_refl dest: keepsD [OF stable_cs_smb(4) [OF assms(1)]])
  with st show ?thesis by (rule stability.R_trans)
qed

abbreviation wait_or_stop where
  "wait_or_stop svc exceptions \<equiv>
     try_except (AutomatedTestsRunner_wait_for_futures svc exceptions)
       (\<lambda>e. if e = KeyboardInterrupt
            then andthen (modify (\<lambda>w. w\<lparr>stop_flag := True\<rparr>))
                (andthen (AutomatedTestsRunner_wait_for_futures svc exceptions) (raise_exn e))
            else raise_exn e)"

lemma wait_or_stop_returns: "wait_or_stop svc exceptions w = (Inr x, w') \<Longrightarrow> exceptions = [] \<and> w' = w"
  by (cases "exceptions = []"; cases "exceptions = [KeyboardInterrupt]")
     (auto simp: AutomatedTestsRunner_wait_for_futures_def try_except_run andthen_run modify_run ret_run raise_run
        split: if_splits)

lemma run_tests_for_sandboxes_course:
  assumes "orders_ok svc" and "retriers_law rts" and "st_sandbox_handlers w = None"
    and "AutomatedTestsRunner_run_tests_for_sandboxes depth rts svc w = (Inr report, w')"
  shows "\<exists>sbs. st_sandbox_handlers w' = Some sbs \<and>
    mset (map (\<lambda>sb. (sbh_conf sb, sbh_cs_handler sb)) sbs) =
      mset (map (\<lambda>conf. (conf, st_cs_handler w)) (sandboxes_conf (main_conf w))) \<and>
    mset (map sbr_name (sandboxes_reports report)) = mset (map sc_name (sandboxes_conf (main_conf w))) \<and>
    reports w' = report \<and> (\<exists>es. hist w' = hist w @ es)"
proof -
  let ?w0 = "w\<lparr>reports := Reporting_new, stop_flag := False\<rparr>"
  obtain sbs w1 where sbs: "HandlerStorage_sandbox_handlers rts svc ?w0 = (Inr sbs, w1)"
    and tasks: "run_sandbox_tasks svc (map (RunTestsForSandbox_run depth rts svc)
      (permute (set_order svc (hist w1) (length sbs)) sbs)) False w1 = (Inr [], w')"
    and report: "report = reports w'"
    using assms(4) unfolding AutomatedTestsRunner_run_tests_for_sandboxes_def andthen_def [of "wait_or_stop _ _"]
    by (auto simp: andthen_run modify_run bnd_eq_Inr get_state_run dest!: wait_or_stop_returns)
  let ?order = "permute (set_order svc (hist w1) (length sbs)) sbs"
  have "st_sandbox_handlers ?w0 = None" using assms(3) by simp
  note created = sandboxes_created [OF assms(1) this sbs]
  note rep = sandbox_tasks_reported [OF assms(1,2) tasks]
  have perm: "mset ?order = mset sbs" by (intro mset_permute orders_ok_D assms(1))
  have "map sbr_name (sandboxes_reports report) = map (\<lambda>sb. sc_name (sbh_conf sb)) ?order"
    using rep created(3) by (auto simp: reported_def report Reporting_new_def)
  then have "mset (map sbr_name (sandboxes_reports report)) = image_mset sc_name (image_mset fst
      (mset (map (\<lambda>sb. (sbh_conf sb, sbh_cs_handler sb)) sbs)))"
    using perm by (simp add: multiset.map_comp comp_def)
  also have "\<dots> = mset (map sc_name (sandboxes_conf (main_conf w)))"
    unfolding created(1) by (simp add: multiset.map_comp comp_def)
  finally show ?thesis
    using created rep by (intro exI [of _ sbs]) (auto simp: reported_def report)
qed


text \<open>A run with one sandbox and one resource, on servers that answer.\<close>

definition course_env :: run_services where
  "course_env = test_services.extend
     (test_env\<lparr>rep_yaml := (\<lambda>h p. Inr (JObj [(''node_types'', JObj [(''vendor.Cisco'', JNull)]),
        (''metadata'', JObj [(''template_name'', JStr ''Cisco'')])]))\<rparr>)
     (run_services.fields (\<lambda>h. True) (\<lambda>es. []) 0 ''package_api'')"

definition course_state :: report_world where
  "course_state = report_state\<lparr>main_conf := test_config_yaml\<lparr>cs_conf := Some (csh_conf do_example),
     sandboxes_conf := [(sbh_conf app_sandbox)\<lparr>sc_resource_names := [''Cisco'']\<rparr>]\<rparr>\<rparr>"

lemma course_example:
  "isl (fst (AutomatedTestsRunner_run_cs_tests 5 retriers_ref course_env do_example course_state)) = False"
  by code_simp


end
