(* ===== verification/Run_Failures.thy ===== *)
theory Run_Failures
  imports Run_Course
begin

text \<open>
  Runs that fail. Whatever the tests of \<^verbatim>\<open>run_tests.py\<close> raise, the storage is finished, and the sandboxes on Do
  that \<^verbatim>\<open>do_handler.py\<close> remembers are ended last. The steps of a run keep what the clean-up needs:
  the sandboxes of the storage, those on Do and the sessions.
\<close>

section \<open>What every step of the tests keeps\<close>

definition kept :: "'x report_world_scheme \<Rightarrow> 'x report_world_scheme \<Rightarrow> bool" where
  "kept w w' \<longleftrightarrow>
     main_conf w' = main_conf w \<and> st_sandbox_handlers w' = st_sandbox_handlers w \<and>
     cs_on_do_sandbox w' = cs_on_do_sandbox w \<and> app_sandboxes w' = app_sandboxes w \<and>
     set (api_cached w) \<subseteq> set (api_cached w') \<and> (\<exists>es. hist w' = hist w @ es)"

interpretation keeping: state_preorder kept
  by unfold_locales (auto simp: kept_def)

lemma kept_of_stable: "keeps stable m \<Longrightarrow> keeps kept m"
  by (simp add: keeps_def kept_def stable_def)

lemma kept_modify:
  "keeps kept (modify (\<lambda>w. w\<lparr>open_report := f w\<rparr>))"
  "keeps kept (modify (\<lambda>w. w\<lparr>reports := g w\<rparr>))"
  "keeps kept (modify (\<lambda>w. if b w then w\<lparr>stop_flag := c\<rparr> else w))"
  "keeps kept (modify (\<lambda>w. w\<lparr>stop_flag := c\<rparr>))"
  by (simp_all add: keeps_def modify_run kept_def)

lemmas keeping_rules = keeping.keeps_ret keeping.keeps_raise keeping.keeps_of_result keeping.keeps_get_state
  keeping.keeps_bnd keeping.keeps_andthen keeping.keeps_if keeping.keeps_for_each keeping.keeps_try_except
  keeping.keeps_try_except_else kept_modify

lemma kept_sandbox_run:
  assumes "orders_ok svc" and "retriers_law rts"
  shows "keeps kept (RunTestsForSandbox_run depth rts svc sb)"
proof -
  have "keeps stable (executor svc (map (RunTestsForSandbox_execute_resource_tests depth rts svc) hs))" for hs
    by (rule stable_executor [OF assms(1)]) (auto intro: stable_execute_resource_tests [OF assms])
  note parts = frame_is_stop_set [THEN stable_of_frame] stable_sandbox_resources [OF assms] this
  show ?thesis
    unfolding RunTestsForSandbox_run_def by (intro keeping_rules parts [THEN kept_of_stable])
qed

lemma kept_sandbox_tasks:
  assumes "\<And>m. m \<in> set ms \<Longrightarrow> keeps kept m"
  shows "keeps kept (run_sandbox_tasks svc ms failed)"
  using assms by (induction ms arbitrary: failed) (simp_all add: keeping_rules)

lemma kept_wait_or_stop: "keeps kept (wait_or_stop svc exceptions)"
  unfolding AutomatedTestsRunner_wait_for_futures_def by (intro keeping_rules)

section \<open>The sandboxes of a run that may fail\<close>

abbreviation sandbox_keys where
  "sandbox_keys \<equiv> map (\<lambda>sb. (sbh_conf sb, sbh_cs_handler sb))"

abbreviation configured_keys where
  "configured_keys w \<equiv> map (\<lambda>conf. (conf, st_cs_handler w)) (sandboxes_conf (main_conf w))"

lemma sandbox_handlers_kept:
  fixes w :: "'x report_world_scheme"
  assumes "orders_ok svc" and "retriers_law rts" and "st_sandbox_handlers w = None"
    and "HandlerStorage_sandbox_handlers rts svc w = (r, w')"
  shows "\<exists>sbs. mset (sandbox_keys sbs) \<subseteq># mset (configured_keys w) \<and> kept (w\<lparr>st_sandbox_handlers := Some sbs\<rparr>) w'"
proof -
  let ?w0 = "w\<lparr>st_sandbox_handlers := Some []\<rparr>"
  obtain p w1 where ex: "executor svc (sandbox_tasks svc w) ?w0 = (p, w1)" by (cases "executor svc (sandbox_tasks svc w) ?w0")
  note run = sandbox_handlers_run [OF assms(3) ex, of rts]
  have "stable ?w0 w1" by (rule keepsD [OF stable_executor [OF assms(1)] ex]) (auto intro: stable_sandbox_create)
  then have k: "kept (w\<lparr>st_sandbox_handlers := Some sbs\<rparr>) (w1\<lparr>st_sandbox_handlers := Some sbs\<rparr>)" for sbs
    by (simp add: kept_def stable_def)
  show ?thesis
  proof (cases p)
    case (Inl e)
    with run assms(4) have "w' = w1" by simp
    with \<open>stable ?w0 w1\<close> show ?thesis by (intro exI [of _ "[]"]) (simp add: kept_def stable_def)
  next
    case (Inr rs)
    have "list_all2 (\<lambda>k m. \<forall>s h s'. m s = (Inr h, s') \<longrightarrow> (sbh_conf h, sbh_cs_handler h) = k)
        (configured_keys w) (sandbox_tasks svc w)"
      by (auto simp: list_all2_conv_all_nth dest: create_of)
    note sub = executor_keys(2) [OF assms(1) this ex [unfolded Inr]]
    have "keeps kept (andthen (HandlerStorage_finish rts svc) (raise_exn e) :: ('x report_world_scheme, sandbox_handler list) pym)" for e
      by (intro keeping_rules stable_storage_finish [OF assms(2), THEN kept_of_stable])
    then have "kept (w1\<lparr>st_sandbox_handlers := Some (results rs)\<rparr>) w'"
      using run assms(4) Inr by (auto split: option.splits intro: keeping.R_refl keepsD [OF _ sym])
    with k sub show ?thesis by (blast intro: keeping.R_trans)
  qed
qed

lemma run_tests_for_sandboxes_kept:
  fixes w :: "'x report_world_scheme"
  assumes "orders_ok svc" and "retriers_law rts" and "st_sandbox_handlers w = None"
    and "AutomatedTestsRunner_run_tests_for_sandboxes depth rts svc w = (r, w')"
  shows "\<exists>sbs. mset (sandbox_keys sbs) \<subseteq># mset (configured_keys w) \<and> kept (w\<lparr>st_sandbox_handlers := Some sbs\<rparr>) w'"
proof -
  let ?w0 = "w\<lparr>reports := Reporting_new, stop_flag := False\<rparr>"
  let ?rest = "\<lambda>sbs. bnd (get_state (\<lambda>w. permute (set_order svc (hist w) (length sbs)) sbs)) (\<lambda>sbs'.
     bnd (run_sandbox_tasks svc (map (RunTestsForSandbox_run depth rts svc) sbs') False) (\<lambda>exceptions.
     andthen (wait_or_stop svc exceptions) (get_state reports)))"
  obtain p w1 where sbs: "HandlerStorage_sandbox_handlers rts svc ?w0 = (p, w1)"
    by (cases "HandlerStorage_sandbox_handlers rts svc ?w0")
  have "keeps kept (?rest sbs)" for sbs
    by (intro keeping_rules kept_wait_or_stop kept_sandbox_tasks) (auto intro: kept_sandbox_run [OF assms(1,2)])
  moreover have "w' = w1 \<or> (\<exists>sbs. ?rest sbs w1 = (r, w'))"
    using assms(4) sbs unfolding AutomatedTestsRunner_run_tests_for_sandboxes_def
    by (cases p) (auto simp: andthen_run modify_run bnd_run [of "HandlerStorage_sandbox_handlers _ _"])
  ultimately have rest: "kept w1 w'" by (auto intro: keeping.R_refl dest: keepsD)
  have "st_sandbox_handlers ?w0 = None" using assms(3) by simp
  from sandbox_handlers_kept [OF assms(1,2) this sbs] obtain sbs where
    "mset (sandbox_keys sbs) \<subseteq># mset (configured_keys w)" "kept (?w0\<lparr>st_sandbox_handlers := Some sbs\<rparr>) w1" by auto
  moreover from this(2) rest have "kept (?w0\<lparr>st_sandbox_handlers := Some sbs\<rparr>) w'" by (rule keeping.R_trans)
  ultimately show ?thesis by (auto simp: kept_def)
qed

section \<open>Finishing after a failure\<close>

lemma download_logs_raises:
  assumes "st_sandbox_handlers w = Some sbs" and "cs_conf (main_conf w) \<noteq> None"
    and "AutomatedTestsRunner_download_logs depth rts svc in_flight w = (Inl e, w')"
  shows "\<not> is_Exception e"
proof -
  obtain q w1 where smb: "HandlerStorage_cs_smb_handler w = (q, w1)" by (cases "HandlerStorage_cs_smb_handler w")
  have "stable w w1" using stable_cs_smb_handler smb by (rule keepsD)
  then have "st_sandbox_handlers w1 = Some sbs" using assms(1) by (simp add: stable_def)
  then have later: "HandlerStorage_sandbox_handlers rts svc w1 = (Inr sbs, w1)"
    by (simp add: HandlerStorage_sandbox_handlers_def sandboxes.later_access)
  have "\<exists>c. q = Inr c"
    using smb assms(2)
    by (auto simp: HandlerStorage_cs_smb_handler_def lazy_handler_def cs_conf_attr_def CloudShellSmbHandler_new_def
        SmbHandler_new_def run_simps split: option.splits if_splits)
  then obtain c where "CloudShellSmbHandler_download_logs depth rts svc c ''cs_logs'' (start_time svc)
      (remdups (map sbh_reservation_id sbs)) w1 = (Inl e, w')"
    using assms(3) smb later unfolding AutomatedTestsRunner_download_logs_def
    by (auto simp: bnd_run ret_run split: option.splits if_splits)
  then show ?thesis by (rule raisesD [OF download_logs_never_raises])
qed

lemma failed_run_stages:
  assumes "AutomatedTestsRunner_run_cs_tests depth rts svc cs w = (Inl e, w')" and "is_Exception e"
  obtains (logs) r w1 where
      "AutomatedTestsRunner_run_tests_for_sandboxes depth rts svc (snd (HandlerStorage_new cs w)) = (r, w1)"
      "AutomatedTestsRunner_download_logs depth rts svc (case r of Inl e \<Rightarrow> Some e | Inr _ \<Rightarrow> None) w1 = (Inl e, w')"
    | (finished) r w1 w2 q where
      "AutomatedTestsRunner_run_tests_for_sandboxes depth rts svc (snd (HandlerStorage_new cs w)) = (r, w1)"
      "AutomatedTestsRunner_download_logs depth rts svc (case r of Inl e \<Rightarrow> Some e | Inr _ \<Rightarrow> None) w1 = (Inr (), w2)"
      "HandlerStorage_finish rts svc w2 = (q, w')" "q = Inl e \<or> q = Inr () \<and> r = Inl e"
proof -
  obtain r w1 where tests:
      "AutomatedTestsRunner_run_tests_for_sandboxes depth rts svc (snd (HandlerStorage_new cs w)) = (r, w1)"
    by (cases "AutomatedTestsRunner_run_tests_for_sandboxes depth rts svc (snd (HandlerStorage_new cs w))")
  let ?in_flight = "case r of Inl e \<Rightarrow> Some e | Inr _ \<Rightarrow> None"
  obtain d w2 where d: "AutomatedTestsRunner_download_logs depth rts svc ?in_flight w1 = (d, w2)"
    by (cases "AutomatedTestsRunner_download_logs depth rts svc ?in_flight w1")
  obtain q w3 where q: "HandlerStorage_finish rts svc w2 = (q, w3)" by (cases "HandlerStorage_finish rts svc w2")
  have "r \<noteq> Inl NoReturn"
    using assms tests
    by (auto simp: AutomatedTestsRunner_run_cs_tests_def try_finally_with_def HandlerStorage_new_def andthen_run modify_run)
  then have "(case d of Inl e' \<Rightarrow> (Inl e', w2) | Inr _ \<Rightarrow> (case q of Inl e' \<Rightarrow> (Inl e', w3) | Inr _ \<Rightarrow> (r, w3))) = (Inl e, w')"
    using assms(1) tests d q
    by (auto simp: AutomatedTestsRunner_run_cs_tests_def try_finally_with_def HandlerStorage_new_def andthen_run modify_run
        split: sum.splits)
  with tests d q that show ?thesis by (cases d; cases q) auto
qed


text \<open>The run of one sandbox whose resource is not configured.\<close>

definition missing_state :: report_world where
  "missing_state = course_state\<lparr>main_conf := (main_conf course_state)\<lparr>
     sandboxes_conf := [(sbh_conf app_sandbox)\<lparr>sc_resource_names := [''Nexus'']\<rparr>]\<rparr>\<rparr>"

lemma missing_example:
  "case fst (AutomatedTestsRunner_run_cs_tests 5 retriers_ref course_env do_example missing_state) of
     Inl e \<Rightarrow> is_Exception e | Inr _ \<Rightarrow> False"
  by code_simp


section \<open>Sandboxes on Do\<close>

text \<open>What the whole run on the server keeps of the state of Do.\<close>

definition do_kept :: "'x report_world_scheme \<Rightarrow> 'x report_world_scheme \<Rightarrow> bool" where
  "do_kept w w' \<longleftrightarrow> known_sandboxes w' = known_sandboxes w \<and> set (api_cached w) \<subseteq> set (api_cached w')"

interpretation do_keeping: state_preorder do_kept
  by unfold_locales (auto simp: do_kept_def)

lemma do_kept_of_stable: "keeps stable m \<Longrightarrow> keeps do_kept m"
  by (simp add: keeps_def do_kept_def stable_def known_sandboxes_def)

lemma do_kept_run_tests:
  fixes w :: "'x report_world_scheme"
  assumes "orders_ok svc" and "retriers_law rts" and "st_sandbox_handlers w = None"
    and "AutomatedTestsRunner_run_tests_for_sandboxes depth rts svc w = (r, w')"
  shows "do_kept w w' \<and> (\<exists>sbs. st_sandbox_handlers w' = Some sbs)"
  using run_tests_for_sandboxes_kept [OF assms] by (auto simp: kept_def do_kept_def known_sandboxes_def)

lemma do_kept_run_cs_tests:
  fixes rts :: "'x report_world_scheme retriers"
  assumes "orders_ok svc" and "retriers_law rts"
  shows "keeps do_kept (AutomatedTestsRunner_run_cs_tests depth rts svc cs)"
proof (rule keepsI)
  fix w :: "'x report_world_scheme"
  let ?w0 = "snd (HandlerStorage_new cs w)"
  have w0: "st_sandbox_handlers ?w0 = None" "do_kept w ?w0"
    by (simp_all add: HandlerStorage_new_def modify_run do_kept_def known_sandboxes_def)
  obtain r w1 where tests: "AutomatedTestsRunner_run_tests_for_sandboxes depth rts svc ?w0 = (r, w1)"
    by (cases "AutomatedTestsRunner_run_tests_for_sandboxes depth rts svc ?w0")
  from do_kept_run_tests [OF assms w0(1) tests] obtain sbs where k: "do_kept ?w0 w1" "st_sandbox_handlers w1 = Some sbs"
    by blast
  let ?in_flight = "case r of Inl e \<Rightarrow> Some e | Inr _ \<Rightarrow> None"
  obtain d w2 where d: "AutomatedTestsRunner_download_logs depth rts svc ?in_flight w1 = (d, w2)"
    by (cases "AutomatedTestsRunner_download_logs depth rts svc ?in_flight w1")
  obtain q w3 where q: "HandlerStorage_finish rts svc w2 = (q, w3)" by (cases "HandlerStorage_finish rts svc w2")
  have "stable w1 w2" by (rule download_logs_stable [OF assms(2) k(2) d])
  then have d': "do_kept w1 w2" by (simp add: do_kept_def stable_def known_sandboxes_def)
  have q': "do_kept w2 w3" by (rule keepsD [OF do_kept_of_stable [OF stable_storage_finish [OF assms(2)]] q])
  have "snd (AutomatedTestsRunner_run_cs_tests depth rts svc cs w) \<in> {w1, w2, w3}"
    using tests d q
    by (auto simp: AutomatedTestsRunner_run_cs_tests_def try_finally_with_def HandlerStorage_new_def andthen_run modify_run
        split: sum.splits)
  with w0(2) k(1) d' q' show "do_kept w (snd (AutomatedTestsRunner_run_cs_tests depth rts svc cs w))"
    by (auto intro: do_keeping.R_trans)
qed

lemma stable_set_debug_level: "keeps stable (set_debug_level_via_blueprint svc cs)"
  unfolding set_debug_level_via_blueprint_def CloudShellHandler_import_package_def
    CloudShellHandler_create_topology_reservation_def CloudShellHandler_execute_reservation_command_def
    ignore_def Let_def
  by (intro steady)

lemma do_kept_run_on_cs:
  assumes "orders_ok svc" and "retriers_law rts"
  shows "keeps do_kept (AutomatedTestsRunner_run_on_cs depth rts svc)"
proof -
  note level = stable_set_debug_level [THEN do_kept_of_stable]
  have new: "keeps do_kept new_oid"
    by (intro do_kept_of_stable steady)
  have "keeps do_kept (bnd (CloudShellHandler_new conf) (\<lambda>cs. andthen (set_debug_level_via_blueprint svc cs)
      (AutomatedTestsRunner_run_cs_tests depth rts svc cs)))" for conf
    unfolding CloudShellHandler_new_def
    by (intro do_keeping.keeps_bnd do_keeping.keeps_andthen do_keeping.keeps_ret do_kept_run_cs_tests [OF assms] level new)
  then show ?thesis
    unfolding AutomatedTestsRunner_run_on_cs_def
    by (intro do_keeping.keeps_bnd do_keeping.keeps_get_state) (simp add: do_keeping.keeps_raise split: option.splits)
qed

lemma stable_check_hosts: "keeps stable (check_all_resources_is_alive svc conf)"
  unfolding check_all_resources_is_alive_def is_host_alive_def by (intro steady) (auto split: prod.splits intro!: steady)

lemma with_do_stages:
  assumes "with_DoHandler rt svc d body w = (r, w')" and "\<forall>e. r = Inl e \<longrightarrow> is_Exception e"
  obtains (prepared) do_h w1 w2 y w3 where
      "DoHandler_new d w = (Inr do_h, w1)" "DoHandler_prepare_inner rt svc do_h d w1 = (Inr (), w2)"
      "body w2 = (y, w3)" "w' = snd (DoHandler_finish svc d w3)"
    | (failed) do_h w1 w2 e where
      "DoHandler_new d w = (Inr do_h, w1)" "DoHandler_prepare_inner rt svc do_h d w1 = (Inl e, w2)"
      "w' = snd (DoHandler_finish svc d w2)"
proof -
  obtain do_h w1 where h: "DoHandler_new d w = (Inr do_h, w1)"
    by (simp add: DoHandler_new_def CloudShellHandler_new_def run_simps)
  obtain x w2 where x: "DoHandler_prepare_inner rt svc do_h d w1 = (x, w2)"
    by (cases "DoHandler_prepare_inner rt svc do_h d w1")
  have run: "andthen (DoHandler_prepare rt svc do_h d) (try_finally body (DoHandler_finish svc d)) w1 = (r, w')"
    using assms(1) h by (simp add: with_DoHandler_def bnd_run)
  show ?thesis
  proof (cases x)
    case (Inl e)
    have "w' = snd (DoHandler_finish svc d w2)"
      using run x Inl assms(2)
      by (auto simp: DoHandler_prepare_def andthen_run try_except_run raise_run split: if_splits prod.splits sum.splits)
    with h x Inl failed show ?thesis by blast
  next
    case (Inr u)
    with x have x2: "DoHandler_prepare_inner rt svc do_h d w1 = (Inr (), w2)" by simp
    obtain y w3 where y: "body w2 = (y, w3)" by (cases "body w2")
    have "w' = snd (DoHandler_finish svc d w3)"
      using run x Inr y assms(2)
      by (auto simp: DoHandler_prepare_def andthen_run try_except_run raise_run try_finally_def
          split: if_splits prod.splits sum.splits)
    with h x2 y show ?thesis by (rule prepared)
  qed
qed

text \<open>C3. A whole run leaks no sandbox on Do. Where the server is made on Do and is to be deleted, and the services accept the end
  of a reservation: whether the run returns a report or raises an \<^verbatim>\<open>Exception\<close>, at the check of the
  hosts, during the preparation, the tests or the finishing of the storage, the last calls of the run ask each sandbox that is
  remembered on Do to end, each exactly once, and nothing comes after them.\<close>

theorem do_sandboxes_ended_last:
  fixes w :: "'x report_world_scheme"
  assumes "retrying_law rt" and "orders_ok svc" and "retriers_law rts" and "ends_accepted svc"
    and "do_conf (main_conf w) = Some d" and "cs_on_do_conf d = Some c" and "delete_cs c" and "known_sandboxes w = []"
    and "AutomatedTestsRunner_run rt depth rts svc w = (r, w')" and "\<forall>e. r = Inl e \<longrightarrow> is_Exception e"
  shows "\<exists>before ending. hist w' = before @ ending \<and> mset ending = mset (map end_event (known_sandboxes w'))"
proof -
  have ended: ?thesis if fin: "w' = snd (DoHandler_finish svc d w2)" and own: "owned do_h w2"
    for do_h and w2 :: "'x report_world_scheme"
  proof -
    obtain es where "w' = add_events es w2" "mset es = mset (map end_event (known_sandboxes w2))"
      using do_finish_ends [OF assms(4,2) own, of d] assms(6,7) fin by auto
    then show ?thesis by (intro exI [of _ "hist w2"] exI [of _ es]) (simp add: known_sandboxes_def)
  qed
  obtain p w0 where p: "check_all_resources_is_alive svc (main_conf w) w = (p, w0)"
    by (cases "check_all_resources_is_alive svc (main_conf w) w")
  have "stable w w0" using stable_check_hosts p by (rule keepsD)
  then have none: "known_sandboxes w0 = []" using assms(8) by (simp add: stable_def known_sandboxes_def)
  show ?thesis
  proof (cases p)
    case (Inl e)
    with p assms(9) have "w' = w0" by (auto simp: AutomatedTestsRunner_run_def bnd_run get_state_run andthen_run)
    with none show ?thesis by simp
  next
    case (Inr u)
    have "with_DoHandler rt svc d (AutomatedTestsRunner_run_on_cs depth rts svc) w0 = (r, w')"
      using p Inr assms(5,9) by (simp add: AutomatedTestsRunner_run_def bnd_run get_state_run andthen_run)
    from this assms(10) show ?thesis
    proof (cases rule: with_do_stages)
      case (prepared do_h w1 w2 y w3)
      have "known_sandboxes w1 = []" using prepared(1) none
        by (auto simp: DoHandler_new_def CloudShellHandler_new_def run_simps known_sandboxes_def)
      then have "owned do_h w1" by (simp add: owned_def)
      with keepsD [OF keeps_owned_prepare_inner [OF assms(1,2)] prepared(2)]
      have "owned do_h w2" by (simp add: keeps_owned_def)
      moreover have "do_kept w2 w3" using do_kept_run_on_cs [OF assms(2,3)] prepared(3) by (rule keepsD)
      ultimately have "owned do_h w3" by (auto simp: owned_def do_kept_def connected_def)
      with prepared(4) show ?thesis by (rule ended)
    next
      case (failed do_h w1 w2 e)
      have "known_sandboxes w1 = []" using failed(1) none
        by (auto simp: DoHandler_new_def CloudShellHandler_new_def run_simps known_sandboxes_def)
      then have "owned do_h w1" by (simp add: owned_def)
      with keepsD [OF keeps_owned_prepare_inner [OF assms(1,2)] failed(2)]
      have "owned do_h w2" by (simp add: keeps_owned_def)
      with failed(3) show ?thesis by (rule ended)
    qed
  qed
qed

text \<open>A run with a server on Do, whose one sandbox names a resource that is not configured.\<close>

definition on_do_env :: run_services where
  "on_do_env = course_env\<lparr>
     rep_strs := (\<lambda>h ev. case ev of Api a (GetTopologiesByCategory k) \<Rightarrow> Inr [''Environments/CloudShell 9.3'']
       | _ \<Rightarrow> Inr [''vm'']),
     rep_info := (\<lambda>h ev. Inr (ResourceInfo ''res'' ''CS_Router'' ''Model'' ''192.168.2.1''
       [(''OS Login'', ''u''), (''OS Password'', ''p'')] [] (VmDetails ''uid'' [])))\<rparr>"

definition on_do_state :: report_world where
  "on_do_state = missing_state\<lparr>main_conf := (main_conf missing_state)\<lparr>cs_conf := None,
     do_conf := Some (do_conf_example\<lparr>networking_apps := []\<rparr>)\<rparr>\<rparr>"

lemma on_do_example:
  "case AutomatedTestsRunner_run retry_ref 5 retriers_ref on_do_env on_do_state of
     (r, w') \<Rightarrow> (case r of Inl e \<Rightarrow> is_Exception e | Inr _ \<Rightarrow> False) \<and>
       map end_event (known_sandboxes w') = [Api ''192.168.1.3'' (EndReservation ''f91adb5c'')]"
  by code_simp

theorem do_sandboxes_ended_last_witness:
  "\<exists>before. hist (snd (AutomatedTestsRunner_run retry_ref 5 retriers_ref on_do_env on_do_state)) =
     before @ [Api ''192.168.1.3'' (EndReservation ''f91adb5c'')]"
proof -
  let ?c = "\<lparr>cs_version = ''CloudShell 9.3'', delete_cs = True, cs_specific_version = []\<rparr>"
  obtain r w' where run: "AutomatedTestsRunner_run retry_ref 5 retriers_ref on_do_env on_do_state = (r, w')"
    by (cases "AutomatedTestsRunner_run retry_ref 5 retriers_ref on_do_env on_do_state")
  with on_do_example have fails: "\<forall>e. r = Inl e \<longrightarrow> is_Exception e"
    and known: "map end_event (known_sandboxes w') = [Api ''192.168.1.3'' (EndReservation ''f91adb5c'')]" by auto
  have env: "orders_ok on_do_env" "ends_accepted on_do_env"
    by (simp_all add: orders_ok_def ends_accepted_def on_do_env_def course_env_def test_env_def services.defs
        test_services.defs run_services.defs obliging_services_def)
  have conf: "do_conf (main_conf on_do_state) = Some (do_conf_example\<lparr>networking_apps := []\<rparr>)"
    "cs_on_do_conf (do_conf_example\<lparr>networking_apps := []\<rparr>) = Some ?c" "delete_cs ?c"
    by (simp_all add: on_do_state_def do_conf_example_def cloudshell_config.defs do_config.defs)
  have "known_sandboxes on_do_state = []"
    by code_simp
  from do_sandboxes_ended_last [OF retry_ref_law env(1) retriers_ref_law env(2) conf this run fails] known run
  show ?thesis by auto
qed

end
