(* ===== verification/App_Position.thy ===== *)
theory App_Position
  imports Py_Base
begin

text \<open>
  \<^verbatim>\<open>helpers/package_api/app_position.py\<close>: where the apps of a blueprint are drawn. The numbers of the
  module \<^verbatim>\<open>random\<close> are a parameter: \<open>draws k\<close> are the two integers, of any size, from which the \<open>k\<close>-th two
  calls of \<^verbatim>\<open>randrange\<close> choose in their ranges. The loop that looks for an unused position takes fuel. With draws that reach every position in time the loop returns, the
  positions lie on the grid, and they differ but for the third, which is the second again; when
  the whole grid is used the loop never returns.
\<close>

section \<open>The generator\<close>

type_synonym position = "int \<times> int"
type_synonym random_draw = "int \<times> int"

record position_state =
  app_num :: nat
  used_positions :: "position list"
  drawn :: nat

definition DEFAULT_POSITIONS :: "position list" where
  "DEFAULT_POSITIONS = [(600, 240), (600, 340), (1100, 340), (1100, 340)]"

definition MAX_X :: int where "MAX_X = 1200"

definition MAX_Y :: int where "MAX_Y = 500"

definition STEP :: int where "STEP = 20"

definition AppPositionOnBlueprint_new :: "nat \<Rightarrow> position_state" where
  "AppPositionOnBlueprint_new n = \<lparr>app_num = 1, used_positions = [], drawn = n\<rparr>"

text \<open>\<^verbatim>\<open>random.randrange(start, stop, step)\<close> with a positive step: the random integer \<open>r\<close> chooses one of the
  items of the range.\<close>

definition randrange :: "int \<Rightarrow> int \<Rightarrow> int \<Rightarrow> int \<Rightarrow> int" where
  "randrange r start stop step = start + step * (r mod ((stop - start + step - 1) div step))"

definition random_xy :: "random_draw \<Rightarrow> position" where
  "random_xy d = (randrange (fst d) 0 MAX_X STEP, randrange (snd d) 0 MAX_Y STEP)"

definition AppPositionOnBlueprint_generate_random :: "(nat \<Rightarrow> random_draw) \<Rightarrow> (position_state, position) pym" where
  "AppPositionOnBlueprint_generate_random draws s =
     (Inr (random_xy (draws (drawn s))), s\<lparr>drawn := Suc (drawn s)\<rparr>)"

primrec AppPositionOnBlueprint_get_random_position ::
  "nat \<Rightarrow> (nat \<Rightarrow> random_draw) \<Rightarrow> (position_state, position) pym" where
  "AppPositionOnBlueprint_get_random_position 0 draws = raise_exn NoReturn"
| "AppPositionOnBlueprint_get_random_position (Suc fuel) draws =
     bnd (AppPositionOnBlueprint_generate_random draws) (\<lambda>position.
     bnd (get_state used_positions) (\<lambda>used.
       if position \<in> set used then AppPositionOnBlueprint_get_random_position fuel draws else ret position))"

definition AppPositionOnBlueprint_get_new_position ::
  "nat \<Rightarrow> (nat \<Rightarrow> random_draw) \<Rightarrow> (position_state, position) pym" where
  "AppPositionOnBlueprint_get_new_position fuel draws =
     bnd (get_state app_num) (\<lambda>n.
     bnd (if n < length DEFAULT_POSITIONS then ret (DEFAULT_POSITIONS ! n)
          else AppPositionOnBlueprint_get_random_position fuel draws) (\<lambda>position.
     andthen (modify (\<lambda>s. s\<lparr>used_positions := List.insert position (used_positions s)\<rparr>))
    (andthen (modify (\<lambda>s. s\<lparr>app_num := Suc (app_num s)\<rparr>))
       (ret position))))"

section \<open>The grid\<close>

definition grid :: "position set" where
  "grid = {(STEP * x, STEP * y) | x y. 0 \<le> x \<and> STEP * x < MAX_X \<and> 0 \<le> y \<and> STEP * y < MAX_Y}"

text \<open>The positions in a row.\<close>

definition cell_draw :: "nat \<Rightarrow> random_draw" where
  "cell_draw k = (int (k div 25), int k)"

definition cell :: "nat \<Rightarrow> position" where
  "cell k = (20 * int (k div 25 mod 60), 20 * int (k mod 25))"

lemma random_xy_items: "random_xy d = (20 * (fst d mod 60), 20 * (snd d mod 25))"
  by (simp add: random_xy_def randrange_def STEP_def MAX_X_def MAX_Y_def)

lemma random_xy_cell: "random_xy (cell_draw k) = cell k"
  by (simp add: random_xy_items cell_draw_def cell_def zmod_int)

lemma random_xy_grid: "random_xy d \<in> grid"
proof -
  have "0 \<le> fst d mod 60" "fst d mod 60 < 60" "0 \<le> snd d mod 25" "snd d mod 25 < 25" by simp_all
  then show ?thesis unfolding random_xy_items grid_def STEP_def MAX_X_def MAX_Y_def by force
qed

lemma grid_cells: "grid = cell ` {..<1500}"
proof
  show "grid \<subseteq> cell ` {..<1500}"
  proof
    fix p
    assume "p \<in> grid"
    then obtain x y where p: "p = (20 * x, 20 * y)" "0 \<le> x" "x < 60" "0 \<le> y" "y < 25"
      by (auto simp: grid_def STEP_def MAX_X_def MAX_Y_def)
    have "p = cell (25 * nat x + nat y)" using p by (simp add: cell_def)
    moreover have "25 * nat x + nat y < 1500" using p by linarith
    ultimately show "p \<in> cell ` {..<1500}" by blast
  qed
next
  have "k div 25 mod 60 < 60" "k mod 25 < (25::nat)" for k :: nat by simp_all
  then show "cell ` {..<1500} \<subseteq> grid"
    by (fastforce simp: cell_def grid_def STEP_def MAX_X_def MAX_Y_def)
qed

lemma inj_on_cell: "inj_on cell {..<1500}"
proof (rule inj_onI)
  fix j k :: nat
  assume "j \<in> {..<1500}" "k \<in> {..<1500}" and "cell j = cell k"
  then have "j div 25 = k div 25" "j mod 25 = k mod 25" by (auto simp: cell_def)
  then show "j = k" by (metis div_mult_mod_eq)
qed

lemma card_grid: "card grid = 1500" and finite_grid: "finite grid"
  by (simp_all add: grid_cells card_image [OF inj_on_cell])

section \<open>Positions of a blueprint\<close>

text \<open>Draws that reach every position within the fuel, from wherever they start.\<close>

definition draws_reach :: "nat \<Rightarrow> (nat \<Rightarrow> random_draw) \<Rightarrow> bool" where
  "draws_reach fuel draws \<longleftrightarrow> (\<forall>n. grid \<subseteq> (random_xy \<circ> draws) ` {n..<n + fuel})"

lemma random_position_loop:
  assumes "k < fuel" and "random_xy (draws (drawn s + k)) \<notin> set (used_positions s)"
  shows "\<exists>j d. AppPositionOnBlueprint_get_random_position fuel draws s = (Inr (random_xy (draws j)), s\<lparr>drawn := d\<rparr>) \<and>
    random_xy (draws j) \<notin> set (used_positions s)"
  using assms
proof (induction fuel arbitrary: k s)
  case 0
  then show ?case by simp
next
  case (Suc fuel)
  let ?s = "s\<lparr>drawn := Suc (drawn s)\<rparr>"
  show ?case
  proof (cases "random_xy (draws (drawn s)) \<in> set (used_positions s)")
    case True
    with Suc.prems obtain j where "k = Suc j" by (cases k) auto
    with Suc.IH [of j ?s] Suc.prems True show ?thesis
      by (auto simp: run_simps AppPositionOnBlueprint_generate_random_def)
  next
    case False
    then show ?thesis by (auto simp: run_simps AppPositionOnBlueprint_generate_random_def)
  qed
qed

lemma random_position:
  assumes "draws_reach fuel draws" and "card (set (used_positions s)) < 1500"
  obtains p d where "AppPositionOnBlueprint_get_random_position fuel draws s = (Inr p, s\<lparr>drawn := d\<rparr>)"
    and "p \<in> grid" and "p \<notin> set (used_positions s)"
proof -
  have "\<not> grid \<subseteq> set (used_positions s)"
    using assms(2) card_mono [of "set (used_positions s)" grid] card_grid by auto
  then obtain q where "q \<in> grid" "q \<notin> set (used_positions s)" by blast
  with assms(1) obtain m where m: "m \<in> {drawn s..<drawn s + fuel}" "random_xy (draws m) \<notin> set (used_positions s)"
    unfolding draws_reach_def comp_def by blast
  then have "m - drawn s < fuel" "random_xy (draws (drawn s + (m - drawn s))) \<notin> set (used_positions s)" by auto
  from random_position_loop [of "m - drawn s" fuel draws s] this show ?thesis
    using that random_xy_grid by blast
qed

text \<open>The loop does not return when every position is used.\<close>

lemma full_grid_never_returns:
  assumes "grid \<subseteq> set (used_positions s)"
  shows "fst (AppPositionOnBlueprint_get_random_position fuel draws s) = Inl NoReturn"
  using assms
proof (induction fuel arbitrary: s)
  case 0
  show ?case by (simp add: run_simps)
next
  case (Suc fuel)
  have "random_xy (draws (drawn s)) \<in> set (used_positions s)" using random_xy_grid Suc.prems by blast
  with Suc show ?case by (simp add: run_simps AppPositionOnBlueprint_generate_random_def)
qed

lemma random_positions:
  assumes "draws_reach fuel draws" and "app_num s \<ge> 4"
    and "card (set (used_positions s)) + length xs \<le> 1500"
  shows "\<exists>ps s'. map_m (\<lambda>_. AppPositionOnBlueprint_get_new_position fuel draws) xs s = (Inr ps, s') \<and>
    length ps = length xs \<and> set ps \<subseteq> grid \<and> distinct ps \<and> set ps \<inter> set (used_positions s) = {}"
  using assms(2,3)
proof (induction xs arbitrary: s)
  case Nil
  show ?case by (simp add: run_simps)
next
  case (Cons x xs)
  have "card (set (used_positions s)) < 1500" using Cons.prems(2) by simp
  then obtain p d where p: "AppPositionOnBlueprint_get_random_position fuel draws s = (Inr p, s\<lparr>drawn := d\<rparr>)"
    "p \<in> grid" "p \<notin> set (used_positions s)"
    using random_position [OF assms(1)] by blast
  let ?s = "s\<lparr>drawn := d, used_positions := p # used_positions s, app_num := Suc (app_num s)\<rparr>"
  have "AppPositionOnBlueprint_get_new_position fuel draws s = (Inr p, ?s)"
    using p Cons.prems(1)
    by (simp add: AppPositionOnBlueprint_get_new_position_def run_simps DEFAULT_POSITIONS_def)
  moreover have "card (set (used_positions ?s)) + length xs \<le> 1500" using Cons.prems(2) p(3) by simp
  ultimately show ?case using Cons.IH [of ?s] Cons.prems(1) p by (auto simp: run_simps)
qed

lemma default_position:
  assumes "app_num s < 4"
  shows "AppPositionOnBlueprint_get_new_position fuel draws s =
    (Inr (DEFAULT_POSITIONS ! app_num s),
     s\<lparr>used_positions := List.insert (DEFAULT_POSITIONS ! app_num s) (used_positions s), app_num := Suc (app_num s)\<rparr>)"
  using assms by (simp add: AppPositionOnBlueprint_get_new_position_def run_simps DEFAULT_POSITIONS_def)

text \<open>C25. The positions of the apps of a blueprint, up to 1501 of them, when the random numbers reach every
  position of the grid within the fuel. Every app gets a position on the grid of 60 by 25 positions.
  The first default position is never given out, since the counter starts at one, and the third app is put on
  the second one; all others get positions of their own.\<close>

theorem blueprint_positions:
  assumes "draws_reach fuel draws" and "length apps \<le> 1501"
  shows "\<exists>ps s'. map_m (\<lambda>app. AppPositionOnBlueprint_get_new_position fuel draws) apps
      (AppPositionOnBlueprint_new k) = (Inr ps, s') \<and>
    length ps = length apps \<and> set ps \<subseteq> grid \<and>
    take 3 ps = take (length apps) [(600, 340), (1100, 340), (1100, 340)] \<and>
    distinct (take 2 ps @ drop 3 ps)"
proof -
  have defaults: "(600, 340) \<in> grid" "(1100, 340) \<in> grid"
    by (auto simp: grid_def STEP_def MAX_X_def MAX_Y_def intro: exI [of _ 30] exI [of _ 55] exI [of _ 17])
  note first = AppPositionOnBlueprint_new_def default_position DEFAULT_POSITIONS_def run_simps
  have four: "Suc (Suc (Suc (Suc 0))) = 4" by simp
  consider "apps = []" | a where "apps = [a]" | a b where "apps = [a, b]" | a b c rest where "apps = a # b # c # rest"
    by (metis neq_Nil_conv)
  then show ?thesis
  proof cases
    case 4
    let ?s = "\<lparr>app_num = 4, used_positions = [(1100, 340), (600, 340)], drawn = k\<rparr>"
    have "card (set (used_positions ?s)) + length rest \<le> 1500" using 4 assms(2) by simp
    from random_positions [OF assms(1) _ this] obtain ps s' where
      "map_m (\<lambda>_. AppPositionOnBlueprint_get_new_position fuel draws) rest ?s = (Inr ps, s')"
      "length ps = length rest" "set ps \<subseteq> grid" "distinct ps" "set ps \<inter> {(1100, 340), (600, 340)} = {}"
      by auto
    with defaults 4 show ?thesis
      by (intro exI [of _ "(600, 340) # (1100, 340) # (1100, 340) # ps"] exI [of _ s'])
        (simp add: first four)
  qed (use defaults in \<open>simp_all add: first\<close>)
qed

text \<open>Draws that go round the grid.\<close>

lemma cell_draws_reach: "draws_reach 1500 (\<lambda>k. cell_draw (k mod 1500))"
  unfolding draws_reach_def
proof (intro allI subsetI)
  fix n :: nat and p
  assume "p \<in> grid"
  then obtain j where j: "j < 1500" "p = cell j" by (auto simp: grid_cells)
  obtain q r where n: "n = 1500 * q + r" "r < 1500" using mod_less_divisor [of 1500 n] by (metis mult_div_mod_eq zero_less_numeral)
  obtain m where m: "n \<le> m" "m < n + 1500" "m mod 1500 = j"
  proof (cases "r \<le> j")
    case True
    then show ?thesis using n j(1) by (intro that [of "1500 * q + j"]) simp_all
  next
    case False
    have "(1500 * Suc q + j) mod 1500 = j" using j(1) by (simp del: mult_Suc_right)
    then show ?thesis using False n j(1) by (intro that [of "1500 * Suc q + j"]) simp_all
  qed
  then have "p = (random_xy \<circ> (\<lambda>k. cell_draw (k mod 1500))) m" using j(2) by (simp add: random_xy_cell)
  moreover have "m \<in> {n..<n + 1500}" using m by simp
  ultimately show "p \<in> (random_xy \<circ> (\<lambda>k. cell_draw (k mod 1500))) ` {n..<n + 1500}" by blast
qed

theorem blueprint_positions_witness:
  "\<exists>p s'. map_m (\<lambda>app. AppPositionOnBlueprint_get_new_position 1500 (\<lambda>k. cell_draw (k mod 1500))) [1, 2, 3, 4 :: int]
      (AppPositionOnBlueprint_new 7) = (Inr [(600, 340), (1100, 340), (1100, 340), p], s') \<and> p \<in> grid"
proof -
  obtain ps s' where run: "map_m (\<lambda>app. AppPositionOnBlueprint_get_new_position 1500 (\<lambda>k. cell_draw (k mod 1500))) [1, 2, 3, 4 :: int]
      (AppPositionOnBlueprint_new 7) = (Inr ps, s')"
    and ps: "length ps = 4" "set ps \<subseteq> grid" "take 3 ps = [(600, 340), (1100, 340), (1100, 340)]"
    using blueprint_positions [OF cell_draws_reach, of "[1, 2, 3, 4 :: int]" 7] by auto
  then have "length (drop 3 ps) = 1" by simp
  then obtain p where "drop 3 ps = [p]" by (metis One_nat_def length_0_conv length_Suc_conv)
  with ps(3) have "ps = [(600, 340), (1100, 340), (1100, 340), p]" using append_take_drop_id [of 3 ps] by simp
  with run ps show ?thesis by auto
qed

end
