(* ===== verification/Package_Api.thy ===== *)
theory Package_Api
  imports App_Position Run_Tests
begin

text \<open>
  \<^verbatim>\<open>helpers/package_api\<close>, \<^verbatim>\<open>helpers/app_helpers.py\<close>, \<^verbatim>\<open>prepare_env.py\<close> and the command \<^verbatim>\<open>prepare-env\<close>: apps and
  blueprints as XML dictionaries, the zip package that carries them to CloudShell, and the preparation of
  an environment. Printing of a dictionary as XML is \<^verbatim>\<open>xmltodict\<close>'s and a parameter. The lemmas show
  that the package never outlives its use, what it contains, and what the entries of a
  blueprint are.
\<close>

section \<open>Models\<close>

datatype xml = XText string | XDict "(string \<times> xml) list" | XList "xml list"

definition create_attributes :: "(string, string) dict \<Rightarrow> string \<Rightarrow> xml" where
  "create_attributes attributes deployment_path =
     (let name_space = (if deployment_path \<noteq> [] then deployment_path @ ''.'' else [])
      in XDict [(''Attribute'', XList (map (\<lambda>(key, val).
           XDict [(''@Name'', XText (name_space @ key)), (''@Value'', XText val)]) attributes))])"

definition get_bool :: "bool \<Rightarrow> string" where
  "get_bool v = (if v then ''true'' else ''false'')"

definition xmlns :: "(string \<times> xml) list" where
  "xmlns = [(''@xmlns:xsd'', XText ''http://www.w3.org/2001/XMLSchema''),
     (''@xmlns:xsi'', XText ''http://www.w3.org/2001/XMLSchema-instance'')]"

text \<open>\<open>now_str\<close> is the formatted time of one day before.\<close>

definition MetaData_new :: "string option \<Rightarrow> string" where
  "MetaData_new version = (if opt_truthy version then the version else ''9.3.0'')"

definition MetaData_to_xml_dict :: "string \<Rightarrow> string \<Rightarrow> (string \<times> xml) list" where
  "MetaData_to_xml_dict version now_str =
     [(''CreationDate'', XText now_str), (''ServerVersion'', XText version),
      (''PackageType'', XText ''CloudShellPackage'')]"

definition MetaData_get_xml_root_dict :: "string \<Rightarrow> string \<Rightarrow> xml" where
  "MetaData_get_xml_root_dict version now_str =
     XDict [(''Metadata'', XDict (xmlns @
       [(''@xmlns'', XText ''http://schemas.qualisystems.com/PackageMetadataSchema.xsd'')] @
       MetaData_to_xml_dict version now_str))]"

record deployment_path =
  dp_cp_name :: string
  dp_cp_model :: string
  dp_deployment_path :: string
  dp_attributes :: "(string, string) dict"
  dp_is_default :: bool

definition DeploymentPath_new ::
  "string \<Rightarrow> string \<Rightarrow> string \<Rightarrow> (string, string) dict \<Rightarrow> deployment_path" where
  "DeploymentPath_new cp_name cp_model path attributes =
     \<lparr>dp_cp_name = cp_name, dp_cp_model = cp_model, dp_deployment_path = path, dp_attributes = attributes,
      dp_is_default = False\<rparr>"

definition full_deployment_path :: "string \<Rightarrow> string \<Rightarrow> string" where
  "full_deployment_path model path =
     (if take (length (model @ ''.'')) path = model @ ''.'' then path else model @ ''.'' @ path)"

definition DeploymentPath_to_xml_dict :: "deployment_path \<Rightarrow> xml" where
  "DeploymentPath_to_xml_dict d =
     (let dp = full_deployment_path (dp_cp_model d) (dp_deployment_path d)
      in XDict [(''@Name'', XText (dp_cp_name d @ '' - '' @ dp)),
           (''@Default'', XText (get_bool (dp_is_default d))),
           (''DeploymentService'', XDict [(''@Name'', XText dp), (''@CloudProvider'', XText (dp_cp_name d)),
              (''Attributes'', create_attributes (dp_attributes d) dp)])])"

record app_model =
  am_name :: string
  am_deployment_paths :: "deployment_path list"

definition default_app_resource :: xml where
  "default_app_resource =
     XDict [(''@ModelName'', XText ''Generic App Model''), (''@Driver'', XText []),
       (''Attributes'', create_attributes [(''Password'', []), (''Public IP'', []), (''User'', [])] [])]"

definition App_to_xml_dict :: "app_model \<Rightarrow> (string \<times> xml) list" where
  "App_to_xml_dict app =
     [(''AppResourceInfo'', XDict [(''@Name'', XText (am_name app)),
        (''AppResources'', XDict [(''AppResource'', XList [default_app_resource])]),
        (''DeploymentPaths'', XDict [(''DeploymentPath'',
           XList (map DeploymentPath_to_xml_dict (am_deployment_paths app)))])])]"

definition App_get_xml_root_dict :: "app_model \<Rightarrow> xml" where
  "App_get_xml_root_dict app =
     XDict [(''AppTemplateInfo'', XDict (xmlns @ App_to_xml_dict app @
       [(''Categories'', XDict [(''Category'', XList [XText ''Applications''])])]))]"

subsection \<open>Blueprints\<close>

text \<open>A blueprint is printed once, so its generator of positions starts new when it is printed.\<close>

record blueprint =
  xb_name :: string
  xb_apps :: "app_model list"

definition set_default_path :: "app_model \<Rightarrow> (position_state, app_model) pym" where
  "set_default_path app =
     (case am_deployment_paths app of
        [] \<Rightarrow> raise_exn (IndexError ''list index out of range'')
      | dp # dps \<Rightarrow> ret (app\<lparr>am_deployment_paths := dp\<lparr>dp_is_default := True\<rparr> # dps\<rparr>))"

definition Blueprint_get_new_position ::
  "nat \<Rightarrow> (nat \<Rightarrow> random_draw) \<Rightarrow> (position_state, (string \<times> xml) list) pym" where
  "Blueprint_get_new_position fuel draws =
     bnd (AppPositionOnBlueprint_get_new_position fuel draws) (\<lambda>(x, y).
     ret [(''@PositionX'', XText (str_of_int x)), (''@PositionY'', XText (str_of_int y))])"

definition Blueprint_app_dict ::
  "nat \<Rightarrow> (nat \<Rightarrow> random_draw) \<Rightarrow> app_model \<Rightarrow> (position_state, xml) pym" where
  "Blueprint_app_dict fuel draws app =
     bnd (Blueprint_get_new_position fuel draws) (\<lambda>pos.
     ret (XDict (pos @ (''@TemplateName'', XText (am_name app)) # App_to_xml_dict app)))"

definition Blueprint_get_apps_dict ::
  "nat \<Rightarrow> (nat \<Rightarrow> random_draw) \<Rightarrow> blueprint \<Rightarrow> (position_state, xml list) pym" where
  "Blueprint_get_apps_dict fuel draws bp =
     bnd (map_m set_default_path (xb_apps bp)) (\<lambda>apps.
     map_m (Blueprint_app_dict fuel draws) apps)"

definition Blueprint_to_xml_dict :: "blueprint \<Rightarrow> (string \<times> xml) list" where
  "Blueprint_to_xml_dict bp =
     [(''Details'', XDict [(''@Name'', XText (xb_name bp)), (''@Public'', XText ''false''),
        (''@Driver'', XText ''Python Setup & Teardown''), (''@SetupDuration'', XText ''10''),
        (''@TeardownDuration'', XText ''10''), (''@EnableSandboxSave'', XText ''true''),
        (''Scripts'', XDict [(''Script'', XList
           [XDict [(''@Name'', XText ''Default Sandbox Save 3.0'')],
            XDict [(''@Name'', XText ''Default Sandbox Teardown 3.0'')],
            XDict [(''@Name'', XText ''Default Sandbox Restore 3.0'')],
            XDict [(''@Name'', XText ''Default Sandbox Setup 3.0'')]])])])]"

definition Blueprint_get_xml_root_dict :: "nat \<Rightarrow> (nat \<Rightarrow> random_draw) \<Rightarrow> blueprint \<Rightarrow> (position_state, xml) pym" where
  "Blueprint_get_xml_root_dict fuel draws bp =
     bnd (Blueprint_get_apps_dict fuel draws bp) (\<lambda>apps.
     ret (XDict [(''TopologyInfo'', XDict (xmlns @ Blueprint_to_xml_dict bp @
       [(''Apps'', XDict [(''App'', XList apps)])]))]))"

section \<open>Packages\<close>

record package_services = run_services +
  unparse :: "xml \<Rightarrow> exn + string"
  yesterday :: "event list \<Rightarrow> string"
  random_draws :: "nat \<Rightarrow> random_draw"

record package_world = report_world +
  random_pos :: nat

type_synonym ('x, 'a) pkio = "('x package_world_scheme, 'a) pym"

record package_api =
  pa_zip_path :: string
  pa_driver_added :: bool

definition PYTHON_DRIVER_NAME :: string where
  "PYTHON_DRIVER_NAME = ''Python Setup & Teardown.dll''"

text \<open>An entry is added to an archive that is opened for it: opening, writing and closing are one call, which
  is made when the data is there.\<close>

definition zip_writestr :: "'e services_scheme \<Rightarrow> string \<Rightarrow> string \<Rightarrow> string \<Rightarrow> ('x, unit) io" where
  "zip_writestr svc path name data = ask (rep_unit svc) (Host (ZipAdd path name data))"

definition PackageApi_finish :: "'e services_scheme \<Rightarrow> package_api \<Rightarrow> ('x, unit) io" where
  "PackageApi_finish svc p =
     try_except (ask (rep_unit svc) (Host (Unlink (pa_zip_path p))))
       (\<lambda>e. if is_FileNotFoundError e then ret () else raise_exn e)"

definition PackageApi_add_metadata ::
  "'e package_services_scheme \<Rightarrow> package_api \<Rightarrow> string \<Rightarrow> ('x, unit) io" where
  "PackageApi_add_metadata svc p version =
     bnd (get_state (\<lambda>w. yesterday svc (hist w))) (\<lambda>now_str.
     bnd (of_result (unparse svc (MetaData_get_xml_root_dict version now_str))) (\<lambda>data.
     zip_writestr svc (pa_zip_path p) ''metadata.xml'' data))"

definition PackageApi_add_app :: "'e package_services_scheme \<Rightarrow> package_api \<Rightarrow> app_model \<Rightarrow> ('x, unit) io" where
  "PackageApi_add_app svc p app =
     bnd (of_result (unparse svc (App_get_xml_root_dict app))) (\<lambda>data.
     zip_writestr svc (pa_zip_path p) (''App Templates/'' @ am_name app @ ''.xml'') data)"

definition PackageApi_add_python_driver ::
  "'e run_services_scheme \<Rightarrow> package_api \<Rightarrow> ('x, package_api) io" where
  "PackageApi_add_python_driver svc p =
     (if \<not> pa_driver_added p
      then
        bnd (read_env (rep_file svc) (package_api_dir svc @ ''/'' @ PYTHON_DRIVER_NAME)) (\<lambda>data.
        andthen (zip_writestr svc (pa_zip_path p) (''Topology Drivers/'' @ PYTHON_DRIVER_NAME) data)
          (ret (p\<lparr>pa_driver_added := True\<rparr>)))
      else ret p)"

text \<open>The generator runs on the random numbers of the process.\<close>

definition Blueprint_get_xml ::
  "nat \<Rightarrow> 'e package_services_scheme \<Rightarrow> blueprint \<Rightarrow> ('x, string) pkio" where
  "Blueprint_get_xml fuel svc bp w =
     (case Blueprint_get_xml_root_dict fuel (random_draws svc) bp (AppPositionOnBlueprint_new (random_pos w)) of
        (r, s) \<Rightarrow> bnd (of_result r) (\<lambda>x. of_result (unparse svc x)) (w\<lparr>random_pos := drawn s\<rparr>))"

definition PackageApi_add_blueprint ::
  "nat \<Rightarrow> 'e package_services_scheme \<Rightarrow> package_api \<Rightarrow> blueprint \<Rightarrow> ('x, package_api) pkio" where
  "PackageApi_add_blueprint fuel svc p bp =
     bnd (PackageApi_add_python_driver svc p) (\<lambda>p'.
     bnd (Blueprint_get_xml fuel svc bp) (\<lambda>data.
     andthen (zip_writestr svc (pa_zip_path p') (''Topologies/'' @ xb_name bp @ ''.xml'') data)
       (ret p')))"

definition PackageApi_create_package ::
  "'e package_services_scheme \<Rightarrow> string option \<Rightarrow> ('x, package_api) io" where
  "PackageApi_create_package svc version =
     bnd (ask (rep_str svc) (Host TempFile)) (\<lambda>path.
     andthen
       (try_except (ask (rep_unit svc) (Host (ZipCreate path)))
          (\<lambda>e. if is_Exception e
               then andthen (if path \<noteq> [] then ask (rep_unit svc) (Host (Unlink path)) else ret ()) (raise_exn e)
               else raise_exn e))
    (let p = \<lparr>pa_zip_path = path, pa_driver_added = False\<rparr>
     in andthen
          (try_except (PackageApi_add_metadata svc p (MetaData_new version))
             (\<lambda>e. if is_Exception e then andthen (PackageApi_finish svc p) (raise_exn e) else raise_exn e))
          (ret p)))"

definition with_package ::
  "'e package_services_scheme \<Rightarrow> (package_api \<Rightarrow> ('x, unit) io) \<Rightarrow> ('x, unit) io" where
  "with_package svc body =
     bnd (PackageApi_create_package svc None) (\<lambda>p. try_finally (body p) (PackageApi_finish svc p))"

section \<open>Apps and blueprints of a configuration\<close>

definition get_app_models ::
  "nat \<Rightarrow> 'x package_world_scheme retriers \<Rightarrow> 'e services_scheme \<Rightarrow> main_config \<Rightarrow> ('x, app_model list) pkio" where
  "get_app_models depth rts svc conf =
     map_m (\<lambda>app_conf.
       bnd (HandlerStorage_resource_handlers_dict depth rts svc) (\<lambda>d.
       bnd (item d (app_cp_resource_name app_conf)) (\<lambda>cp.
       bnd (rh_get cp id) (\<lambda>o'.
       ret \<lparr>am_name = app_name app_conf, am_deployment_paths =
         [DeploymentPath_new (rh_name o') (rh_model o') (app_deployment app_conf) (app_attributes app_conf)]\<rparr>))))
     (apps_conf conf)"

definition create_apps ::
  "nat \<Rightarrow> 'x package_world_scheme retriers \<Rightarrow> 'e package_services_scheme \<Rightarrow> main_config \<Rightarrow> ('x, unit) pkio" where
  "create_apps depth rts svc conf =
     bnd (get_app_models depth rts svc conf) (\<lambda>apps.
     with_package svc (\<lambda>package.
       andthen (for_each apps (PackageApi_add_app svc package))
         (bnd (get_state st_cs_handler) (\<lambda>cs. CloudShellHandler_import_package svc cs (pa_zip_path package)))))"

primrec add_blueprints ::
  "nat \<Rightarrow> 'e package_services_scheme \<Rightarrow> (string, app_model) dict \<Rightarrow> blueprint_config list \<Rightarrow> package_api \<Rightarrow>
   ('x, unit) pkio" where
  "add_blueprints fuel svc apps_dict [] package = ret ()"
| "add_blueprints fuel svc apps_dict (c # confs) package =
     bnd (map_m (item apps_dict) (bp_app_names c)) (\<lambda>bp_apps.
     bnd (PackageApi_add_blueprint fuel svc package \<lparr>xb_name = bp_name c, xb_apps = bp_apps\<rparr>) (\<lambda>package'.
     add_blueprints fuel svc apps_dict confs package'))"

definition create_blueprints ::
  "nat \<Rightarrow> nat \<Rightarrow> 'x package_world_scheme retriers \<Rightarrow> 'e package_services_scheme \<Rightarrow> main_config \<Rightarrow> ('x, unit) pkio" where
  "create_blueprints fuel depth rts svc conf =
     bnd (get_app_models depth rts svc conf) (\<lambda>apps.
     with_package svc (\<lambda>package.
       andthen (add_blueprints fuel svc (dict_of (map (\<lambda>app. (am_name app, app)) apps)) (blueprints_conf conf) package)
         (bnd (get_state st_cs_handler) (\<lambda>cs. CloudShellHandler_import_package svc cs (pa_zip_path package)))))"

section \<open>Preparing an environment\<close>

definition prepare_on_cs ::
  "nat \<Rightarrow> nat \<Rightarrow> 'x package_world_scheme retriers \<Rightarrow> 'e package_services_scheme \<Rightarrow> ('x, unit) pkio" where
  "prepare_on_cs fuel depth rts svc =
     bnd (get_state (\<lambda>w. cs_conf (main_conf w))) (\<lambda>c.
       case c of
         None \<Rightarrow> raise_exn (none_attr ''host'')
       | Some cs_conf' \<Rightarrow>
           bnd (CloudShellHandler_new cs_conf') (\<lambda>cs.
           andthen (set_debug_level_via_blueprint svc cs)
          (andthen (HandlerStorage_new cs)
          (andthen (ignore (HandlerStorage_resource_handlers depth rts svc))
          (bnd (HandlerStorage_resource_handlers depth rts svc) (\<lambda>rhs.
           andthen (for_each rhs (ResourceHandler_autoload svc))
          (bnd (get_state main_conf) (\<lambda>conf.
           andthen (create_apps depth rts svc conf)
          (andthen (create_blueprints fuel depth rts svc conf)
             (ignore (HandlerStorage_sandbox_handlers rts svc)))))))))))"

definition AutomatedPrepareEnv_run ::
  "('x package_world_scheme, cloudshell_config) retry_decorator \<Rightarrow> nat \<Rightarrow> nat \<Rightarrow> 'x package_world_scheme retriers \<Rightarrow>
   'e package_services_scheme \<Rightarrow> ('x, unit) pkio" where
  "AutomatedPrepareEnv_run rt fuel depth rts svc =
     bnd (get_state main_conf) (\<lambda>conf.
     andthen (check_all_resources_is_alive svc conf)
    (andthen
       (case do_conf conf of
          Some d \<Rightarrow> bnd (DoHandler_new d) (\<lambda>do_h. DoHandler_prepare rt svc do_h d)
        | None \<Rightarrow> ret ())
       (prepare_on_cs fuel depth rts svc)))"

definition cli_prepare_env ::
  "('x package_world_scheme, cloudshell_config) retry_decorator \<Rightarrow> nat \<Rightarrow> nat \<Rightarrow> 'x package_world_scheme retriers \<Rightarrow>
   'e package_services_scheme \<Rightarrow> main_config \<Rightarrow> string option \<Rightarrow> ('x, unit) pkio" where
  "cli_prepare_env rt fuel depth rts svc conf first_shell_dependencies_path =
     bnd (of_result (MainConfig_update_from_cli_params conf first_shell_dependencies_path)) (\<lambda>conf'.
     andthen (modify (\<lambda>w. w\<lparr>main_conf := conf'\<rparr>))
       (AutomatedPrepareEnv_run rt fuel depth rts svc))"

section \<open>Life of a package\<close>

text \<open>Services that raise exceptions but are not interrupted.\<close>

definition never_interrupted :: "'e package_services_scheme \<Rightarrow> bool" where
  "never_interrupted svc \<longleftrightarrow>
     (\<forall>h ev e. rep_unit svc h ev = Inl e \<longrightarrow> is_Exception e) \<and> (\<forall>x e. unparse svc x = Inl e \<longrightarrow> is_Exception e)"

lemma finish_is_last: "last (hist (snd (PackageApi_finish svc p w))) = Host (Unlink (pa_zip_path p))"
  by (simp add: PackageApi_finish_def run_simps split: sum.splits)

lemma raise_after: "snd (andthen m (raise_exn e) w) = snd (m w)"
  by (simp add: run_simps split: prod.splits sum.splits)

lemma metadata_raises_Exception:
  "never_interrupted svc \<Longrightarrow> PackageApi_add_metadata svc p v w = (Inl e, w') \<Longrightarrow> is_Exception e"
  by (auto simp: PackageApi_add_metadata_def zip_writestr_def never_interrupted_def run_simps split: sum.splits)

lemma with_package_removes:
  assumes "never_interrupted svc" and "rep_str svc (hist w) (Host TempFile) = Inr path" and "path \<noteq> []"
    and "with_package svc body w = (r, w')" and "r \<noteq> Inl NoReturn"
  shows "last (hist w') = Host (Unlink path)"
proof -
  let ?p = "\<lparr>pa_zip_path = path, pa_driver_added = False\<rparr>"
  let ?w1 = "add_events [Host TempFile] w" and ?w2 = "add_events [Host TempFile, Host (ZipCreate path)] w"
  show ?thesis
  proof (cases "rep_unit svc (hist ?w1) (Host (ZipCreate path))")
    case (Inl e)
    then have "is_Exception e" using assms(1) by (auto simp: never_interrupted_def)
    with Inl assms(2-4) show ?thesis
      by (auto simp: with_package_def PackageApi_create_package_def Let_def run_simps split: sum.splits if_splits)
  next
    case (Inr u)
    obtain q w3 where md: "PackageApi_add_metadata svc ?p (MetaData_new None) ?w2 = (q, w3)"
      by (cases "PackageApi_add_metadata svc ?p (MetaData_new None) ?w2")
    show ?thesis
    proof (cases q)
      case (Inl e)
      then have "is_Exception e" using md assms(1) by (auto dest: metadata_raises_Exception)
      then have "e \<noteq> NoReturn" by auto
      with Inr Inl md assms(2-4) \<open>is_Exception e\<close> have "w' = snd (PackageApi_finish svc ?p w3)"
        by (auto simp: with_package_def PackageApi_create_package_def Let_def run_simps split: sum.splits prod.splits)
      then show ?thesis by (simp add: finish_is_last)
    next
      case (Inr v)
      obtain q' w4 where body: "body ?p w3 = (q', w4)" by (cases "body ?p w3")
      have "with_package svc body w = try_finally (body ?p) (PackageApi_finish svc ?p) w3"
        using assms(2) md Inr \<open>rep_unit svc (hist ?w1) (Host (ZipCreate path)) = Inr u\<close>
        by (simp add: with_package_def PackageApi_create_package_def Let_def run_simps)
      with assms(4,5) body have "w' = snd (PackageApi_finish svc ?p w4)"
        by (auto simp: run_simps split: if_splits sum.splits prod.splits)
      then show ?thesis by (simp add: finish_is_last)
    qed
  qed
qed

text \<open>C24. A package does not outlive its use. Once the temporary file exists, the last thing that creating
  the apps or the blueprints does is to remove it, whether the import succeeds, an entry or the metadata cannot
  be written, or a name of the configuration is unknown.\<close>

theorem package_is_removed:
  assumes "never_interrupted svc" and "get_app_models depth rts svc conf w = (Inr apps, w1)"
    and "rep_str svc (hist w1) (Host TempFile) = Inr path" and "path \<noteq> []"
    and "(r, w') \<in> {create_apps depth rts svc conf w, create_blueprints fuel depth rts svc conf w}"
    and "r \<noteq> Inl NoReturn"
  shows "last (hist w') = Host (Unlink path)"
  using assms(2,5) with_package_removes [OF assms(1,3,4) _ assms(6)]
  by (auto simp: create_apps_def create_blueprints_def bnd_run)

section \<open>Contents of a package\<close>

text \<open>What a blueprint prints as, from the positions of its apps.\<close>

definition with_default :: "app_model \<Rightarrow> app_model" where
  "with_default app = app\<lparr>am_deployment_paths :=
     (case am_deployment_paths app of [] \<Rightarrow> [] | dp # dps \<Rightarrow> dp\<lparr>dp_is_default := True\<rparr> # dps)\<rparr>"

definition app_entry :: "app_model \<Rightarrow> position \<Rightarrow> xml" where
  "app_entry app pos =
     XDict ([(''@PositionX'', XText (str_of_int (fst pos))), (''@PositionY'', XText (str_of_int (snd pos))),
       (''@TemplateName'', XText (am_name app))] @ App_to_xml_dict (with_default app))"

definition blueprint_root :: "blueprint \<Rightarrow> position list \<Rightarrow> xml" where
  "blueprint_root bp ps =
     XDict [(''TopologyInfo'', XDict (xmlns @ Blueprint_to_xml_dict bp @
       [(''Apps'', XDict [(''App'', XList (map2 app_entry (xb_apps bp) ps))])]))]"

lemma set_default_path_run:
  "set_default_path app s = (Inr app', s') \<longleftrightarrow> s' = s \<and> app' = with_default app \<and> am_deployment_paths app \<noteq> []"
  by (auto simp: set_default_path_def with_default_def run_simps split: list.splits)

lemma set_default_paths:
  "map_m set_default_path apps s = (Inr apps', s') \<Longrightarrow>
     s' = s \<and> apps' = map with_default apps \<and> (\<forall>app \<in> set apps. am_deployment_paths app \<noteq> [])"
  by (induction apps arbitrary: apps') (auto simp: bnd_eq_Inr ret_run set_default_path_run)

lemma app_dict_run:
  "Blueprint_app_dict fuel draws (with_default app) s = (Inr x, s') \<longleftrightarrow>
     (\<exists>pos. AppPositionOnBlueprint_get_new_position fuel draws s = (Inr pos, s') \<and> x = app_entry app pos)"
  by (auto simp: Blueprint_app_dict_def Blueprint_get_new_position_def bnd_eq_Inr ret_run app_entry_def
      with_default_def split: prod.splits)

lemma apps_drawn:
  "map_m (Blueprint_app_dict fuel draws) (map with_default apps) s = (Inr xs, s') \<Longrightarrow>
     \<exists>ps. map_m (\<lambda>app. AppPositionOnBlueprint_get_new_position fuel draws) apps s = (Inr ps, s') \<and> xs = map2 app_entry apps ps"
proof (induction apps arbitrary: s xs)
  case Nil
  then show ?case by (simp add: run_simps)
next
  case (Cons app apps)
  obtain pos s1 rest where
    p: "AppPositionOnBlueprint_get_new_position fuel draws s = (Inr pos, s1)"
    and xs: "xs = app_entry app pos # rest"
    and r: "map_m (Blueprint_app_dict fuel draws) (map with_default apps) s1 = (Inr rest, s')"
    using Cons.prems by (auto simp: bnd_eq_Inr ret_run app_dict_run)
  from Cons.IH [OF r] p xs show ?case by (auto simp: run_simps)
qed

lemma blueprint_xml:
  assumes "Blueprint_get_xml_root_dict fuel draws bp s = (Inr x, s')"
  shows "\<exists>ps. map_m (\<lambda>app. AppPositionOnBlueprint_get_new_position fuel draws) (xb_apps bp) s = (Inr ps, s') \<and>
    x = blueprint_root bp ps"
proof -
  obtain apps s1 xs where a: "map_m set_default_path (xb_apps bp) s = (Inr apps, s1)"
    and xs: "map_m (Blueprint_app_dict fuel draws) apps s1 = (Inr xs, s')"
    and x: "x = XDict [(''TopologyInfo'', XDict (xmlns @ Blueprint_to_xml_dict bp @
       [(''Apps'', XDict [(''App'', XList xs)])]))]"
    using assms by (auto simp: Blueprint_get_xml_root_dict_def Blueprint_get_apps_dict_def bnd_eq_Inr ret_run)
  from set_default_paths [OF a] xs x show ?thesis by (auto simp: blueprint_root_def dest!: apps_drawn)
qed

text \<open>The entry of a blueprint of the configuration: its apps are looked up, placed and printed.\<close>

definition blueprint_entry ::
  "'e package_services_scheme \<Rightarrow> (string, app_model) dict \<Rightarrow> string \<Rightarrow> blueprint_config \<Rightarrow> event \<Rightarrow> bool" where
  "blueprint_entry svc apps_dict path c ev \<longleftrightarrow>
     (\<exists>apps ps data. map (dict_get apps_dict) (bp_app_names c) = map Some apps \<and> length ps = length apps \<and>
        unparse svc (blueprint_root \<lparr>xb_name = bp_name c, xb_apps = apps\<rparr> ps) = Inr data \<and>
        ev = Host (ZipAdd path (''Topologies/'' @ bp_name c @ ''.xml'') data))"

definition driver_entry :: "string \<Rightarrow> string \<Rightarrow> event" where
  "driver_entry path data = Host (ZipAdd path (''Topology Drivers/'' @ PYTHON_DRIVER_NAME) data)"

lemma map_m_length: "map_m f xs s = (Inr ys, s') \<Longrightarrow> length ys = length xs"
  by (induction xs arbitrary: s ys) (auto simp: bnd_eq_Inr ret_run)

lemma apps_found: "map_m (item d) names w = (Inr apps, w') \<Longrightarrow> w' = w \<and> map (dict_get d) names = map Some apps"
  by (induction names arbitrary: w apps)
     (auto simp: bnd_eq_Inr ret_run item_def raise_run split: option.splits)

lemma get_xml_blueprint:
  assumes "Blueprint_get_xml fuel svc bp w = (Inr data, w')"
  shows "\<exists>ps. length ps = length (xb_apps bp) \<and> unparse svc (blueprint_root bp ps) = Inr data \<and>
    hist w' = hist w \<and> rest_cached w' = rest_cached w \<and> st_cs_handler w' = st_cs_handler w"
  using assms
  by (auto simp: Blueprint_get_xml_def bnd_eq_Inr of_result_run split: prod.splits dest!: blueprint_xml map_m_length)

lemma add_blueprints_course:
  assumes "add_blueprints fuel svc apps_dict confs p w = (Inr (), w')"
  shows "\<exists>data es. hist w' = hist w @
      (if confs = [] \<or> pa_driver_added p then [] else [driver_entry (pa_zip_path p) data]) @ es \<and>
    list_all2 (blueprint_entry svc apps_dict (pa_zip_path p)) confs es \<and>
    rest_cached w' = rest_cached w \<and> st_cs_handler w' = st_cs_handler w"
  using assms
proof (induction confs arbitrary: p w)
  case Nil
  then show ?case by (simp add: run_simps)
next
  case (Cons c confs)
  obtain apps p' w1 data w2 where a: "map (dict_get apps_dict) (bp_app_names c) = map Some apps"
    and d: "PackageApi_add_python_driver svc p w = (Inr p', w1)"
    and x: "Blueprint_get_xml fuel svc \<lparr>xb_name = bp_name c, xb_apps = apps\<rparr> w1 = (Inr data, w2)"
    and rest: "add_blueprints fuel svc apps_dict confs p'
      (add_events [Host (ZipAdd (pa_zip_path p') (''Topologies/'' @ bp_name c @ ''.xml'') data)] w2) = (Inr (), w')"
    using Cons.prems
    by (auto simp: bnd_eq_Inr andthen_def PackageApi_add_blueprint_def zip_writestr_def ask_run ret_run dest!: apps_found)
  have p': "pa_zip_path p' = pa_zip_path p" "pa_driver_added p'"
    "\<exists>drv. hist w1 = hist w @ (if pa_driver_added p then [] else [driver_entry (pa_zip_path p) drv])"
    "rest_cached w1 = rest_cached w" "st_cs_handler w1 = st_cs_handler w"
    using d by (auto simp: PackageApi_add_python_driver_def driver_entry_def zip_writestr_def run_simps
        split: if_splits sum.splits)
  from get_xml_blueprint [OF x] have x': "blueprint_entry svc apps_dict (pa_zip_path p) c
      (Host (ZipAdd (pa_zip_path p') (''Topologies/'' @ bp_name c @ ''.xml'') data))"
    "hist w2 = hist w1" "rest_cached w2 = rest_cached w1" "st_cs_handler w2 = st_cs_handler w1"
    using a p'(1) by (auto simp: blueprint_entry_def)
  from Cons.IH [OF rest] p' x' show ?case by (auto simp: list_all2_Cons1)
qed

lemma create_package_course:
  assumes "PackageApi_create_package svc None w = (Inr p, w')"
  shows "\<exists>path metadata. p = \<lparr>pa_zip_path = path, pa_driver_added = False\<rparr> \<and>
    w' = add_events [Host TempFile, Host (ZipCreate path), Host (ZipAdd path ''metadata.xml'' metadata)] w \<and>
    unparse svc (MetaData_get_xml_root_dict ''9.3.0''
      (yesterday svc (hist w @ [Host TempFile, Host (ZipCreate path)]))) = Inr metadata"
  using assms
  by (auto simp: PackageApi_create_package_def PackageApi_add_metadata_def zip_writestr_def MetaData_new_def opt_truthy_def Let_def run_simps
      split: sum.splits if_splits prod.splits)

lemma try_finally_returns: "try_finally m f s = (Inr x, s') \<Longrightarrow> \<exists>s1. m s = (Inr x, s1) \<and> f s1 = (Inr (), s')"
  by (auto simp: run_simps split: prod.splits sum.splits if_splits)

text \<open>C23. What the package of the blueprints holds. When they were created, the package was made from a new
  temporary file: the metadata, the driver of the topologies once however many blueprints there
  are and not at all without any, and one entry for each blueprint of the configuration, in order. An entry is the
  print of the blueprint with its apps in order, each at a position of its own entry and with its
  first deployment path as the default. Then the package was imported, once, and removed.\<close>

theorem blueprints_package:
  assumes "create_blueprints fuel depth rts svc conf w = (Inr (), w')"
    and "get_app_models depth rts svc conf w = (Inr apps, w1)"
    and "csh_oid (st_cs_handler w1) \<in> set (rest_cached w1)"
  shows "\<exists>path metadata driver es.
    hist w' = hist w1 @ [Host TempFile, Host (ZipCreate path), Host (ZipAdd path ''metadata.xml'' metadata)] @
      (if blueprints_conf conf = [] then [] else [driver_entry path driver]) @ es @
      [Rest (csh_host (st_cs_handler w1)) (ImportPackage path), Host (Unlink path)] \<and>
    unparse svc (MetaData_get_xml_root_dict ''9.3.0''
      (yesterday svc (hist w1 @ [Host TempFile, Host (ZipCreate path)]))) = Inr metadata \<and>
    list_all2 (blueprint_entry svc (dict_of (map (\<lambda>app. (am_name app, app)) apps)) path) (blueprints_conf conf) es"
proof -
  let ?d = "dict_of (map (\<lambda>app. (am_name app, app)) apps)"
  let ?body = "\<lambda>p. andthen (add_blueprints fuel svc ?d (blueprints_conf conf) p)
      (bnd (get_state st_cs_handler) (\<lambda>cs. CloudShellHandler_import_package svc cs (pa_zip_path p)))"
  have "bnd (PackageApi_create_package svc None) (\<lambda>p. try_finally (?body p) (PackageApi_finish svc p)) w1 = (Inr (), w')"
    using assms(1,2) by (simp add: create_blueprints_def with_package_def bnd_run [of "get_app_models depth rts svc conf"])
  then obtain p w2 where c: "PackageApi_create_package svc None w1 = (Inr p, w2)"
    and "try_finally (?body p) (PackageApi_finish svc p) w2 = (Inr (), w')"
    by (auto simp: bnd_eq_Inr)
  from try_finally_returns [OF this(2)] obtain w3 w4 where
    add: "add_blueprints fuel svc ?d (blueprints_conf conf) p w2 = (Inr (), w3)"
    and imp: "CloudShellHandler_import_package svc (st_cs_handler w3) (pa_zip_path p) w3 = (Inr (), w4)"
    and fin: "PackageApi_finish svc p w4 = (Inr (), w')"
    by (auto simp: bnd_eq_Inr andthen_def get_state_run)
  have "hist w' = hist w4 @ [Host (Unlink (pa_zip_path p))]"
    using fin by (auto simp: PackageApi_finish_def run_simps split: sum.splits if_splits)
  moreover from create_package_course [OF c] obtain path metadata where
    p: "pa_zip_path p = path" "\<not> pa_driver_added p"
    and w2: "w2 = add_events [Host TempFile, Host (ZipCreate path), Host (ZipAdd path ''metadata.xml'' metadata)] w1"
    and md: "unparse svc (MetaData_get_xml_root_dict ''9.3.0''
      (yesterday svc (hist w1 @ [Host TempFile, Host (ZipCreate path)]))) = Inr metadata" by auto
  moreover from add_blueprints_course [OF add] p obtain driver es where
    es: "hist w3 = hist w2 @ (if blueprints_conf conf = [] then [] else [driver_entry path driver]) @ es"
    "list_all2 (blueprint_entry svc ?d path) (blueprints_conf conf) es"
    and same: "rest_cached w3 = rest_cached w2" "st_cs_handler w3 = st_cs_handler w2" by auto
  moreover have "hist w4 = hist w3 @ [Rest (csh_host (st_cs_handler w1)) (ImportPackage path)]"
    using imp assms(3) same p w2 by (auto simp: CloudShellHandler_import_package_def run_simps)
  ultimately have "hist w' = hist w1 @
      [Host TempFile, Host (ZipCreate path), Host (ZipAdd path ''metadata.xml'' metadata)] @
      (if blueprints_conf conf = [] then [] else [driver_entry path driver]) @ es @
      [Rest (csh_host (st_cs_handler w1)) (ImportPackage path), Host (Unlink path)]" by simp
  with md es(2) show ?thesis by blast
qed

text \<open>A blueprint of one app on the resource of the storage.\<close>

definition package_config :: main_config where
  "package_config = run_config\<lparr>
     apps_conf := [\<lparr>app_name = ''vm'', app_cp_resource_name = ''Cisco'', app_deployment = ''From Template'',
       app_attributes = [(''CPU'', ''2'')]\<rparr>],
     blueprints_conf := [\<lparr>bp_name = ''bp'', bp_app_names = [''vm'']\<rparr>]\<rparr>"

definition package_state :: package_world where
  "package_state = report_world.extend
     (run_world.extend (run_world.truncate (run_state\<lparr>rest_cached := [csh_oid (st_cs_handler run_state)]\<rparr>))
        (report_world.fields Reporting_new (SandboxReport_new [] True [])))
     (package_world.fields 0)"

definition package_env :: package_services where
  "package_env = run_services.extend
     (test_services.extend (test_env\<lparr>rep_str := (\<lambda>h ev. Inr ''/tmp/pkg'')\<rparr>)
        (run_services.fields (\<lambda>h. True) (\<lambda>es. []) 0 ''package_api''))
     (package_services.fields (\<lambda>x. Inr ''<xml/>'') (\<lambda>h. ''01/01/2024 00:00:00'') (\<lambda>k. cell_draw (k mod 1500)))"

lemma package_example:
  "fst (get_app_models 5 retriers_ref package_env package_config package_state) =
     Inr [\<lparr>am_name = ''vm'', am_deployment_paths =
       [DeploymentPath_new ''Cisco'' (rh_model (loaded_resource ''Cisco'')) ''From Template'' [(''CPU'', ''2'')]]\<rparr>]"
  "snd (get_app_models 5 retriers_ref package_env package_config package_state) = package_state"
  "fst (create_blueprints 9 5 retriers_ref package_env package_config package_state) = Inr ()"
  by code_simp+

lemma package_env_simps:
  "rep_unit package_env h ev = Inr ()" "rep_str package_env h ev = Inr ''/tmp/pkg''" "unparse package_env x = Inr ''<xml/>''"
  by (simp_all add: package_env_def run_services.defs test_services.defs package_services.defs test_env_def services.defs
      obliging_services_def)

theorem package_is_removed_witness:
  "last (hist (snd (create_blueprints 9 5 retriers_ref package_env package_config package_state))) = Host (Unlink ''/tmp/pkg'')"
proof -
  let ?run = "create_blueprints 9 5 retriers_ref package_env package_config package_state"
  have env: "never_interrupted package_env" by (simp add: never_interrupted_def package_env_simps)
  obtain apps where models: "get_app_models 5 retriers_ref package_env package_config package_state = (Inr apps, package_state)"
    using package_example(1,2) by (metis prod.collapse)
  have "?run = (Inr (), snd ?run)" using package_example(3) by (metis prod.collapse)
  then have run: "(Inr (), snd ?run) \<in> {create_apps 5 retriers_ref package_env package_config package_state, ?run}"
    unfolding insert_iff by (intro disjI2 disjI1) (rule sym)
  show ?thesis
    by (rule package_is_removed [OF env models package_env_simps(2) _ run]) simp_all
qed

theorem blueprints_package_witness:
  "\<exists>path metadata driver ev.
    hist (snd (create_blueprints 9 5 retriers_ref package_env package_config package_state)) =
      hist package_state @ [Host TempFile, Host (ZipCreate path), Host (ZipAdd path ''metadata.xml'' metadata),
        driver_entry path driver, ev, Rest (csh_host (st_cs_handler package_state)) (ImportPackage path), Host (Unlink path)]"
proof -
  let ?run = "create_blueprints 9 5 retriers_ref package_env package_config package_state"
  obtain apps where models: "get_app_models 5 retriers_ref package_env package_config package_state = (Inr apps, package_state)"
    using package_example(1,2) by (metis prod.collapse)
  have run: "?run = (Inr (), snd ?run)" using package_example(3) by (metis prod.collapse)
  have cached: "csh_oid (st_cs_handler package_state) \<in> set (rest_cached package_state)"
    by (simp add: package_state_def run_world.defs report_world.defs package_world.defs)
  have "blueprints_conf package_config = [\<lparr>bp_name = ''bp'', bp_app_names = [''vm'']\<rparr>]" by (simp add: package_config_def)
  with blueprints_package [OF run models cached] show ?thesis by (auto simp: list_all2_Cons1)
qed

end
