(* ===== verification/Shellfoundry.thy ===== *)
theory Shellfoundry
  imports Run_Tests
begin

text \<open>
  \<^verbatim>\<open>oop_shellfoundry.py\<close> and the command \<^verbatim>\<open>check_shellfoundry_templates\<close>: a shell is made from a template and packed,
  its path is put into a configuration, and the tests of that configuration are run. The program
  \<^verbatim>\<open>shellfoundry\<close>, listing of a directory and reading of a configuration are parameters. The
  lemmas give the command lines, and say when the directory of the shell is removed.
\<close>

section \<open>Command lines\<close>

record template_services = run_services +
  rep_glob :: "event list \<Rightarrow> string \<Rightarrow> exn + string list"
  from_yaml :: "event list \<Rightarrow> string \<Rightarrow> exn + main_config"
  cwd :: string

text \<open>\<^verbatim>\<open>command.split()\<close>\<close>

fun words :: "string \<Rightarrow> string \<Rightarrow> string list" where
  "words acc [] = (if acc = [] then [] else [rev acc])"
| "words acc (c # s) = (if is_space c then (if acc = [] then [] else [rev acc]) @ words [] s else words (c # acc) s)"

definition Shellfoundry_run_command :: "'e services_scheme \<Rightarrow> string \<Rightarrow> ('x, unit) io" where
  "Shellfoundry_run_command svc command = ask (rep_unit svc) (Host (RunCommand (words [] command)))"

text \<open>The result of \<^verbatim>\<open>run_command\<close> is the process, which can not be iterated.\<close>

definition Shellfoundry_get_templates :: "'e services_scheme \<Rightarrow> ('x, string list) io" where
  "Shellfoundry_get_templates svc =
     andthen (Shellfoundry_run_command svc ''list --all'')
       (raise_exn (TypeError ([quote] @ ''Popen'' @ [quote] @ '' object is not iterable'')))"

definition template_shell_name :: "string \<Rightarrow> string" where
  "template_shell_name template = map (\<lambda>c. if c \<in> {CHR ''/'', CHR '','', CHR ''-''} then CHR ''_'' else c) template"

definition new_command :: "string \<Rightarrow> string option \<Rightarrow> string option \<Rightarrow> string" where
  "new_command shell_name template version' =
     (case template of
        None \<Rightarrow> ''shellfoundry new '' @ shell_name
      | Some t \<Rightarrow>
          ''shellfoundry new '' @
          (if \<not> contains ''local'' t \<and> shell_name = [] then template_shell_name t else shell_name) @
          '' --template '' @ t @
          (if \<not> contains ''local'' t \<and> opt_truthy version' then '' --version '' @ the version' else []))"

definition Shellfoundry_new ::
  "'e services_scheme \<Rightarrow> string \<Rightarrow> string option \<Rightarrow> string option \<Rightarrow> ('x, unit) io" where
  "Shellfoundry_new svc shell_name template version' =
     Shellfoundry_run_command svc (new_command shell_name template version')"

definition Shellfoundry_pack :: "'e template_services_scheme \<Rightarrow> string \<Rightarrow> ('x, unit) io" where
  "Shellfoundry_pack svc shell_folder =
     andthen (ask (rep_unit svc) (Host (ChDir shell_folder)))
    (andthen (Shellfoundry_run_command svc ''shellfoundry pack'')
       (ask (rep_unit svc) (Host (ChDir (cwd svc)))))"

definition Shellfoundry_get_path_to_zip :: "'e template_services_scheme \<Rightarrow> string \<Rightarrow> ('x, string) io" where
  "Shellfoundry_get_path_to_zip svc shell_name =
     bnd (read_env (rep_glob svc) (cwd svc @ ''/'' @ shell_name @ ''/dist'')) (\<lambda>paths.
       case paths of [] \<Rightarrow> raise_exn StopIteration | driver_path # _ \<Rightarrow> ret driver_path)"

section \<open>Checking a template\<close>

definition shellfoundry_run_tests ::
  "('x report_world_scheme, cloudshell_config) retry_decorator \<Rightarrow> nat \<Rightarrow> 'x report_world_scheme retriers \<Rightarrow>
   'e template_services_scheme \<Rightarrow> string \<Rightarrow> ('x, bool) repio" where
  "shellfoundry_run_tests rt depth rts svc test_conf =
     bnd (read_env (from_yaml svc) test_conf) (\<lambda>conf.
     andthen (modify (\<lambda>w. w\<lparr>main_conf := conf\<rparr>))
    (bnd (AutomatedTestsRunner_run rt depth rts svc) (\<lambda>report.
     ret (Reporting_is_success report))))"

definition check_shellfoundry_templates ::
  "('x report_world_scheme, cloudshell_config) retry_decorator \<Rightarrow> nat \<Rightarrow> 'x report_world_scheme retriers \<Rightarrow>
   'e template_services_scheme \<Rightarrow> string \<Rightarrow> string \<Rightarrow> ('x, unit) repio" where
  "check_shellfoundry_templates rt depth rts svc template_path test_conf =
     (let shell_name = ''shell_created_by_test''; conf_path = ''shell-from-template.yaml''
      in andthen (Shellfoundry_new svc shell_name (Some template_path) None)
        (andthen (Shellfoundry_pack svc shell_name)
        (bnd (Shellfoundry_get_path_to_zip svc shell_name) (\<lambda>shell_path.
         bnd (read_env (rep_file svc) test_conf) (\<lambda>data.
         andthen (ask (rep_unit svc) (Host (WriteFile conf_path (replace_all ''$shell_path'' shell_path data))))
        (andthen (ignore (shellfoundry_run_tests rt depth rts svc conf_path))
           (ask (rep_unit svc) (Host (RmTree shell_name)))))))))"

section \<open>Command lines are split as meant\<close>

lemma words_word:
  assumes "list_all (\<lambda>c. \<not> is_space c) s"
  shows "words acc (s @ r) = words (rev s @ acc) r"
  using assms by (induction s arbitrary: acc) auto

definition plain :: "string \<Rightarrow> bool" where
  "plain word \<longleftrightarrow> word \<noteq> [] \<and> list_all (\<lambda>c. \<not> is_space c) word"

lemma words_join: "\<forall>word \<in> set ws. plain word \<Longrightarrow> words [] (join_with '' '' ws) = ws"
proof (induction ws)
  case Nil
  show ?case by simp
next
  case (Cons word ws)
  have blank: "is_space (CHR '' '')" by code_simp
  have word: "word \<noteq> []" "list_all (\<lambda>c. \<not> is_space c) word" using Cons.prems by (simp_all add: plain_def)
  show ?case
  proof (cases "ws = []")
    case True
    with words_word [OF word(2), of "[]" "[]"] word(1) show ?thesis by simp
  next
    case False
    with Cons blank words_word [OF word(2), of "[]" "'' '' @ join_with '' '' ws"] word(1) show ?thesis
      by (simp add: join_with_Cons)
  qed
qed

declare words.simps [simp del]

lemma plain_words [simp]:
  "plain ''shellfoundry''" "plain ''new''" "plain ''shell_created_by_test''" "plain ''--template''" "plain ''pack''"
  by code_simp+

lemma new_command_words:
  assumes "plain t"
  shows "words [] (new_command ''shell_created_by_test'' (Some t) None) =
    [''shellfoundry'', ''new'', ''shell_created_by_test'', ''--template'', t]"
proof -
  have "new_command ''shell_created_by_test'' (Some t) None =
      join_with '' '' [''shellfoundry'', ''new'', ''shell_created_by_test'', ''--template'', t]"
    by (simp add: new_command_def opt_truthy_def)
  then show ?thesis using assms by (simp only: words_join list.set ball_simps plain_words)
qed

lemma pack_words: "words [] ''shellfoundry pack'' = [''shellfoundry'', ''pack'']"
  using words_join [of "[''shellfoundry'', ''pack'']"] by simp

text \<open>Services on which the shell is made and packed.\<close>

definition packs :: "'e template_services_scheme \<Rightarrow> string \<Rightarrow> bool" where
  "packs svc pkg \<longleftrightarrow>
     (\<forall>h args. rep_unit svc h (Host (RunCommand args)) = Inr ()) \<and>
     (\<forall>h dir. rep_unit svc h (Host (ChDir dir)) = Inr ()) \<and>
     (\<forall>h p data. rep_unit svc h (Host (WriteFile p data)) = Inr ()) \<and>
     (\<forall>h. \<exists>more. rep_glob svc h (cwd svc @ ''/shell_created_by_test/dist'') = Inr (pkg # more))"

text \<open>C30. The course of checking a template. The shell is made from the template and packed inside its directory,
  and a configuration with the path of the package in place of each mark is written. Then its tests are run. When
  they return, with whatever verdict, the directory of the shell is removed; when they raise an exception, that
  is the outcome, and the directory stays.\<close>

theorem template_check_course:
  assumes "packs svc pkg" and "\<And>h. rep_file svc h test_conf = Inr data"
    and "plain template"
  shows "check_shellfoundry_templates rt depth rts svc template test_conf w =
    (let w1 = w\<lparr>hist := hist w @
      [Host (RunCommand [''shellfoundry'', ''new'', ''shell_created_by_test'', ''--template'', template]),
       Host (ChDir ''shell_created_by_test''), Host (RunCommand [''shellfoundry'', ''pack'']), Host (ChDir (cwd svc)),
       Host (WriteFile ''shell-from-template.yaml'' (replace_all ''$shell_path'' pkg data))]\<rparr>
     in case shellfoundry_run_tests rt depth rts svc ''shell-from-template.yaml'' w1 of
       (Inl e, w2) \<Rightarrow> (Inl e, w2)
     | (Inr verdict, w2) \<Rightarrow>
         (rep_unit svc (hist w2) (Host (RmTree ''shell_created_by_test'')),
          w2\<lparr>hist := hist w2 @ [Host (RmTree ''shell_created_by_test'')]\<rparr>))"
proof -
  obtain more where "rep_glob svc (hist w @
    [Host (RunCommand [''shellfoundry'', ''new'', ''shell_created_by_test'', ''--template'', template]),
     Host (ChDir ''shell_created_by_test''), Host (RunCommand [''shellfoundry'', ''pack'']), Host (ChDir (cwd svc))])
     (cwd svc @ ''/shell_created_by_test/dist'') = Inr (pkg # more)"
    using assms(1) unfolding packs_def by blast
  with assms(1,2) show ?thesis unfolding packs_def
    by (simp add: Let_def check_shellfoundry_templates_def Shellfoundry_new_def Shellfoundry_pack_def Shellfoundry_get_path_to_zip_def
        Shellfoundry_run_command_def new_command_words [OF assms(3)] pack_words run_simps ignore_def
        split: prod.splits sum.splits)
qed

text \<open>The process that a command returns is no list of lines.\<close>

lemma get_templates_never_returns: "\<exists>e w'. Shellfoundry_get_templates svc w = (Inl e, w')"
  by (auto simp: Shellfoundry_get_templates_def Shellfoundry_run_command_def run_simps split: sum.splits)

text \<open>A template whose configuration can not be read.\<close>

definition template_state :: report_world where
  "template_state = run_world.extend run_state (report_world.fields Reporting_new (SandboxReport_new [] True []))"

definition template_env :: template_services where
  "template_env = run_services.extend
     (test_services.extend (test_env\<lparr>rep_unit := (\<lambda>h ev. Inr ()), rep_file := (\<lambda>h p. Inr ''Path: $shell_path'')\<rparr>)
        (run_services.fields (\<lambda>h. True) (\<lambda>es. []) 0 ''package_api''))
     (template_services.fields (\<lambda>h p. Inr [''/work/shell.zip'']) (\<lambda>h p. Inl (ValueError p)) ''/work'')"

lemma template_env_simps:
  "rep_unit template_env h ev = Inr ()" "rep_glob template_env h p = Inr [''/work/shell.zip'']"
  "rep_file template_env h p = Inr ''Path: $shell_path''" "from_yaml template_env h p = Inl (ValueError p)"
  "cwd template_env = ''/work''"
  by (simp_all add: template_env_def run_services.defs test_services.defs template_services.defs)

theorem template_check_course_witness:
  "check_shellfoundry_templates retry_ref 5 retriers_ref template_env ''gen2/switch'' ''conf.yaml'' template_state =
     (Inl (ValueError ''shell-from-template.yaml''),
      template_state\<lparr>hist := hist template_state @
        [Host (RunCommand [''shellfoundry'', ''new'', ''shell_created_by_test'', ''--template'', ''gen2/switch'']),
         Host (ChDir ''shell_created_by_test''), Host (RunCommand [''shellfoundry'', ''pack'']), Host (ChDir ''/work''),
         Host (WriteFile ''shell-from-template.yaml'' ''Path: /work/shell.zip'')]\<rparr>)"
proof -
  have "packs template_env ''/work/shell.zip''" by (simp add: packs_def template_env_simps)
  moreover have "plain ''gen2/switch''" by code_simp
  moreover have "replace_all ''$shell_path'' ''/work/shell.zip'' ''Path: $shell_path'' = ''Path: /work/shell.zip''" by code_simp
  ultimately show ?thesis
    using template_check_course [where svc = template_env and pkg = "''/work/shell.zip''" and template = "''gen2/switch''"
        and test_conf = "''conf.yaml''" and data = "''Path: $shell_path''" and rt = retry_ref and depth = 5
        and rts = retriers_ref and w = template_state]
    by (simp add: shellfoundry_run_tests_def run_simps template_env_simps)
qed

end
