(* ===== verification/Commands.thy ===== *)
theory Commands
  imports Run_Failures Package_Api Shellfoundry Download_Files
begin

text \<open>
  The commands \<^verbatim>\<open>run-tests\<close> and \<^verbatim>\<open>prepare-env\<close> of \<^verbatim>\<open>cli.py\<close> on the path of a configuration, and how \<^verbatim>\<open>configs.py\<close>
  reads it. Parsing of YAML is one of the services; \<open>parse_obj\<close> is pydantic's, which calls the validators of the program
  and is a parameter. The theorem says what the value of \<^verbatim>\<open>run-tests\<close> means in terms of the configuration.
\<close>

section \<open>Reading the configuration\<close>

text \<open>The paths of a shell may be URLs.\<close>

definition ShellConfig_download_file :: "string \<Rightarrow> 'e services_scheme \<Rightarrow> string \<Rightarrow> ('x, string) dlio" where
  "ShellConfig_download_file tmp svc path = bnd (DownloadFile_new path) (DownloadFile_path tmp svc)"

definition MainConfig_from_yaml ::
  "'e services_scheme \<Rightarrow> (json \<Rightarrow> ('x, main_config) io) \<Rightarrow> string \<Rightarrow> ('x, main_config) io" where
  "MainConfig_from_yaml svc parse_obj file_path = bnd (read_env (rep_yaml svc) file_path) parse_obj"

section \<open>Commands\<close>

definition run_tests_command ::
  "('x report_world_scheme, cloudshell_config) retry_decorator \<Rightarrow> nat \<Rightarrow> 'x report_world_scheme retriers \<Rightarrow>
   'e run_services_scheme \<Rightarrow> (json \<Rightarrow> ('x, main_config) repio) \<Rightarrow> string \<Rightarrow> string option \<Rightarrow> ('x, bool \<times> reporting) repio" where
  "run_tests_command rt depth rts svc parse_obj test_conf first_shell_dependencies_path =
     bnd (MainConfig_from_yaml svc parse_obj test_conf) (\<lambda>conf.
     cli_run_tests rt depth rts svc conf first_shell_dependencies_path)"

definition prepare_env_command ::
  "('x package_world_scheme, cloudshell_config) retry_decorator \<Rightarrow> nat \<Rightarrow> nat \<Rightarrow> 'x package_world_scheme retriers \<Rightarrow>
   'e package_services_scheme \<Rightarrow> (json \<Rightarrow> ('x, main_config) pkio) \<Rightarrow> string \<Rightarrow> string option \<Rightarrow> ('x, unit) pkio" where
  "prepare_env_command rt fuel depth rts svc parse_obj test_conf first_shell_dependencies_path =
     bnd (MainConfig_from_yaml svc parse_obj test_conf) (\<lambda>conf.
     cli_prepare_env rt fuel depth rts svc conf first_shell_dependencies_path)"

section \<open>The value of a run\<close>

lemma local_path_is_kept:
  "\<not> DownloadFile_is_url path \<Longrightarrow> dict_get (paths_cached w) (next_oid w) = None \<Longrightarrow>
     fst (ShellConfig_download_file tmp svc path w) = Inr (path_str path)"
  by (simp add: ShellConfig_download_file_def DownloadFile_new_def DownloadFile_path_def run_simps)

lemma prepare_stops_unread:
  "MainConfig_from_yaml svc parse_obj test_conf w = (Inl e, w1) \<Longrightarrow>
     prepare_env_command rt fuel depth rts svc parse_obj test_conf deps w = (Inl e, w1)"
  by (simp add: prepare_env_command_def bnd_run)

lemma run_cs_tests_names:
  fixes w :: "'x report_world_scheme"
  assumes "orders_ok svc" and "retriers_law rts"
    and "AutomatedTestsRunner_run_cs_tests depth rts svc cs w = (Inr report, w')"
  shows "mset (map sbr_name (sandboxes_reports report)) = mset (map sc_name (sandboxes_conf (main_conf w)))"
proof -
  let ?w0 = "snd (HandlerStorage_new cs w)"
  have w0: "st_sandbox_handlers ?w0 = None" "main_conf ?w0 = main_conf w"
    by (simp_all add: HandlerStorage_new_def modify_run)
  obtain w1 where "AutomatedTestsRunner_run_tests_for_sandboxes depth rts svc ?w0 = (Inr report, w1)"
    using assms(3) unfolding AutomatedTestsRunner_run_cs_tests_def try_finally_with_def HandlerStorage_new_def
    by (auto simp: andthen_run modify_run split: prod.splits sum.splits if_splits)
  from run_tests_for_sandboxes_course [OF assms(1,2) w0(1) this] show ?thesis unfolding w0 by blast
qed

lemma run_on_cs_names:
  fixes w :: "'x report_world_scheme"
  assumes "orders_ok svc" and "retriers_law rts"
    and "AutomatedTestsRunner_run_on_cs depth rts svc w = (Inr report, w')"
  shows "mset (map sbr_name (sandboxes_reports report)) = mset (map sc_name (sandboxes_conf (main_conf w)))"
proof -
  obtain conf cs w1 w2 where new: "CloudShellHandler_new conf w = (Inr cs, w1)"
    and level: "set_debug_level_via_blueprint svc cs w1 = (Inr (), w2)"
    and run: "AutomatedTestsRunner_run_cs_tests depth rts svc cs w2 = (Inr report, w')"
    using assms(3) unfolding AutomatedTestsRunner_run_on_cs_def
    by (auto simp: bnd_eq_Inr get_state_run andthen_def raise_run split: option.splits)
  have "stable w w1" using new by (auto simp: CloudShellHandler_new_def run_simps stable_def)
  moreover have "stable w1 w2" using stable_set_debug_level level by (rule keepsD)
  ultimately have "main_conf w2 = main_conf w" by (simp add: stable_def)
  with run_cs_tests_names [OF assms(1,2) run] show ?thesis by simp
qed

text \<open>C4. What \<^verbatim>\<open>run-tests\<close> returns. When the command returns a verdict and a report, the file was read as a configuration,
  with the dependencies of the first shell replaced if the option was given; the verdict is success exactly
  when every reported sandbox succeeded, with at least one resource or service and all of them successful; and without a server on Do the reported
  sandboxes are exactly those of the configuration, so that none is left out of the verdict.\<close>

theorem run_tests_command_verdict:
  fixes w :: "'x report_world_scheme"
  assumes "orders_ok svc" and "retriers_law rts"
    and "run_tests_command rt depth rts svc parse_obj test_conf deps w = (Inr (ok, report), w')"
  shows "\<exists>data conf conf' w1. rep_yaml svc (hist w) test_conf = Inr data \<and> parse_obj data w = (Inr conf, w1) \<and>
    MainConfig_update_from_cli_params conf deps = Inr conf' \<and>
    (ok \<longleftrightarrow> (\<forall>sr \<in> set (sandboxes_reports report).
       (sbr_resources_reports sr \<noteq> [] \<or> sbr_services_reports sr \<noteq> []) \<and> sbr_sandbox_is_success sr \<and>
       (\<forall>r \<in> set (sbr_resources_reports sr). rr_is_success r) \<and> (\<forall>r \<in> set (sbr_services_reports sr). sr_is_success r))) \<and>
    (do_conf conf' = None \<longrightarrow>
       mset (map sbr_name (sandboxes_reports report)) = mset (map sc_name (sandboxes_conf conf')))"
proof -
  obtain data conf conf' w1 where read: "rep_yaml svc (hist w) test_conf = Inr data" "parse_obj data w = (Inr conf, w1)"
      "MainConfig_update_from_cli_params conf deps = Inr conf'"
    and run: "AutomatedTestsRunner_run rt depth rts svc (w1\<lparr>main_conf := conf'\<rparr>) = (Inr report, w')"
    and ok: "ok = Reporting_is_success report"
    using assms(3)
    by (auto simp: run_tests_command_def MainConfig_from_yaml_def cli_run_tests_def bnd_eq_Inr read_env_run of_result_run
        andthen_run modify_run ret_run)
  have "mset (map sbr_name (sandboxes_reports report)) = mset (map sc_name (sandboxes_conf conf'))" if none: "do_conf conf' = None"
  proof -
    obtain w2 where hosts: "check_all_resources_is_alive svc conf' (w1\<lparr>main_conf := conf'\<rparr>) = (Inr (), w2)"
      and tests: "AutomatedTestsRunner_run_on_cs depth rts svc w2 = (Inr report, w')"
      using run none
      by (auto simp: AutomatedTestsRunner_run_def bnd_run get_state_run andthen_run split: prod.splits sum.splits)
    have "stable (w1\<lparr>main_conf := conf'\<rparr>) w2" using stable_check_hosts hosts by (rule keepsD)
    then have "main_conf w2 = conf'" by (simp add: stable_def)
    with run_on_cs_names [OF assms(1,2) tests] show ?thesis by simp
  qed
  with read ok show ?thesis
    by (intro exI [of _ data] exI [of _ conf] exI [of _ conf'] exI [of _ w1])
       (auto simp: Reporting_is_success_def SandboxReport_is_success_def list_all_iff Let_def split: if_splits)
qed

text \<open>The run of \<open>course_env\<close>, of a configuration that is read without a call.\<close>

definition command_env :: run_services where
  "command_env = course_env\<lparr>rep_yaml := (\<lambda>h p. if p = ''conf.yaml'' then Inr JNull else rep_yaml course_env h p)\<rparr>"

lemma command_example:
  "case run_tests_command retry_ref 5 retriers_ref command_env (\<lambda>j. ret (main_conf course_state)) ''conf.yaml'' None course_state of
     (r, w') \<Rightarrow> (case r of Inl e \<Rightarrow> False | Inr (ok, report) \<Rightarrow> length (sandboxes_reports report) = 1)"
  by code_simp

theorem run_tests_command_verdict_witness:
  "\<exists>ok report w'. run_tests_command retry_ref 5 retriers_ref command_env (\<lambda>j. ret (main_conf course_state)) ''conf.yaml''
       None course_state = (Inr (ok, report), w') \<and>
     mset (map sbr_name (sandboxes_reports report)) = {#''s''#}"
proof -
  obtain ok report w' where run: "run_tests_command retry_ref 5 retriers_ref command_env (\<lambda>j. ret (main_conf course_state))
      ''conf.yaml'' None course_state = (Inr (ok, report), w')"
    using command_example by (auto split: prod.splits sum.splits)
  have orders: "orders_ok command_env"
    by (simp add: orders_ok_def command_env_def course_env_def test_env_def services.defs test_services.defs
        run_services.defs obliging_services_def)
  from run_tests_command_verdict [OF orders retriers_ref_law run] obtain conf' :: main_config where
      "MainConfig_update_from_cli_params (main_conf course_state) None = Inr conf'"
    and names: "do_conf conf' = None \<longrightarrow>
      mset (map sbr_name (sandboxes_reports report)) = mset (map sc_name (sandboxes_conf conf'))"
    by (auto simp: ret_run)
  then have "conf' = main_conf course_state" by (simp add: MainConfig_update_from_cli_params_def)
  moreover have "do_conf (main_conf course_state) = None"
    "map sc_name (sandboxes_conf (main_conf course_state)) = [''s'']" by (code_simp, code_simp)
  ultimately show ?thesis using run names by auto
qed

end
