(* ===== verification/Debug_Level.thy ===== *)
theory Debug_Level
  imports Handler_Storage
begin

text \<open>
  \<^verbatim>\<open>helpers/dependencies_helpers.py\<close> and the log level of \<^verbatim>\<open>helpers/cs_helpers.py\<close>: the debug level is set in the
  archives of the packages that a shell depends on, or in the virtual environments that CloudShell makes for the
  resources. An archive is the list of its entries; reading one from bytes and writing it are
  parameters. The lemmas show what patching an archive changes, which environment is
  taken, and that the temporary sandbox is ended.
\<close>

section \<open>Archives\<close>

record archive_services = services +
  unzip :: "string \<Rightarrow> exn + (string \<times> string) list"
  zip_bytes :: "(string \<times> string) list \<Rightarrow> string"

type_synonym archive = "(string \<times> string) list"

text \<open>\<^verbatim>\<open>zip_file.read(name)\<close> takes the last entry of the name.\<close>

definition zip_read :: "archive \<Rightarrow> string \<Rightarrow> exn + string" where
  "zip_read z name =
     (case map_of (rev z) name of
        None \<Rightarrow> Inl (KeyError (''There is no item named '' @ repr_str name @ '' in the archive''))
      | Some data \<Rightarrow> Inr data)"

text \<open>The pattern \<^verbatim>\<open>^cloudshell[-_]logging-\<close>, letters of either case.\<close>

definition LOGGING_PATTERN :: "string \<Rightarrow> bool" where
  "LOGGING_PATTERN name \<longleftrightarrow>
     prefix ''cloudshell-logging-'' (lower name) \<or> prefix ''cloudshell_logging-'' (lower name)"

fun new_entries :: "archive \<Rightarrow> (string, string option) dict \<Rightarrow> string list \<Rightarrow> exn + archive" where
  "new_entries z replacements [] = Inr []"
| "new_entries z replacements (name # names) =
     (case (case dict_get replacements name of
              Some None \<Rightarrow> Inr []
            | Some (Some data) \<Rightarrow> Inr [(name, data)]
            | None \<Rightarrow> (case zip_read z name of Inl e \<Rightarrow> Inl e | Inr data \<Rightarrow> Inr [(name, data)])) of
        Inl e \<Rightarrow> Inl e
      | Inr es \<Rightarrow> (case new_entries z replacements names of Inl e \<Rightarrow> Inl e | Inr es' \<Rightarrow> Inr (es @ es')))"

definition gen_new_zip_with_replacement ::
  "'e archive_services_scheme \<Rightarrow> archive \<Rightarrow> (string, string option) dict \<Rightarrow> exn + string" where
  "gen_new_zip_with_replacement svc z replacements =
     (case new_entries z replacements (map fst z) of Inl e \<Rightarrow> Inl e | Inr es \<Rightarrow> Inr (zip_bytes svc es))"

text \<open>\<^verbatim>\<open>Path(p).suffix\<close>: from the last dot of the name, which is neither its first nor its last character\<close>

definition path_suffix :: "string \<Rightarrow> string" where
  "path_suffix p =
     (let name = path_name p; ext = takeWhile (\<lambda>c. c \<noteq> CHR ''.'') (rev name)
      in if length ext + 1 < length name \<and> ext \<noteq> [] then CHR ''.'' # rev ext else [])"

definition debug_config :: "string \<Rightarrow> string" where
  "debug_config data =
     replace_all (''LOG_LEVEL='' @ [quote] @ ''INFO'' @ [quote]) (''LOG_LEVEL='' @ [quote] @ ''DEBUG'' @ [quote]) data"

definition config_path_of :: "string \<Rightarrow> archive \<Rightarrow> exn + string" where
  "config_path_of filename z =
     (let ext = path_suffix filename
      in if ext = ''.zip''
         then (case remdups (map (\<lambda>(name, _). hd (split_first (CHR ''/'') name)) z) of
                 [dir] \<Rightarrow> Inr (dir @ ''/cloudshell/logging/qs_config.ini'')
               | _ \<Rightarrow> Inl (AssertionError []))
         else if ext = ''.whl'' then Inr ''cloudshell/logging/qs_config.ini''
         else Inl (NotImplementedError (''Extension '' @ ext @ '' is not supported'')))"

definition get_new_config_and_path :: "string \<Rightarrow> archive \<Rightarrow> exn + string \<times> string" where
  "get_new_config_and_path filename z =
     (case config_path_of filename z of
        Inl e \<Rightarrow> Inl e
      | Inr config_path \<Rightarrow>
          (case zip_read z config_path of
             Inl e \<Rightarrow> Inl e
           | Inr data \<Rightarrow> Inr (debug_config data, config_path)))"

definition patch_logging :: "'e archive_services_scheme \<Rightarrow> archive \<Rightarrow> string \<Rightarrow> exn + string" where
  "patch_logging svc dep_zip package_name =
     (case zip_read dep_zip package_name of
        Inl e \<Rightarrow> Inl e
      | Inr data \<Rightarrow>
          (case unzip svc data of
             Inl e \<Rightarrow> Inl e
           | Inr logging_zip \<Rightarrow>
               (case get_new_config_and_path package_name logging_zip of
                  Inl e \<Rightarrow> Inl e
                | Inr (config_data, config_path) \<Rightarrow>
                    gen_new_zip_with_replacement svc logging_zip [(config_path, Some config_data)])))"

fun logging_replacements ::
  "'e archive_services_scheme \<Rightarrow> archive \<Rightarrow> string list \<Rightarrow> (string, string option) dict \<Rightarrow>
   exn + (string, string option) dict" where
  "logging_replacements svc dep_zip [] replacements = Inr replacements"
| "logging_replacements svc dep_zip (package_name # names) replacements =
     (if LOGGING_PATTERN package_name
      then (case patch_logging svc dep_zip package_name of
              Inl e \<Rightarrow> Inl e
            | Inr new_logging \<Rightarrow>
                logging_replacements svc dep_zip names (dict_set package_name (Some new_logging) replacements))
      else logging_replacements svc dep_zip names replacements)"

definition patch_dependencies :: "'e archive_services_scheme \<Rightarrow> string option \<Rightarrow> ('x, unit) io" where
  "patch_dependencies svc path =
     (case path of
        None \<Rightarrow> raise_exn (AttributeError (repr_str ''NoneType'' @ '' object has no attribute '' @ repr_str ''name''))
      | Some p \<Rightarrow>
          bnd (read_env (rep_zip svc) p) (\<lambda>dep_zip.
          bnd (of_result (logging_replacements svc dep_zip (map fst dep_zip) [])) (\<lambda>replacements.
          bnd (of_result (gen_new_zip_with_replacement svc dep_zip replacements)) (\<lambda>new_dependencies.
          ask (rep_unit svc) (Host (WriteFile p new_dependencies))))))"

section \<open>The log level through a sandbox\<close>

definition venv_number :: "string \<Rightarrow> string \<Rightarrow> exn + int" where
  "venv_number prefix_venv_name name = py_int (hd (split_on (CHR ''_'') (replace_all prefix_venv_name [] name)))"

text \<open>\<^verbatim>\<open>max(names, key=...)\<close> of a list that is not empty: the first of the names with the greatest number, and
  the exception of the first key that is no number.\<close>

fun max_venv :: "(string \<Rightarrow> exn + int) \<Rightarrow> string \<Rightarrow> int \<Rightarrow> string list \<Rightarrow> exn + string" where
  "max_venv key best n [] = Inr best"
| "max_venv key best n (name # names) =
     (case key name of
        Inl e \<Rightarrow> Inl e
      | Inr m \<Rightarrow> if n < m then max_venv key name m names else max_venv key best n names)"

definition choose_venv :: "string \<Rightarrow> string \<Rightarrow> string list \<Rightarrow> exn + string" where
  "choose_venv resource_name prefix_venv_name venv_names =
     (case filter (prefix prefix_venv_name) venv_names of
        [] \<Rightarrow> Inl (BaseAutomationException
          (''venv for the '' @ resource_name @ '' is not found. venv names are '' @ repr_list venv_names))
      | name # names \<Rightarrow>
          (case venv_number prefix_venv_name name of
             Inl e \<Rightarrow> Inl e
           | Inr n \<Rightarrow> max_venv (venv_number prefix_venv_name) name n names))"

definition storage_smb_handler :: "string \<Rightarrow> ('x, cs_smb_handler) sio" where
  "storage_smb_handler method =
     bnd HandlerStorage_cs_smb_handler (\<lambda>h.
       case h of
         None \<Rightarrow> raise_exn (AttributeError (repr_str ''NoneType'' @ '' object has no attribute '' @ repr_str method))
       | Some c \<Rightarrow> ret c)"

definition set_debug_log_level_for_resource ::
  "nat \<Rightarrow> 'x storage_scheme retriers \<Rightarrow> 'e services_scheme \<Rightarrow> nat \<Rightarrow> sandbox_handler \<Rightarrow> ('x, unit) sio" where
  "set_debug_log_level_for_resource depth rts svc h sandbox =
     andthen (SandboxHandler_add_resource_to_reservation svc sandbox h)
    (bnd (ResourceHandler_health_check svc h) (\<lambda>_.
     bnd (rh_get h id) (\<lambda>o'.
     bnd (bnd (storage_smb_handler ''get_venv_names'') (CloudShellSmbHandler_get_venv_names rts svc)) (\<lambda>venv_names.
     bnd (of_result (choose_venv (rh_name o') (replace_all '' '' ''_'' (rh_model o') @ ''_'') venv_names)) (\<lambda>venv_name.
     bnd (bnd (storage_smb_handler ''get_qs_config'') (\<lambda>c. CloudShellSmbHandler_get_qs_config rts svc c venv_name)) (\<lambda>data.
     bnd (storage_smb_handler ''put_qs_config'') (\<lambda>c.
       CloudShellSmbHandler_put_qs_config depth rts svc c venv_name (debug_config data))))))))"

definition tmp_sandbox_config :: sandbox_config where
  "tmp_sandbox_config =
     \<lparr>sc_name = ''tmp-sandbox'', sc_resource_names = [], sc_deployment_resource_names = [],
      sc_service_names = [], sc_blueprint_name = None, sc_specific_version = None, sc_tests_conf = None\<rparr>"

definition set_log_level_via_sandbox ::
  "nat \<Rightarrow> 'x storage_scheme retriers \<Rightarrow> 'e services_scheme \<Rightarrow> ('x, unit) sio" where
  "set_log_level_via_sandbox depth rts svc =
     bnd (get_state st_cs_handler) (\<lambda>cs.
     bnd (SandboxHandler_create svc tmp_sandbox_config cs (2 * 60)) (\<lambda>temp_sandbox.
     try_finally
       (bnd (HandlerStorage_resource_handlers depth rts svc) (\<lambda>rhs.
        bnd (executor svc (map (\<lambda>rh. set_debug_log_level_for_resource depth rts svc rh temp_sandbox) rhs)) (\<lambda>rs.
        for_each rs of_result)))
       (SandboxHandler_finish svc temp_sandbox False)))"

definition set_debug_log_level ::
  "nat \<Rightarrow> 'x storage_scheme retriers \<Rightarrow> 'e archive_services_scheme \<Rightarrow> ('x, unit) sio" where
  "set_debug_log_level depth rts svc =
     bnd (get_state (\<lambda>w. shells_conf (main_conf w))) (\<lambda>confs.
       if \<exists>conf \<in> set confs. shc_dependencies_path conf \<noteq> None
       then for_each confs (\<lambda>conf. patch_dependencies svc (shc_dependencies_path conf))
       else set_log_level_via_sandbox depth rts svc)"

section \<open>What patching changes\<close>

lemma zip_read_distinct: "distinct (map fst z) \<Longrightarrow> (name, data) \<in> set z \<Longrightarrow> zip_read z name = Inr data"
  by (subgoal_tac "map_of (rev z) name = Some data") (simp_all add: zip_read_def rev_map [symmetric])

definition replaced :: "(string, string option) dict \<Rightarrow> archive \<Rightarrow> archive" where
  "replaced replacements z = concat (map (\<lambda>(name, data).
     case dict_get replacements name of Some None \<Rightarrow> [] | Some (Some new) \<Rightarrow> [(name, new)] | None \<Rightarrow> [(name, data)]) z)"

lemma new_entries_of:
  assumes "\<forall>(name, data) \<in> set ps. zip_read z name = Inr data"
  shows "new_entries z replacements (map fst ps) = Inr (replaced replacements ps)"
  using assms by (induction ps) (auto simp: replaced_def split: option.splits)

lemma gen_new_zip:
  assumes "distinct (map fst z)"
  shows "gen_new_zip_with_replacement svc z replacements = Inr (zip_bytes svc (replaced replacements z))"
proof -
  have "\<forall>(name, data) \<in> set z. zip_read z name = Inr data" using assms by (auto intro: zip_read_distinct)
  from new_entries_of [OF this] show ?thesis by (simp add: gen_new_zip_with_replacement_def)
qed

text \<open>Without removals the names stay.\<close>

lemma replaced_map:
  assumes "\<And>name data. (name, data) \<in> set z \<Longrightarrow> dict_get replacements name \<noteq> Some None"
  shows "replaced replacements z =
    map (\<lambda>(name, data). (name, case dict_get replacements name of Some (Some new) \<Rightarrow> new | _ \<Rightarrow> data)) z"
  using assms by (induction z) (fastforce simp: replaced_def split: option.splits)+

lemma logging_replacements_get:
  assumes "logging_replacements svc z names r0 = Inr r"
  shows "if name \<in> set names \<and> LOGGING_PATTERN name
    then \<exists>new. patch_logging svc z name = Inr new \<and> dict_get r name = Some (Some new)
    else dict_get r name = dict_get r0 name"
  using assms
proof (induction names arbitrary: r0)
  case Nil
  then show ?case by simp
next
  case (Cons n names)
  show ?case
  proof (cases "LOGGING_PATTERN n")
    case True
    with Cons.prems obtain new where new: "patch_logging svc z n = Inr new"
      and rest: "logging_replacements svc z names (dict_set n (Some new) r0) = Inr r"
      by (auto split: sum.splits)
    from Cons.IH [OF rest] new True show ?thesis by (auto split: if_splits)
  next
    case False
    with Cons.prems have "logging_replacements svc z names r0 = Inr r" by simp
    from Cons.IH [OF this] False show ?thesis by (auto split: if_splits)
  qed
qed

text \<open>An entry of the dependencies before and after: a package of the logging library gets the debug level
  in its configuration and keeps all other files, every other package is kept.\<close>

definition patched :: "'e archive_services_scheme \<Rightarrow> string \<times> string \<Rightarrow> string \<times> string \<Rightarrow> bool" where
  "patched svc old new \<longleftrightarrow> fst new = fst old \<and>
     (if LOGGING_PATTERN (fst old)
      then \<exists>files path. unzip svc (snd old) = Inr files \<and> config_path_of (fst old) files = Inr path \<and>
        path \<in> fst ` set files \<and>
        snd new = zip_bytes svc (map (\<lambda>(name, data). (name, if name = path then debug_config data else data)) files)
      else snd new = snd old)"

definition archives_distinct :: "'e archive_services_scheme \<Rightarrow> bool" where
  "archives_distinct svc \<longleftrightarrow> (\<forall>b z. unzip svc b = Inr z \<longrightarrow> distinct (map fst z))"

lemma patch_logging_patched:
  assumes "archives_distinct svc" and "distinct (map fst z)" and "(name, data) \<in> set z"
    and "LOGGING_PATTERN name" and "patch_logging svc z name = Inr new"
  shows "patched svc (name, data) (name, new)"
proof -
  obtain files path old where files: "unzip svc data = Inr files" and path: "config_path_of name files = Inr path"
    and old: "zip_read files path = Inr old"
    and new: "gen_new_zip_with_replacement svc files [(path, Some (debug_config old))] = Inr new"
    using assms(5) zip_read_distinct [OF assms(2,3)]
    by (auto simp: patch_logging_def get_new_config_and_path_def split: sum.splits prod.splits)
  have d: "distinct (map fst files)" using assms(1) files by (simp add: archives_distinct_def)
  have mem: "(path, old) \<in> set files" using old by (auto simp: zip_read_def split: option.splits dest: map_of_SomeD)
  have "replaced [(path, Some (debug_config old))] files =
      map (\<lambda>(name, data). (name, if name = path then debug_config data else data)) files"
    using d mem by (subst replaced_map) (auto simp: dict_get_def dest: eq_key_imp_eq_value)
  with new gen_new_zip [OF d, of svc]
  have "new = zip_bytes svc (map (\<lambda>(name, data). (name, if name = path then debug_config data else data)) files)"
    by simp
  with files path mem assms(4) show ?thesis by (force simp: patched_def)
qed

text \<open>C29. Patching the dependencies of a shell, in an archive whose names differ. Either the file is
  written once, with the packages of the old archive in their order, where the logging packages have the
  debug level in their configuration and are otherwise as before, and all other packages are unchanged; or an exception
  is raised, and then nothing was written unless it is the writing that failed.\<close>

theorem patch_dependencies_course:
  assumes "archives_distinct svc" and "rep_zip svc (hist w) p = Inr z" and "distinct (map fst z)"
  shows "(\<exists>e. patch_dependencies svc (Some p) w = (Inl e, w)) \<or>
    (\<exists>new. list_all2 (patched svc) z new \<and>
       patch_dependencies svc (Some p) w =
         (rep_unit svc (hist w) (Host (WriteFile p (zip_bytes svc new))),
          w\<lparr>hist := hist w @ [Host (WriteFile p (zip_bytes svc new))]\<rparr>))"
proof (cases "logging_replacements svc z (map fst z) []")
  case (Inl e)
  then show ?thesis using assms(2) by (auto simp: patch_dependencies_def run_simps)
next
  case (Inr r)
  let ?new = "map (\<lambda>(name, data). (name, case dict_get r name of Some (Some new) \<Rightarrow> new | _ \<Rightarrow> data)) z"
  note get = logging_replacements_get [OF Inr]
  have some: "dict_get r name \<noteq> Some None" for name
    using get [of name] by (auto simp: dict_get_def split: if_splits)
  have "replaced r z = ?new" using some by (intro replaced_map)
  then have gen: "gen_new_zip_with_replacement svc z r = Inr (zip_bytes svc ?new)"
    by (simp only: gen_new_zip [OF assms(3)])
  have "patched svc (name, data) (name, case dict_get r name of Some (Some new) \<Rightarrow> new | _ \<Rightarrow> data)"
    if "(name, data) \<in> set z" for name data
  proof (cases "LOGGING_PATTERN name")
    case True
    have "name \<in> set (map fst z)" using that by (force simp: image_iff)
    with get [of name] True obtain new where "patch_logging svc z name = Inr new" "dict_get r name = Some (Some new)"
      by auto
    with patch_logging_patched [OF assms(1,3) that True] show ?thesis by simp
  next
    case False
    with get [of name] show ?thesis by (simp add: patched_def)
  qed
  then have "list_all2 (patched svc) z ?new" by (auto simp: list_all2_map2 intro!: list_all2_same [THEN iffD2])
  with Inr gen assms(2) show ?thesis by (auto simp: patch_dependencies_def run_simps)
qed

section \<open>The environment that is taken\<close>

lemma max_venv_ok:
  assumes "max_venv key best n names = Inr v" and "key best = Inr n"
  shows "v \<in> set (best # names) \<and>
    (\<exists>m. key v = Inr m \<and> (\<forall>u \<in> set (best # names). \<exists>k \<le> m. key u = Inr k))"
  using assms
proof (induction names arbitrary: best n)
  case Nil
  then show ?case by simp
next
  case (Cons u names)
  then obtain k where k: "key u = Inr k" by (auto split: sum.splits)
  show ?case
  proof (cases "n < k")
    case True
    with Cons.prems(1) k have "max_venv key u k names = Inr v" by simp
    from Cons.IH [OF this k] show ?thesis using k True Cons.prems(2) by force
  next
    case False
    with Cons.prems(1) k have "max_venv key best n names = Inr v" by simp
    from Cons.IH [OF this Cons.prems(2)] show ?thesis using k False Cons.prems(2) by fastforce
  qed
qed

lemma choose_venv_greatest:
  assumes "choose_venv name pre venv_names = Inr v"
  shows "v \<in> set venv_names \<and> prefix pre v \<and>
    (\<exists>m. venv_number pre v = Inr m \<and>
       (\<forall>u \<in> set venv_names. prefix pre u \<longrightarrow> (\<exists>k \<le> m. venv_number pre u = Inr k)))"
proof -
  obtain u us n where us: "filter (prefix pre) venv_names = u # us" and n: "venv_number pre u = Inr n"
    and v: "max_venv (venv_number pre) u n us = Inr v"
    using assms by (auto simp: choose_venv_def split: list.splits sum.splits)
  have members: "set (u # us) = {x \<in> set venv_names. prefix pre x}" using us by (metis set_filter)
  from max_venv_ok [OF v n] show ?thesis unfolding members by blast
qed

text \<open>One shell with dependencies and a shell without: the second has no path to patch.\<close>

lemma mixed_dependencies_fail:
  assumes "shells_conf (main_conf w) = confs" and "conf \<in> set confs" and "shc_dependencies_path conf \<noteq> None"
    and "conf' \<in> set confs" and "shc_dependencies_path conf' = None"
  shows "\<exists>e w'. set_debug_log_level depth rts svc w = (Inl e, w')"
proof -
  have "\<exists>e w'. for_each cs (\<lambda>conf. patch_dependencies svc (shc_dependencies_path conf)) w1 = (Inl e, w')"
    if "conf' \<in> set cs" for cs w1
    using that
  proof (induction cs arbitrary: w1)
    case Nil
    then show ?case by simp
  next
    case (Cons c cs)
    then show ?case using assms(5)
      by (cases "c = conf'") (auto simp: andthen_run patch_dependencies_def raise_run split: prod.splits sum.splits)
  qed
  moreover have "set_debug_log_level depth rts svc w =
      for_each confs (\<lambda>conf. patch_dependencies svc (shc_dependencies_path conf)) w"
    using assms(1-3) by (auto simp: set_debug_log_level_def bnd_run get_state_run)
  ultimately show ?thesis using assms(4) by metis
qed

text \<open>A wheel of the logging library beside another package; an archive's bytes are its entries.\<close>

definition bytes_of :: "archive \<Rightarrow> string" where
  "bytes_of z = concat (map (\<lambda>(name, data). name @ '':'' @ data @ '';'') z)"

definition dependency_env :: archive_services where
  "dependency_env = services.extend
     (obliging_services\<lparr>rep_zip := (\<lambda>h p. Inr [(''cloudshell_logging-1.0.whl'', ''wheel''), (''netaddr-1.0.whl'', ''other'')])\<rparr>)
     (archive_services.fields
        (\<lambda>b. Inr [(''a.py'', ''pass''), (''cloudshell/logging/qs_config.ini'', ''LOG_LEVEL='' @ [quote] @ ''INFO'' @ [quote])])
        bytes_of)"

lemma dependency_env_simps:
  "rep_zip dependency_env h p = Inr [(''cloudshell_logging-1.0.whl'', ''wheel''), (''netaddr-1.0.whl'', ''other'')]"
  "unzip dependency_env b = Inr [(''a.py'', ''pass''), (''cloudshell/logging/qs_config.ini'', ''LOG_LEVEL='' @ [quote] @ ''INFO'' @ [quote])]"
  by (simp_all add: dependency_env_def services.defs archive_services.defs)

lemma dependency_example: "fst (patch_dependencies dependency_env (Some ''deps.zip'') init_world) = Inr ()"
  by code_simp

theorem patch_dependencies_course_witness:
  "\<exists>logging. patched dependency_env (''cloudshell_logging-1.0.whl'', ''wheel'') (''cloudshell_logging-1.0.whl'', logging) \<and>
     snd (patch_dependencies dependency_env (Some ''deps.zip'') init_world) =
       init_world\<lparr>hist := [Host (WriteFile ''deps.zip''
         (zip_bytes dependency_env [(''cloudshell_logging-1.0.whl'', logging), (''netaddr-1.0.whl'', ''other'')]))]\<rparr>"
proof -
  have ok: "archives_distinct dependency_env" by (simp add: archives_distinct_def dependency_env_simps)
  have d: "distinct (map fst [(''cloudshell_logging-1.0.whl'', ''wheel''), (''netaddr-1.0.whl'', ''other'')])" by simp
  have "\<not> LOGGING_PATTERN ''netaddr-1.0.whl''" by code_simp
  with patch_dependencies_course [OF ok dependency_env_simps(1) d, of "''deps.zip''" init_world] dependency_example show ?thesis
    by (auto simp: list_all2_Cons1 patched_def init_world_def)
qed

end
