(* ===== verification/Vm_Connections.thy ===== *)
theory Vm_Connections
  imports Debug_Level Test_Cases
begin

text \<open>
  \<^verbatim>\<open>helpers/vm_helpers.py\<close> and \<^verbatim>\<open>automation_tests/test_vm_connections.py\<close>: the connections that a blueprint
  requests between two apps, and the helpers that check the port groups that were given to them. The
  test itself can not run, because it reads attributes that no class has; of it there are the helpers,
  on the data they would be given, and the exception. Parsing of XML is \<^verbatim>\<open>xmltodict\<close>'s and a parameter;
  its documents are the nested dictionaries of \<open>json\<close>. The lemmas say which pairs of ports a request
  stands for, and that a request without ports never passes.
\<close>

section \<open>Requested connections\<close>

fun zip_longest :: "'a \<Rightarrow> 'a list \<Rightarrow> 'a list \<Rightarrow> ('a \<times> 'a) list" where
  "zip_longest fill [] [] = []"
| "zip_longest fill (x # xs) [] = (x, fill) # zip_longest fill xs []"
| "zip_longest fill [] (y # ys) = (fill, y) # zip_longest fill [] ys"
| "zip_longest fill (x # xs) (y # ys) = (x, y) # zip_longest fill xs ys"

type_synonym port = "string \<times> string"
type_synonym connections = "(port, port list) dict"

definition add_connection :: "port \<Rightarrow> port \<Rightarrow> connections \<Rightarrow> connections" where
  "add_connection source target d =
     dict_set source ((case dict_get d source of None \<Rightarrow> [] | Some ts \<Rightarrow> ts) @ [target]) d"

definition parse_connections :: "string \<Rightarrow> string \<Rightarrow> string \<Rightarrow> string \<Rightarrow> connections" where
  "parse_connections source_name source_ports target_name target_ports =
     foldl (\<lambda>d (source_port, target_port). add_connection (source_name, source_port) (target_name, target_port) d) []
       (zip_longest ''any'' (split_on (CHR '','') source_ports) (split_on (CHR '','') target_ports))"

text \<open>\<^verbatim>\<open>d.get(k, default)\<close>\<close>

fun json_get_default :: "string \<Rightarrow> json \<Rightarrow> json \<Rightarrow> exn + json" where
  "json_get_default k (JObj d) dflt = Inr (case dict_get d k of None \<Rightarrow> dflt | Some v \<Rightarrow> v)"
| "json_get_default k _ dflt = Inl (AttributeError ''get'')"

fun requested_ports :: "json list \<Rightarrow> json \<times> json \<Rightarrow> exn + json \<times> json" where
  "requested_ports [] ports = Inr ports"
| "requested_ports (attribute # attributes) (source_ports, target_ports) =
     (case json_item ''@Name'' attribute of
        Inl e \<Rightarrow> Inl e
      | Inr name \<Rightarrow>
          if name = JStr ''Requested Target vNIC Name''
          then (case json_item ''@Value'' attribute of
                  Inl e \<Rightarrow> Inl e
                | Inr v \<Rightarrow> requested_ports attributes (source_ports, v))
          else if name = JStr ''Requested Source vNIC Name''
          then (case json_item ''@Value'' attribute of
                  Inl e \<Rightarrow> Inl e
                | Inr v \<Rightarrow> requested_ports attributes (v, target_ports))
          else requested_ports attributes (source_ports, target_ports))"

definition connector_connections :: "json \<Rightarrow> exn + json \<times> json \<times> json \<times> json" where
  "connector_connections data =
     (case json_item ''TopologyInfo'' data of Inl e \<Rightarrow> Inl e | Inr info \<Rightarrow>
     (case json_item ''Routes'' info of Inl e \<Rightarrow> Inl e | Inr routes \<Rightarrow>
     (case json_item ''Connector'' routes of Inl e \<Rightarrow> Inl e | Inr connector \<Rightarrow>
     (case json_item ''@Source'' connector of Inl e \<Rightarrow> Inl e | Inr source_name \<Rightarrow>
     (case json_item ''@Target'' connector of Inl e \<Rightarrow> Inl e | Inr target_name \<Rightarrow>
     (case json_get_default ''Attributes'' connector (JObj []) of Inl e \<Rightarrow> Inl e | Inr attributes \<Rightarrow>
     (case json_get_default ''Attribute'' attributes (JList []) of Inl e \<Rightarrow> Inl e | Inr attribute \<Rightarrow>
     (case json_iter attribute of Inl e \<Rightarrow> Inl e | Inr items \<Rightarrow>
     (case requested_ports items (JStr ''any'', JStr ''any'') of Inl e \<Rightarrow> Inl e | Inr (source_ports, target_ports) \<Rightarrow>
        Inr (source_name, source_ports, target_name, target_ports))))))))))"

definition get_str_connections_form_blueprint ::
  "'e services_scheme \<Rightarrow> (string \<Rightarrow> exn + json) \<Rightarrow> string \<Rightarrow> string \<Rightarrow> ('x, json \<times> json \<times> json \<times> json) io" where
  "get_str_connections_form_blueprint svc parse_xml path name =
     bnd (read_env (rep_zip svc) path) (\<lambda>z.
     bnd (of_result (zip_read z (''Topologies/'' @ name @ ''.xml''))) (\<lambda>xml_data.
     bnd (of_result (parse_xml xml_data)) (\<lambda>data.
     of_result (connector_connections data))))"

section \<open>Ports of the machines\<close>

record port_info =
  pi_mac :: string
  pi_adapter_name :: string
  pi_port_group_name :: string

definition PortInfo_eq :: "port_info \<Rightarrow> port_info \<Rightarrow> bool" where
  "PortInfo_eq p q \<longleftrightarrow>
     pi_mac p = pi_mac q \<and> pi_adapter_name p = pi_adapter_name q \<and> pi_port_group_name p = pi_port_group_name q"

definition PortInfo_str :: "port_info \<Rightarrow> string" where
  "PortInfo_str p =
     ''PortInfo(mac='' @ [dquote] @ pi_mac p @ [dquote] @ '', adapter_name='' @ [dquote] @ pi_adapter_name p @ [dquote] @
     '', port_group_name='' @ [dquote] @ pi_port_group_name p @ [dquote] @ '')''"

record app_network_info =
  ani_vm_name :: string
  ani_cs_name :: string
  ani_blueprint_name :: string
  ani_vm_uuid :: string
  ani_ports :: "(string, port_info) dict"

definition repr_dict :: "(string, string) dict \<Rightarrow> string" where
  "repr_dict d = ''{'' @ join_with '', '' (map (\<lambda>(k, v). repr_str k @ '': '' @ repr_str v) d) @ ''}''"

definition get_port_info_from_vm_details_network_data :: "(string \<times> string) list \<Rightarrow> exn + port_info" where
  "get_port_info_from_vm_details_network_data network_data =
     (let attrs = dict_of network_data
      in case (dict_get attrs ''mac address'', dict_get attrs ''network adapter'', dict_get attrs ''port group name'') of
           (Some mac, Some adapter, Some port_group) \<Rightarrow>
             Inr \<lparr>pi_mac = mac, pi_adapter_name = adapter, pi_port_group_name = port_group\<rparr>
         | _ \<Rightarrow> Inl (BaseAutomationException
             (''Cannot get all needed information about port from cs. '' @
              ''We need: '' @ [dquote] @ ''mac address'' @ [dquote] @ '', '' @ [dquote] @ ''network adapter'' @ [dquote] @
              '', '' @ [dquote] @ ''port group name'' @ [dquote] @ ''. We have: '' @ repr_dict attrs)))"

text \<open>What is read of a machine of vCenter: label, port group key and MAC address of its devices, and key, empty if
  there is none, and name of its networks.\<close>

record vm_device =
  dev_label :: string
  dev_portgroup_key :: string
  dev_mac :: string

definition get_port_info_from_vcenter ::
  "vm_device list \<Rightarrow> (string \<times> string) list \<Rightarrow> string \<Rightarrow> exn + port_info" where
  "get_port_info_from_vcenter devices networks adapter_name =
     (case find (\<lambda>d. dev_label d = adapter_name) devices of
        None \<Rightarrow> Inl (BaseAutomationException (''Cannot find adapter '' @ adapter_name @ '' on vCenter''))
      | Some d \<Rightarrow>
          (case find (\<lambda>(key, name). key = dev_portgroup_key d) networks of
             None \<Rightarrow> Inl (BaseAutomationException (''Cannot find network on the vCenter by portgroupKey '' @
               [dquote] @ dev_portgroup_key d @ [dquote]))
           | Some (key, name) \<Rightarrow>
               Inr \<lparr>pi_mac = dev_mac d, pi_adapter_name = adapter_name, pi_port_group_name = name\<rparr>))"

section \<open>The check of the port groups\<close>

text \<open>\<^verbatim>\<open>re.compile\<close>, which raises for a text that is no pattern, is an argument. The message of a failed
  assertion shows addresses of objects and is left out.\<close>

type_synonym re_compile = "string \<Rightarrow> exn + (string \<Rightarrow> bool)"

definition find_port_in_app_info_with_conn_name ::
  "re_compile \<Rightarrow> app_network_info \<Rightarrow> string \<Rightarrow> exn + port_info option" where
  "find_port_in_app_info_with_conn_name compile app_info conn_name =
     (if conn_name = ''any'' then Inr None
      else (case compile ([backslash] @ ''W'' @ conn_name @ ''$'') of
              Inl e \<Rightarrow> Inl e
            | Inr search \<Rightarrow>
                (case find (\<lambda>(port_name, port_info). search port_name) (ani_ports app_info) of
                   None \<Rightarrow> Inl (AssertionError [])
                 | Some (port_name, port_info) \<Rightarrow> Inr (Some port_info))))"

definition test_connection_with_one_specified_port :: "port_info \<Rightarrow> app_network_info \<Rightarrow> exn + unit" where
  "test_connection_with_one_specified_port specified_port_info other_app_info =
     (if pi_port_group_name specified_port_info \<in> set (map (\<lambda>(name, p). pi_port_group_name p) (ani_ports other_app_info))
      then Inr () else Inl (AssertionError []))"

text \<open>A connection without requested ports compares \<^verbatim>\<open>connections_from_blueprint.values()[0]\<close>, and a view of a
  dictionary has no items.\<close>

definition test_unspecified_ports :: "connections \<Rightarrow> exn + unit" where
  "test_unspecified_ports connections =
     (if length connections \<noteq> 1 then Inl (AssertionError [])
      else Inl (TypeError ([quote] @ ''dict_values'' @ [quote] @ '' object is not subscriptable'')))"

definition test_connection ::
  "re_compile \<Rightarrow> (string, app_network_info) dict \<Rightarrow> connections \<Rightarrow> port \<Rightarrow> port \<Rightarrow> exn + unit" where
  "test_connection compile apps_info connections source target =
     (case dict_get apps_info (fst source) of None \<Rightarrow> Inl (KeyError (repr_str (fst source))) | Some source_app \<Rightarrow>
     (case dict_get apps_info (fst target) of None \<Rightarrow> Inl (KeyError (repr_str (fst target))) | Some target_app \<Rightarrow>
     (case find_port_in_app_info_with_conn_name compile source_app (snd source) of Inl e \<Rightarrow> Inl e | Inr source_port \<Rightarrow>
     (case find_port_in_app_info_with_conn_name compile target_app (snd target) of Inl e \<Rightarrow> Inl e | Inr target_port \<Rightarrow>
     (case (source_port, target_port) of
        (Some s, Some t) \<Rightarrow>
          if pi_port_group_name s = pi_port_group_name t then Inr () else Inl (AssertionError [])
      | (None, None) \<Rightarrow> test_unspecified_ports connections
      | (Some s, None) \<Rightarrow> test_connection_with_one_specified_port s target_app
      | (None, Some t) \<Rightarrow> test_connection_with_one_specified_port t source_app)))))"

fun all_ok :: "('a \<Rightarrow> exn + unit) \<Rightarrow> 'a list \<Rightarrow> exn + unit" where
  "all_ok f [] = Inr ()"
| "all_ok f (x # xs) = (case f x of Inl e \<Rightarrow> Inl e | Inr _ \<Rightarrow> all_ok f xs)"

text \<open>The loop over the connections, for the connections of the blueprint.\<close>

definition test_correct_port_group ::
  "re_compile \<Rightarrow> (string, app_network_info) dict \<Rightarrow> connections \<Rightarrow> exn + unit" where
  "test_correct_port_group compile apps_info connections =
     all_ok (\<lambda>(source, targets). all_ok (test_connection compile apps_info connections source) targets) connections"

section \<open>The test\<close>

text \<open>The method reads an attribute that \<^verbatim>\<open>SandboxHandler\<close> does not have before anything else, so that its
  collection of the ports, and the reading of the blueprint, never run. The constructor of the base
  class reads another one.\<close>

definition no_attribute :: "string \<Rightarrow> exn" where
  "no_attribute name = AttributeError (repr_str ''SandboxHandler'' @ '' object has no attribute '' @ repr_str name)"

definition test_vm_connections :: "('s, unit) pym" where
  "test_vm_connections = raise_exn (no_attribute ''deployment_resource_handlers'')"

definition BaseSandboxTestCase_new :: "sandbox_handler \<Rightarrow> ('s, unit) pym" where
  "BaseSandboxTestCase_new sb = raise_exn (no_attribute ''tests_conf'')"

section \<open>Which ports a request stands for\<close>

lemma length_zip_longest [simp]: "length (zip_longest fill xs ys) = max (length xs) (length ys)"
  by (induction fill xs ys rule: zip_longest.induct) auto

lemma zip_longest_nth:
  "i < max (length xs) (length ys) \<Longrightarrow> zip_longest fill xs ys ! i =
     (if i < length xs then xs ! i else fill, if i < length ys then ys ! i else fill)"
proof (induction fill xs ys arbitrary: i rule: zip_longest.induct)
  case (4 fill x xs y ys)
  then show ?case by (cases i) auto
qed (auto simp: nth_Cons split: nat.splits)

lemma dict_ok_connections:
  "dict_ok d \<Longrightarrow> dict_ok (foldl (\<lambda>d (sp, tp). add_connection (sn, sp) (tn, tp) d) d pairs)"
  by (induction pairs arbitrary: d) (auto simp: add_connection_def dict_ok_set)

lemma connections_get:
  "dict_get (foldl (\<lambda>d (sp, tp). add_connection (sn, sp) (tn, tp) d) d pairs) (n, p) =
     (let ts = map (\<lambda>(s, t). (tn, t)) (filter (\<lambda>(s, t). n = sn \<and> s = p) pairs)
      in if ts = [] then dict_get d (n, p)
         else Some ((case dict_get d (n, p) of None \<Rightarrow> [] | Some us \<Rightarrow> us) @ ts))"
  by (induction pairs arbitrary: d) (auto simp: add_connection_def Let_def split: option.splits)

text \<open>C31. The connections of a request. There are as many as the longer of the two lists of ports is long; the
  \<open>i\<close>-th joins the \<open>i\<close>-th ports, and any port where one list is too short. The dictionary has for
  every requested port of the source the targets it is joined to, in order, and nothing else.\<close>

theorem parse_connections_requested:
  "\<exists>pairs. length pairs = max (length (split_on (CHR '','') sp)) (length (split_on (CHR '','') tp)) \<and>
     (\<forall>i. i < length pairs \<longrightarrow> pairs ! i =
        (if i < length (split_on (CHR '','') sp) then split_on (CHR '','') sp ! i else ''any'',
         if i < length (split_on (CHR '','') tp) then split_on (CHR '','') tp ! i else ''any'')) \<and>
     dict_ok (parse_connections sn sp tn tp) \<and>
     (\<forall>n p. dict_get (parse_connections sn sp tn tp) (n, p) =
        (if n = sn \<and> p \<in> fst ` set pairs
         then Some (map (\<lambda>(s, t). (tn, t)) (filter (\<lambda>(s, t). s = p) pairs)) else None))"
proof (intro exI conjI)
  let ?pairs = "zip_longest ''any'' (split_on (CHR '','') sp) (split_on (CHR '','') tp)"
  show "length ?pairs = max (length (split_on (CHR '','') sp)) (length (split_on (CHR '','') tp))" by simp
  show "\<forall>i. i < length ?pairs \<longrightarrow> ?pairs ! i =
      (if i < length (split_on (CHR '','') sp) then split_on (CHR '','') sp ! i else ''any'',
       if i < length (split_on (CHR '','') tp) then split_on (CHR '','') tp ! i else ''any'')"
    by (simp add: zip_longest_nth)
  show "dict_ok (parse_connections sn sp tn tp)" by (simp add: parse_connections_def dict_ok_connections)
  show "\<forall>n p. dict_get (parse_connections sn sp tn tp) (n, p) =
      (if n = sn \<and> p \<in> fst ` set ?pairs
       then Some (map (\<lambda>(s, t). (tn, t)) (filter (\<lambda>(s, t). s = p) ?pairs)) else None)"
    by (auto simp: parse_connections_def connections_get Let_def filter_empty_conv intro: rev_image_eqI)
qed

theorem parse_connections_requested_witness:
  "dict_get (parse_connections ''a'' ''2,3'' ''b'' ''4'') (''a'', ''3'') = Some [(''b'', ''any'')]"
proof -
  have split: "split_on (CHR '','') ''2,3'' = [''2'', ''3'']" "split_on (CHR '','') ''4'' = [''4'']" by code_simp+
  obtain pairs where len: "length pairs = max (length [''2'', ''3'']) (length [''4''])"
    and nth: "\<forall>i. i < length pairs \<longrightarrow> pairs ! i =
        (if i < length [''2'', ''3''] then [''2'', ''3''] ! i else ''any'', if i < length [''4''] then [''4''] ! i else ''any'')"
    and get: "\<forall>n p. dict_get (parse_connections ''a'' ''2,3'' ''b'' ''4'') (n, p) =
        (if n = ''a'' \<and> p \<in> fst ` set pairs
         then Some (map (\<lambda>(s, t). (''b'', t)) (filter (\<lambda>(s, t). s = p) pairs)) else None)"
    using parse_connections_requested [of "''2,3''" "''4''" "''a''" "''b''"] unfolding split
    by (elim exE conjE) (rule that)
  have "pairs = [(''2'', ''4''), (''3'', ''any'')]"
    using len nth [THEN spec, of 0] nth [THEN spec, of 1]
    by (simp add: list_eq_iff_nth_eq less_Suc_eq)
  with get show ?thesis by simp
qed

section \<open>Requests without ports\<close>

lemma all_ok_fails: "x \<in> set xs \<Longrightarrow> f x = Inl e \<Longrightarrow> \<exists>e. all_ok f xs = Inl e"
  by (induction xs) (auto split: sum.splits)

lemma unspecified_fails: "\<exists>e. test_connection compile apps_info conns (n, ''any'') (m, ''any'') = Inl e"
  by (auto simp: test_connection_def find_port_in_app_info_with_conn_name_def test_unspecified_ports_def
      split: option.splits)

text \<open>A blueprint whose connector requests no ports can not pass. A connector without attributes stands for
  any port on both sides, and a check with such a connection raises an exception for every state of the
  machines.\<close>

theorem unspecified_ports_never_pass:
  assumes "dict_get connector ''@Source'' = Some (JStr source)" and "dict_get connector ''@Target'' = Some (JStr target)"
    and "dict_get connector ''Attributes'' = None"
  shows "connector_connections (JObj [(''TopologyInfo'', JObj [(''Routes'', JObj [(''Connector'', JObj connector)])])]) =
      Inr (JStr source, JStr ''any'', JStr target, JStr ''any'') \<and>
    (\<exists>e. test_correct_port_group compile apps_info (parse_connections source ''any'' target ''any'') = Inl e)"
proof
  show "connector_connections (JObj [(''TopologyInfo'', JObj [(''Routes'', JObj [(''Connector'', JObj connector)])])]) =
      Inr (JStr source, JStr ''any'', JStr target, JStr ''any'')"
    using assms by (simp add: connector_connections_def json_item_def json_iter_def dict_get_def)
  have "parse_connections source ''any'' target ''any'' = [((source, ''any''), [(target, ''any'')])]"
    by (simp add: parse_connections_def add_connection_def dict_set_def)
  moreover obtain e where "test_connection compile apps_info [((source, ''any''), [(target, ''any'')])]
      (source, ''any'') (target, ''any'') = Inl e"
    using unspecified_fails by blast
  ultimately show "\<exists>e. test_correct_port_group compile apps_info (parse_connections source ''any'' target ''any'') = Inl e"
    by (simp add: test_correct_port_group_def)
qed

theorem unspecified_ports_never_pass_witness:
  "\<exists>e. test_correct_port_group (\<lambda>p. Inr (\<lambda>s. False)) [] (parse_connections ''a'' ''any'' ''b'' ''any'') = Inl e"
  using unspecified_ports_never_pass [of "[(''@Source'', JStr ''a''), (''@Target'', JStr ''b'')]" "''a''" "''b''"]
  by (simp add: dict_get_def)

text \<open>A single attribute is a dictionary and not a list of one, and its keys are no dictionaries.\<close>

lemma single_attribute_raises:
  assumes "dict_get connector ''@Source'' = Some s" and "dict_get connector ''@Target'' = Some t"
    and "dict_get connector ''Attributes'' = Some (JObj [(''Attribute'', JObj (kv # kvs))])"
  shows "\<exists>msg. connector_connections (JObj [(''TopologyInfo'', JObj [(''Routes'', JObj [(''Connector'', JObj connector)])])]) =
    Inl (TypeError msg)"
  using assms by (simp add: connector_connections_def json_item_def json_iter_def dict_get_def)

end
