(* ===== verification/Debug_Script.thy ===== *)
theory Debug_Script
  imports Debug_Level
begin

text \<open>
  \<^verbatim>\<open>set_debug_logs/__main__.py\<close>: the script that a blueprint runs on the server to set the log level of the shells. It
  rewrites one setting of an XML file and restarts the service that reads it. Parsing and printing of XML
  are \<^verbatim>\<open>xmltodict\<close>'s and parameters; the documents are the nested dictionaries of \<open>json\<close>. The lemmas say what
  the script changes in the settings, and that a second run only replaces the level.
\<close>

section \<open>The script\<close>

definition CONF_PATH :: string where
  "CONF_PATH = ''C:'' @ [backslash] @ ''Program Files (x86)'' @ [backslash] @ ''QualiSystems'' @ [backslash] @
     ''TestShell'' @ [backslash] @ ''ExecutionServer'' @ [backslash] @ ''customer.config''"

definition LOG_LEVEL_KEY :: string where
  "LOG_LEVEL_KEY = ''DefaultPythonEnvrionmentVariables''"

text \<open>\<^verbatim>\<open>setting["@value"] = value_str\<close>, for a setting that was read by its key before\<close>

fun set_value :: "string \<Rightarrow> json \<Rightarrow> json" where
  "set_value v (JObj d) = JObj (dict_set ''@value'' (JStr v) d)"
| "set_value v j = j"

text \<open>The loop over the settings; without a \<^verbatim>\<open>break\<close> there is no result.\<close>

fun update_setting :: "string \<Rightarrow> json list \<Rightarrow> exn + json list option" where
  "update_setting v [] = Inr None"
| "update_setting v (setting # settings) =
     (case json_item ''@key'' setting of
        Inl e \<Rightarrow> Inl e
      | Inr key \<Rightarrow>
          if key = JStr LOG_LEVEL_KEY then Inr (Some (set_value v setting # settings))
          else (case update_setting v settings of
                  Inl e \<Rightarrow> Inl e
                | Inr None \<Rightarrow> Inr None
                | Inr (Some settings') \<Rightarrow> Inr (Some (setting # settings'))))"

definition new_setting :: "string \<Rightarrow> json" where
  "new_setting v = JObj [(''@key'', JStr LOG_LEVEL_KEY), (''@value'', JStr v)]"

definition update_settings :: "string \<Rightarrow> json \<Rightarrow> exn + json" where
  "update_settings v settings =
     (case json_iter settings of
        Inl e \<Rightarrow> Inl e
      | Inr items \<Rightarrow>
          (case update_setting v items of
             Inl e \<Rightarrow> Inl e
           | Inr (Some items') \<Rightarrow> Inr (JList items')
           | Inr None \<Rightarrow>
               (case settings of
                  JList xs \<Rightarrow> Inr (JList (xs @ [new_setting v]))
                | _ \<Rightarrow> Inl (AttributeError ''append''))))"

text \<open>The settings are changed in place, inside the document.\<close>

fun put_item :: "string \<Rightarrow> json \<Rightarrow> json \<Rightarrow> json" where
  "put_item k v (JObj d) = JObj (dict_set k v d)"
| "put_item k v j = j"

definition with_log_level :: "string \<Rightarrow> json \<Rightarrow> exn + json" where
  "with_log_level v data =
     (case json_item ''appSettings'' data of Inl e \<Rightarrow> Inl e | Inr app_settings \<Rightarrow>
     (case json_item ''add'' app_settings of Inl e \<Rightarrow> Inl e | Inr settings \<Rightarrow>
     (case update_settings v settings of Inl e \<Rightarrow> Inl e | Inr settings' \<Rightarrow>
        Inr (put_item ''appSettings'' (put_item ''add'' settings' app_settings) data))))"

definition RESTART :: string where
  "RESTART = ''net stop '' @ [dquote] @ ''TestShell Execution Server'' @ [dquote] @ '' && net start '' @
     [dquote] @ ''TestShell Execution Server'' @ [dquote]"

text \<open>Opening the file for writing empties it, before the document is printed.\<close>

definition set_log_level ::
  "'e services_scheme \<Rightarrow> (string \<Rightarrow> exn + json) \<Rightarrow> (json \<Rightarrow> exn + string) \<Rightarrow> string \<Rightarrow> ('x, unit) io" where
  "set_log_level svc parse_xml print_xml level =
     bnd (read_env (rep_file svc) CONF_PATH) (\<lambda>str_data.
     bnd (of_result (parse_xml str_data)) (\<lambda>data.
     bnd (of_result (with_log_level (''LOG_LEVEL='' @ level) data)) (\<lambda>data'.
     andthen (ask (rep_unit svc) (Host (WriteFile CONF_PATH [])))
    (bnd (of_result (print_xml data')) (\<lambda>out.
     andthen (ask (rep_unit svc) (Host (WriteFile CONF_PATH out)))
       (ask (rep_unit svc) (Host (RunCommand [RESTART]))))))))"

section \<open>What it changes\<close>

text \<open>The setting of a document, and a document with a list of settings that have keys.\<close>

definition settings_of :: "json \<Rightarrow> json list option" where
  "settings_of data =
     (case json_item ''appSettings'' data of Inl _ \<Rightarrow> None | Inr app \<Rightarrow>
     (case json_item ''add'' app of Inr (JList xs) \<Rightarrow> Some xs | _ \<Rightarrow> None))"

definition keyed :: "json \<Rightarrow> bool" where
  "keyed setting \<longleftrightarrow> (\<exists>d k. setting = JObj d \<and> dict_get d ''@key'' = Some (JStr k))"

definition key_of :: "json \<Rightarrow> json option" where
  "key_of setting = (case json_item ''@key'' setting of Inl _ \<Rightarrow> None | Inr k \<Rightarrow> Some k)"

abbreviation is_level :: "json \<Rightarrow> bool" where
  "is_level setting \<equiv> key_of setting = Some (JStr LOG_LEVEL_KEY)"

text \<open>The specification: the first setting with the key gets the value, or a new one is added at the end.\<close>

fun level_set :: "string \<Rightarrow> json list \<Rightarrow> json list" where
  "level_set v [] = [new_setting v]"
| "level_set v (s # ss) = (if is_level s then set_value v s # ss else s # level_set v ss)"

lemma json_item_obj: "json_item k j = Inr x \<longleftrightarrow> (\<exists>d. j = JObj d \<and> dict_get d k = Some x)"
  by (cases j) (auto simp: json_item_def split: option.splits)

lemma item_put [simp]:
  "json_item k (put_item k' v j) = (if k = k' \<and> (\<exists>d. j = JObj d) then Inr v else json_item k j)"
  by (cases j) (auto simp: json_item_def)

lemma key_set_value [simp]: "key_of (set_value v s) = key_of s"
  by (cases s) (simp_all add: key_of_def json_item_def)

lemma set_value_twice [simp]: "set_value u (set_value v s) = set_value u s"
  by (cases s) (simp_all add: dict_set_def AList.update_Some_unfold AList.update_triv)

lemma key_keyed: "keyed s \<Longrightarrow> json_item ''@key'' s = Inr k \<longleftrightarrow> key_of s = Some k"
  by (auto simp: keyed_def key_of_def json_item_def)

lemma keyed_key: "keyed s \<Longrightarrow> \<exists>k. json_item ''@key'' s = Inr k"
  by (auto simp: keyed_def json_item_def)

lemma key_new_setting [simp]: "is_level (new_setting v)"
  unfolding key_of_def new_setting_def by (simp add: json_item_def dict_get_def)

lemma update_setting_found:
  assumes "\<forall>s \<in> set ss. keyed s"
  shows "update_setting v ss = Inr (if \<exists>s \<in> set ss. is_level s then Some (level_set v ss) else None)"
  using assms
proof (induction ss)
  case (Cons s ss)
  then obtain k where k: "json_item ''@key'' s = Inr k" using keyed_key by fastforce
  then have "key_of s = Some k" by (simp add: key_of_def)
  with Cons k show ?case by auto
qed simp

lemma level_set_new: "\<forall>s \<in> set ss. \<not> is_level s \<Longrightarrow> level_set v ss = ss @ [new_setting v]"
  by (induction ss) auto

lemma update_settings_level:
  assumes "\<forall>s \<in> set ss. keyed s"
  shows "update_settings v (JList ss) = Inr (JList (level_set v ss))"
  using update_setting_found [OF assms, of v]
  by (auto simp: update_settings_def json_iter_def level_set_new split: if_splits)

lemma set_value_new [simp]: "set_value u (new_setting v) = new_setting u"
  by (simp add: new_setting_def dict_set_def)

lemma level_set_twice: "level_set u (level_set v ss) = level_set u ss"
  by (induction ss) auto

lemma level_set_others: "filter (\<lambda>s. \<not> is_level s) (level_set v ss) = filter (\<lambda>s. \<not> is_level s) ss"
  by (induction ss) auto

lemma keyed_level_set: "\<forall>s \<in> set ss. keyed s \<Longrightarrow> \<forall>s \<in> set (level_set v ss). keyed s"
proof (induction ss)
  case Nil
  show ?case by (simp add: keyed_def new_setting_def dict_get_def)
next
  case (Cons s ss)
  then show ?case by (cases s) (auto simp: keyed_def)
qed

lemma value_set: "keyed s \<Longrightarrow> json_item ''@value'' (set_value v s) = Inr (JStr v)"
  by (cases s) (auto simp: keyed_def json_item_def)

lemma value_new: "json_item ''@value'' (new_setting v) = Inr (JStr v)"
  by (simp add: json_item_def new_setting_def dict_get_def)

lemma level_set_value:
  "\<forall>s \<in> set ss. keyed s \<Longrightarrow> \<exists>s. find is_level (level_set v ss) = Some s \<and> json_item ''@value'' s = Inr (JStr v)"
  by (induction ss) (auto simp: value_set value_new)

lemma put_item_twice [simp]: "put_item k u (put_item k v j) = put_item k u j"
  by (cases j) (simp_all add: dict_set_def)

lemma settings_items:
  assumes "settings_of data = Some ss"
  obtains app where "json_item ''appSettings'' data = Inr app" "json_item ''add'' app = Inr (JList ss)"
    "\<exists>d. data = JObj d" "\<exists>d. app = JObj d"
  using assms by (auto simp: settings_of_def json_item_obj split: sum.splits json.splits)

lemma with_log_level_settings:
  assumes "settings_of data = Some ss" and "\<forall>s \<in> set ss. keyed s"
  shows "\<exists>data'. with_log_level v data = Inr data' \<and> settings_of data' = Some (level_set v ss) \<and>
    (\<forall>k. k \<noteq> ''appSettings'' \<longrightarrow> json_item k data' = json_item k data) \<and>
    (\<forall>u. with_log_level u data' = with_log_level u data)"
proof -
  from assms(1) obtain app where items: "json_item ''appSettings'' data = Inr app" "json_item ''add'' app = Inr (JList ss)"
    and objs: "\<exists>d. data = JObj d" "\<exists>d. app = JObj d" by (rule settings_items)
  let ?data = "put_item ''appSettings'' (put_item ''add'' (JList (level_set v ss)) app) data"
  have "with_log_level u ?data = with_log_level u data" for u
    using items objs keyed_level_set [OF assms(2), of v]
    by (simp add: with_log_level_def update_settings_level assms(2) level_set_twice)
  with items objs show ?thesis
    by (intro exI [of _ ?data]) (simp add: with_log_level_def update_settings_level [OF assms(2)] settings_of_def)
qed

text \<open>C32. The log level. On a configuration with a list of settings that have keys, the script writes a document in
  which the first setting of the variables has the new level, added at the end if there was none; the other
  settings and the other parts of the document are the same, and setting another level afterwards gives what setting it
  at once would give. The file is emptied before the document is printed: when printing fails it is left
  empty and the service is not restarted.\<close>

theorem set_log_level_course:
  assumes "rep_file svc (hist w) CONF_PATH = Inr str_data" and "parse_xml str_data = Inr data"
    and "settings_of data = Some ss" and "\<forall>s \<in> set ss. keyed s" and "\<forall>h ev. rep_unit svc h ev = Inr ()"
  shows "\<exists>data' ss'. settings_of data' = Some ss' \<and>
    (\<exists>s. find is_level ss' = Some s \<and> json_item ''@value'' s = Inr (JStr (''LOG_LEVEL='' @ level))) \<and>
    filter (\<lambda>s. \<not> is_level s) ss' = filter (\<lambda>s. \<not> is_level s) ss \<and>
    (\<forall>k. k \<noteq> ''appSettings'' \<longrightarrow> json_item k data' = json_item k data) \<and>
    (\<forall>v. with_log_level v data' = with_log_level v data) \<and>
    set_log_level svc parse_xml print_xml level w =
      (case print_xml data' of
         Inl e \<Rightarrow> (Inl e, add_events [Host (WriteFile CONF_PATH [])] w)
       | Inr out \<Rightarrow> (Inr (), add_events [Host (WriteFile CONF_PATH []), Host (WriteFile CONF_PATH out),
           Host (RunCommand [RESTART])] w))"
proof -
  let ?v = "''LOG_LEVEL='' @ level"
  obtain data' where d: "with_log_level ?v data = Inr data'" "settings_of data' = Some (level_set ?v ss)"
      "\<forall>k. k \<noteq> ''appSettings'' \<longrightarrow> json_item k data' = json_item k data"
      "\<forall>u. with_log_level u data' = with_log_level u data"
    using with_log_level_settings [OF assms(3,4)] by blast
  have "set_log_level svc parse_xml print_xml level w =
      (case print_xml data' of
         Inl e \<Rightarrow> (Inl e, add_events [Host (WriteFile CONF_PATH [])] w)
       | Inr out \<Rightarrow> (Inr (), add_events [Host (WriteFile CONF_PATH []), Host (WriteFile CONF_PATH out),
           Host (RunCommand [RESTART])] w))"
    using assms(1,2,5) d(1)
    by (simp add: set_log_level_def bnd_run andthen_run read_env_run of_result_run ask_run split: sum.splits)
  with d level_set_value [OF assms(4), of ?v] show ?thesis
    by (intro exI [of _ data'] exI [of _ "level_set ?v ss"]) (simp add: level_set_others)
qed

definition customer_config :: json where
  "customer_config = JObj [(''appSettings'', JObj [(''add'', JList
     [JObj [(''@key'', JStr ''Port''), (''@value'', JStr ''9000'')],
      JObj [(''@key'', JStr LOG_LEVEL_KEY), (''@value'', JStr ''LOG_LEVEL=INFO'')]])])]"

theorem set_log_level_course_witness:
  "set_log_level obliging_services (\<lambda>s. Inr customer_config) (\<lambda>d. Inr ''<appSettings/>'') ''DEBUG'' init_world =
     (Inr (), add_events [Host (WriteFile CONF_PATH []), Host (WriteFile CONF_PATH ''<appSettings/>''),
        Host (RunCommand [RESTART])] init_world)"
proof -
  have "settings_of customer_config = Some
      [JObj [(''@key'', JStr ''Port''), (''@value'', JStr ''9000'')],
       JObj [(''@key'', JStr LOG_LEVEL_KEY), (''@value'', JStr ''LOG_LEVEL=INFO'')]]"
    by (simp add: settings_of_def customer_config_def json_item_def dict_get_def)
  from set_log_level_course [OF _ _ this, of obliging_services init_world "[]" "\<lambda>s. Inr customer_config" "''DEBUG''"
      "\<lambda>d. Inr ''<appSettings/>''"]
  show ?thesis by (simp add: keyed_def dict_get_def, elim exE conjE)
qed

text \<open>A single setting is a dictionary and not a list of one, and its keys are no dictionaries.\<close>

lemma single_setting_raises:
  assumes "json_item ''appSettings'' data = Inr app" and "json_item ''add'' app = Inr (JObj (kv # kvs))"
  shows "\<exists>msg. with_log_level v data = Inl (TypeError msg)"
  using assms by (simp add: with_log_level_def update_settings_def json_iter_def json_item_def)

end
