(* ===== verification/Spec2Isabelle.thy ===== *)
theory Spec2Isabelle
  imports Autoload_Protocol Commands Vm_Connections Debug_Script
begin

text \<open>
  Verification of the shell automation tests, the program under \<^verbatim>\<open>src/shell_tests\<close>.

  \<^bold>\<open>The program.\<close> The command \<^verbatim>\<open>run-tests\<close> reads a configuration that names shells, resources and sandboxes,
  and tests the resources on a CloudShell server. It pings the hosts
  (\<^verbatim>\<open>helpers/check_resource_is_alive.py\<close>), deploys the server and the devices on a second CloudShell if the
  configuration asks for it (\<^verbatim>\<open>handlers/do_handler.py\<close>), and creates the handlers of the run on first use
  (\<^verbatim>\<open>helpers/handler_storage.py\<close>): a shell is installed, a resource created, a sandbox reserved. For every
  sandbox a thread (\<^verbatim>\<open>run_tests_for_sandbox.py\<close>) starts a thread for each resource, which builds the test
  suite of the resource (\<^verbatim>\<open>helpers/tests_helpers.py\<close>), runs it (\<^verbatim>\<open>automation_tests\<close>) and adds a report
  (\<^verbatim>\<open>report_result.py\<close>). At the end the logs are downloaded over SMB and everything is finished
  (\<^verbatim>\<open>run_tests.py\<close>).

  \<^bold>\<open>The model.\<close> A method is a state transformer that returns a value or an exception, \<open>pym\<close> of \<open>Py_Base\<close>.
  Everything outside the program is a record \<open>services\<close> of reply functions from the history of the run and the
  call to a reply or an exception: the servers, the local disk, the clock. Every call is appended to the history, so that
  theorems speak about which calls were made and in which order, for all behaviours of the servers.
  Objects that the program mutates live in lists of the state and are addressed by position. The state
  grows by record extension from \<open>world\<close> over the sessions, the objects, the storage of handlers and the stop flag
  to the reports. The decorator of the package \<^verbatim>\<open>retrying\<close> is a parameter with the law \<open>retrying_law\<close>; \<open>retry_ref\<close>
  satisfies it.

  \<^item> \<open>Py_Base\<close>, \<open>Py_Strings\<close>: exceptions (\<^verbatim>\<open>errors.py\<close>), the statements of Python, dictionaries and strings.
  \<^item> \<open>World\<close>: events, replies and state; the locale \<open>retrying\<close> of everything that is retried.
  \<^item> \<open>Configs\<close>: \<^verbatim>\<open>configs.py\<close>, its records, validators and the merge of the tests configuration.
  \<^item> \<open>Resource_Names\<close>, \<open>Cs_Handler\<close>: \<^verbatim>\<open>handlers/cs_handler.py\<close>, \<^verbatim>\<open>helpers/cs_http.py\<close>. Exact courses of waiting for
    a reservation, ending one, searching a free name, installing a shell.
  \<^item> \<open>Smb_Handler\<close>: \<^verbatim>\<open>handlers/smb_handler.py\<close>. Log downloads mirror the filtered remote trees; which
    directories \<^verbatim>\<open>create_dir\<close> makes on a share, and where its recursion ends.
  \<^item> \<open>Shell_Handler\<close>, \<open>Sandbox_Handler\<close>, \<open>Resource_Handler\<close>: the handlers of the same names. Clean up after failures,
    marks of an autoload, ports and attributes of children.
  \<^item> \<open>Autoload_Protocol\<close>: threads that autoload one resource, as a step relation. Mutual exclusion, no
    deadlock, refinement of the sequential method, and who stays blocked after an interrupt.
  \<^item> \<open>Remote_Files\<close>: the FTP, SCP, TFTP and vCenter handlers; the locale \<open>cached_session\<close>. The
    calls of every attempt to read or delete, which errors are translated and retried.
  \<^item> \<open>Do_Handler\<close>: \<^verbatim>\<open>handlers/do_handler.py\<close>. The choice of a topology; a failed preparation asks
    every sandbox it started to end, shown with an invariant on the reservations that were not asked to end.
  \<^item> \<open>Handler_Storage\<close>: \<^verbatim>\<open>helpers/handler_storage.py\<close>; the locale \<open>handler_list\<close> of the lists created by an executor.
  \<^item> \<open>Report_Result\<close>, \<open>Download_Files\<close>: \<^verbatim>\<open>report_result.py\<close>, \<^verbatim>\<open>helpers/download_files_helper.py\<close>. The text of a
    report and its verdict; the files that are removed are those that were downloaded.
  \<^item> \<open>Test_Cases\<close>, \<open>Test_Selection\<close>: the tests of \<^verbatim>\<open>automation_tests\<close>, the tables that choose them, the suites and their runs.
  \<^item> \<open>Run_Tests\<close>: the run from the command line to the report.
  \<^item> \<open>Run_Frame\<close>, \<open>Run_Laws\<close>, \<open>Run_Course\<close>: what a run guarantees. The frame of everything that is done for a
    sandbox, as two preorders on states that are instances of the locale \<open>state_preorder\<close>; the report of every tested
    resource; and the course of a whole run, which creates, reports and ends every configured sandbox.
  \<^item> \<open>Run_Failures\<close>: runs that fail. Two further preorders say what every step keeps of the sandboxes and sessions, so that
    the storage is finished after an \<^verbatim>\<open>Exception\<close> and the sandboxes on Do are ended last, whatever raised.
  \<^item> \<open>Commands\<close>: the commands \<^verbatim>\<open>run-tests\<close> and \<^verbatim>\<open>prepare-env\<close> on the path of a configuration; what the verdict means.
  \<^item> \<open>App_Position\<close>, \<open>Package_Api\<close>: \<^verbatim>\<open>helpers/package_api\<close>, \<^verbatim>\<open>prepare_env.py\<close> and the command \<^verbatim>\<open>prepare-env\<close>. The apps and
    blueprints of the vCenter tests as XML documents, the positions of the apps on a diagram, the package and its
    removal from the disk.
  \<^item> \<open>Debug_Level\<close>: \<^verbatim>\<open>helpers/dependencies_helpers.py\<close> and the part of \<^verbatim>\<open>helpers/cs_helpers.py\<close> that sets the log
    level of a shell. Which packages are replaced, and with what.
  \<^item> \<open>Debug_Script\<close>: \<^verbatim>\<open>src/set_debug_logs\<close>, the script that the blueprint of \<open>set_debug_level_via_blueprint\<close> runs on the
    server. What it changes in the settings, against a specification on their list.
  \<^item> \<open>Vm_Connections\<close>: \<^verbatim>\<open>helpers/vm_helpers.py\<close> and \<^verbatim>\<open>automation_tests/test_vm_connections.py\<close>. The connections requested by
    the attributes of a connector and the helpers of the test, which itself can not run.
  \<^item> \<open>Shellfoundry\<close>: \<^verbatim>\<open>oop_shellfoundry.py\<close> and \<^verbatim>\<open>check_shellfoundry_templates.py\<close>, a template generated, packed and added.

  \<^bold>\<open>Fuel and bounds.\<close> The search for a free name, the random search for a free position on a diagram and
  the recursions over directories of a share may not end. The first two take fuel, and running out is the exception \<open>NoReturn\<close>;
  for the name, one more than the names taken is enough, and for the position, any number of draws among which
  there is a free one, both of which are proved. The recursions take the depth of the stack of Python, and
  running out is \<open>RecursionError\<close>; for \<^verbatim>\<open>create_dir\<close> the number of missing directories is enough where the path does
  not exist and the root does, and no depth is enough for a path that exists; for \<^verbatim>\<open>download_r_dir\<close> the nesting of
  the tree is enough. All of it is proved. The other loops are bounded in the source.

  \<^bold>\<open>Threads.\<close> The tasks of an executor are atomic; the order in which they run and the order in which
  a set of futures is iterated are given by the function \<open>set_order\<close> of the services, about which
  \<open>orders_ok\<close> says that it gives permutations. Only the methods with locks and
  events, the autoload, are also modelled with the interleaving of their statements.

  \<^bold>\<open>Parameters.\<close> Libraries whose results the program only passes on are functions among the services: the writer
  and the parser of XML and YAML, the archives of \<^verbatim>\<open>zipfile\<close>, the random draws, the date of yesterday, the matches of a
  glob. What a theorem needs of them is a hypothesis of the theorem.

  \<^bold>\<open>Not modelled.\<close> YAML and pydantic, with its coercions and the order in which it calls the validators: the function that makes
  a configuration of a document is a parameter of the commands, and the validators are modelled one by one. The
  arguments of click. The library unittest beyond the outcome of a test, whose text is a reply function; the choice of a
  runner for TeamCity only decides that text. The test of the connections of virtual machines reads attributes
  of its sandbox handler that no class of the program has, and the constructor of its base class in \<^verbatim>\<open>base.py\<close>
  raises for the same reason: the test is that exception, and its helpers are modelled on the data they would be
  given. The content of an archive is read at once. The time stamp of a file is an integer that the function
  \<open>fromtimestamp\<close> of the services makes a time in microseconds. Names of threads and logging, on which nothing depends. An
  interrupt of the main thread: \<^verbatim>\<open>KeyboardInterrupt\<close> reaches the model as the exception of a call or through the stop flag.
\<close>

end
